(* ===== verification/Prelude.thy ===== *)
theory Prelude
  imports Complex_Main "HOL-Library.AList"
begin

text \<open>
  Shared vocabulary of the development: the exceptions of the program as a \<open>datatype\<close>,
  the result type of a function that may raise, the dynamically typed Python values, the
  string and dictionary operations of the standard library that the source uses, and the
  lemma collections the component theories extend.
  Python's floats are idealised as rationals (\<open>rat\<close>); Python's integers are \<open>int\<close>.
\<close>

named_theorems string_simps "evaluation rules for the string operations"
named_theorems dict_simps "look-ups in updated dictionaries"

section \<open>Exceptions and results\<close>

datatype error =
    ValueError
  | KeyError
  | IndexError
  | TypeError
  | AttributeError
  | AssertionError
  | NotImplementedError
  | RuntimeError
  | ZeroDivisionError
  | ConnectionError
  | TimeoutError
  | DataError
  | LockError
  | LockNotOwnedError
  | JobError
  | KVDBException
  | OtherError string

type_synonym 'a result = "error + 'a"

fun bindR :: "'a result \<Rightarrow> ('a \<Rightarrow> 'b result) \<Rightarrow> 'b result" where
  "bindR (Inl e) f = Inl e"
| "bindR (Inr x) f = f x"

fun is_ok :: "'a result \<Rightarrow> bool" where
  "is_ok (Inl e) = False"
| "is_ok (Inr x) = True"

lemma bindR_Inr_iff: "bindR r f = Inr y \<longleftrightarrow> (\<exists>x. r = Inr x \<and> f x = Inr y)"
  by (cases r) auto

lemma bindR_Inl_iff: "bindR r f = Inl e \<longleftrightarrow> r = Inl e \<or> (\<exists>x. r = Inr x \<and> f x = Inl e)"
  by (cases r) auto

section \<open>Python values\<close>

text \<open>
  The values that travel through keyword arguments, metadata and caches. A dictionary
  keeps its insertion order, as Python's does; its keys are strings. \<open>PObj\<close> is an object
  that the program only passes on, \<open>PExc\<close> an exception instance of the named class.
\<close>

datatype pyval =
    PNone
  | PBool bool
  | PInt int
  | PFloat rat
  | PStr string
  | PBytes string
  | PList "pyval list"
  | PTuple "pyval list"
  | PSet "pyval list"
  | PDict "(string \<times> pyval) list"
  | PExc string
  | PObj string

type_synonym pydict = "(string \<times> pyval) list"

fun truthy :: "pyval \<Rightarrow> bool" where
  "truthy PNone = False"
| "truthy (PBool b) = b"
| "truthy (PInt i) = (i \<noteq> 0)"
| "truthy (PFloat r) = (r \<noteq> 0)"
| "truthy (PStr s) = (s \<noteq> [])"
| "truthy (PBytes s) = (s \<noteq> [])"
| "truthy (PList xs) = (xs \<noteq> [])"
| "truthy (PTuple xs) = (xs \<noteq> [])"
| "truthy (PSet xs) = (xs \<noteq> [])"
| "truthy (PDict d) = (d \<noteq> [])"
| "truthy (PExc c) = True"
| "truthy (PObj n) = True"

fun opt_truthy :: "string option \<Rightarrow> bool" where
  "opt_truthy None = False"
| "opt_truthy (Some s) = (s \<noteq> [])"

section \<open>Dictionaries\<close>

text \<open>\<open>d[k] = v\<close> keeps the position of an existing key and appends a new one: this is
  \<^const>\<open>AList.update\<close>. \<open>d.update(e)\<close> is the update with every item of \<open>e\<close> in order.\<close>

definition dict_set :: "string \<Rightarrow> 'v \<Rightarrow> (string \<times> 'v) list \<Rightarrow> (string \<times> 'v) list" where
  "dict_set k v d = AList.update k v d"

definition dict_get :: "(string \<times> 'v) list \<Rightarrow> string \<Rightarrow> 'v option" where
  "dict_get d k = map_of d k"

definition dict_del :: "string \<Rightarrow> (string \<times> 'v) list \<Rightarrow> (string \<times> 'v) list" where
  "dict_del k d = AList.delete k d"

definition dict_keys :: "(string \<times> 'v) list \<Rightarrow> string list" where
  "dict_keys d = map fst d"

definition dict_has :: "string \<Rightarrow> (string \<times> 'v) list \<Rightarrow> bool" where
  "dict_has k d \<longleftrightarrow> k \<in> set (map fst d)"

fun dict_update :: "(string \<times> 'v) list \<Rightarrow> (string \<times> 'v) list \<Rightarrow> (string \<times> 'v) list" where
  "dict_update d [] = d"
| "dict_update d ((k, v) # e) = dict_update (dict_set k v d) e"

definition wf_dict :: "(string \<times> 'v) list \<Rightarrow> bool" where
  "wf_dict d \<longleftrightarrow> distinct (map fst d)"

lemma dict_get_set [dict_simps, simp]:
  "dict_get (dict_set k v d) k' = (if k = k' then Some v else dict_get d k')"
  by (simp add: dict_get_def dict_set_def update_conv')

lemma dict_get_del [dict_simps, simp]:
  "dict_get (dict_del k d) k' = (if k = k' then None else dict_get d k')"
  by (simp add: dict_get_def dict_del_def delete_conv')

lemma dict_has_iff: "dict_has k d \<longleftrightarrow> dict_get d k \<noteq> None"
  by (simp add: dict_has_def dict_get_def map_of_eq_None_iff)

lemma dict_set_new: "k \<notin> fst ` set d \<Longrightarrow> dict_set k v d = d @ [(k, v)]"
  unfolding dict_set_def by (induction d) auto

lemma wf_dict_set [simp]: "wf_dict d \<Longrightarrow> wf_dict (dict_set k v d)"
  by (simp add: wf_dict_def dict_set_def distinct_update)

lemma wf_dict_del [simp]: "wf_dict d \<Longrightarrow> wf_dict (dict_del k d)"
  by (simp add: wf_dict_def dict_del_def distinct_delete)

lemma set_dict_keys_del [simp]: "set (map fst (dict_del k d)) = set (map fst d) - {k}"
  by (simp add: dict_del_def delete_keys)

lemma set_dict_keys_set [simp]: "set (map fst (dict_set k v d)) = insert k (set (map fst d))"
  by (auto simp: dict_set_def dom_update)

lemma fst_dict_set [simp]: "fst ` set (dict_set k v d) = insert k (fst ` set d)"
  by (simp add: dict_set_def dom_update)

lemma fst_dict_update [simp]: "fst ` set (dict_update d e) = fst ` set d \<union> fst ` set e"
  by (induction d e rule: dict_update.induct) auto

lemma wf_dict_update [simp]: "wf_dict d \<Longrightarrow> wf_dict (dict_update d e)"
  by (induction d e rule: dict_update.induct) auto

lemma dict_get_update:
  "wf_dict e \<Longrightarrow>
   dict_get (dict_update d e) k = (case dict_get e k of Some v \<Rightarrow> Some v | None \<Rightarrow> dict_get d k)"
proof (induction d e rule: dict_update.induct)
  case (2 d k' v e)
  then have wf: "wf_dict e" and new: "k' \<notin> fst ` set e" by (auto simp: wf_dict_def)
  then have "map_of e k' = None" by (simp add: map_of_eq_None_iff)
  then show ?case using "2.IH"[OF wf]
    by (cases "k = k'")
       (simp_all add: dict_get_def[of e] dict_get_def[of "(k', v) # e"] split: option.splits)
qed (simp add: dict_get_def)

lemma dict_get_filter_key:
  "dict_get (filter (\<lambda>(k, v). P k) d) k = (if P k then dict_get d k else None)"
  by (induction d) (auto simp: dict_get_def)

section \<open>Strings\<close>

text \<open>\<open>s.startswith(p)\<close>, \<open>p in s\<close>, \<open>s.replace(a, b)\<close>, \<open>s.rsplit(c, 1)[-1]\<close>,
  \<open>s.strip()\<close> and the decimal rendering of integers. \<open>replace\<close> with an empty pattern
  inserts the replacement before every character and at the end, as Python does.\<close>

fun starts_with :: "string \<Rightarrow> string \<Rightarrow> bool" where
  "starts_with [] s = True"
| "starts_with (p # ps) [] = False"
| "starts_with (p # ps) (c # cs) = (p = c \<and> starts_with ps cs)"

fun str_in :: "string \<Rightarrow> string \<Rightarrow> bool" where
  "str_in p [] = (p = [])"
| "str_in p (c # cs) = (starts_with p (c # cs) \<or> str_in p cs)"

definition ends_with :: "string \<Rightarrow> string \<Rightarrow> bool" where
  "ends_with p s = starts_with (rev p) (rev s)"

fun replace_from :: "nat \<Rightarrow> string \<Rightarrow> string \<Rightarrow> string \<Rightarrow> string" where
  "replace_from skip a b [] = []"
| "replace_from (Suc n) a b (c # cs) = replace_from n a b cs"
| "replace_from 0 a b (c # cs) =
     (if starts_with a (c # cs) then b @ replace_from (length a - 1) a b cs
      else c # replace_from 0 a b cs)"

definition str_replace :: "string \<Rightarrow> string \<Rightarrow> string \<Rightarrow> string" where
  "str_replace s a b =
     (if a = [] then b @ concat (map (\<lambda>c. c # b) s) else replace_from 0 a b s)"

definition rsplit_last :: "char \<Rightarrow> string \<Rightarrow> string" where
  "rsplit_last c s = rev (takeWhile (\<lambda>x. x \<noteq> c) (rev s))"

definition is_space :: "char \<Rightarrow> bool" where
  "is_space c \<longleftrightarrow> c = CHR '' '' \<or> c = CHR 0x09 \<or> c = CHR 0x0A \<or> c = CHR 0x0B \<or> c = CHR 0x0C \<or> c = CHR 0x0D"

definition str_strip :: "string \<Rightarrow> string" where
  "str_strip s = rev (dropWhile is_space (rev (dropWhile is_space s)))"

definition lower_char :: "char \<Rightarrow> char" where
  "lower_char c = (let n = of_char c :: nat in if 65 \<le> n \<and> n \<le> 90 then char_of (n + 32) else c)"

definition str_lower :: "string \<Rightarrow> string" where
  "str_lower s = map lower_char s"

definition is_digit :: "char \<Rightarrow> bool" where
  "is_digit c \<longleftrightarrow> 48 \<le> (of_char c :: nat) \<and> (of_char c :: nat) \<le> 57"

fun nat_digits :: "nat \<Rightarrow> string" where
  "nat_digits n = (if n < 10 then [char_of (48 + n)] else nat_digits (n div 10) @ [char_of (48 + n mod 10)])"

declare nat_digits.simps [simp del]

definition str_of_int :: "int \<Rightarrow> string" where
  "str_of_int i = (if i < 0 then CHR ''-'' # nat_digits (nat (- i)) else nat_digits (nat i))"

lemma starts_with_append [simp, string_simps]: "starts_with p (p @ s)"
  by (induction p) auto

lemma starts_with_iff: "starts_with p s \<longleftrightarrow> (\<exists>t. s = p @ t)"
  by (induction p s rule: starts_with.induct) auto

lemma str_in_iff: "str_in p s \<longleftrightarrow> (\<exists>u v. s = u @ p @ v)"
proof (induction p s rule: str_in.induct)
  case (1 p)
  then show ?case by auto
next
  case (2 p c cs)
  show ?case
  proof
    assume "str_in p (c # cs)"
    then consider "starts_with p (c # cs)" | "str_in p cs" by auto
    then show "\<exists>u v. c # cs = u @ p @ v"
    proof cases
      case 1
      then obtain t where "c # cs = p @ t" by (auto simp: starts_with_iff)
      then have "c # cs = [] @ p @ t" by simp
      then show ?thesis by blast
    next
      case 2
      then obtain u v where "cs = u @ p @ v" using "2.IH" by blast
      then have "c # cs = (c # u) @ p @ v" by simp
      then show ?thesis by blast
    qed
  next
    assume "\<exists>u v. c # cs = u @ p @ v"
    then obtain u v where uv: "c # cs = u @ p @ v" by blast
    show "str_in p (c # cs)"
    proof (cases u)
      case Nil
      with uv have "starts_with p (c # cs)" by (auto simp: starts_with_iff)
      then show ?thesis by simp
    next
      case (Cons x u')
      with uv have "cs = u' @ p @ v" by simp
      then show ?thesis using "2.IH" by auto
    qed
  qed
qed

lemma str_in_append [simp, string_simps]: "str_in p (u @ p @ v)" "str_in p (p @ v)" "str_in p (u @ p)"
  by (auto simp: str_in_iff) (metis append_Nil append_Nil2)+

lemma rsplit_last_append [simp, string_simps]:
  "c \<notin> set t \<Longrightarrow> rsplit_last c (s @ c # t) = t"
proof -
  assume "c \<notin> set t"
  then have "takeWhile (\<lambda>x. x \<noteq> c) (rev t @ c # rev s) = rev t"
    by (subst takeWhile_append2) auto
  then show ?thesis by (simp add: rsplit_last_def)
qed

lemma replace_from_skip: "length u = n \<Longrightarrow> replace_from n a b (u @ s) = replace_from 0 a b s"
  by (induction u arbitrary: n) auto

lemma replace_from_absent: "\<not> str_in a s \<Longrightarrow> a \<noteq> [] \<Longrightarrow> replace_from 0 a b s = s"
proof (induction s)
  case (Cons c s)
  then have "\<not> starts_with a (c # s)" "\<not> str_in a s" by auto
  then show ?case using Cons by simp
qed simp

lemma str_replace_prefix: "a \<noteq> [] \<Longrightarrow> \<not> str_in a s \<Longrightarrow> str_replace (a @ s) a [] = s"
proof -
  assume a: "a \<noteq> []" and s: "\<not> str_in a s"
  then obtain c a' where ac: "a = c # a'" by (cases a) auto
  have "starts_with a (a @ s)" by simp
  then have "replace_from 0 a [] (a @ s) = replace_from (length a - 1) a [] (a' @ s)" by (simp add: ac)
  also have "\<dots> = s" using replace_from_skip[of a' "length a - 1" a "[]" s] replace_from_absent[OF s a] by (simp add: ac)
  finally show ?thesis using a by (simp add: str_replace_def)
qed

lemma rsplit_last_no_sep: "c \<notin> set (rsplit_last c s)"
  by (auto simp: rsplit_last_def dest: set_takeWhileD)

lemma nat_digits_nonempty [simp]: "nat_digits n \<noteq> []"
  by (subst nat_digits.simps) simp

section \<open>Sorting and time\<close>

text \<open>\<open>sorted(xs, key = f)\<close> is stable: this is \<^const>\<open>sort_key\<close>. With \<open>reverse = True\<close>
  Python keeps the order of equal elements, so it reverses on both sides.\<close>

definition sorted_rev :: "('a \<Rightarrow> 'b::linorder) \<Rightarrow> 'a list \<Rightarrow> 'a list" where
  "sorted_rev f xs = rev (sort_key f (rev xs))"

lemma set_sorted_rev [simp]: "set (sorted_rev f xs) = set xs"
  by (simp add: sorted_rev_def)

lemma length_sorted_rev [simp]: "length (sorted_rev f xs) = length xs"
  by (simp add: sorted_rev_def)

lemma distinct_sorted_rev [simp]: "distinct (sorted_rev f xs) = distinct xs"
  by (simp add: sorted_rev_def)

lemma sorted_take_le_drop:
  assumes "sorted (map f xs)" "x \<in> set (take n xs)" "y \<in> set (drop n xs)"
  shows "f x \<le> f y"
proof -
  have "sorted (map f (take n xs) @ map f (drop n xs))"
    using assms(1) by (simp flip: map_append)
  with assms(2,3) show ?thesis by (auto simp: sorted_append)
qed

lemma distinct_remove1_removeAll_eq: "distinct xs \<Longrightarrow> remove1 x xs = removeAll x xs"
  by (simp add: distinct_remove1_removeAll)

lemma distinct_take_drop_disjoint:
  "distinct xs \<Longrightarrow> x \<in> set (take n xs) \<Longrightarrow> x \<notin> set (drop n xs)"
  by (metis append_take_drop_id disjoint_iff distinct_append)

end
