(* ===== verification/Status.thy ===== *)
theory Status
  imports Prelude
begin

text \<open>
  The enumerations of \<^verbatim>\<open>kvdb/types/common.py\<close>: job and worker statuses with their status
  groups, the application environments with their classification from an environment
  variable or a host name, and the cache policies.
\<close>

section \<open>Job statuses\<close>

datatype job_status =
    NEW | DEFERRED | QUEUED | ACTIVE | ABORTED | FAILED | COMPLETE | RESCHEDULED

instantiation job_status :: enum
begin

definition enum_job_status :: "job_status list" where
  "enum_job_status = [NEW, DEFERRED, QUEUED, ACTIVE, ABORTED, FAILED, COMPLETE, RESCHEDULED]"

definition enum_all_job_status :: "(job_status \<Rightarrow> bool) \<Rightarrow> bool" where
  "enum_all_job_status P \<longleftrightarrow>
     P NEW \<and> P DEFERRED \<and> P QUEUED \<and> P ACTIVE \<and> P ABORTED \<and> P FAILED \<and> P COMPLETE \<and> P RESCHEDULED"

definition enum_ex_job_status :: "(job_status \<Rightarrow> bool) \<Rightarrow> bool" where
  "enum_ex_job_status P \<longleftrightarrow>
     P NEW \<or> P DEFERRED \<or> P QUEUED \<or> P ACTIVE \<or> P ABORTED \<or> P FAILED \<or> P COMPLETE \<or> P RESCHEDULED"

instance
proof
  show U: "(UNIV :: job_status set) = set enum_class.enum"
    by (auto simp: enum_job_status_def intro: job_status.exhaust)
  show "distinct (enum_class.enum :: job_status list)"
    by (simp add: enum_job_status_def)
  show "\<And>P. enum_class.enum_all P = Ball (UNIV :: job_status set) P"
    by (simp add: U enum_all_job_status_def enum_job_status_def)
  show "\<And>P. enum_class.enum_ex P = Bex (UNIV :: job_status set) P"
    by (simp add: U enum_ex_job_status_def enum_job_status_def)
qed

end

text \<open>The \<open>str\<close> value of each member: what \<open>publish\<close> sends and the decoder looks up.\<close>

fun status_value :: "job_status \<Rightarrow> string" where
  "status_value NEW = ''NEW''"
| "status_value DEFERRED = ''DEFERRED''"
| "status_value QUEUED = ''QUEUED''"
| "status_value ACTIVE = ''ACTIVE''"
| "status_value ABORTED = ''ABORTED''"
| "status_value FAILED = ''FAILED''"
| "status_value COMPLETE = ''COMPLETE''"
| "status_value RESCHEDULED = ''RESCHEDULED''"

definition status_of :: "string \<Rightarrow> job_status result" where
  "status_of s =
     (case find (\<lambda>st. status_value st = s) enum_class.enum of
        None \<Rightarrow> Inl ValueError | Some st \<Rightarrow> Inr st)"

definition INCOMPLETE_JOB_STATUSES :: "job_status set" where
  "INCOMPLETE_JOB_STATUSES = {NEW, DEFERRED, QUEUED, ACTIVE, RESCHEDULED}"

definition TERMINAL_JOB_STATUSES :: "job_status set" where
  "TERMINAL_JOB_STATUSES = {COMPLETE, FAILED, ABORTED}"

definition UNSUCCESSFUL_TERMINAL_JOB_STATUSES :: "job_status set" where
  "UNSUCCESSFUL_TERMINAL_JOB_STATUSES = TERMINAL_JOB_STATUSES - {COMPLETE}"

lemmas status_sets =
  INCOMPLETE_JOB_STATUSES_def TERMINAL_JOB_STATUSES_def UNSUCCESSFUL_TERMINAL_JOB_STATUSES_def

lemma status_of_value [simp]: "status_of (status_value st) = Inr st"
  by (cases st) (simp_all add: status_of_def enum_job_status_def)

lemma statuses_partition:
  "INCOMPLETE_JOB_STATUSES \<union> TERMINAL_JOB_STATUSES = UNIV"
  "INCOMPLETE_JOB_STATUSES \<inter> TERMINAL_JOB_STATUSES = {}"
  unfolding status_sets by (auto intro: job_status.exhaust)

lemma unsuccessful_iff:
  "st \<in> UNSUCCESSFUL_TERMINAL_JOB_STATUSES \<longleftrightarrow> st = FAILED \<or> st = ABORTED"
  by (auto simp: status_sets)

lemma not_incomplete_iff_terminal:
  "st \<notin> INCOMPLETE_JOB_STATUSES \<longleftrightarrow> st \<in> TERMINAL_JOB_STATUSES"
  by (cases st) (simp_all add: status_sets)

section \<open>Worker statuses and cache policies\<close>

datatype worker_status = STARTUP | WORKING | SHUTDOWN

datatype cache_policy = LRU | LFU | FIFO | LIFO

section \<open>Application environments\<close>

datatype app_env = CICD | DEVELOPMENT | STAGING | PRODUCTION | LOCAL | TEST

fun app_env_value :: "app_env \<Rightarrow> string" where
  "app_env_value CICD = ''cicd''"
| "app_env_value DEVELOPMENT = ''development''"
| "app_env_value STAGING = ''staging''"
| "app_env_value PRODUCTION = ''production''"
| "app_env_value LOCAL = ''local''"
| "app_env_value TEST = ''test''"

definition from_env :: "string \<Rightarrow> app_env result" where
  "from_env env_value =
     (let v = str_lower env_value in
      if str_in ''cicd'' v \<or> str_in ''ci/cd'' v then Inr CICD
      else if str_in ''prod'' v then Inr PRODUCTION
      else if str_in ''dev'' v then Inr DEVELOPMENT
      else if str_in ''staging'' v then Inr STAGING
      else if str_in ''local'' v then Inr LOCAL
      else if str_in ''test'' v then Inr TEST
      else Inl ValueError)"

definition from_hostname :: "string \<Rightarrow> app_env" where
  "from_hostname hostname =
     (let h = str_lower hostname in
      if str_in ''dev'' h then DEVELOPMENT
      else if str_in ''staging'' h then STAGING
      else if str_in ''test'' h then TEST
      else if str_in ''local'' h then LOCAL
      else PRODUCTION)"

text \<open>\<open>AppEnv.__eq__\<close>: against a string the value is compared with the lower-cased string,
  against another member the values are compared, anything else is unequal.\<close>

datatype env_operand = EnvStr string | EnvMember app_env | EnvOther

fun app_env_eq :: "app_env \<Rightarrow> env_operand \<Rightarrow> bool" where
  "app_env_eq e (EnvStr s) = (app_env_value e = str_lower s)"
| "app_env_eq e (EnvMember e') = (app_env_value e = app_env_value e')"
| "app_env_eq e EnvOther = False"

definition is_devel :: "app_env \<Rightarrow> bool" where
  "is_devel e \<longleftrightarrow> (\<exists>x \<in> set [LOCAL, CICD, DEVELOPMENT, STAGING, TEST]. app_env_eq x (EnvMember e))"

definition is_local :: "app_env \<Rightarrow> bool" where
  "is_local e \<longleftrightarrow> (\<exists>x \<in> set [LOCAL, CICD]. app_env_eq x (EnvMember e))"

definition env_name :: "app_env \<Rightarrow> string" where
  "env_name e = str_lower (app_env_value e)"

lemma from_env_value: "from_env (app_env_value e) = Inr e"
  by (cases e) (code_simp, simp?)+

lemma app_env_value_inj [simp]: "app_env_value a = app_env_value b \<longleftrightarrow> a = b"
  by (cases a; cases b) simp_all

lemma app_env_eq_member [simp]: "app_env_eq a (EnvMember b) \<longleftrightarrow> a = b"
  by simp

lemma is_devel_iff: "is_devel e \<longleftrightarrow> e \<noteq> PRODUCTION"
  by (cases e) (simp_all add: is_devel_def)

lemma is_local_is_devel: "is_local e \<Longrightarrow> is_devel e"
  by (auto simp: is_local_def is_devel_def)

text \<open>Every member of \<open>AppEnv\<close> is found again from its own value, in \<open>from_env\<close>; a host
  name is never rejected, and is classified as production exactly when it names none of the
  other environments.\<close>

lemma app_env_classification:
  "from_env (app_env_value e) = Inr e \<and>
   (from_hostname h = PRODUCTION \<longleftrightarrow>
      \<not> str_in ''dev'' (str_lower h) \<and> \<not> str_in ''staging'' (str_lower h) \<and>
      \<not> str_in ''test'' (str_lower h) \<and> \<not> str_in ''local'' (str_lower h))"
  using from_env_value[of e] by (simp add: from_hostname_def Let_def)

end
