(* ===== verification/Retry.thy ===== *)
theory Retry
  imports Prelude
begin

text \<open>
  \<^verbatim>\<open>kvdb/utils/retry.py\<close>: the exponential backoff delay, the predicate that decides
  whether an exception is retried, and the wrapping of a client's public methods. The
  exception classes form a hierarchy outside the repository: \<open>isinstance\<close> is the parameter
  \<open>inst\<close>. \<open>rnd\<close> is the value \<open>random.random()\<close> returned, a number in \<open>[0, 1)\<close>.
\<close>

section \<open>Delays\<close>

definition raw_backoff :: "int \<Rightarrow> rat \<Rightarrow> rat option \<Rightarrow> rat" where
  "raw_backoff attempts base_delay max_delay =
     (let grown = base_delay * 2 ^ nat (max (attempts - 1) 0) in
      case max_delay of None \<Rightarrow> grown | Some m \<Rightarrow> min m grown)"

definition exponential_backoff :: "int \<Rightarrow> rat \<Rightarrow> rat option \<Rightarrow> bool \<Rightarrow> rat \<Rightarrow> rat" where
  "exponential_backoff attempts base_delay max_delay jitter rnd =
     (let backoff = raw_backoff attempts base_delay max_delay in
      if jitter then backoff * rnd else backoff)"

lemma raw_backoff_mono:
  assumes "0 \<le> b" "i \<le> j"
  shows "raw_backoff i b m \<le> raw_backoff j b m"
proof -
  have "(2::rat) ^ nat (max (i - 1) 0) \<le> 2 ^ nat (max (j - 1) 0)"
    using assms(2) by (intro power_increasing) auto
  then have "b * 2 ^ nat (max (i - 1) 0) \<le> b * 2 ^ nat (max (j - 1) 0)"
    using assms(1) by (rule mult_left_mono)
  then show ?thesis by (auto simp: raw_backoff_def Let_def min_def split: option.splits)
qed

lemma raw_backoff_nonneg:
  "0 \<le> b \<Longrightarrow> (\<forall>x. m = Some x \<longrightarrow> 0 \<le> x) \<Longrightarrow> 0 \<le> raw_backoff i b m"
  by (auto simp: raw_backoff_def Let_def split: option.splits)

lemma raw_backoff_cap: "raw_backoff i b (Some m) \<le> m"
  by (simp add: raw_backoff_def Let_def)

lemma raw_backoff_at_base:
  "0 \<le> b \<Longrightarrow> raw_backoff i b (Some b) = b"
proof -
  assume "0 \<le> b"
  moreover have "(1::rat) \<le> 2 ^ nat (max (i - 1) 0)" by simp
  ultimately have "b * 1 \<le> b * 2 ^ nat (max (i - 1) 0)" by (intro mult_left_mono) auto
  then show ?thesis by (simp add: raw_backoff_def Let_def)
qed

lemma exponential_backoff_range:
  assumes "0 \<le> b" "0 \<le> m" "0 \<le> rnd" "rnd \<le> 1"
  shows "0 \<le> exponential_backoff i b (Some m) jit rnd \<and>
         exponential_backoff i b (Some m) jit rnd \<le> m"
proof -
  have nn: "0 \<le> raw_backoff i b (Some m)"
    using assms by (intro raw_backoff_nonneg) auto
  have "raw_backoff i b (Some m) * rnd \<le> raw_backoff i b (Some m) * 1"
    using nn assms(4) by (rule mult_left_mono[rotated])
  with nn assms(3) raw_backoff_cap[of i b m] show ?thesis
    by (auto simp: exponential_backoff_def Let_def)
qed

text \<open>\<open>exponential_backoff\<close> is bounded and monotone: without jitter the delay never
  decreases with the number of attempts and never exceeds the cap, doubles from one attempt
  to the next as long as it stays below the cap, and jitter only ever shortens it.\<close>

theorem exponential_backoff_correct:
  assumes "0 \<le> b" and "0 \<le> m" and "0 \<le> rnd" and "rnd < 1" and "1 \<le> i"
  shows "exponential_backoff i b (Some m) False rnd \<le> exponential_backoff (i + 1) b (Some m) False rnd \<and>
    0 \<le> exponential_backoff i b (Some m) True rnd \<and>
    exponential_backoff i b (Some m) True rnd \<le> exponential_backoff i b (Some m) False rnd \<and>
    exponential_backoff i b (Some m) False rnd \<le> m \<and>
    exponential_backoff (i + 1) b None False rnd = 2 * exponential_backoff i b None False rnd"
proof -
  have grow: "raw_backoff i b (Some m) \<le> raw_backoff (i + 1) b (Some m)"
    using assms(1) by (intro raw_backoff_mono) auto
  have nn: "0 \<le> raw_backoff i b (Some m)"
    using assms by (intro raw_backoff_nonneg) auto
  have jit: "raw_backoff i b (Some m) * rnd \<le> raw_backoff i b (Some m) * 1"
    using nn assms(4) by (intro mult_left_mono) auto
  have "nat i = Suc (nat (i - 1))" using assms(5) by simp
  then have double: "raw_backoff (i + 1) b None = 2 * raw_backoff i b None"
    using assms(5) by (simp add: raw_backoff_def Let_def)
  from grow nn jit double assms(3) show ?thesis
    by (simp add: exponential_backoff_def Let_def raw_backoff_cap)
qed

theorem exponential_backoff_correct_witness:
  "exponential_backoff 3 2 (Some 60) False (1/2) \<le> exponential_backoff (3 + 1) 2 (Some 60) False (1/2) \<and>
   exponential_backoff 3 2 (Some 60) False (1/2) = 8 \<and> exponential_backoff 3 2 (Some 60) True (1/2) = 4"
  using exponential_backoff_correct[of 2 60 "1/2" 3]
  by (simp add: exponential_backoff_def raw_backoff_def Let_def)

section \<open>Which exceptions are retried\<close>

record exn =
  exn_class :: string
  exn_args :: "pyval list"

definition validate_exception ::
  "(string \<Rightarrow> string list \<Rightarrow> bool) \<Rightarrow> string list \<Rightarrow> string list \<Rightarrow> exn \<Rightarrow> bool" where
  "validate_exception inst exception_types excluded_types e =
     (if exn_args e \<noteq> [] \<and> hd (exn_args e) = PStr ''PING'' then False
      else inst (exn_class e) exception_types \<and> \<not> inst (exn_class e) excluded_types)"

definition retryable_types :: "string list" where
  "retryable_types =
     [''kvdb.ConnectionError'', ''kvdb.TimeoutError'', ''kvdb.BusyLoadingError'',
      ''redis.ConnectionError'', ''redis.TimeoutError'', ''redis.BusyLoadingError'']"

definition excluded_types :: "string list" where
  "excluded_types =
     [''redis.AuthenticationError'', ''redis.AuthorizationError'', ''redis.InvalidResponse'',
      ''redis.ResponseError'', ''redis.NoScriptError'']"

record retry_policy =
  wait_multiplier :: rat
  wait_min :: rat
  wait_max :: rat
  stop_delay :: rat
  retry_on :: "string list"
  retry_never :: "string list"

text \<open>\<open>get_retryable_wrapper\<close>: the arguments it passes to \<open>tenacity.retry\<close>, or \<open>None\<close>.
  The \<open>max_attempts\<close> setting becomes the maximum wait in seconds.\<close>

definition get_retryable_wrapper :: "bool \<Rightarrow> int \<Rightarrow> int \<Rightarrow> retry_policy option" where
  "get_retryable_wrapper enabled max_attempts max_delay =
     (if \<not> enabled then None
      else Some \<lparr>wait_multiplier = 3 / 2, wait_min = 1, wait_max = of_int max_attempts,
                 stop_delay = of_int max_delay,
                 retry_on = retryable_types, retry_never = excluded_types\<rparr>)"

section \<open>Wrapping a client class\<close>

text \<open>A class as its attributes in \<open>dir\<close> order; a function attribute carries the number of
  decorators applied to it.\<close>

datatype attr = Func nat | NonFunc

record client_class =
  attrs :: "(string \<times> attr) list"
  is_retryable_wrapped :: bool

definition excluded_funcs :: "string list" where
  "excluded_funcs = [''parse_response'', ''ping'']"

definition should_wrap :: "string \<Rightarrow> bool" where
  "should_wrap name \<longleftrightarrow> \<not> starts_with ''_'' name \<and> name \<notin> set excluded_funcs"

fun wrap_attr :: "string \<times> attr \<Rightarrow> string \<times> attr" where
  "wrap_attr (name, Func n) = (if should_wrap name then (name, Func (Suc n)) else (name, Func n))"
| "wrap_attr (name, NonFunc) = (name, NonFunc)"

definition create_retryable_client :: "client_class \<Rightarrow> client_class" where
  "create_retryable_client c =
     (if is_retryable_wrapped c then c
      else c\<lparr>attrs := map wrap_attr (attrs c), is_retryable_wrapped := True\<rparr>)"

text \<open>\<open>create_retryable_client\<close> decorates every public method exactly once and leaves
  \<open>ping\<close>, \<open>parse_response\<close>, private methods and non-functions alone; wrapping again changes
  nothing, and the names of the class are kept.\<close>

theorem create_retryable_client_once:
  "create_retryable_client (create_retryable_client c) = create_retryable_client c \<and>
   map fst (attrs (create_retryable_client c)) = map fst (attrs c) \<and>
   (\<not> is_retryable_wrapped c \<longrightarrow>
      (\<forall>(name, a) \<in> set (attrs c).
         (name, case a of Func n \<Rightarrow> Func (if should_wrap name then Suc n else n) | NonFunc \<Rightarrow> NonFunc)
           \<in> set (attrs (create_retryable_client c))))"
proof -
  have fst_wrap: "fst (wrap_attr x) = fst x" for x
    by (cases x; cases "snd x") auto
  have "wrap_attr (name, a) =
        (name, case a of Func n \<Rightarrow> Func (if should_wrap name then Suc n else n) | NonFunc \<Rightarrow> NonFunc)"
    for name a by (cases a) auto
  then show ?thesis
    by (auto simp: create_retryable_client_def fst_wrap o_def image_iff intro!: bexI)
qed

theorem create_retryable_client_once_witness:
  "\<not> is_retryable_wrapped \<lparr>attrs = [(''get'', Func 0), (''ping'', Func 0)], is_retryable_wrapped = False\<rparr> \<and>
   create_retryable_client
     (create_retryable_client
       \<lparr>attrs = [(''get'', Func 0), (''ping'', Func 0)], is_retryable_wrapped = False\<rparr>) =
   \<lparr>attrs = [(''get'', Func 1), (''ping'', Func 0)], is_retryable_wrapped = True\<rparr>"
  unfolding create_retryable_client_once[THEN conjunct1]
  by (simp add: create_retryable_client_def should_wrap_def excluded_funcs_def)

end
