(* ===== verification/Redis_Server.thy ===== *)
theory Redis_Server
  imports Prelude
begin

text \<open>
  The database server is not part of the repository: it is a parameter. Its commands, as
  far as the program sends them, are the constructors of \<open>rcmd\<close>; the parameter
  \<open>exec\<close> runs one command on a server state of any type and returns the reply and the new
  state. What the program relies on is written as the assumptions of the locales
  \<open>redis_server\<close> (strings and keys), \<open>redis_lists\<close>, \<open>redis_zsets\<close>, \<open>redis_sets\<close>,
  \<open>redis_hashes\<close>, \<open>redis_keys\<close> and \<open>redis_types\<close>, in terms of \<open>view\<close>, the observable keyspace. The laws are the documented
  effect and reply of each command on a key that is absent or has the right type; nothing is
  assumed about a key of the wrong type (the server answers with an error there).
  \<open>Redis_Memory\<close> interprets the locales on an executable in-memory server.
\<close>

named_theorems redis_simps "effects and replies of server commands"

section \<open>Commands, replies, the observable keyspace\<close>

text \<open>Redis values are byte strings. An integer argument is sent in decimal and read back
  with \<open>int(...)\<close> or \<open>tonumber\<close>; the model keeps the number.\<close>

datatype rval = RStr string | RInt int

datatype list_end = LEFT | RIGHT

datatype rcmd =
    GET string
  | SET string rval
  | SETEX string int rval
  | MGET "string list"
  | MSET "(string \<times> rval) list"
  | DEL "string list"
  | EXISTS string
  | EXPIRE string int
  | KEYS string
  | KEYTYPE string
  | PUBLISH string string
  | LRANGE_ALL string
  | LLEN string
  | RPUSH string "string list"
  | LPUSH string "string list"
  | LREM string nat string
  | LMOVE string string list_end list_end
  | ZADD string "(rat \<times> string) list"
  | ZREM string string
  | ZSCORE string string
  | ZRANGEBYSCORE string rat rat
  | SADD string string
  | SREM string string
  | HGET string string
  | HSET string "(string \<times> rval) list"
  | HDEL string "string list"
  | HEXISTS string string
  | HKEYS string
  | HMGET string "string list"
  | HGETALL string
  | HLEN string
  | HINCRBY string string int

datatype rreply =
    Nil
  | Num int
  | Bulk rval
  | Multi "rval option list"
  | Strs "string list"
  | Pairs "(string \<times> rval) list"
  | OK
  | ErrReply

datatype robj =
    OStr rval "int option"
  | OList "string list"
  | OZset "string \<Rightarrow> rat option"
  | OSet "string set"
  | OHash "string \<Rightarrow> rval option"

text \<open>The content of a key read at a type: an absent key is the empty container.\<close>

fun as_str :: "robj option \<Rightarrow> rval option option" where
  "as_str None = Some None"
| "as_str (Some (OStr v t)) = Some (Some v)"
| "as_str (Some _) = None"

fun as_list :: "robj option \<Rightarrow> string list option" where
  "as_list None = Some []"
| "as_list (Some (OList xs)) = Some xs"
| "as_list (Some _) = None"

fun as_zset :: "robj option \<Rightarrow> (string \<Rightarrow> rat option) option" where
  "as_zset None = Some Map.empty"
| "as_zset (Some (OZset z)) = Some z"
| "as_zset (Some _) = None"

fun as_set :: "robj option \<Rightarrow> string set option" where
  "as_set None = Some {}"
| "as_set (Some (OSet s)) = Some s"
| "as_set (Some _) = None"

fun as_hash :: "robj option \<Rightarrow> (string \<Rightarrow> rval option) option" where
  "as_hash None = Some Map.empty"
| "as_hash (Some (OHash h)) = Some h"
| "as_hash (Some _) = None"

text \<open>\<open>LREM k n x\<close>: the first \<open>n\<close> occurrences, all of them when \<open>n = 0\<close>.\<close>

fun lremove :: "nat \<Rightarrow> 'a \<Rightarrow> 'a list \<Rightarrow> 'a list" where
  "lremove 0 x xs = removeAll x xs"
| "lremove (Suc 0) x xs = remove1 x xs"
| "lremove (Suc n) x xs = lremove n x (remove1 x xs)"

fun zadd_all :: "(rat \<times> string) list \<Rightarrow> (string \<Rightarrow> rat option) \<Rightarrow> (string \<Rightarrow> rat option)" where
  "zadd_all [] z = z"
| "zadd_all ((s, m) # ps) z = zadd_all ps (z(m := Some s))"

fun hset_all :: "(string \<times> rval) list \<Rightarrow> (string \<Rightarrow> rval option) \<Rightarrow> (string \<Rightarrow> rval option)" where
  "hset_all [] h = h"
| "hset_all ((f, v) # ps) h = hset_all ps (h(f := Some v))"

fun hdel_all :: "string list \<Rightarrow> (string \<Rightarrow> 'v option) \<Rightarrow> (string \<Rightarrow> 'v option)" where
  "hdel_all [] h = h"
| "hdel_all (f # fs) h = hdel_all fs (h(f := None))"

fun pop_end :: "list_end \<Rightarrow> 'a list \<Rightarrow> 'a \<times> 'a list" where
  "pop_end LEFT xs = (hd xs, tl xs)"
| "pop_end RIGHT xs = (last xs, butlast xs)"

fun push_end :: "list_end \<Rightarrow> 'a \<Rightarrow> 'a list \<Rightarrow> 'a list" where
  "push_end LEFT x xs = x # xs"
| "push_end RIGHT x xs = xs @ [x]"

text \<open>The names \<open>KEYTYPE\<close> answers with.\<close>

fun type_name :: "robj option \<Rightarrow> string" where
  "type_name None = ''none''"
| "type_name (Some (OStr v t)) = ''string''"
| "type_name (Some (OList xs)) = ''list''"
| "type_name (Some (OZset z)) = ''zset''"
| "type_name (Some (OSet s)) = ''set''"
| "type_name (Some (OHash h)) = ''hash''"

fun set_ttl :: "int \<Rightarrow> robj \<Rightarrow> robj" where
  "set_ttl t (OStr v _) = OStr v (Some t)"
| "set_ttl t obj = obj"

text \<open>The characters without a special meaning in the patterns of \<open>KEYS\<close>.\<close>

definition plain_char :: "char \<Rightarrow> bool" where
  "plain_char c \<longleftrightarrow> c \<notin> {CHR ''*'', CHR ''?'', CHR ''['', CHR 0x5C}"

text \<open>Commands that only read, and the one key a writing command can change.\<close>

fun readonly :: "rcmd \<Rightarrow> bool" where
  "readonly (GET k) = True"
| "readonly (MGET ks) = True"
| "readonly (EXISTS k) = True"
| "readonly (KEYS p) = True"
| "readonly (KEYTYPE k) = True"
| "readonly (PUBLISH c m) = True"
| "readonly (LRANGE_ALL k) = True"
| "readonly (LLEN k) = True"
| "readonly (ZSCORE k m) = True"
| "readonly (ZRANGEBYSCORE k lo hi) = True"
| "readonly (HGET k f) = True"
| "readonly (HEXISTS k f) = True"
| "readonly (HKEYS k) = True"
| "readonly (HMGET k fs) = True"
| "readonly (HGETALL k) = True"
| "readonly (HLEN k) = True"
| "readonly _ = False"

fun written_keys :: "rcmd \<Rightarrow> string set" where
  "written_keys (SET k v) = {k}"
| "written_keys (SETEX k t v) = {k}"
| "written_keys (MSET ps) = fst ` set ps"
| "written_keys (DEL ks) = set ks"
| "written_keys (EXPIRE k t) = {k}"
| "written_keys (RPUSH k vs) = {k}"
| "written_keys (LPUSH k vs) = {k}"
| "written_keys (LREM k n v) = {k}"
| "written_keys (LMOVE s t a b) = {s, t}"
| "written_keys (ZADD k ps) = {k}"
| "written_keys (ZREM k m) = {k}"
| "written_keys (SADD k m) = {k}"
| "written_keys (SREM k m) = {k}"
| "written_keys (HSET k ps) = {k}"
| "written_keys (HDEL k fs) = {k}"
| "written_keys (HINCRBY k f n) = {k}"
| "written_keys _ = {}"

type_synonym 'db executor = "rcmd \<Rightarrow> 'db \<Rightarrow> rreply \<times> 'db"

definition reply_of :: "'db executor \<Rightarrow> rcmd \<Rightarrow> 'db \<Rightarrow> rreply" where
  "reply_of exec c d = fst (exec c d)"

definition after :: "'db executor \<Rightarrow> rcmd \<Rightarrow> 'db \<Rightarrow> 'db" where
  "after exec c d = snd (exec c d)"

text \<open>A transaction pipeline (\<open>MULTI\<close>/\<open>EXEC\<close>): the queued commands, in order, as one step.\<close>

fun run_pipeline :: "'db executor \<Rightarrow> rcmd list \<Rightarrow> 'db \<Rightarrow> rreply list \<times> 'db" where
  "run_pipeline exec [] d = ([], d)"
| "run_pipeline exec (c # cs) d =
     (reply_of exec c d # fst (run_pipeline exec cs (after exec c d)),
      snd (run_pipeline exec cs (after exec c d)))"

section \<open>What the program relies on\<close>

locale redis_server =
  fixes exec :: "rcmd \<Rightarrow> 'db \<Rightarrow> rreply \<times> 'db"
    and view :: "'db \<Rightarrow> string \<Rightarrow> robj option"
  assumes read_frame: "readonly c \<Longrightarrow> view (after exec c d) = view d"
    and write_frame: "k \<notin> written_keys c \<Longrightarrow> view (after exec c d) k = view d k"
    and get_reply: "as_str (view d k) = Some ov \<Longrightarrow>
      reply_of exec (GET k) d = (case ov of None \<Rightarrow> Nil | Some x \<Rightarrow> Bulk x)"
    and set_effect: "view (after exec (SET k v) d) k = Some (OStr v None)"
    and setex_effect: "0 < t \<Longrightarrow> view (after exec (SETEX k t v) d) k = Some (OStr v (Some t))"
    and del_effect: "k \<in> set ks \<Longrightarrow> view (after exec (DEL ks) d) k = None"
    and exists_reply: "reply_of exec (EXISTS k) d = Num (if view d k = None then 0 else 1)"
    and expire_effect: "0 < t \<Longrightarrow>
      view (after exec (EXPIRE k t) d) k = map_option (set_ttl t) (view d k)"
begin

lemma frame [redis_simps]:
  "k \<notin> written_keys c \<Longrightarrow> view (after exec c d) k = view d k"
  by (rule write_frame)

lemma as_list_set_ttl [redis_simps, simp]: "as_list (map_option (set_ttl t) x) = as_list x"
  by (cases x rule: as_list.cases) auto

lemma as_zset_set_ttl [redis_simps, simp]: "as_zset (map_option (set_ttl t) x) = as_zset x"
  by (cases x rule: as_zset.cases) auto

lemma read_frame_key: "readonly c \<Longrightarrow> view (after exec c d) k = view d k"
  by (simp add: read_frame)

lemma pipeline_frame:
  "k \<notin> \<Union> (written_keys ` set cs) \<Longrightarrow> view (snd (run_pipeline exec cs d)) k = view d k"
proof (induction cs arbitrary: d)
  case (Cons c cs)
  then have "view (snd (run_pipeline exec cs (after exec c d))) k = view (after exec c d) k"
    by simp
  then show ?case using Cons.prems by (simp add: write_frame)
qed simp

end

text \<open>Lists: the queues of job ids.\<close>

locale redis_lists = redis_server +
  assumes rpush_effect: "as_list (view d k) = Some xs \<Longrightarrow> vs \<noteq> [] \<Longrightarrow>
      as_list (view (after exec (RPUSH k vs) d) k) = Some (xs @ vs)"
    and lpush_effect: "as_list (view d k) = Some xs \<Longrightarrow> vs \<noteq> [] \<Longrightarrow>
      as_list (view (after exec (LPUSH k vs) d) k) = Some (rev vs @ xs)"
    and lrem_effect: "as_list (view d k) = Some xs \<Longrightarrow>
      as_list (view (after exec (LREM k n x) d) k) = Some (lremove n x xs)"
    and lrem_reply: "as_list (view d k) = Some xs \<Longrightarrow>
      reply_of exec (LREM k n x) d = Num (int (length xs - length (lremove n x xs)))"
    and llen_reply: "as_list (view d k) = Some xs \<Longrightarrow>
      reply_of exec (LLEN k) d = Num (int (length xs))"
    and lrange_reply: "as_list (view d k) = Some xs \<Longrightarrow>
      reply_of exec (LRANGE_ALL k) d = Strs xs"
    and lmove_empty: "as_list (view d s) = Some [] \<Longrightarrow>
      reply_of exec (LMOVE s t a b) d = Nil \<and> view (after exec (LMOVE s t a b) d) = view d"
    and lmove_reply: "as_list (view d s) = Some xs \<Longrightarrow> xs \<noteq> [] \<Longrightarrow>
      as_list (view d t) = Some ys \<Longrightarrow> reply_of exec (LMOVE s t a b) d = Bulk (RStr (fst (pop_end a xs)))"
    and lmove_effect: "as_list (view d s) = Some xs \<Longrightarrow> xs \<noteq> [] \<Longrightarrow>
      as_list (view d t) = Some ys \<Longrightarrow> s \<noteq> t \<Longrightarrow>
      as_list (view (after exec (LMOVE s t a b) d) s) = Some (snd (pop_end a xs)) \<and>
      as_list (view (after exec (LMOVE s t a b) d) t) = Some (push_end b (fst (pop_end a xs)) ys)"

text \<open>Sorted sets: the incomplete jobs with the time they are due.\<close>

locale redis_zsets = redis_server +
  assumes zadd_effect: "as_zset (view d k) = Some z \<Longrightarrow>
      as_zset (view (after exec (ZADD k ps) d) k) = Some (zadd_all ps z)"
    and zrem_effect: "as_zset (view d k) = Some z \<Longrightarrow>
      as_zset (view (after exec (ZREM k m) d) k) = Some (z(m := None))"
    and zscore_reply: "as_zset (view d k) = Some z \<Longrightarrow>
      (reply_of exec (ZSCORE k m) d = Nil) = (z m = None)"
    and zrangebyscore_reply: "as_zset (view d k) = Some z \<Longrightarrow>
      \<exists>ms. reply_of exec (ZRANGEBYSCORE k lo hi) d = Strs ms \<and> distinct ms \<and>
           set ms = {m. \<exists>s. z m = Some s \<and> lo \<le> s \<and> s \<le> hi} \<and>
           sorted (map (\<lambda>m. the (z m)) ms)"

locale redis_sets = redis_server +
  assumes sadd_reply: "as_set (view d k) = Some s \<Longrightarrow>
      reply_of exec (SADD k m) d = Num (if m \<in> s then 0 else 1)"
    and sadd_effect: "as_set (view d k) = Some s \<Longrightarrow>
      as_set (view (after exec (SADD k m) d) k) = Some (insert m s)"
    and srem_effect: "as_set (view d k) = Some s \<Longrightarrow>
      as_set (view (after exec (SREM k m) d) k) = Some (s - {m})"

text \<open>The server as the task queue uses it.\<close>

locale redis_queue = redis_lists + redis_zsets + redis_sets

text \<open>Hashes: the persistent dictionaries.\<close>

locale redis_hashes = redis_server +
  assumes hget_reply: "as_hash (view d k) = Some h \<Longrightarrow>
      reply_of exec (HGET k f) d = (case h f of None \<Rightarrow> Nil | Some v \<Rightarrow> Bulk v)"
    and hset_effect: "as_hash (view d k) = Some h \<Longrightarrow>
      as_hash (view (after exec (HSET k ps) d) k) = Some (hset_all ps h)"
    and hdel_effect: "as_hash (view d k) = Some h \<Longrightarrow>
      as_hash (view (after exec (HDEL k fs) d) k) = Some (hdel_all fs h)"
    and hexists_reply: "as_hash (view d k) = Some h \<Longrightarrow>
      reply_of exec (HEXISTS k f) d = Num (if h f = None then 0 else 1)"
    and hkeys_reply: "as_hash (view d k) = Some h \<Longrightarrow>
      \<exists>fs. reply_of exec (HKEYS k) d = Strs fs \<and> distinct fs \<and> set fs = dom h"
    and hmget_reply: "as_hash (view d k) = Some h \<Longrightarrow>
      reply_of exec (HMGET k fs) d = Multi (map h fs)"
    and hgetall_reply: "as_hash (view d k) = Some h \<Longrightarrow>
      \<exists>ps. reply_of exec (HGETALL k) d = Pairs ps \<and> distinct (map fst ps) \<and> map_of ps = h"
    and hlen_reply: "as_hash (view d k) = Some h \<Longrightarrow>
      reply_of exec (HLEN k) d = Num (int (card (dom h)))"
    and hincrby_effect: "as_hash (view d k) = Some h \<Longrightarrow> h f = None \<or> h f = Some (RInt i) \<Longrightarrow>
      let n' = (case h f of Some (RInt i) \<Rightarrow> i + n | _ \<Rightarrow> n) in
      reply_of exec (HINCRBY k f n) d = Num n' \<and>
      as_hash (view (after exec (HINCRBY k f n) d) k) = Some (h(f := Some (RInt n')))"

text \<open>Keys below a prefix: the persistent dictionaries without a hash.\<close>

locale redis_keys = redis_server +
  assumes keys_reply: "list_all plain_char p \<Longrightarrow>
      \<exists>ks. reply_of exec (KEYS (p @ ''*'')) d = Strs ks \<and> distinct ks \<and>
           set ks = {k. view d k \<noteq> None \<and> starts_with p k}"
    and mget_reply: "\<forall>k\<in>set ks. as_str (view d k) \<noteq> None \<Longrightarrow>
      reply_of exec (MGET ks) d = Multi (map (\<lambda>k. the (as_str (view d k))) ks)"

text \<open>Copying between servers: hashes, keys below a prefix and the types of keys.\<close>

locale redis_types = redis_hashes + redis_keys +
  assumes type_reply: "reply_of exec (KEYTYPE k) d = Bulk (RStr (type_name (view d k)))"

lemma zadd_all_notin [simp]: "m \<notin> snd ` set ps \<Longrightarrow> zadd_all ps z m = z m"
  by (induction ps z rule: zadd_all.induct) auto

lemma zadd_all_zeros:
  "zadd_all (map (\<lambda>m. (s, m)) ms) z m = (if m \<in> set ms then Some s else z m)"
  by (induction ms arbitrary: z) auto

lemma hdel_all_apply [simp]: "hdel_all fs h f = (if f \<in> set fs then None else h f)"
  by (induction fs arbitrary: h) auto

lemma hset_all_notin [simp]: "f \<notin> fst ` set ps \<Longrightarrow> hset_all ps h f = h f"
  by (induction ps h rule: hset_all.induct) auto

lemma hset_all_distinct:
  "distinct (map fst ps) \<Longrightarrow> hset_all ps h = h ++ map_of ps"
proof (induction ps arbitrary: h)
  case (Cons p ps)
  obtain f v where p: "p = (f, v)" by force
  have "map_of ps f = None" using Cons.prems p by (simp add: map_of_eq_None_iff)
  then have "h(f \<mapsto> v) ++ map_of ps = (h ++ map_of ps)(f \<mapsto> v)" by (intro map_add_upd_left) auto
  moreover have "hset_all ps (h(f := Some v)) = h(f \<mapsto> v) ++ map_of ps" using Cons p by simp
  moreover have "map_of ((f, v) # ps) = (map_of ps)(f \<mapsto> v)" by simp
  ultimately show ?case by (simp only: p hset_all.simps map_add_upd)
qed simp

lemma lremove_Suc_0 [simp]: "lremove 1 x xs = remove1 x xs"
  by (simp add: One_nat_def)

end
