(* ===== verification/Redis_Memory.thy ===== *)
theory Redis_Memory
  imports Redis_Server
begin

text \<open>
  An executable in-memory server for every command of \<open>Redis_Server\<close>: the keyspace is an
  association list of typed objects, a command on a key of the wrong type answers with an
  error and changes nothing. Its only role is to interpret the server locales, so that the
  laws the program relies on are seen to hold together and every theorem about the program
  can be evaluated on concrete keyspaces; it models no code of the repository.
\<close>

datatype mobj =
    MStr rval "int option"
  | MList "string list"
  | MZset "(string \<times> rat) list"
  | MSet "string list"
  | MHash "(string \<times> rval) list"

type_synonym mdb = "(string \<times> mobj) list"

fun abs_obj :: "mobj \<Rightarrow> robj" where
  "abs_obj (MStr v t) = OStr v t"
| "abs_obj (MList xs) = OList xs"
| "abs_obj (MZset ps) = OZset (map_of ps)"
| "abs_obj (MSet xs) = OSet (set xs)"
| "abs_obj (MHash ps) = OHash (map_of ps)"

definition mview :: "mdb \<Rightarrow> string \<Rightarrow> robj option" where
  "mview d k = map_option abs_obj (map_of d k)"

definition mput :: "string \<Rightarrow> mobj \<Rightarrow> mdb \<Rightarrow> mdb" where
  "mput k ob d = AList.update k ob d"

text \<open>The patterns of \<open>KEYS\<close> with \<open>*\<close> and \<open>?\<close>.\<close>

fun glob_match :: "string \<Rightarrow> string \<Rightarrow> bool" where
  "glob_match [] s = (s = [])"
| "glob_match (p # ps) [] = (p = CHR ''*'' \<and> glob_match ps [])"
| "glob_match (p # ps) (c # cs) =
     (if p = CHR ''*'' then glob_match ps (c # cs) \<or> glob_match (p # ps) cs
      else (p = CHR ''?'' \<or> p = c) \<and> glob_match ps cs)"

fun mlist :: "mobj option \<Rightarrow> string list option" where
  "mlist None = Some []"
| "mlist (Some (MList xs)) = Some xs"
| "mlist (Some _) = None"

fun mzset :: "mobj option \<Rightarrow> (string \<times> rat) list option" where
  "mzset None = Some []"
| "mzset (Some (MZset ps)) = Some ps"
| "mzset (Some _) = None"

fun mset_of :: "mobj option \<Rightarrow> string list option" where
  "mset_of None = Some []"
| "mset_of (Some (MSet xs)) = Some xs"
| "mset_of (Some _) = None"

fun mhash :: "mobj option \<Rightarrow> (string \<times> rval) list option" where
  "mhash None = Some []"
| "mhash (Some (MHash ps)) = Some ps"
| "mhash (Some _) = None"

fun mset_ttl :: "int \<Rightarrow> mobj \<Rightarrow> mobj" where
  "mset_ttl t (MStr v u) = MStr v (Some t)"
| "mset_ttl t ob = ob"

fun mput_all :: "(string \<times> rval) list \<Rightarrow> mdb \<Rightarrow> mdb" where
  "mput_all [] d = d"
| "mput_all ((k, v) # ps) d = mput_all ps (mput k (MStr v None) d)"

fun mdel_all :: "string list \<Rightarrow> (string \<times> 'a) list \<Rightarrow> (string \<times> 'a) list" where
  "mdel_all [] d = d"
| "mdel_all (k # ks) d = mdel_all ks (AList.delete k d)"

fun mzadd :: "(rat \<times> string) list \<Rightarrow> (string \<times> rat) list \<Rightarrow> (string \<times> rat) list" where
  "mzadd [] z = z"
| "mzadd ((s, m) # ps) z = mzadd ps (AList.update m s z)"

fun mhset :: "(string \<times> rval) list \<Rightarrow> (string \<times> rval) list \<Rightarrow> (string \<times> rval) list" where
  "mhset [] h = h"
| "mhset ((f, v) # ps) h = mhset ps (AList.update f v h)"

definition mzrange :: "rat \<Rightarrow> rat \<Rightarrow> (string \<times> rat) list \<Rightarrow> string list" where
  "mzrange lo hi ps =
     map fst (sort_key snd (filter (\<lambda>(m, s). lo \<le> s \<and> s \<le> hi) (AList.clearjunk ps)))"

definition on_list :: "mdb \<Rightarrow> string \<Rightarrow> (string list \<Rightarrow> rreply \<times> mdb) \<Rightarrow> rreply \<times> mdb" where
  "on_list d k f = (case mlist (map_of d k) of None \<Rightarrow> (ErrReply, d) | Some xs \<Rightarrow> f xs)"

definition on_zset :: "mdb \<Rightarrow> string \<Rightarrow> ((string \<times> rat) list \<Rightarrow> rreply \<times> mdb) \<Rightarrow> rreply \<times> mdb" where
  "on_zset d k f = (case mzset (map_of d k) of None \<Rightarrow> (ErrReply, d) | Some ps \<Rightarrow> f ps)"

definition on_set :: "mdb \<Rightarrow> string \<Rightarrow> (string list \<Rightarrow> rreply \<times> mdb) \<Rightarrow> rreply \<times> mdb" where
  "on_set d k f = (case mset_of (map_of d k) of None \<Rightarrow> (ErrReply, d) | Some xs \<Rightarrow> f xs)"

definition on_hash :: "mdb \<Rightarrow> string \<Rightarrow> ((string \<times> rval) list \<Rightarrow> rreply \<times> mdb) \<Rightarrow> rreply \<times> mdb" where
  "on_hash d k f = (case mhash (map_of d k) of None \<Rightarrow> (ErrReply, d) | Some ps \<Rightarrow> f ps)"

fun mem_exec :: "rcmd \<Rightarrow> mdb \<Rightarrow> rreply \<times> mdb" where
  "mem_exec (GET k) d =
     (case map_of d k of None \<Rightarrow> (Nil, d) | Some (MStr v t) \<Rightarrow> (Bulk v, d) | Some _ \<Rightarrow> (ErrReply, d))"
| "mem_exec (SET k v) d = (OK, mput k (MStr v None) d)"
| "mem_exec (SETEX k t v) d =
     (if 0 < t then (OK, mput k (MStr v (Some t)) d) else (ErrReply, d))"
| "mem_exec (MGET ks) d =
     (Multi (map (\<lambda>k. case map_of d k of Some (MStr v t) \<Rightarrow> Some v | _ \<Rightarrow> None) ks), d)"
| "mem_exec (MSET ps) d = (OK, mput_all ps d)"
| "mem_exec (DEL ks) d =
     (Num (int (length (filter (\<lambda>k. map_of d k \<noteq> None) (remdups ks)))), mdel_all ks d)"
| "mem_exec (EXISTS k) d = (Num (if map_of d k = None then 0 else 1), d)"
| "mem_exec (EXPIRE k t) d =
     (case map_of d k of None \<Rightarrow> (Num 0, d)
      | Some ob \<Rightarrow> if 0 < t then (Num 1, mput k (mset_ttl t ob) d) else (Num 1, AList.delete k d))"
| "mem_exec (KEYS p) d = (Strs (filter (glob_match p) (map fst (AList.clearjunk d))), d)"
| "mem_exec (KEYTYPE k) d =
     (Bulk (RStr (case map_of d k of None \<Rightarrow> ''none'' | Some (MStr v t) \<Rightarrow> ''string'' | Some (MList xs) \<Rightarrow> ''list''
        | Some (MZset ps) \<Rightarrow> ''zset'' | Some (MSet xs) \<Rightarrow> ''set'' | Some (MHash ps) \<Rightarrow> ''hash'')), d)"
| "mem_exec (PUBLISH c m) d = (Num 0, d)"
| "mem_exec (LRANGE_ALL k) d = on_list d k (\<lambda>xs. (Strs xs, d))"
| "mem_exec (LLEN k) d = on_list d k (\<lambda>xs. (Num (int (length xs)), d))"
| "mem_exec (RPUSH k vs) d =
     on_list d k (\<lambda>xs. (Num (int (length xs + length vs)), mput k (MList (xs @ vs)) d))"
| "mem_exec (LPUSH k vs) d =
     on_list d k (\<lambda>xs. (Num (int (length xs + length vs)), mput k (MList (rev vs @ xs)) d))"
| "mem_exec (LREM k n x) d =
     on_list d k (\<lambda>xs. let ys = lremove n x xs in
       (Num (int (length xs - length ys)), mput k (MList ys) d))"
| "mem_exec (LMOVE s t a b) d =
     on_list d s (\<lambda>xs. if xs = [] then (Nil, d) else
       on_list d t (\<lambda>ys0. let d1 = mput s (MList (snd (pop_end a xs))) d in
         on_list d1 t (\<lambda>ys. (Bulk (RStr (fst (pop_end a xs))),
            mput t (MList (push_end b (fst (pop_end a xs)) ys)) d1))))"
| "mem_exec (ZADD k ps) d = on_zset d k (\<lambda>z. (Num 0, mput k (MZset (mzadd ps z)) d))"
| "mem_exec (ZREM k m) d = on_zset d k (\<lambda>z. (Num 0, mput k (MZset (AList.delete m z)) d))"
| "mem_exec (ZSCORE k m) d =
     on_zset d k (\<lambda>z. (case map_of z m of None \<Rightarrow> Nil | Some s \<Rightarrow> Num 1, d))"
| "mem_exec (ZRANGEBYSCORE k lo hi) d = on_zset d k (\<lambda>z. (Strs (mzrange lo hi z), d))"
| "mem_exec (SADD k m) d =
     on_set d k (\<lambda>xs. (Num (if m \<in> set xs then 0 else 1), mput k (MSet (List.insert m xs)) d))"
| "mem_exec (SREM k m) d =
     on_set d k (\<lambda>xs. (Num (if m \<in> set xs then 1 else 0), mput k (MSet (removeAll m xs)) d))"
| "mem_exec (HGET k f) d =
     on_hash d k (\<lambda>h. (case map_of h f of None \<Rightarrow> Nil | Some v \<Rightarrow> Bulk v, d))"
| "mem_exec (HSET k ps) d = on_hash d k (\<lambda>h. (Num 0, mput k (MHash (mhset ps h)) d))"
| "mem_exec (HDEL k fs) d = on_hash d k (\<lambda>h. (Num 0, mput k (MHash (mdel_all fs h)) d))"
| "mem_exec (HEXISTS k f) d = on_hash d k (\<lambda>h. (Num (if map_of h f = None then 0 else 1), d))"
| "mem_exec (HKEYS k) d = on_hash d k (\<lambda>h. (Strs (map fst (AList.clearjunk h)), d))"
| "mem_exec (HMGET k fs) d = on_hash d k (\<lambda>h. (Multi (map (map_of h) fs), d))"
| "mem_exec (HGETALL k) d = on_hash d k (\<lambda>h. (Pairs (AList.clearjunk h), d))"
| "mem_exec (HLEN k) d = on_hash d k (\<lambda>h. (Num (int (length (AList.clearjunk h))), d))"
| "mem_exec (HINCRBY k f n) d =
     on_hash d k (\<lambda>h. case map_of h f of
        None \<Rightarrow> (Num n, mput k (MHash (AList.update f (RInt n) h)) d)
      | Some (RInt i) \<Rightarrow> (Num (i + n), mput k (MHash (AList.update f (RInt (i + n)) h)) d)
      | Some (RStr s) \<Rightarrow> (ErrReply, d))"

section \<open>The laws hold\<close>

lemma mview_mput [simp]: "mview (mput k ob d) k' = (if k = k' then Some (abs_obj ob) else mview d k')"
  by (simp add: mview_def mput_def update_conv')

lemma map_of_mput [simp]: "map_of (mput k ob d) = (map_of d)(k \<mapsto> ob)"
  by (simp add: mput_def update_conv')

lemma mview_delete [simp]: "mview (AList.delete k d) k' = (if k = k' then None else mview d k')"
  by (simp add: mview_def delete_conv')

lemma mview_mdel_all [simp]: "mview (mdel_all ks d) k = (if k \<in> set ks then None else mview d k)"
  by (induction ks d rule: mdel_all.induct) auto

lemma map_of_mdel_all_in [simp]: "k \<in> set ks \<Longrightarrow> map_of (mdel_all ks (d :: mdb)) k = None"
  using mview_mdel_all[of ks d k] by (simp add: mview_def)

lemma mview_mput_all [simp]: "k \<notin> fst ` set ps \<Longrightarrow> mview (mput_all ps d) k = mview d k"
  by (induction ps d rule: mput_all.induct) auto

lemma as_list_mview: "as_list (mview d k) = mlist (map_of d k)"
  by (cases "map_of d k" rule: mlist.cases) (auto simp: mview_def)

lemma as_zset_mview: "as_zset (mview d k) = map_option map_of (mzset (map_of d k))"
  by (cases "map_of d k" rule: mzset.cases) (auto simp: mview_def)

lemma as_set_mview: "as_set (mview d k) = map_option set (mset_of (map_of d k))"
  by (cases "map_of d k" rule: mset_of.cases) (auto simp: mview_def)

lemma as_hash_mview: "as_hash (mview d k) = map_option map_of (mhash (map_of d k))"
  by (cases "map_of d k" rule: mhash.cases) (auto simp: mview_def)

lemma as_str_mview:
  "as_str (mview d k) = Some ov \<longleftrightarrow>
   (map_of d k = None \<and> ov = None \<or> (\<exists>v t. map_of d k = Some (MStr v t) \<and> ov = Some v))"
  by (cases "map_of d k"; cases "the (map_of d k)") (auto simp: mview_def)

lemma map_of_mzadd: "map_of (mzadd ps z) = zadd_all ps (map_of z)"
  by (induction ps z rule: mzadd.induct) (auto simp: update_conv' fun_upd_def)

lemma map_of_mhset: "map_of (mhset ps h) = hset_all ps (map_of h)"
  by (induction ps h rule: mhset.induct) (auto simp: update_conv' fun_upd_def)

lemma map_of_mdel_all: "map_of (mdel_all fs h) = hdel_all fs (map_of h)"
  by (induction fs h rule: mdel_all.induct) (auto simp: delete_conv')

lemma set_mzrange: "set (mzrange lo hi ps) = {m. \<exists>s. map_of ps m = Some s \<and> lo \<le> s \<and> s \<le> hi}"
proof -
  have "(m, s) \<in> set (AList.clearjunk ps) \<longleftrightarrow> map_of ps m = Some s" for m s
    by (metis distinct_clearjunk map_of_clearjunk map_of_eq_Some_iff)
  then show ?thesis by (force simp: mzrange_def)
qed

lemma distinct_mzrange: "distinct (mzrange lo hi ps)"
proof -
  let ?qs = "filter (\<lambda>(m, s). lo \<le> s \<and> s \<le> hi) (AList.clearjunk ps)"
  have "distinct (map fst ?qs)" by (simp add: distinct_map_filter)
  then have "distinct (map fst (sort_key snd ?qs))"
    by (simp add: distinct_map)
  then show ?thesis by (simp add: mzrange_def)
qed

lemma sorted_mzrange: "sorted (map (\<lambda>m. the (map_of ps m)) (mzrange lo hi ps))"
proof -
  let ?qs = "sort_key snd (filter (\<lambda>(m, s). lo \<le> s \<and> s \<le> hi) (AList.clearjunk ps))"
  have "the (map_of ps (fst q)) = snd q" if "q \<in> set ?qs" for q
  proof -
    from that have "(fst q, snd q) \<in> set (AList.clearjunk ps)" by auto
    then have "map_of ps (fst q) = Some (snd q)"
      by (metis distinct_clearjunk map_of_clearjunk map_of_eq_Some_iff)
    then show ?thesis by simp
  qed
  then have "map (\<lambda>m. the (map_of ps m)) (mzrange lo hi ps) = map snd ?qs"
    by (simp add: mzrange_def o_def)
  then show ?thesis by simp
qed

lemma card_dom_clearjunk: "card (dom (map_of h)) = length (AList.clearjunk h)"
  by (metis distinct_clearjunk distinct_card dom_map_of_conv_image_fst length_map
      map_of_clearjunk set_map)

lemmas mem_unfold =
  after_def reply_of_def on_list_def on_zset_def on_set_def on_hash_def
  as_list_mview as_zset_mview as_set_mview as_hash_mview

interpretation mem: redis_server mem_exec mview
proof unfold_locales
  fix c :: rcmd and d
  assume "readonly c"
  then show "mview (after mem_exec c d) = mview d"
    by (cases c) (auto simp: mem_unfold split: option.splits mobj.splits)
next
  fix k c d
  assume "k \<notin> written_keys c"
  then show "mview (after mem_exec c d) k = mview d k"
    by (cases c)
       (auto simp: mem_unfold Let_def split: option.splits mobj.splits rval.splits)
next
  fix d k ov
  assume "as_str (mview d k) = Some ov"
  then show "reply_of mem_exec (GET k) d = (case ov of None \<Rightarrow> Nil | Some x \<Rightarrow> Bulk x)"
    by (auto simp: as_str_mview reply_of_def)
next
  fix d k and t :: int
  assume "0 < t"
  then show "mview (after mem_exec (EXPIRE k t) d) k = map_option (set_ttl t) (mview d k)"
    by (cases "map_of d k"; cases "the (map_of d k)") (auto simp: after_def mview_def)
qed (auto simp: after_def reply_of_def mview_def)

interpretation mem: redis_queue mem_exec mview
proof unfold_locales
  fix d k z lo hi
  assume "as_zset (mview d k) = Some z"
  then obtain ps where "mzset (map_of d k) = Some ps" "z = map_of ps"
    by (auto simp: as_zset_mview)
  then show "\<exists>ms. reply_of mem_exec (ZRANGEBYSCORE k lo hi) d = Strs ms \<and> distinct ms \<and>
           set ms = {m. \<exists>s. z m = Some s \<and> lo \<le> s \<and> s \<le> hi} \<and>
           sorted (map (\<lambda>m. the (z m)) ms)"
    by (simp add: mem_unfold set_mzrange distinct_mzrange sorted_mzrange)
next
  fix d s t xs ys a b
  assume "as_list (mview d s) = Some xs" "xs \<noteq> []" "as_list (mview d t) = Some ys" "s \<noteq> t"
  then show "as_list (mview (after mem_exec (LMOVE s t a b) d) s) = Some (snd (pop_end a xs)) \<and>
      as_list (mview (after mem_exec (LMOVE s t a b) d) t) = Some (push_end b (fst (pop_end a xs)) ys)"
    by (simp add: mem_unfold Let_def)
next
  fix d s t xs ys a b
  assume "as_list (mview d s) = Some xs" "xs \<noteq> []" "as_list (mview d t) = Some ys"
  then show "reply_of mem_exec (LMOVE s t a b) d = Bulk (RStr (fst (pop_end a xs)))"
    by (cases "s = t") (simp_all add: mem_unfold Let_def)
qed (auto simp: mem_unfold map_of_mzadd delete_conv' Let_def split: option.splits)

interpretation mem: redis_hashes mem_exec mview
proof unfold_locales
  fix d k h f i n
  assume "as_hash (mview d k) = Some h" "h f = None \<or> h f = Some (RInt i)"
  then obtain ps where "mhash (map_of d k) = Some ps" "h = map_of ps"
    "map_of ps f = None \<or> map_of ps f = Some (RInt i)"
    by (auto simp: as_hash_mview)
  then show "let n' = (case h f of Some (RInt i) \<Rightarrow> i + n | _ \<Rightarrow> n) in
      reply_of mem_exec (HINCRBY k f n) d = Num n' \<and>
      as_hash (mview (after mem_exec (HINCRBY k f n) d) k) = Some (h(f := Some (RInt n')))"
    by (auto simp: mem_unfold update_conv')
next
  fix d k h
  assume "as_hash (mview d k) = Some h"
  then obtain ps where ps: "mhash (map_of d k) = Some ps" "h = map_of ps"
    by (auto simp: as_hash_mview)
  have "dom (map_of ps) = set (map fst (AList.clearjunk ps))"
    by (metis dom_map_of_conv_image_fst list.set_map map_of_clearjunk)
  with ps show "\<exists>fs. reply_of mem_exec (HKEYS k) d = Strs fs \<and> distinct fs \<and> set fs = dom h"
    by (simp add: mem_unfold)
  from ps show "\<exists>ps. reply_of mem_exec (HGETALL k) d = Pairs ps \<and> distinct (map fst ps) \<and> map_of ps = h"
    by (simp add: mem_unfold map_of_clearjunk)
  from ps show "reply_of mem_exec (HLEN k) d = Num (int (card (dom h)))"
    by (simp add: mem_unfold card_dom_clearjunk)
qed (auto simp: mem_unfold map_of_mhset map_of_mdel_all split: option.splits)

lemma glob_match_star: "glob_match [CHR ''*''] s"
  by (induction s) auto

lemma glob_match_prefix: "list_all plain_char p \<Longrightarrow> glob_match (p @ ''*'') s = starts_with p s"
  by (induction p s rule: starts_with.induct) (auto simp: plain_char_def glob_match_star)

interpretation mem: redis_keys mem_exec mview
proof unfold_locales
  fix p :: string and d :: mdb
  assume "list_all plain_char p"
  moreover have "set (map fst (AList.clearjunk d)) = dom (map_of d)"
    by (metis dom_map_of_conv_image_fst list.set_map map_of_clearjunk)
  ultimately have "set (filter (glob_match (p @ ''*'')) (map fst (AList.clearjunk d))) = {k. mview d k \<noteq> None \<and> starts_with p k}"
    by (auto simp: glob_match_prefix mview_def simp del: list.set_map)
  then show "\<exists>ks. reply_of mem_exec (KEYS (p @ ''*'')) d = Strs ks \<and> distinct ks \<and>
           set ks = {k. mview d k \<noteq> None \<and> starts_with p k}"
    by (simp add: reply_of_def)
next
  fix ks and d :: mdb
  assume str: "\<forall>k\<in>set ks. as_str (mview d k) \<noteq> None"
  have "(case map_of d k of Some (MStr v t) \<Rightarrow> Some v | _ \<Rightarrow> None) = the (as_str (mview d k))" if ink: "k \<in> set ks" for k
  proof -
    obtain ov where o: "as_str (mview d k) = Some ov" using bspec[OF str ink] by auto
    then have "map_of d k = None \<and> ov = None \<or> (\<exists>v t. map_of d k = Some (MStr v t) \<and> ov = Some v)"
      by (rule iffD1[OF as_str_mview])
    then show ?thesis using o by auto
  qed
  then show "reply_of mem_exec (MGET ks) d = Multi (map (\<lambda>k. the (as_str (mview d k))) ks)"
    by (simp add: reply_of_def)
qed

interpretation mem: redis_types mem_exec mview
  by unfold_locales (auto simp: reply_of_def mview_def split: option.splits mobj.splits)

end
