(* ===== verification/Job_Model.thy ===== *)
theory Job_Model
  imports Status Retry
begin

text \<open>
  \<^verbatim>\<open>kvdb/types/jobs.py\<close>: the job object with its properties, its progress, its
  state changes (\<open>reset\<close>, \<open>complete\<close>), its retry delay, the checks that decide whether it
  is stuck, its durations and its metadata. Times are milliseconds, as \<open>now()\<close> returns
  them; the current time is an argument. Optional properties that the validator fills in are
  plain fields. Python's \<open>str()\<close> on arbitrary objects is the parameter \<open>pystr\<close>.
\<close>

section \<open>Time\<close>

definition millis :: "int \<Rightarrow> int" where
  "millis s = s * 1000"

definition seconds :: "int \<Rightarrow> rat" where
  "seconds ms = of_int ms / 1000"

lemma seconds_gt_iff: "seconds ms > of_int t \<longleftrightarrow> ms > millis t"
proof -
  have "of_int t < seconds ms \<longleftrightarrow> (of_int (t * 1000) :: rat) < of_int ms"
    by (simp add: seconds_def field_simps)
  then show ?thesis by (simp only: of_int_less_iff millis_def)
qed

section \<open>Job properties and their defaults\<close>

record job_props_in =
  in_timeout :: "int option"
  in_retries :: "int option"
  in_ttl :: "int option"
  in_retry_delay :: "rat option"
  in_max_stuck_duration :: "rat option"

record job_defaults =
  job_timeout :: int
  job_retries :: int
  job_retry_delay :: rat

record job_props =
  p_timeout :: int
  p_retries :: int
  p_ttl :: int
  p_retry_delay :: rat
  p_max_stuck_duration :: rat

definition validate_job_props :: "job_defaults \<Rightarrow> job_props_in \<Rightarrow> job_props" where
  "validate_job_props s p =
     (let t = (case in_timeout p of None \<Rightarrow> job_timeout s | Some t \<Rightarrow> t) in
      \<lparr>p_timeout = t,
       p_retries = (case in_retries p of None \<Rightarrow> job_retries s | Some r \<Rightarrow> r),
       p_ttl = (case in_ttl p of None \<Rightarrow> t * 2 | Some x \<Rightarrow> x),
       p_retry_delay = (case in_retry_delay p of None \<Rightarrow> job_retry_delay s | Some d \<Rightarrow> d),
       p_max_stuck_duration = (case in_max_stuck_duration p of None \<Rightarrow> of_int t * 4 | Some m \<Rightarrow> m)\<rparr>)"

section \<open>Progress\<close>

record job_progress =
  total :: rat
  pdone :: rat

definition progress_value :: "job_progress \<Rightarrow> rat" where
  "progress_value p = (if total p = 0 then 0 else pdone p / total p)"

definition progress_percent :: "job_progress \<Rightarrow> rat" where
  "progress_percent p = progress_value p * 100"

definition progress_set :: "rat option \<Rightarrow> rat option \<Rightarrow> job_progress \<Rightarrow> job_progress" where
  "progress_set t c p =
     (let p1 = (case t of None \<Rightarrow> p | Some x \<Rightarrow> p\<lparr>total := x\<rparr>) in
      case c of None \<Rightarrow> p1 | Some x \<Rightarrow> p1\<lparr>pdone := x\<rparr>)"

definition progress_step :: "rat \<Rightarrow> job_progress \<Rightarrow> job_progress" where
  "progress_step c p = p\<lparr>pdone := pdone p + c\<rparr>"

definition progress_reset :: "job_progress \<Rightarrow> job_progress" where
  "progress_reset p = progress_set (Some 0) (Some 0) p"

definition progress_add :: "rat \<Rightarrow> job_progress \<Rightarrow> job_progress" where
  "progress_add v p = progress_step v p"

definition progress_sub :: "rat \<Rightarrow> job_progress \<Rightarrow> job_progress" where
  "progress_sub v p = progress_step (- v) p"

lemma progress_sub_add [simp]: "progress_sub v (progress_add v p) = p"
  by (simp add: progress_sub_def progress_add_def progress_step_def)

lemma progress_reset_value [simp]: "progress_value (progress_reset p) = 0"
  by (simp add: progress_reset_def progress_set_def progress_value_def)

lemma progress_value_range:
  "0 \<le> pdone p \<Longrightarrow> pdone p \<le> total p \<Longrightarrow> 0 \<le> progress_value p \<and> progress_value p \<le> 1"
  by (auto simp: progress_value_def divide_le_eq)

section \<open>The job\<close>

datatype backoff_setting = BackoffFlag bool | BackoffMax rat

fun backoff_truthy :: "backoff_setting \<Rightarrow> bool" where
  "backoff_truthy (BackoffFlag b) = b"
| "backoff_truthy (BackoffMax m) = (m \<noteq> 0)"

record job =
  jfunction :: string
  jargs :: "pyval list"
  jkwargs :: pydict
  jkey :: string
  result :: pyval
  jerror :: pyval
  status :: job_status
  metadata :: pydict
  worker_id :: "string option"
  worker_name :: "string option"
  job_callback :: "string option"
  bypass_lock :: "bool option"
  job_queue_name :: "string option"
  timeout :: int
  retries :: int
  ttl :: int
  retry_delay :: rat
  retry_backoff :: backoff_setting
  max_stuck_duration :: rat
  heartbeat :: int
  scheduled :: rat
  progress :: job_progress
  attempts :: int
  completed :: int
  queued :: int
  started :: int
  touched :: int

definition next_retry_delay :: "rat \<Rightarrow> job \<Rightarrow> rat" where
  "next_retry_delay rnd j =
     (if backoff_truthy (retry_backoff j)
      then exponential_backoff (attempts j) (retry_delay j) (Some (retry_delay j)) True rnd
      else retry_delay j)"

definition reset :: "int \<Rightarrow> job_status \<Rightarrow> pyval \<Rightarrow> job \<Rightarrow> job" where
  "reset now st err j =
     j\<lparr>status := st, jerror := err, completed := 0, started := 0,
       progress := progress_reset (progress j), touched := now\<rparr>"

definition complete :: "int \<Rightarrow> job_status \<Rightarrow> pyval \<Rightarrow> pyval \<Rightarrow> job \<Rightarrow> job" where
  "complete now st res err j =
     j\<lparr>status := st, result := res, jerror := err, completed := now,
       progress := progress_set None (Some (total (progress j))) (progress j)\<rparr>"

definition set_progress :: "rat option \<Rightarrow> rat option \<Rightarrow> job \<Rightarrow> job" where
  "set_progress t c j = j\<lparr>progress := progress_set t c (progress j)\<rparr>"

definition job_add :: "rat \<Rightarrow> job \<Rightarrow> job" where
  "job_add v j = j\<lparr>progress := progress_step v (progress j)\<rparr>"

definition job_sub :: "rat \<Rightarrow> job \<Rightarrow> job" where
  "job_sub v j = j\<lparr>progress := progress_step (- v) (progress j)\<rparr>"

definition stuck :: "int \<Rightarrow> job \<Rightarrow> bool" where
  "stuck current j \<longleftrightarrow>
     status j = ACTIVE \<and>
     (seconds (current - started j) > of_int (timeout j) \<or>
      heartbeat j \<noteq> 0 \<and> seconds (current - touched j) > of_int (heartbeat j))"

text \<open>\<open>is_stuck\<close>: a zero or missing timeout falls back to \<open>max_stuck_duration\<close>, an empty
  list of statuses to \<open>[ACTIVE]\<close>.\<close>

definition is_stuck :: "int \<Rightarrow> rat option \<Rightarrow> job_status list \<Rightarrow> job \<Rightarrow> bool" where
  "is_stuck current tmo statuses j =
     (let t = (case tmo of None \<Rightarrow> max_stuck_duration j
                         | Some x \<Rightarrow> if x = 0 then max_stuck_duration j else x);
          sts = (if statuses = [] then [ACTIVE] else statuses) in
      status j \<in> set sts \<and>
      (seconds (current - started j) > t \<or>
       heartbeat j \<noteq> 0 \<and> seconds (current - touched j) > of_int (heartbeat j)))"

definition in_progress :: "job \<Rightarrow> bool" where
  "in_progress j \<longleftrightarrow> status j \<in> INCOMPLETE_JOB_STATUSES"

definition has_failed :: "job \<Rightarrow> bool" where
  "has_failed j \<longleftrightarrow> status j \<in> UNSUCCESSFUL_TERMINAL_JOB_STATUSES"

definition is_complete :: "job \<Rightarrow> bool" where
  "is_complete j \<longleftrightarrow> status j = COMPLETE"

definition has_job_callback :: "job \<Rightarrow> bool" where
  "has_job_callback j \<longleftrightarrow> job_callback j \<noteq> None"

text \<open>\<open>_run_job_callback\<close> calls the callback when there is one and the job has ended.\<close>

definition runs_job_callback :: "job \<Rightarrow> bool" where
  "runs_job_callback j =
     (if \<not> has_job_callback j then False
      else if status j \<notin> TERMINAL_JOB_STATUSES then False
      else True)"

section \<open>Durations\<close>

definition calc_duration :: "int \<Rightarrow> int \<Rightarrow> int option" where
  "calc_duration a b = (if a \<noteq> 0 \<and> b \<noteq> 0 then Some (a - b) else None)"

definition get_duration :: "int \<Rightarrow> string \<Rightarrow> job \<Rightarrow> int option result" where
  "get_duration now kind j =
     (if kind = ''process'' then Inr (calc_duration (completed j) (started j))
      else if kind = ''start'' then Inr (calc_duration (started j) (queued j))
      else if kind = ''total'' then Inr (calc_duration (completed j) (queued j))
      else if kind = ''running'' then Inr (calc_duration now (started j))
      else if kind = ''queued'' then Inr (calc_duration now (queued j))
      else Inl ValueError)"

text \<open>\<open>duration\<close> takes the first non-zero duration over a Python \<open>set\<close> of kinds, whose order
  is not determined: the order is an argument.\<close>

fun duration :: "int \<Rightarrow> string list \<Rightarrow> job \<Rightarrow> int option" where
  "duration now [] j = None"
| "duration now (kind # kinds) j =
     (case get_duration now kind j of
        Inr (Some n) \<Rightarrow> if n \<noteq> 0 then Some n else duration now kinds j
      | _ \<Rightarrow> duration now kinds j)"

fun duration_secs :: "int \<Rightarrow> string list \<Rightarrow> job \<Rightarrow> rat option" where
  "duration_secs now [] j = None"
| "duration_secs now (kind # kinds) j =
     (case get_duration now kind j of
        Inr (Some n) \<Rightarrow> if n \<noteq> 0 then Some (of_int n / 1000) else duration_secs now kinds j
      | _ \<Rightarrow> duration_secs now kinds j)"

section \<open>Identity\<close>

definition key_from_id :: "string \<Rightarrow> string" where
  "key_from_id job_id = rsplit_last (CHR '':'') job_id"

datatype job_or_key = KeyOf string | JobOf job

fun job_eq :: "job \<Rightarrow> job_or_key \<Rightarrow> bool" where
  "job_eq j (KeyOf k) = (jkey j = k)"
| "job_eq j (JobOf j') = (jkey j = jkey j')"

section \<open>Metadata\<close>

text \<open>\<open>isinstance(x, (int, float))\<close> holds of booleans; a sum is a float when a summand is.\<close>

fun int_value :: "pyval \<Rightarrow> int option" where
  "int_value (PInt i) = Some i"
| "int_value (PBool b) = Some (of_bool b)"
| "int_value _ = None"

fun number_value :: "pyval \<Rightarrow> rat option" where
  "number_value (PFloat r) = Some r"
| "number_value v = map_option of_int (int_value v)"

definition add_values :: "pyval \<Rightarrow> pyval \<Rightarrow> pyval option" where
  "add_values a b =
     (case (int_value a, int_value b) of
        (Some x, Some y) \<Rightarrow> Some (PInt (x + y))
      | _ \<Rightarrow> (case (number_value a, number_value b) of
               (Some x, Some y) \<Rightarrow> Some (PFloat (x + y))
             | _ \<Rightarrow> None))"

definition merge_metadata :: "pyval \<Rightarrow> pyval \<Rightarrow> pyval" where
  "merge_metadata old new =
     (case (old, new) of
        (PDict a, PDict b) \<Rightarrow> PDict (dict_update a b)
      | (PList a, PList b) \<Rightarrow> PList (a @ b)
      | (PSet a, PSet b) \<Rightarrow> PSet (a @ filter (\<lambda>x. x \<notin> set a) b)
      | (PTuple a, PTuple b) \<Rightarrow> PTuple (a @ b)
      | _ \<Rightarrow> (case add_values old new of Some v \<Rightarrow> v | None \<Rightarrow> new))"

text \<open>\<open>job[key] = value\<close>. Assigning \<open>status\<close> stores the value unchecked; the model's status
  is typed, so a value that is no status is \<open>None\<close>: the job leaves the model.\<close>

definition job_setitem :: "string \<Rightarrow> pyval \<Rightarrow> job \<Rightarrow> job option" where
  "job_setitem key val j =
     (if key = ''result'' then Some (j\<lparr>result := val\<rparr>)
      else if key = ''error'' then Some (j\<lparr>jerror := val\<rparr>)
      else if key = ''status'' then
        (case val of
           PStr s \<Rightarrow> (case status_of s of Inr st \<Rightarrow> Some (j\<lparr>status := st\<rparr>) | Inl e \<Rightarrow> None)
         | _ \<Rightarrow> None)
      else case dict_get (metadata j) key of
        None \<Rightarrow> Some (j\<lparr>metadata := dict_set key val (metadata j)\<rparr>)
      | Some old \<Rightarrow> Some (j\<lparr>metadata := dict_set key (merge_metadata old val) (metadata j)\<rparr>))"

definition job_getitem :: "string \<Rightarrow> job \<Rightarrow> pyval" where
  "job_getitem key j =
     (if key = ''result'' then result j
      else if key = ''error'' then jerror j
      else if key = ''status'' then PStr (status_value (status j))
      else case dict_get (metadata j) key of None \<Rightarrow> PNone | Some v \<Rightarrow> v)"

section \<open>Truncation\<close>

definition get_truncated_result :: "(pyval \<Rightarrow> string) \<Rightarrow> nat \<Rightarrow> job \<Rightarrow> string" where
  "get_truncated_result pystr max_length j =
     (if result j = PNone then ''''
      else let r = pystr (result j) in
        if length r > max_length then take max_length r @ ''...'' else r)"

definition truncated_items :: "(pyval \<Rightarrow> string) \<Rightarrow> nat \<Rightarrow> pydict \<Rightarrow> (string \<times> string) list" where
  "truncated_items pystr max_length kw =
     (let kwv_max_length = max_length div max (length kw) 1 in
      map (\<lambda>(k, v). let s = pystr v in
         (k, if length s > kwv_max_length then take kwv_max_length s @ ''...'' else s)) kw)"

lemma length_truncated_result: "length (get_truncated_result pystr n j) \<le> n + 3"
  by (simp add: get_truncated_result_def Let_def)

lemma sum_list_le_const:
  "(\<And>x. x \<in> set xs \<Longrightarrow> f x \<le> (c::nat)) \<Longrightarrow> sum_list (map f xs) \<le> length xs * c"
  by (induction xs) (auto intro: add_mono)

lemma truncated_items_bound:
  "sum_list (map (length \<circ> snd) (truncated_items pystr n kw)) \<le> n + 3 * length kw"
proof -
  let ?m = "n div max (length kw) 1"
  have each: "(length \<circ> snd) x \<le> ?m + 3" if "x \<in> set (truncated_items pystr n kw)" for x
    using that by (auto simp: truncated_items_def Let_def simp del: One_nat_def)
  have "sum_list (map (length \<circ> snd) (truncated_items pystr n kw))
        \<le> length (truncated_items pystr n kw) * (?m + 3)"
    using each by (intro sum_list_le_const) blast
  also have "\<dots> = length kw * (?m + 3)" by (simp add: truncated_items_def Let_def)
  also have "\<dots> \<le> n + 3 * length kw"
    using times_div_less_eq_dividend[of "length kw" n]
    by (cases "length kw") (simp_all add: algebra_simps)
  finally show ?thesis .
qed

end
