(* ===== verification/Push_Queue.thy ===== *)
theory Push_Queue
  imports Redis_Memory Job_Model
begin

text \<open>
  \<^verbatim>\<open>kvdb/tasks/types.py\<close>, class \<open>PushQueue\<close>: the list, named by the user, that mirrors the
  ids of jobs waiting for a retry. Each operation either appends its commands to a pipeline or
  hands them to a background task; the model returns the commands. Its length and its content
  are read through the server.
\<close>

record push_queue =
  queue_key :: string
  pq_enabled :: bool
  pq_ttl :: int

text \<open>\<open>__init__\<close>: enabled only with a key; a missing or zero time to live is 600 seconds.\<close>

definition PushQueue_init :: "bool option \<Rightarrow> string option \<Rightarrow> int option \<Rightarrow> push_queue" where
  "PushQueue_init enabled key tt =
     \<lparr>queue_key = (case key of None \<Rightarrow> '''' | Some k \<Rightarrow> k),
      pq_enabled = (enabled = Some True \<and> key \<noteq> None),
      pq_ttl = (case tt of None \<Rightarrow> 600 | Some x \<Rightarrow> if x = 0 then 600 else x)\<rparr>"

text \<open>\<open>job_id or job.id\<close>; an empty id without a job has no attribute \<open>id\<close>.\<close>

definition item_id :: "string option \<Rightarrow> string option \<Rightarrow> string result" where
  "item_id jid job =
     (case jid of
        Some s \<Rightarrow> if s \<noteq> [] then Inr s
                  else (case job of Some i \<Rightarrow> Inr i | None \<Rightarrow> Inl AttributeError)
      | None \<Rightarrow> (case job of Some i \<Rightarrow> Inr i | None \<Rightarrow> Inl AttributeError))"

definition push_skips :: "push_queue \<Rightarrow> string option \<Rightarrow> string option \<Rightarrow> bool" where
  "push_skips pq jid job \<longleftrightarrow> \<not> pq_enabled pq \<or> job = None \<and> jid = None"

definition push_pipeline ::
    "push_queue \<Rightarrow> string option \<Rightarrow> string option \<Rightarrow> rcmd list \<Rightarrow> rcmd list result" where
  "push_pipeline pq jid job pipe =
     (if push_skips pq jid job then Inr pipe
      else bindR (item_id jid job) (\<lambda>i.
        Inr (pipe @ [RPUSH (queue_key pq) [i], EXPIRE (queue_key pq) (pq_ttl pq)])))"

definition push_bg_cmds :: "push_queue \<Rightarrow> string option \<Rightarrow> string option \<Rightarrow> rcmd list result" where
  "push_bg_cmds pq jid job =
     bindR (item_id jid job) (\<lambda>i. Inr [RPUSH (queue_key pq) [i], EXPIRE (queue_key pq) (pq_ttl pq)])"

text \<open>The background task's own failure is not seen by the caller: it issues no command.\<close>

definition push_bg :: "push_queue \<Rightarrow> string option \<Rightarrow> string option \<Rightarrow> rcmd list" where
  "push_bg pq jid job =
     (if push_skips pq jid job then []
      else case push_bg_cmds pq jid job of Inr cs \<Rightarrow> cs | Inl e \<Rightarrow> [])"

text \<open>\<open>push\<close>: the pipeline's commands and the commands left to the background.\<close>

definition push ::
    "push_queue \<Rightarrow> string option \<Rightarrow> string option \<Rightarrow> rcmd list option \<Rightarrow> (rcmd list \<times> rcmd list) result" where
  "push pq jid job pipe =
     (case pipe of
        Some p \<Rightarrow> bindR (push_pipeline pq jid job p) (\<lambda>p'. Inr (p', []))
      | None \<Rightarrow> Inr ([], push_bg pq jid job))"

definition remove_pipeline ::
    "push_queue \<Rightarrow> string option \<Rightarrow> string option \<Rightarrow> rcmd list \<Rightarrow> rcmd list result" where
  "remove_pipeline pq jid job pipe =
     (if push_skips pq jid job then Inr pipe
      else bindR (item_id jid job) (\<lambda>i. Inr (pipe @ [LREM (queue_key pq) 1 i])))"

definition remove_bg :: "push_queue \<Rightarrow> string option \<Rightarrow> string option \<Rightarrow> rcmd list" where
  "remove_bg pq jid job =
     (if push_skips pq jid job then []
      else case item_id jid job of Inr i \<Rightarrow> [LREM (queue_key pq) 1 i] | Inl e \<Rightarrow> [])"

definition pq_remove ::
    "push_queue \<Rightarrow> string option \<Rightarrow> string option \<Rightarrow> rcmd list option \<Rightarrow> (rcmd list \<times> rcmd list) result" where
  "pq_remove pq jid job pipe =
     (case pipe of
        Some p \<Rightarrow> bindR (remove_pipeline pq jid job p) (\<lambda>p'. Inr (p', []))
      | None \<Rightarrow> Inr ([], remove_bg pq jid job))"

definition alength :: "'db executor \<Rightarrow> push_queue \<Rightarrow> 'db \<Rightarrow> int" where
  "alength exec pq d =
     (if pq_enabled pq then case reply_of exec (LLEN (queue_key pq)) d of Num n \<Rightarrow> n | _ \<Rightarrow> 0 else 0)"

definition ajob_ids :: "'db executor \<Rightarrow> push_queue \<Rightarrow> 'db \<Rightarrow> string list" where
  "ajob_ids exec pq d =
     (if pq_enabled pq then case reply_of exec (LRANGE_ALL (queue_key pq)) d of Strs xs \<Rightarrow> xs | _ \<Rightarrow> [] else [])"

section \<open>Lemmas\<close>

text \<open>With an id at hand both operations only append to the pipeline.\<close>

lemma item_id_Some [simp]: "i \<noteq> [] \<Longrightarrow> item_id (Some i) job = Inr i"
  by (simp add: item_id_def)

definition push_cmds :: "push_queue \<Rightarrow> string \<Rightarrow> rcmd list" where
  "push_cmds pq i =
     (if pq_enabled pq then [RPUSH (queue_key pq) [i], EXPIRE (queue_key pq) (pq_ttl pq)] else [])"

definition unpush_cmds :: "push_queue \<Rightarrow> string \<Rightarrow> rcmd list" where
  "unpush_cmds pq i = (if pq_enabled pq then [LREM (queue_key pq) 1 i] else [])"

lemma push_Some [simp]:
  "i \<noteq> [] \<Longrightarrow> push pq (Some i) None (Some p) = Inr (p @ push_cmds pq i, [])"
  "i \<noteq> [] \<Longrightarrow> push pq (Some i) None None = Inr ([], push_cmds pq i)"
  by (simp_all add: push_def push_pipeline_def push_bg_def push_bg_cmds_def push_skips_def push_cmds_def)

lemma pq_remove_Some [simp]:
  "i \<noteq> [] \<Longrightarrow> pq_remove pq (Some i) None (Some p) = Inr (p @ unpush_cmds pq i, [])"
  "i \<noteq> [] \<Longrightarrow> pq_remove pq (Some i) None None = Inr ([], unpush_cmds pq i)"
  by (simp_all add: pq_remove_def remove_pipeline_def remove_bg_def push_skips_def unpush_cmds_def)

lemma written_push_cmds [simp]:
  "\<Union> (written_keys ` set (push_cmds pq i)) = (if pq_enabled pq then {queue_key pq} else {})"
  by (cases "pq_enabled pq") (simp_all add: push_cmds_def)

lemma written_unpush_cmds [simp]:
  "\<Union> (written_keys ` set (unpush_cmds pq i)) = (if pq_enabled pq then {queue_key pq} else {})"
  by (cases "pq_enabled pq") (simp_all add: unpush_cmds_def)

context redis_queue
begin

lemma push_pop_content:
  assumes en: "pq_enabled pq" and l: "as_list (view d (queue_key pq)) = Some xs" and t: "0 < pq_ttl pq"
  shows "as_list (view (snd (run_pipeline exec (push_cmds pq i) d)) (queue_key pq)) = Some (xs @ [i])"
  using assms by (simp add: push_cmds_def expire_effect rpush_effect)

lemma unpush_content:
  assumes en: "pq_enabled pq" and l: "as_list (view d (queue_key pq)) = Some xs"
  shows "as_list (view (snd (run_pipeline exec (unpush_cmds pq i) d)) (queue_key pq)) = Some (remove1 i xs)"
  using assms by (simp add: unpush_cmds_def lrem_effect)

lemma push_queue_reads:
  assumes "as_list (view d (queue_key pq)) = Some xs" "pq_enabled pq"
  shows "ajob_ids exec pq d = xs" "alength exec pq d = int (length xs)"
  using assms by (simp_all add: ajob_ids_def alength_def lrange_reply llen_reply)

lemma push_queue_mirror_law:
  assumes l: "as_list (view d (queue_key pq)) = Some xs" and t: "0 < pq_ttl pq" and en: "pq_enabled pq"
  shows "let d1 = snd (run_pipeline exec (push_cmds pq i) d);
             d2 = snd (run_pipeline exec (unpush_cmds pq i) d1) in
         ajob_ids exec pq d1 = xs @ [i] \<and> alength exec pq d1 = int (length xs) + 1 \<and>
         ajob_ids exec pq d2 = remove1 i (xs @ [i])"
proof -
  note c1 = push_pop_content[OF en l t, of i]
  note c2 = unpush_content[OF en c1, of i]
  show ?thesis
    by (simp only: Let_def push_queue_reads[OF c1 en] push_queue_reads[OF c2 en]) simp
qed

end

text \<open>The push queue mirrors its jobs: pushing an id appends it to the list of ids and
  bumps the length, removing it takes out one occurrence, and a queue that is not enabled
  (the flag is off or no key was given) is always empty and issues no command, in a pipeline or
  in the background.\<close>

theorem push_queue_mirror:
  "redis_queue exec view \<Longrightarrow> as_list (view d (queue_key pq)) = Some xs \<Longrightarrow> 0 < pq_ttl pq \<Longrightarrow> i \<noteq> [] \<Longrightarrow>
   (let push_c = (case push pq (Some i) None (Some []) of Inr (p, b) \<Rightarrow> p | Inl e \<Rightarrow> []);
        d1 = snd (run_pipeline exec push_c d);
        rem_c = (case pq_remove pq (Some i) None None of Inr (p, b) \<Rightarrow> b | Inl e \<Rightarrow> []);
        d2 = snd (run_pipeline exec rem_c d1) in
    if pq_enabled pq
    then ajob_ids exec pq d1 = xs @ [i] \<and> alength exec pq d1 = int (length xs) + 1 \<and>
         ajob_ids exec pq d2 = remove1 i (xs @ [i])
    else push_c = [] \<and> rem_c = [] \<and> ajob_ids exec pq d = [] \<and> alength exec pq d = 0)"
  using redis_queue.push_queue_mirror_law[of exec view d pq xs i]
  by (auto simp: Let_def ajob_ids_def alength_def push_cmds_def unpush_cmds_def)

definition example_push_queue :: push_queue where
  "example_push_queue = PushQueue_init (Some True) (Some ''mirror'') None"

lemma push_queue_mirror_witness:
  "let d1 = snd (run_pipeline mem_exec (push_cmds example_push_queue ''j1'') []) in
   ajob_ids mem_exec example_push_queue d1 = [''j1''] \<and>
   alength mem_exec example_push_queue d1 = 1"
  using push_queue_mirror[OF mem.redis_queue_axioms, of "[]" example_push_queue "[]" "''j1''"]
  by (simp add: example_push_queue_def PushQueue_init_def mview_def Let_def)

end
