(* ===== verification/Task_Queue.thy ===== *)
theory Task_Queue
  imports Push_Queue
begin

text \<open>
  \<^verbatim>\<open>kvdb/tasks/queue.py\<close> and the Lua scripts of \<^verbatim>\<open>kvdb/tasks/static.py\<close>: the key names
  of a task queue and every operation that moves a job between its keys. A job is in the list
  \<open>queued\<close>, in the list \<open>active\<close>, or waits in the sorted set \<open>incomplete\<close> for the time that is
  its score; its record is a string under its id. A script is one atomic step of the server, a
  pipeline is one transaction. Each operation reads the clock once: \<open>clock\<close> is
  \<open>time.time()\<close> in seconds. Script registration and the semaphore that bounds the
  concurrency have no effect on the state and are left out, and so is logging: that it raises for a
  function that is not registered, after the state has changed, is in \<open>Task_Registry\<close>.
\<close>

section \<open>Configuration, backend, state\<close>

record task_queue =
  queue_prefix :: string
  queue_name :: string
  job_prefix :: string
  pushq :: push_queue

text \<open>The backend: the server, and the serializer as the queue uses it on whole jobs.\<close>

record 'db backend =
  server :: "rcmd \<Rightarrow> 'db \<Rightarrow> rreply \<times> 'db"
  encode_job :: "job \<Rightarrow> string"
  decode_job :: "string \<Rightarrow> job option"

text \<open>The state an operation changes: the database, the job callbacks started in the
  background (with the job as it was then) and the commands left to background tasks.\<close>

record 'db world =
  wdb :: 'db
  callbacks :: "job list"
  background :: "rcmd list"

definition now_ms :: "rat \<Rightarrow> int" where
  "now_ms clock = \<lfloor>clock * 1000\<rfloor>"

definition run_pipe :: "'db backend \<Rightarrow> rcmd list \<Rightarrow> 'db world \<Rightarrow> 'db world" where
  "run_pipe B cs w = w\<lparr>wdb := snd (run_pipeline (server B) cs (wdb w))\<rparr>"

definition do_cmd :: "'db backend \<Rightarrow> rcmd \<Rightarrow> 'db world \<Rightarrow> 'db world" where
  "do_cmd B c w = w\<lparr>wdb := after (server B) c (wdb w)\<rparr>"

section \<open>Keys\<close>

definition create_namespace :: "task_queue \<Rightarrow> string \<Rightarrow> string" where
  "create_namespace tq ns = queue_prefix tq @ '':'' @ queue_name tq @ '':'' @ ns"

definition postfixed :: "string \<Rightarrow> string option \<Rightarrow> string" where
  "postfixed key w = (case w of None \<Rightarrow> key | Some x \<Rightarrow> key @ '':'' @ x)"

definition qkey :: "task_queue \<Rightarrow> string option \<Rightarrow> string \<Rightarrow> string" where
  "qkey tq w ns = postfixed (create_namespace tq ns) w"

definition job_id_prefix :: "task_queue \<Rightarrow> string" where
  "job_id_prefix tq = create_namespace tq (job_prefix tq)"

definition job_id :: "task_queue \<Rightarrow> string \<Rightarrow> string" where
  "job_id tq key =
     (if \<not> str_in (job_id_prefix tq) key then job_id_prefix tq @ '':'' @ key else key)"

definition ident :: "task_queue \<Rightarrow> job \<Rightarrow> string" where
  "ident tq j = job_id tq (jkey j)"

definition job_abort_id :: "task_queue \<Rightarrow> job \<Rightarrow> string" where
  "job_abort_id tq j = create_namespace tq ''abort'' @ '':'' @ jkey j"

text \<open>A job bound to a worker lives in the keys of that worker, by id before name.\<close>

definition job_postfix :: "job \<Rightarrow> string option" where
  "job_postfix j =
     (if opt_truthy (worker_id j) then worker_id j
      else if opt_truthy (worker_name j) then worker_name j
      else None)"

definition job_queued_key :: "task_queue \<Rightarrow> job \<Rightarrow> string" where
  "job_queued_key tq j = qkey tq (job_postfix j) ''queued''"

definition job_active_key :: "task_queue \<Rightarrow> job \<Rightarrow> string" where
  "job_active_key tq j = qkey tq (job_postfix j) ''active''"

definition job_incomplete_key :: "task_queue \<Rightarrow> job \<Rightarrow> string" where
  "job_incomplete_key tq j = qkey tq (job_postfix j) ''incomplete''"

lemmas job_keys = job_queued_key_def job_active_key_def job_incomplete_key_def

section \<open>Serialisation of jobs\<close>

text \<open>The record carries the queue's name; reading it back asserts that name. A missing
  record is \<open>None\<close>, which has no attribute \<open>queue_name\<close>.\<close>

definition serialize :: "'db backend \<Rightarrow> task_queue \<Rightarrow> job \<Rightarrow> rval" where
  "serialize B tq j = RStr (encode_job B (j\<lparr>job_queue_name := Some (queue_name tq)\<rparr>))"

definition deserialize :: "'db backend \<Rightarrow> task_queue \<Rightarrow> rreply \<Rightarrow> job result" where
  "deserialize B tq r =
     (case r of
        Bulk (RStr s) \<Rightarrow>
          (case decode_job B s of
             None \<Rightarrow> Inl ValueError
           | Some j \<Rightarrow> if job_queue_name j = Some (queue_name tq) then Inr j else Inl AssertionError)
      | Bulk (RInt i) \<Rightarrow> Inl ValueError
      | ErrReply \<Rightarrow> Inl (OtherError ''ResponseError'')
      | _ \<Rightarrow> Inl AttributeError)"

definition get_job_by_id :: "'db backend \<Rightarrow> task_queue \<Rightarrow> string \<Rightarrow> 'db world \<Rightarrow> job result" where
  "get_job_by_id B tq jid w = deserialize B tq (reply_of (server B) (GET jid) (wdb w))"

text \<open>\<open>job(key, raise_error)\<close>.\<close>

definition fetch_job :: "'db backend \<Rightarrow> task_queue \<Rightarrow> string \<Rightarrow> bool \<Rightarrow> 'db world \<Rightarrow> job option result" where
  "fetch_job B tq key raise_error w =
     (case get_job_by_id B tq (job_id tq key) w of
        Inr j \<Rightarrow> Inr (Some j)
      | Inl e \<Rightarrow> if raise_error then Inl e else Inr None)"

definition job_exists :: "'db backend \<Rightarrow> task_queue \<Rightarrow> string \<Rightarrow> 'db world \<Rightarrow> int" where
  "job_exists B tq key w =
     (case reply_of (server B) (EXISTS (job_id tq key)) (wdb w) of Num n \<Rightarrow> n | _ \<Rightarrow> 0)"

section \<open>The scripts\<close>

definition strs_of :: "rreply \<Rightarrow> string list" where
  "strs_of r = (case r of Strs xs \<Rightarrow> xs | _ \<Rightarrow> [])"

definition schedule_script ::
    "'db executor \<Rightarrow> string \<Rightarrow> string \<Rightarrow> string \<Rightarrow> int \<Rightarrow> rat \<Rightarrow> 'db \<Rightarrow> string list option \<times> 'db" where
  "schedule_script exec k1 k2 k3 lock limit d =
     (if reply_of exec (EXISTS k1) d = Num 0 then
        let d1 = after exec (SETEX k1 lock (RInt 1)) d;
            jobs = strs_of (reply_of exec (ZRANGEBYSCORE k2 1 limit) d1) in
        if jobs \<noteq> [] then
          let scores = map (\<lambda>v. (0, v)) jobs;
              d2 = after exec (ZADD k2 scores) d1;
              d3 = after exec (RPUSH k3 jobs) d2 in
          (Some jobs, d3)
        else (Some jobs, d1)
      else (None, d))"

definition cleanup_script ::
    "'db executor \<Rightarrow> string \<Rightarrow> string \<Rightarrow> int \<Rightarrow> 'db \<Rightarrow> string list option \<times> 'db" where
  "cleanup_script exec k1 k2 lock d =
     (if reply_of exec (EXISTS k1) d = Num 0 then
        let d1 = after exec (SETEX k1 lock (RInt 1)) d in
        (Some (strs_of (reply_of exec (LRANGE_ALL k2) d1)), d1)
      else (None, d))"

definition enqueue_script ::
    "'db executor \<Rightarrow> string \<Rightarrow> string \<Rightarrow> string \<Rightarrow> string \<Rightarrow> rval \<Rightarrow> rat \<Rightarrow> 'db \<Rightarrow> bool \<times> 'db" where
  "enqueue_script exec k1 k2 k3 k4 data score d =
     (if reply_of exec (ZSCORE k1 k2) d = Nil \<and> reply_of exec (EXISTS k4) d = Num 0 then
        let d1 = after exec (SET k2 data) d;
            d2 = after exec (ZADD k1 [(score, k2)]) d1;
            d3 = if score = 0 then after exec (RPUSH k3 [k2]) d2 else d2 in
        (True, d3)
      else (False, d))"

section \<open>Operations\<close>

definition schedule ::
    "'db backend \<Rightarrow> task_queue \<Rightarrow> int \<Rightarrow> string option \<Rightarrow> rat \<Rightarrow> 'db world \<Rightarrow> string list option \<times> 'db world" where
  "schedule B tq lock wid clock w =
     (let (jobs, d) = schedule_script (server B) (qkey tq wid ''scheduled'') (qkey tq wid ''incomplete'')
                        (qkey tq wid ''queued'') lock (seconds (now_ms clock)) (wdb w) in
      (jobs, w\<lparr>wdb := d\<rparr>))"

text \<open>\<open>notify\<close> publishes the status and starts the job's callback in the background, which
  runs only for a job that ended.\<close>

definition notify :: "'db backend \<Rightarrow> task_queue \<Rightarrow> job \<Rightarrow> 'db world \<Rightarrow> 'db world" where
  "notify B tq j w =
     (let w1 = do_cmd B (PUBLISH (ident tq j) (status_value (status j))) w in
      if runs_job_callback j then w1\<lparr>callbacks := callbacks w1 @ [j]\<rparr> else w1)"

definition update_job ::
    "'db backend \<Rightarrow> task_queue \<Rightarrow> rat \<Rightarrow> job \<Rightarrow> 'db world \<Rightarrow> job \<times> 'db world" where
  "update_job B tq clock j w =
     (let j1 = j\<lparr>touched := now_ms clock\<rparr> in
      (j1, notify B tq j1 (do_cmd B (SET (ident tq j1) (serialize B tq j1)) w)))"

text \<open>A pipeline extended by the push queue. The id given is never empty, so neither
  operation raises (\<open>ident_nonempty\<close>).\<close>

definition piped :: "(rcmd list \<times> rcmd list) result \<Rightarrow> rcmd list" where
  "piped r = (case r of Inr (p, b) \<Rightarrow> p | Inl e \<Rightarrow> [])"

definition in_background :: "(rcmd list \<times> rcmd list) result \<Rightarrow> rcmd list" where
  "in_background r = (case r of Inr (p, b) \<Rightarrow> b | Inl e \<Rightarrow> [])"

definition finish ::
    "'db backend \<Rightarrow> task_queue \<Rightarrow> rat \<Rightarrow> job_status \<Rightarrow> pyval \<Rightarrow> pyval \<Rightarrow> job \<Rightarrow> 'db world \<Rightarrow> job \<times> 'db world" where
  "finish B tq clock st res err j w =
     (let jid = ident tq j;
          j1 = complete (now_ms clock) st res err j;
          pipe = [LREM (job_active_key tq j1) 1 jid, ZREM (job_incomplete_key tq j1) jid];
          pipe = pipe @ (if ttl j1 > 0 then [SETEX jid (ttl j1) (serialize B tq j1)]
                         else if ttl j1 = 0 then [SET jid (serialize B tq j1)]
                         else [DEL [jid]]);
          pipe = piped (pq_remove (pushq tq) (Some jid) None (Some pipe)) in
      (j1, notify B tq j1 (run_pipe B pipe w)))"

definition abort ::
    "'db backend \<Rightarrow> task_queue \<Rightarrow> rat \<Rightarrow> string \<Rightarrow> int \<Rightarrow> job \<Rightarrow> 'db world \<Rightarrow> job \<times> 'db world" where
  "abort B tq clock err tt j w =
     (let jid = ident tq j;
          pipe = [LREM (job_queued_key tq j) 0 jid, ZREM (job_incomplete_key tq j) jid,
                  EXPIRE jid (tt + 1), SETEX (job_abort_id tq j) tt (RStr err)];
          (replies, d) = run_pipeline (server B) pipe (wdb w);
          w1 = w\<lparr>wdb := d\<rparr>;
          dequeued = (case hd replies of Num n \<Rightarrow> n \<noteq> 0 | _ \<Rightarrow> False);
          (j2, w2) = (if dequeued then
                        let (j', w') = finish B tq clock ABORTED PNone (PStr err) j w1 in
                        (j', do_cmd B (DEL [job_abort_id tq j]) w')
                      else (j, do_cmd B (LREM (job_active_key tq j) 0 jid) w1)) in
      (j2, w2\<lparr>background := background w2 @ in_background (pq_remove (pushq tq) (Some jid) None None)\<rparr>))"

definition retry ::
    "'db backend \<Rightarrow> task_queue \<Rightarrow> rat \<Rightarrow> rat \<Rightarrow> pyval \<Rightarrow> job \<Rightarrow> 'db world \<Rightarrow> job \<times> 'db world" where
  "retry B tq clock rnd err j w =
     (let jid = ident tq j;
          j1 = reset (now_ms clock) QUEUED err j;
          delay = next_retry_delay rnd j1;
          pipe = [LREM (job_active_key tq j1) 1 jid, LREM (job_queued_key tq j1) 1 jid];
          pipe = pipe @ (if delay \<noteq> 0
                         then [ZADD (job_incomplete_key tq j1) [(clock + delay, jid)]]
                         else [ZADD (job_incomplete_key tq j1) [(scheduled j1, jid)],
                               RPUSH (job_queued_key tq j1) [jid]]);
          w1 = w\<lparr>background := background w @ in_background (push (pushq tq) (Some jid) None None)\<rparr>;
          w2 = run_pipe B (pipe @ [SET jid (serialize B tq j1)]) w1 in
      (j1, notify B tq j1 w2))"

definition reschedule ::
    "'db backend \<Rightarrow> task_queue \<Rightarrow> rat \<Rightarrow> rat \<Rightarrow> pyval \<Rightarrow> job \<Rightarrow> 'db world \<Rightarrow> job \<times> 'db world" where
  "reschedule B tq clock wait_time err j w =
     (let jid = ident tq j;
          (j1, w1) = finish B tq clock RESCHEDULED PNone err j w;
          j2 = reset (now_ms clock) QUEUED err j1;
          pipe = [LREM (job_active_key tq j2) 1 jid, LREM (job_queued_key tq j2) 1 jid,
                  ZADD (job_incomplete_key tq j2) [(clock + wait_time, jid)]];
          pipe = piped (push (pushq tq) (Some jid) None (Some pipe));
          w2 = run_pipe B (pipe @ [SET jid (serialize B tq j2)]) w1 in
      (j2, notify B tq j2 w2))"

definition reschedule_v1 ::
    "'db backend \<Rightarrow> task_queue \<Rightarrow> rat \<Rightarrow> rat \<Rightarrow> pyval \<Rightarrow> job \<Rightarrow> 'db world \<Rightarrow> job \<times> 'db world" where
  "reschedule_v1 B tq clock wait_time err j w =
     (let (j1, w1) = finish B tq clock RESCHEDULED PNone err j w;
          j2 = j1\<lparr>scheduled := of_int (now_ms clock) + wait_time\<rparr>;
          jid = ident tq j2;
          pipe = [LREM (job_active_key tq j2) 1 jid, ZREM (job_incomplete_key tq j2) jid,
                  ZADD (job_incomplete_key tq j2) [(scheduled j2, jid)],
                  RPUSH (job_queued_key tq j2) [jid]];
          pipe = piped (push (pushq tq) (Some jid) None (Some pipe));
          w2 = run_pipe B (pipe @ [SET jid (serialize B tq j2)]) w1 in
      (j2, notify B tq j2 w2))"

text \<open>\<open>enqueue\<close> of a created job; \<open>before\<close> are the registered callbacks, which may change it.\<close>

definition before_enqueue :: "(job \<Rightarrow> job) list \<Rightarrow> rat \<Rightarrow> job \<Rightarrow> job" where
  "before_enqueue before clock j =
     fold (\<lambda>cb. cb) before (j\<lparr>queued := now_ms clock, status := QUEUED\<rparr>)"

definition enqueue ::
    "'db backend \<Rightarrow> task_queue \<Rightarrow> (job \<Rightarrow> job) list \<Rightarrow> rat \<Rightarrow> bool \<Rightarrow> job \<Rightarrow> 'db world
     \<Rightarrow> job option result \<times> 'db world" where
  "enqueue B tq before clock return_existing_job j w =
     (let j2 = before_enqueue before clock j;
          (ok, d) = enqueue_script (server B) (job_incomplete_key tq j2) (ident tq j2)
                      (job_queued_key tq j2) (job_abort_id tq j2) (serialize B tq j2) (scheduled j2) (wdb w);
          w1 = w\<lparr>wdb := d\<rparr> in
      if ok then (Inr (Some j2), w1)
      else if return_existing_job then (fetch_job B tq (ident tq j2) True w1, w1)
      else (Inr None, w1))"

section \<open>Dequeuing\<close>

datatype dequeued_id = NoJob | DequeueError | GotJob string

text \<open>\<open>dequeue_job_id\<close>: the blocking move from the right of \<open>queued\<close> to the left of
  \<open>active\<close>. A list that stays empty until the timeout gives no id; an error reply stands for
  the connection errors that are caught.\<close>

definition dequeue_job_id ::
    "'db backend \<Rightarrow> task_queue \<Rightarrow> string option \<Rightarrow> 'db world \<Rightarrow> dequeued_id \<times> 'db world" where
  "dequeue_job_id B tq postfix w =
     (let p = (if opt_truthy postfix then postfix else None);
          c = LMOVE (qkey tq p ''queued'') (qkey tq p ''active'') RIGHT LEFT;
          r = (case reply_of (server B) c (wdb w) of
                 Bulk (RStr s) \<Rightarrow> GotJob s | Nil \<Rightarrow> NoJob | _ \<Rightarrow> DequeueError) in
      (r, do_cmd B c w))"

definition dequeue ::
    "'db backend \<Rightarrow> task_queue \<Rightarrow> string option \<Rightarrow> string option \<Rightarrow> 'db world \<Rightarrow> job option result \<times> 'db world" where
  "dequeue B tq wid wname w =
     (let (r0, w0) = (if wid = None \<and> wname = None then dequeue_job_id B tq None w else (NoJob, w));
          (r1, w1) = (if r0 = NoJob \<and> opt_truthy wid then dequeue_job_id B tq wid w0 else (r0, w0));
          (r2, w2) = (if r1 = NoJob \<and> opt_truthy wname then dequeue_job_id B tq wname w1 else (r1, w1)) in
      case r2 of
        DequeueError \<Rightarrow> (Inr None, w2)
      | GotJob jid \<Rightarrow> (bindR (get_job_by_id B tq jid w2) (\<lambda>j. Inr (Some j)), w2)
      | NoJob \<Rightarrow> (Inr None, w2))"

section \<open>Sweeping\<close>

definition sweep_missing :: "'db backend \<Rightarrow> task_queue \<Rightarrow> string \<Rightarrow> string \<Rightarrow> string \<Rightarrow> 'db world \<Rightarrow> 'db world" where
  "sweep_missing B tq active incomplete jid w =
     run_pipe B (piped (pq_remove (pushq tq) (Some jid) None
                   (Some [LREM active 0 jid, ZREM incomplete jid]))) w"

definition sweepable :: "int \<Rightarrow> job \<Rightarrow> bool" where
  "sweepable now j \<longleftrightarrow> status j \<notin> INCOMPLETE_JOB_STATUSES \<or> stuck now j"

text \<open>One id of the active list with the data that \<open>MGET\<close> returned for it.\<close>

definition sweep_one ::
    "'db backend \<Rightarrow> task_queue \<Rightarrow> rat \<Rightarrow> string \<Rightarrow> string \<Rightarrow> string \<times> rval option
     \<Rightarrow> string list \<times> 'db world \<Rightarrow> string list \<times> 'db world" where
  "sweep_one B tq clock active incomplete idv acc =
     (let (jid, data) = idv; (swept, w) = acc in
      case deserialize B tq (case data of None \<Rightarrow> Nil | Some v \<Rightarrow> Bulk v) of
        Inl e \<Rightarrow> (swept @ [jid], sweep_missing B tq active incomplete jid w)
      | Inr j \<Rightarrow>
          if sweepable (now_ms clock) j
          then (swept @ [jid], snd (finish B tq clock ABORTED PNone (PStr ''swept'') j w))
          else (swept, w))"

definition sweep ::
    "'db backend \<Rightarrow> task_queue \<Rightarrow> int \<Rightarrow> string option \<Rightarrow> rat \<Rightarrow> 'db world \<Rightarrow> string list \<times> 'db world" where
  "sweep B tq lock wid clock w =
     (let active = qkey tq wid ''active''; incomplete = qkey tq wid ''incomplete'';
          (ids, d) = cleanup_script (server B) (qkey tq wid ''sweep'') active lock (wdb w);
          w1 = w\<lparr>wdb := d\<rparr>;
          job_ids = (case ids of None \<Rightarrow> [] | Some xs \<Rightarrow> xs) in
      if job_ids = [] then ([], w1)
      else
        let data = (case reply_of (server B) (MGET job_ids) (wdb w1) of Multi vs \<Rightarrow> vs | _ \<Rightarrow> []);
            w2 = do_cmd B (MGET job_ids) w1 in
        fold (sweep_one B tq clock active incomplete) (zip job_ids data) ([], w2))"

text \<open>\<open>sweep_job\<close>: any failure is logged and swallowed.\<close>

definition sweep_job :: "'db backend \<Rightarrow> task_queue \<Rightarrow> rat \<Rightarrow> string \<Rightarrow> 'db world \<Rightarrow> 'db world" where
  "sweep_job B tq clock jid w =
     (case get_job_by_id B tq jid w of
        Inl e \<Rightarrow> w
      | Inr j \<Rightarrow>
          let w1 = (if sweepable (now_ms clock) j
                    then snd (finish B tq clock ABORTED PNone (PStr ''swept'') j w) else w) in
          sweep_missing B tq (qkey tq None ''active'') (qkey tq None ''incomplete'') jid w1)"

section \<open>Stuck jobs\<close>

text \<open>\<open>check_stuck_jobs\<close> walks over the ids the server lists, with the type and the remaining
  time to live that the server reports for each.\<close>

definition check_stuck_job ::
    "'db backend \<Rightarrow> task_queue \<Rightarrow> string \<times> string \<times> int \<Rightarrow> string list \<times> 'db world \<Rightarrow> string list \<times> 'db world" where
  "check_stuck_job B tq info acc =
     (let (jid, key_type, remaining) = info; (ids, w) = acc in
      if key_type \<noteq> ''string'' then (ids, w)
      else if remaining > 0 then (ids, w)
      else case get_job_by_id B tq jid w of
        Inl e \<Rightarrow> (ids, w)
      | Inr j \<Rightarrow>
          if scheduled j > 0 \<or> str_in ''cronjob'' (ident tq j) \<or> status j = ACTIVE then (ids, w)
          else
            let stuck_key = create_namespace tq ''stuck'';
                known = (reply_of (server B) (SADD stuck_key jid) (wdb w) = Num 0);
                w1 = do_cmd B (SADD stuck_key jid) w in
            if \<not> known then (ids, w1)
            else
              let w2 = run_pipe B
                    [LREM (job_active_key tq j) 1 jid, LPUSH (job_queued_key tq j) [jid],
                     ZREM (job_incomplete_key tq j) (ident tq j),
                     ZADD (job_incomplete_key tq j) [(scheduled j, ident tq j)]] w1;
                  w3 = do_cmd B (SREM stuck_key jid) w2 in
              (ids @ [jid], w3))"

definition check_stuck_jobs ::
    "'db backend \<Rightarrow> task_queue \<Rightarrow> (string \<times> string \<times> int) list \<Rightarrow> 'db world \<Rightarrow> string list \<times> 'db world" where
  "check_stuck_jobs B tq infos w = fold (check_stuck_job B tq) infos ([], w)"

section \<open>Counting and listing\<close>

text \<open>\<open>count\<close>: the command sent for each kind. The server's \<open>ZCOUNT\<close> and \<open>ZCARD\<close> are
  written as the range they count.\<close>

datatype count_cmd = LLen string | ZCountFrom1 string | ZCard string

definition count_query :: "task_queue \<Rightarrow> string \<Rightarrow> string option \<Rightarrow> count_cmd result" where
  "count_query tq kind postfix =
     (let p = (if opt_truthy postfix then postfix else None) in
      if kind = ''queued'' then Inr (LLen (qkey tq p ''queued''))
      else if kind = ''active'' then Inr (LLen (qkey tq p ''active''))
      else if kind = ''scheduled'' then Inr (ZCountFrom1 (qkey tq p ''scheduled''))
      else if kind = ''incomplete'' then Inr (ZCard (qkey tq p ''incomplete''))
      else Inl ValueError)"

definition retrieve_all_job_ids ::
    "'db backend \<Rightarrow> task_queue \<Rightarrow> bool \<Rightarrow> bool \<Rightarrow> (string \<Rightarrow> string list) \<Rightarrow> 'db world \<Rightarrow> string set" where
  "retrieve_all_job_ids B tq include_active include_incomplete all_members w =
     (if include_active then set (strs_of (reply_of (server B) (LRANGE_ALL (qkey tq None ''active'')) (wdb w))) else {})
     \<union> (if include_incomplete then set (all_members (qkey tq None ''incomplete'')) else {})"

section \<open>Logging length, session handles\<close>

text \<open>\<open>isinstance(x, int)\<close> holds of booleans too.\<close>

definition logging_max_length :: "pyval \<Rightarrow> pyval" where
  "logging_max_length truncate_logs =
     (case truncate_logs of
        PInt n \<Rightarrow> PInt n
      | PBool b \<Rightarrow> PBool b
      | _ \<Rightarrow> PInt 2000)"

text \<open>\<open>ctx\<close> and \<open>raw_ctx\<close>: both properties test and fill the same attribute \<open>_ctx\<close>.\<close>

datatype session = QueueSession | RawSession

record session_slots =
  ctx_slot :: "session option"
  raw_ctx_slot :: "session option"

definition get_ctx :: "session_slots \<Rightarrow> session \<times> session_slots" where
  "get_ctx s = (case ctx_slot s of
     None \<Rightarrow> (QueueSession, s\<lparr>ctx_slot := Some QueueSession\<rparr>) | Some x \<Rightarrow> (x, s))"

definition get_raw_ctx :: "session_slots \<Rightarrow> session \<times> session_slots" where
  "get_raw_ctx s = (case ctx_slot s of
     None \<Rightarrow> (RawSession, s\<lparr>ctx_slot := Some RawSession\<rparr>) | Some x \<Rightarrow> (x, s))"

section \<open>Key lemmas\<close>

lemma create_namespace_eq [simp]: "create_namespace tq a = create_namespace tq b \<longleftrightarrow> a = b"
  by (simp add: create_namespace_def)

lemma qkey_eq [simp]: "qkey tq w a = qkey tq w b \<longleftrightarrow> a = b"
  by (cases w) (simp_all add: qkey_def postfixed_def create_namespace_def)

lemma ident_nonempty [simp]: "ident tq j \<noteq> []"
proof -
  have "job_id_prefix tq \<noteq> []" by (simp add: job_id_prefix_def create_namespace_def)
  then show ?thesis by (auto simp: ident_def job_id_def)
qed

lemma job_id_idem [simp]: "job_id tq (job_id tq k) = job_id tq k"
  by (auto simp: job_id_def)

text \<open>What an operation changes of a job leaves its place: key, worker binding and queue.\<close>

lemma place_complete [simp]:
  "ident tq (complete n st r e j) = ident tq j" "job_postfix (complete n st r e j) = job_postfix j"
  "job_abort_id tq (complete n st r e j) = job_abort_id tq j" "ttl (complete n st r e j) = ttl j"
  "status (complete n st r e j) = st" "scheduled (complete n st r e j) = scheduled j"
  by (simp_all add: complete_def ident_def job_postfix_def job_abort_id_def)

lemma place_reset [simp]:
  "ident tq (reset n st e j) = ident tq j" "job_postfix (reset n st e j) = job_postfix j"
  "job_abort_id tq (reset n st e j) = job_abort_id tq j" "ttl (reset n st e j) = ttl j"
  "status (reset n st e j) = st" "scheduled (reset n st e j) = scheduled j"
  "attempts (reset n st e j) = attempts j" "retry_delay (reset n st e j) = retry_delay j"
  "retry_backoff (reset n st e j) = retry_backoff j"
  by (simp_all add: reset_def ident_def job_postfix_def job_abort_id_def)

lemma piped_Inr [simp]: "piped (Inr (p, b)) = p" "in_background (Inr (p, b)) = b"
  by (simp_all add: piped_def in_background_def)

end
