(* ===== verification/Queue_Refinement.thy ===== *)
theory Queue_Refinement
  imports Task_Queue
begin

text \<open>
  What a task queue promises, as an abstract state of three fields, and the proof that the
  operations of \<open>Task_Queue\<close> implement it on any server that obeys the laws of
  \<open>redis_queue\<close>. The second half is the life cycle of the jobs as a step relation over the
  concrete operations, with the invariant that holds in every reachable state: no id is
  queued or active twice, and the ids that are queued or active are exactly the incomplete
  ones that are due (score 0).
\<close>

section \<open>The abstract queue\<close>

record jobq =
  waiting :: "string list"
  running :: "string list"
  pending :: "string \<Rightarrow> rat option"

definition a_enqueue :: "string \<Rightarrow> rat \<Rightarrow> jobq \<Rightarrow> jobq" where
  "a_enqueue i score s =
     s\<lparr>pending := (pending s)(i \<mapsto> score),
       waiting := (if score = 0 then waiting s @ [i] else waiting s)\<rparr>"

definition a_dequeue :: "jobq \<Rightarrow> jobq" where
  "a_dequeue s =
     (if waiting s = [] then s
      else s\<lparr>waiting := butlast (waiting s), running := last (waiting s) # running s\<rparr>)"

definition a_finish :: "string \<Rightarrow> jobq \<Rightarrow> jobq" where
  "a_finish i s = s\<lparr>running := remove1 i (running s), pending := (pending s)(i := None)\<rparr>"

definition a_drop :: "string \<Rightarrow> jobq \<Rightarrow> jobq" where
  "a_drop i s = s\<lparr>running := removeAll i (running s), pending := (pending s)(i := None)\<rparr>"

definition a_abort :: "string \<Rightarrow> jobq \<Rightarrow> jobq" where
  "a_abort i s =
     (if i \<in> set (waiting s)
      then a_finish i (s\<lparr>waiting := removeAll i (waiting s)\<rparr>)
      else a_drop i s)"

definition a_delay :: "string \<Rightarrow> rat \<Rightarrow> jobq \<Rightarrow> jobq" where
  "a_delay i score s =
     s\<lparr>running := remove1 i (running s), waiting := remove1 i (waiting s),
       pending := (pending s)(i \<mapsto> score)\<rparr>"

definition a_requeue :: "string \<Rightarrow> rat \<Rightarrow> jobq \<Rightarrow> jobq" where
  "a_requeue i score s =
     s\<lparr>running := remove1 i (running s), waiting := remove1 i (waiting s) @ [i],
       pending := (pending s)(i \<mapsto> score)\<rparr>"

definition a_schedule :: "string list \<Rightarrow> jobq \<Rightarrow> jobq" where
  "a_schedule is s =
     s\<lparr>waiting := waiting s @ is, pending := (\<lambda>m. if m \<in> set is then Some 0 else pending s m)\<rparr>"

definition a_unstick :: "string \<Rightarrow> rat \<Rightarrow> jobq \<Rightarrow> jobq" where
  "a_unstick i score s =
     s\<lparr>running := remove1 i (running s), waiting := i # waiting s, pending := (pending s)(i \<mapsto> score)\<rparr>"

definition due :: "rat \<Rightarrow> jobq \<Rightarrow> string set" where
  "due limit s = {m. \<exists>x. pending s m = Some x \<and> 1 \<le> x \<and> x \<le> limit}"

text \<open>The abstraction function reads the three keys.\<close>

definition jobq_of :: "('db \<Rightarrow> string \<Rightarrow> robj option) \<Rightarrow> task_queue \<Rightarrow> string option \<Rightarrow> 'db \<Rightarrow> jobq option" where
  "jobq_of view tq p d =
     (case as_list (view d (qkey tq p ''queued'')) of
        None \<Rightarrow> None
      | Some q \<Rightarrow>
          (case as_list (view d (qkey tq p ''active'')) of
             None \<Rightarrow> None
           | Some a \<Rightarrow>
               (case as_zset (view d (qkey tq p ''incomplete'')) of
                  None \<Rightarrow> None
                | Some z \<Rightarrow> Some \<lparr>waiting = q, running = a, pending = z\<rparr>)))"

lemma jobq_of_Some:
  "jobq_of view tq p d = Some s \<longleftrightarrow>
   as_list (view d (qkey tq p ''queued'')) = Some (waiting s) \<and>
   as_list (view d (qkey tq p ''active'')) = Some (running s) \<and>
   as_zset (view d (qkey tq p ''incomplete'')) = Some (pending s)"
  by (auto simp: jobq_of_def split: option.splits)

definition queue_keys :: "task_queue \<Rightarrow> string option \<Rightarrow> string set" where
  "queue_keys tq p = {qkey tq p ''queued'', qkey tq p ''active'', qkey tq p ''incomplete''}"

lemma service_keys_not_queue_keys [simp]:
  "qkey tq p ''scheduled'' \<notin> queue_keys tq p" "qkey tq p ''sweep'' \<notin> queue_keys tq p"
  by (simp_all add: queue_keys_def)

text \<open>The keys of a job that are not keys of the queue: its record, its abort marker and the
  mirror of the push queue. Ids and names chosen by the user can break this, so it is a
  hypothesis.\<close>

definition separate :: "task_queue \<Rightarrow> job \<Rightarrow> bool" where
  "separate tq j \<longleftrightarrow>
     ident tq j \<notin> queue_keys tq (job_postfix j) \<and>
     job_abort_id tq j \<notin> queue_keys tq (job_postfix j) \<and>
     job_abort_id tq j \<noteq> ident tq j \<and>
     (pq_enabled (pushq tq) \<longrightarrow> queue_key (pushq tq) \<noteq> ident tq j \<and> queue_key (pushq tq) \<notin> queue_keys tq (job_postfix j))"

lemma separate_complete [simp]: "separate tq (complete n st r e j) = separate tq j"
  by (simp add: separate_def)

lemma separate_reset [simp]: "separate tq (reset n st e j) = separate tq j"
  by (simp add: separate_def)

section \<open>The commands on the abstract queue\<close>

context redis_queue
begin

abbreviation Q :: "task_queue \<Rightarrow> string option \<Rightarrow> 'a \<Rightarrow> jobq option" where
  "Q \<equiv> jobq_of view"

lemma jobq_neutral:
  assumes "written_keys c \<inter> queue_keys tq p = {}"
  shows "Q tq p (after exec c d) = Q tq p d"
proof -
  have same: "view (after exec c d) k = view d k" if "k \<in> queue_keys tq p" for k
    using assms that by (intro write_frame) blast
  show ?thesis unfolding jobq_of_def by (simp add: same queue_keys_def cong: option.case_cong)
qed

lemma jobq_neutral_pipeline:
  assumes "\<Union> (written_keys ` set cs) \<inter> queue_keys tq p = {}"
  shows "Q tq p (snd (run_pipeline exec cs d)) = Q tq p d"
  using assms
proof (induction cs arbitrary: d)
  case (Cons c cs)
  then have "Q tq p (snd (run_pipeline exec cs (after exec c d))) = Q tq p (after exec c d)"
    by (auto simp: Int_Un_distrib2)
  then show ?case using Cons.prems jobq_neutral[of c tq p d] by auto
qed simp

lemma jobq_push_cmds:
  "pq_enabled pq \<longrightarrow> queue_key pq \<notin> queue_keys tq p \<Longrightarrow>
   Q tq p (snd (run_pipeline exec (push_cmds pq i) d)) = Q tq p d"
  by (rule jobq_neutral_pipeline) auto

lemma jobq_unpush_cmds:
  "pq_enabled pq \<longrightarrow> queue_key pq \<notin> queue_keys tq p \<Longrightarrow>
   Q tq p (snd (run_pipeline exec (unpush_cmds pq i) d)) = Q tq p d"
  by (rule jobq_neutral_pipeline) auto

lemma jobq_lrem_active:
  "Q tq p d = Some s \<Longrightarrow>
   Q tq p (after exec (LREM (qkey tq p ''active'') n i) d) = Some (s\<lparr>running := lremove n i (running s)\<rparr>)"
  by (simp add: jobq_of_Some lrem_effect write_frame)

lemma jobq_lrem_queued:
  "Q tq p d = Some s \<Longrightarrow>
   Q tq p (after exec (LREM (qkey tq p ''queued'') n i) d) = Some (s\<lparr>waiting := lremove n i (waiting s)\<rparr>)"
  by (simp add: jobq_of_Some lrem_effect write_frame)

lemma jobq_rpush_queued:
  "Q tq p d = Some s \<Longrightarrow> is \<noteq> [] \<Longrightarrow>
   Q tq p (after exec (RPUSH (qkey tq p ''queued'') is) d) = Some (s\<lparr>waiting := waiting s @ is\<rparr>)"
  by (simp add: jobq_of_Some rpush_effect write_frame)

lemma jobq_lpush_queued:
  "Q tq p d = Some s \<Longrightarrow>
   Q tq p (after exec (LPUSH (qkey tq p ''queued'') [i]) d) = Some (s\<lparr>waiting := i # waiting s\<rparr>)"
  by (simp add: jobq_of_Some lpush_effect write_frame)

lemma jobq_zrem:
  "Q tq p d = Some s \<Longrightarrow>
   Q tq p (after exec (ZREM (qkey tq p ''incomplete'') i) d) = Some (s\<lparr>pending := (pending s)(i := None)\<rparr>)"
  by (simp add: jobq_of_Some zrem_effect write_frame)

lemma jobq_zadd:
  "Q tq p d = Some s \<Longrightarrow>
   Q tq p (after exec (ZADD (qkey tq p ''incomplete'') ps) d) = Some (s\<lparr>pending := zadd_all ps (pending s)\<rparr>)"
  by (simp add: jobq_of_Some zadd_effect write_frame)

lemma jobq_lmove:
  "Q tq p d = Some s \<Longrightarrow> waiting s \<noteq> [] \<Longrightarrow>
   Q tq p (after exec (LMOVE (qkey tq p ''queued'') (qkey tq p ''active'') RIGHT LEFT) d) = Some (a_dequeue s)"
  using lmove_effect[of d "qkey tq p ''queued''" "waiting s" "qkey tq p ''active''" "running s" RIGHT LEFT]
  by (simp add: jobq_of_Some write_frame a_dequeue_def)

lemmas jobq_cmds = jobq_lrem_active jobq_lrem_queued jobq_rpush_queued jobq_lpush_queued
  jobq_zrem jobq_zadd jobq_neutral

lemma snd_pipeline_append:
  "snd (run_pipeline exec (cs @ ds) d) = snd (run_pipeline exec ds (snd (run_pipeline exec cs d)))"
  by (induction cs arbitrary: d) simp_all

lemma jobq_notify:
  "server B = exec \<Longrightarrow> Q tq p (wdb (notify B tq' j w)) = Q tq p (wdb w)"
  by (simp add: notify_def do_cmd_def Let_def jobq_neutral)

section \<open>The operations refine the abstract queue\<close>

lemma finish_refines:
  assumes B: "server B = exec" and Q: "Q tq (job_postfix j) (wdb w) = Some s" and sep: "separate tq j"
  shows "Q tq (job_postfix j) (wdb (snd (finish B tq clock st r e j w))) = Some (a_finish (ident tq j) s)"
  using assms
  by (auto simp: finish_def Let_def jobq_notify[OF B] run_pipe_def job_keys snd_pipeline_append
      jobq_unpush_cmds separate_def jobq_cmds a_finish_def)

lemma retry_refines:
  assumes B: "server B = exec" and Q: "Q tq (job_postfix j) (wdb w) = Some s" and sep: "separate tq j"
  shows "Q tq (job_postfix j) (wdb (snd (retry B tq clock rnd e j w))) =
    Some (let delay = next_retry_delay rnd (reset (now_ms clock) QUEUED e j) in
          if delay \<noteq> 0 then a_delay (ident tq j) (clock + delay) s
          else a_requeue (ident tq j) (scheduled j) s)"
  using assms
  by (auto simp: retry_def Let_def jobq_notify[OF B] run_pipe_def job_keys snd_pipeline_append
      separate_def jobq_cmds a_delay_def a_requeue_def)

lemma reschedule_refines:
  assumes B: "server B = exec" and Q: "Q tq (job_postfix j) (wdb w) = Some s" and sep: "separate tq j"
  shows "Q tq (job_postfix j) (wdb (snd (reschedule B tq clock wait e j w))) =
    Some (a_delay (ident tq j) (clock + wait) (a_finish (ident tq j) s))"
proof -
  obtain j1 w1 where f: "finish B tq clock RESCHEDULED PNone e j w = (j1, w1)" by fastforce
  then have j1: "j1 = complete (now_ms clock) RESCHEDULED PNone e j"
    by (auto simp: finish_def Let_def)
  have Q1: "Q tq (job_postfix j) (wdb w1) = Some (a_finish (ident tq j) s)"
    using finish_refines[OF B Q sep, of clock RESCHEDULED PNone e] by (simp add: f)
  show ?thesis
    using B sep Q1
    by (auto simp: reschedule_def f j1 Let_def jobq_notify[OF B] run_pipe_def job_keys snd_pipeline_append
        jobq_push_cmds separate_def jobq_cmds a_delay_def)
qed

lemma length_removeAll_less: "x \<in> set xs \<Longrightarrow> length (removeAll x xs) < length xs"
  by (induction xs) (auto simp: less_Suc_eq_le length_removeAll_less_eq)

lemma abort_refines:
  assumes B: "server B = exec" and Q: "Q tq (job_postfix j) (wdb w) = Some s" and sep: "separate tq j"
  shows "Q tq (job_postfix j) (wdb (snd (abort B tq clock e tt j w))) = Some (a_abort (ident tq j) s)"
proof -
  let ?i = "ident tq j"
  let ?pipe = "[LREM (job_queued_key tq j) 0 ?i, ZREM (job_incomplete_key tq j) ?i,
                EXPIRE ?i (tt + 1), SETEX (job_abort_id tq j) tt (RStr e)]"
  let ?w1 = "w\<lparr>wdb := snd (run_pipeline exec ?pipe (wdb w))\<rparr>"
  let ?s1 = "s\<lparr>waiting := removeAll ?i (waiting s), pending := (pending s)(?i := None)\<rparr>"
  have Q1: "Q tq (job_postfix j) (wdb ?w1) = Some ?s1"
    using sep Q by (auto simp: job_keys separate_def jobq_cmds)
  have rep: "fst (run_pipeline exec ?pipe (wdb w)) \<noteq> [] \<and>
     hd (fst (run_pipeline exec ?pipe (wdb w))) = Num (int (length (waiting s) - length (removeAll ?i (waiting s))))"
    using Q by (simp add: jobq_of_Some job_keys lrem_reply)
  show ?thesis
  proof (cases "?i \<in> set (waiting s)")
    case True
    then have n: "length (waiting s) - length (removeAll ?i (waiting s)) \<noteq> 0"
      using length_removeAll_less by fastforce
    show ?thesis
      using sep True n rep finish_refines[OF B Q1 sep, of clock ABORTED PNone "PStr e"]
      by (simp add: B abort_def Let_def case_prod_unfold jobq_neutral separate_def do_cmd_def a_abort_def a_finish_def)
  next
    case False
    then have n: "length (waiting s) - length (removeAll ?i (waiting s)) = 0" by simp
    show ?thesis
      using sep False n rep Q1
      by (simp add: B abort_def Let_def case_prod_unfold do_cmd_def job_keys jobq_lrem_active a_abort_def a_drop_def)
  qed
qed

lemma enqueue_refines:
  assumes B: "server B = exec" and j2: "j2 = before_enqueue before clock j"
    and Q: "Q tq (job_postfix j2) (wdb w) = Some s" and sep: "separate tq j2"
  shows "let accepted = (pending s (ident tq j2) = None \<and> view (wdb w) (job_abort_id tq j2) = None);
             (r, w') = enqueue B tq before clock ret j w in
    Q tq (job_postfix j2) (wdb w') = Some (if accepted then a_enqueue (ident tq j2) (scheduled j2) s else s) \<and>
    (accepted \<longrightarrow> r = Inr (Some j2)) \<and> (\<not> accepted \<longrightarrow> \<not> ret \<longrightarrow> r = Inr None)"
proof -
  have score: "(reply_of exec (ZSCORE (qkey tq (job_postfix j2) ''incomplete'') (ident tq j2)) (wdb w) = Nil) =
     (pending s (ident tq j2) = None)"
    using Q zscore_reply by (simp add: jobq_of_Some)
  have ex: "(reply_of exec (EXISTS (job_abort_id tq j2)) (wdb w) = Num 0) =
     (view (wdb w) (job_abort_id tq j2) = None)"
    by (simp add: exists_reply)
  have eff: "Q tq (job_postfix j2) (snd (enqueue_script exec (job_incomplete_key tq j2) (ident tq j2)
       (job_queued_key tq j2) (job_abort_id tq j2) v (scheduled j2) (wdb w))) =
     Some (if pending s (ident tq j2) = None \<and> view (wdb w) (job_abort_id tq j2) = None
           then a_enqueue (ident tq j2) (scheduled j2) s else s)" for v
    using Q sep
    by (simp add: enqueue_script_def score ex Let_def job_keys separate_def jobq_cmds a_enqueue_def)
  have ok: "fst (enqueue_script exec (job_incomplete_key tq j2) (ident tq j2)
       (job_queued_key tq j2) (job_abort_id tq j2) v (scheduled j2) (wdb w)) =
     (pending s (ident tq j2) = None \<and> view (wdb w) (job_abort_id tq j2) = None)" for v
    by (simp add: enqueue_script_def score ex Let_def job_keys)
  show ?thesis
    by (simp add: enqueue_def Let_def case_prod_unfold B eff ok flip: j2)
qed

lemma dequeue_id_refines:
  assumes B: "server B = exec" and p: "p \<noteq> Some []" and Q: "Q tq p (wdb w) = Some s"
  shows "Q tq p (wdb (snd (dequeue_job_id B tq p w))) = Some (a_dequeue s) \<and>
    fst (dequeue_job_id B tq p w) = (if waiting s = [] then NoJob else GotJob (last (waiting s)))"
proof -
  have p': "(if opt_truthy p then p else None) = p" using p by (cases p) auto
  let ?q = "qkey tq p ''queued''" and ?a = "qkey tq p ''active''"
  have l: "as_list (view (wdb w) ?q) = Some (waiting s)" "as_list (view (wdb w) ?a) = Some (running s)"
    using Q by (simp_all add: jobq_of_Some)
  show ?thesis
  proof (cases "waiting s = []")
    case True
    with l have e: "as_list (view (wdb w) ?q) = Some []" by simp
    show ?thesis
      using lmove_empty[OF e, of ?a RIGHT LEFT] True Q
      by (simp add: dequeue_job_id_def p' B do_cmd_def jobq_of_Some a_dequeue_def)
  next
    case False
    then show ?thesis
      using lmove_reply[OF l(1) False l(2), of RIGHT LEFT] jobq_lmove[OF Q False]
      by (simp add: dequeue_job_id_def p' B do_cmd_def)
  qed
qed

lemma schedule_refines:
  assumes B: "server B = exec" and Q: "Q tq p (wdb w) = Some s" and lock: "0 < lock"
  shows "if view (wdb w) (qkey tq p ''scheduled'') = None
    then \<exists>ids. fst (schedule B tq lock p clock w) = Some ids \<and> distinct ids \<and>
           set ids = due (seconds (now_ms clock)) s \<and> sorted (map (\<lambda>m. the (pending s m)) ids) \<and>
           Q tq p (wdb (snd (schedule B tq lock p clock w))) = Some (a_schedule ids s)
    else schedule B tq lock p clock w = (None, w)"
proof (cases "view (wdb w) (qkey tq p ''scheduled'') = None")
  case True
  let ?d1 = "after exec (SETEX (qkey tq p ''scheduled'') lock (RInt 1)) (wdb w)"
  have Q1: "Q tq p ?d1 = Some s" using Q by (simp add: jobq_neutral)
  then have z: "as_zset (view ?d1 (qkey tq p ''incomplete'')) = Some (pending s)"
    by (simp add: jobq_of_Some)
  obtain ids where ids: "reply_of exec (ZRANGEBYSCORE (qkey tq p ''incomplete'') 1 (seconds (now_ms clock))) ?d1 = Strs ids"
    "distinct ids" "set ids = due (seconds (now_ms clock)) s" "sorted (map (\<lambda>m. the (pending s m)) ids)"
    using zrangebyscore_reply[OF z, of 1 "seconds (now_ms clock)"] by (auto simp: due_def)
  have z0: "zadd_all (map (Pair 0) ids) (pending s) = (\<lambda>m. if m \<in> set ids then Some 0 else pending s m)"
    using zadd_all_zeros[of 0 ids "pending s"] by auto
  have "Q tq p (wdb (snd (schedule B tq lock p clock w))) = Some (a_schedule ids s)"
    using True ids(1) Q1
    by (simp add: schedule_def schedule_script_def B Let_def case_prod_unfold exists_reply strs_of_def
        jobq_cmds a_schedule_def z0)
  moreover have "fst (schedule B tq lock p clock w) = Some ids"
    using True ids(1)
    by (simp add: schedule_def schedule_script_def B Let_def case_prod_unfold exists_reply strs_of_def)
  ultimately show ?thesis using True ids by auto
next
  case False
  then obtain x where "view (wdb w) (qkey tq p ''scheduled'') = Some x" by blast
  then have "schedule B tq lock p clock w = (None, w)"
    by (simp add: schedule_def schedule_script_def B exists_reply)
  then show ?thesis using False by simp
qed

lemma sweep_missing_refines:
  assumes B: "server B = exec" and Q: "Q tq p (wdb w) = Some s" and i: "i \<noteq> []"
    and pq: "pq_enabled (pushq tq) \<longrightarrow> queue_key (pushq tq) \<notin> queue_keys tq p"
  shows "Q tq p (wdb (sweep_missing B tq (qkey tq p ''active'') (qkey tq p ''incomplete'') i w)) =
    Some (a_drop i s)"
  using assms
  by (simp add: sweep_missing_def run_pipe_def jobq_unpush_cmds jobq_cmds a_drop_def)

lemma update_refines:
  assumes B: "server B = exec" and Q: "Q tq p (wdb w) = Some s" and i: "ident tq j \<notin> queue_keys tq p"
  shows "Q tq p (wdb (snd (update_job B tq clock j w))) = Some s"
  using assms
  by (simp add: update_job_def Let_def jobq_notify[OF B] do_cmd_def jobq_neutral ident_def)

section \<open>The job's record\<close>

lemma finish_record:
  assumes B: "server B = exec" and sep: "separate tq j"
  shows "let j1 = complete (now_ms clock) st res err j in
    view (wdb (snd (finish B tq clock st res err j w))) (ident tq j) =
      (if ttl j > 0 then Some (OStr (serialize B tq j1) (Some (ttl j)))
       else if ttl j = 0 then Some (OStr (serialize B tq j1) None)
       else None)"
proof -
  have unpush: "view (snd (run_pipeline exec (unpush_cmds (pushq tq) i) d)) (ident tq j) = view d (ident tq j)" for i d
    by (rule pipeline_frame) (use sep in \<open>auto simp: separate_def\<close>)
  have frame: "view (after exec (LREM (qkey tq (job_postfix j) ''active'') n x) d) (ident tq j) = view d (ident tq j)"
    "view (after exec (ZREM (qkey tq (job_postfix j) ''incomplete'') x) d) (ident tq j) = view d (ident tq j)" for n x d
    using sep by (auto simp: separate_def queue_keys_def write_frame)
  have pub: "view (wdb (notify B tq j' w')) k = view (wdb w') k" for j' w' k
    by (simp add: notify_def do_cmd_def Let_def B read_frame)
  show ?thesis
    by (simp add: finish_def Let_def pub run_pipe_def B snd_pipeline_append unpush job_keys
        setex_effect set_effect del_effect)
qed

lemma retry_record:
  assumes B: "server B = exec"
  shows "view (wdb (snd (retry B tq clock rnd e j w))) (ident tq j) =
    Some (OStr (serialize B tq (reset (now_ms clock) QUEUED e j)) None)"
proof -
  have pub: "view (wdb (notify B tq j' w')) k = view (wdb w') k" for j' w' k
    by (simp add: notify_def do_cmd_def Let_def B read_frame)
  show ?thesis
    by (simp add: retry_def Let_def pub run_pipe_def B snd_pipeline_append set_effect)
qed

lemma fetch_stored:
  assumes B: "server B = exec"
    and v: "view (wdb w) (ident tq j) = Some (OStr (serialize B tq j) t)"
    and dec: "decode_job B (encode_job B (j\<lparr>job_queue_name := Some (queue_name tq)\<rparr>)) =
              Some (j\<lparr>job_queue_name := Some (queue_name tq)\<rparr>)"
  shows "fetch_job B tq (jkey j) r w = Inr (Some (j\<lparr>job_queue_name := Some (queue_name tq)\<rparr>))"
proof -
  have "reply_of exec (GET (ident tq j)) (wdb w) = Bulk (serialize B tq j)"
    using get_reply[of "wdb w" "ident tq j" "Some (serialize B tq j)"] v by simp
  then show ?thesis
    using dec by (simp add: fetch_job_def get_job_by_id_def B deserialize_def serialize_def flip: ident_def)
qed

lemma fetch_missing:
  assumes B: "server B = exec" and v: "view (wdb w) (ident tq j) = None"
  shows "fetch_job B tq (jkey j) True w = Inl AttributeError \<and> fetch_job B tq (jkey j) False w = Inr None"
proof -
  have "reply_of exec (GET (ident tq j)) (wdb w) = Nil"
    using get_reply[of "wdb w" "ident tq j" None] v by simp
  then show ?thesis
    by (simp add: fetch_job_def get_job_by_id_def B deserialize_def flip: ident_def)
qed

end

end
