(* ===== verification/Queue_Lifecycle.thy ===== *)
theory Queue_Lifecycle
  imports Queue_Refinement
begin

text \<open>
  The life of the jobs of one task queue, over the concrete operations of \<open>Task_Queue\<close>: the
  step relation \<open>queue_step\<close>, the states it reaches, the invariant of those states, and the
  properties of the single operations stated on any server that obeys the laws.
\<close>

section \<open>The invariant on the abstract queue\<close>

definition jobq_inv :: "jobq \<Rightarrow> bool" where
  "jobq_inv s \<longleftrightarrow>
     distinct (waiting s @ running s) \<and>
     (\<forall>m. pending s m = Some 0 \<longleftrightarrow> m \<in> set (waiting s @ running s))"

definition empty_jobq :: jobq where
  "empty_jobq = \<lparr>waiting = [], running = [], pending = Map.empty\<rparr>"

lemma inv_empty [intro]: "jobq_inv empty_jobq"
  by (simp add: jobq_inv_def empty_jobq_def)

lemma inv_enqueue: "jobq_inv s \<Longrightarrow> pending s i = None \<Longrightarrow> jobq_inv (a_enqueue i x s)"
  by (auto simp: jobq_inv_def a_enqueue_def) (metis option.distinct(1))+

lemma inv_dequeue: "jobq_inv s \<Longrightarrow> jobq_inv (a_dequeue s)"
proof (cases "waiting s" rule: rev_cases)
  case (snoc ys y)
  assume "jobq_inv s"
  with snoc show ?thesis by (auto simp: jobq_inv_def a_dequeue_def)
qed (simp add: a_dequeue_def)

lemma inv_finish: "jobq_inv s \<Longrightarrow> i \<in> set (running s) \<Longrightarrow> jobq_inv (a_finish i s)"
  by (auto simp: jobq_inv_def a_finish_def distinct_remove1_removeAll_eq distinct_removeAll)

lemma inv_drop: "jobq_inv s \<Longrightarrow> i \<notin> set (waiting s) \<Longrightarrow> jobq_inv (a_drop i s)"
  by (auto simp: jobq_inv_def a_drop_def distinct_removeAll)

lemma inv_abort: "jobq_inv s \<Longrightarrow> jobq_inv (a_abort i s)"
  by (auto simp: jobq_inv_def a_abort_def a_finish_def a_drop_def distinct_remove1_removeAll_eq distinct_removeAll)

lemma inv_delay: "jobq_inv s \<Longrightarrow> x \<noteq> 0 \<Longrightarrow> jobq_inv (a_delay i x s)"
  by (auto simp: jobq_inv_def a_delay_def distinct_remove1_removeAll_eq distinct_removeAll)

lemma inv_requeue: "jobq_inv s \<Longrightarrow> jobq_inv (a_requeue i 0 s)"
  by (auto simp: jobq_inv_def a_requeue_def distinct_remove1_removeAll_eq distinct_removeAll)

lemma inv_schedule:
  "jobq_inv s \<Longrightarrow> distinct ids \<Longrightarrow> set ids = due limit s \<Longrightarrow> jobq_inv (a_schedule ids s)"
proof -
  assume inv: "jobq_inv s" and ids: "distinct ids" "set ids = due limit s"
  have "m \<notin> set (waiting s @ running s)" if "m \<in> set ids" for m
  proof
    assume "m \<in> set (waiting s @ running s)"
    then have "pending s m = Some 0" using inv by (simp add: jobq_inv_def)
    then show False using that ids(2) by (auto simp: due_def)
  qed
  then show ?thesis
    using inv ids(1) by (auto simp: jobq_inv_def a_schedule_def)
qed

section \<open>Steps\<close>

definition is_active :: "('db \<Rightarrow> string \<Rightarrow> robj option) \<Rightarrow> task_queue \<Rightarrow> string option \<Rightarrow> 'db world \<Rightarrow> string \<Rightarrow> bool" where
  "is_active view tq p w i \<longleftrightarrow>
     (case as_list (view (wdb w) (qkey tq p ''active'')) of None \<Rightarrow> False | Some a \<Rightarrow> i \<in> set a)"

text \<open>A worker finishes, retries or reschedules a job it has dequeued. A retry either waits
  (until a time other than 0) or the job was not scheduled; \<open>retry_scheduled_duplicates\<close>
  below shows why that side condition is needed.\<close>

definition retry_separates :: "rat \<Rightarrow> rat \<Rightarrow> pyval \<Rightarrow> job \<Rightarrow> bool" where
  "retry_separates clock rnd e j =
     (let delay = next_retry_delay rnd (reset (now_ms clock) QUEUED e j) in
      if delay \<noteq> 0 then clock + delay \<noteq> 0 else scheduled j = 0)"

inductive queue_step ::
    "'db backend \<Rightarrow> ('db \<Rightarrow> string \<Rightarrow> robj option) \<Rightarrow> task_queue \<Rightarrow> string option \<Rightarrow> 'db world \<Rightarrow> 'db world \<Rightarrow> bool"
  for B view tq p where
  enqueue_step: "j2 = before_enqueue before clock j \<Longrightarrow> job_postfix j2 = p \<Longrightarrow> separate tq j2 \<Longrightarrow>
     queue_step B view tq p w (snd (enqueue B tq before clock ret j w))"
| dequeue_step: "p \<noteq> Some [] \<Longrightarrow> queue_step B view tq p w (snd (dequeue_job_id B tq p w))"
| finish_step: "job_postfix j = p \<Longrightarrow> separate tq j \<Longrightarrow> is_active view tq p w (ident tq j) \<Longrightarrow>
     queue_step B view tq p w (snd (finish B tq clock st res err j w))"
| retry_step: "job_postfix j = p \<Longrightarrow> separate tq j \<Longrightarrow> is_active view tq p w (ident tq j) \<Longrightarrow>
     retry_separates clock rnd err j \<Longrightarrow>
     queue_step B view tq p w (snd (retry B tq clock rnd err j w))"
| reschedule_step: "job_postfix j = p \<Longrightarrow> separate tq j \<Longrightarrow> is_active view tq p w (ident tq j) \<Longrightarrow>
     clock + wait \<noteq> 0 \<Longrightarrow>
     queue_step B view tq p w (snd (reschedule B tq clock wait err j w))"
| abort_step: "job_postfix j = p \<Longrightarrow> separate tq j \<Longrightarrow>
     queue_step B view tq p w (snd (abort B tq clock e tt j w))"
| update_step: "job_postfix j = p \<Longrightarrow> separate tq j \<Longrightarrow>
     queue_step B view tq p w (snd (update_job B tq clock j w))"
| schedule_step: "0 < lock \<Longrightarrow> queue_step B view tq p w (snd (schedule B tq lock p clock w))"
| sweep_step: "i \<noteq> [] \<Longrightarrow> is_active view tq p w i \<Longrightarrow>
     pq_enabled (pushq tq) \<longrightarrow> queue_key (pushq tq) \<notin> queue_keys tq p \<Longrightarrow>
     queue_step B view tq p w
       (sweep_missing B tq (qkey tq p ''active'') (qkey tq p ''incomplete'') i w)"

inductive_cases queue_stepE: "queue_step B view tq p w w'"

inductive reachable ::
    "'db backend \<Rightarrow> ('db \<Rightarrow> string \<Rightarrow> robj option) \<Rightarrow> task_queue \<Rightarrow> string option \<Rightarrow> 'db world \<Rightarrow> bool"
  for B view tq p where
  start: "jobq_of view tq p (wdb w) = Some empty_jobq \<Longrightarrow> reachable B view tq p w"
| step: "reachable B view tq p w \<Longrightarrow> queue_step B view tq p w w' \<Longrightarrow> reachable B view tq p w'"

lemma is_active_running:
  "jobq_of view tq p (wdb w) = Some s \<Longrightarrow> is_active view tq p w i \<longleftrightarrow> i \<in> set (running s)"
  by (simp add: is_active_def jobq_of_Some)

lemma inv_not_waiting: "jobq_inv s \<Longrightarrow> i \<in> set (running s) \<Longrightarrow> i \<notin> set (waiting s)"
  by (auto simp: jobq_inv_def)

context redis_queue
begin

lemma step_preserves:
  assumes B: "server B = exec" and st: "queue_step B view tq p w w'"
    and Q: "jobq_of view tq p (wdb w) = Some s" and inv: "jobq_inv s"
  shows "\<exists>s'. jobq_of view tq p (wdb w') = Some s' \<and> jobq_inv s'"
  using st
proof cases
  case (enqueue_step j2 before clock j ret)
  then show ?thesis
    using enqueue_refines[OF B, of j2 before clock j tq w s ret] Q inv inv_enqueue[OF inv]
    by (auto simp: Let_def case_prod_unfold split: if_splits)
next
  case dequeue_step
  then show ?thesis using dequeue_id_refines[OF B _ Q] inv_dequeue[OF inv] by auto
next
  case (finish_step j clock st res err)
  then show ?thesis
    using finish_refines[OF B, of tq j w s] Q inv_finish[OF inv] is_active_running[OF Q] by auto
next
  case (retry_step j clock rnd err)
  show ?thesis
  proof (cases "next_retry_delay rnd (reset (now_ms clock) QUEUED err j) = 0")
    case True
    then show ?thesis
      using retry_step retry_refines[OF B, of tq j w s clock rnd err] Q inv_requeue[OF inv]
      by (auto simp: retry_separates_def Let_def)
  next
    case False
    then show ?thesis
      using retry_step retry_refines[OF B, of tq j w s clock rnd err] Q inv_delay[OF inv]
      by (auto simp: retry_separates_def Let_def)
  qed
next
  case (reschedule_step j clock wait err)
  then show ?thesis
    using reschedule_refines[OF B, of tq j w s clock wait err] Q is_active_running[OF Q]
      inv_delay[OF inv_finish[OF inv, of "ident tq j"]] by auto
next
  case (abort_step j clock e tt)
  then show ?thesis using abort_refines[OF B, of tq j w s clock e tt] Q inv_abort[OF inv] by auto
next
  case (update_step j clock)
  then show ?thesis using update_refines[OF B Q, of j clock] inv by (auto simp: separate_def)
next
  case (schedule_step lock clock)
  show ?thesis
  proof (cases "view (wdb w) (qkey tq p ''scheduled'') = None")
    case True
    then show ?thesis
      using schedule_step schedule_refines[OF B Q schedule_step(2), of clock] inv_schedule[OF inv] by auto
  next
    case False
    then show ?thesis
      using schedule_step schedule_refines[OF B Q schedule_step(2), of clock] Q inv by auto
  qed
next
  case (sweep_step i)
  then show ?thesis
    using sweep_missing_refines[OF B Q, of i] is_active_running[OF Q, of i] inv_drop[OF inv] inv_not_waiting[OF inv]
    by auto
qed

lemma reachable_inv:
  assumes B: "server B = exec" and r: "reachable B view tq p w"
  shows "\<exists>s. jobq_of view tq p (wdb w) = Some s \<and> jobq_inv s"
  using r
proof induction
  case (start w)
  then show ?case using inv_empty by blast
next
  case (step w w')
  then show ?case using step_preserves[OF B] by blast
qed

end

section \<open>A concrete queue for the examples\<close>

definition ex_queue :: task_queue where
  "ex_queue = \<lparr>queue_prefix = ''_kvq_'', queue_name = ''global'', job_prefix = ''job'',
                pushq = PushQueue_init None None None\<rparr>"

definition ex_job :: "string \<Rightarrow> job" where
  "ex_job k = \<lparr>jfunction = ''f'', jargs = [], jkwargs = [], jkey = k, result = PNone, jerror = PNone,
     status = NEW, metadata = [], worker_id = None, worker_name = None, job_callback = Some ''cb'',
     bypass_lock = None, job_queue_name = Some ''global'', timeout = 900, retries = 1, ttl = 60, retry_delay = 0,
     retry_backoff = BackoffFlag True, max_stuck_duration = 3600, heartbeat = 0, scheduled = 0,
     progress = \<lparr>total = 0, pdone = 0\<rparr>, attempts = 0, completed = 0, queued = 0, started = 0, touched = 0\<rparr>"

definition ex_backend :: "mdb backend" where
  "ex_backend = \<lparr>server = mem_exec, encode_job = (\<lambda>j. ''J''), decode_job = (\<lambda>s. Some (ex_job ''a''))\<rparr>"

definition ex_world :: "mdb world" where
  "ex_world = \<lparr>wdb = [], callbacks = [], background = []\<rparr>"

lemma ex_backend_server [simp]: "server ex_backend = mem_exec"
  by (simp add: ex_backend_def)

lemma ex_laws: "redis_queue (server ex_backend) mview"
  by (simp add: mem.redis_queue_axioms)

lemma ex_jobq: "jobq_of mview ex_queue p (wdb ex_world) = Some empty_jobq"
  by (simp add: jobq_of_def mview_def ex_world_def empty_jobq_def)

lemma ex_world_view: "mview (wdb ex_world) k = None"
  by (simp add: mview_def ex_world_def)

lemma ex_postfix [simp]: "job_postfix (ex_job k) = None"
  by (simp add: job_postfix_def ex_job_def)

lemma ex_separate: "separate ex_queue (ex_job ''a'')"
  by code_simp

lemma ex_before: "before_enqueue [] 0 j = j\<lparr>queued := 0, status := QUEUED\<rparr>"
  by (simp add: before_enqueue_def now_ms_def)

lemma ex_before_place:
  "job_postfix (before_enqueue [] 0 (ex_job ''a'')) = None"
  "separate ex_queue (before_enqueue [] 0 (ex_job ''a''))"
  "ident ex_queue (before_enqueue [] 0 (ex_job ''a'')) = ident ex_queue (ex_job ''a'')"
  using ex_separate
  by (simp_all add: ex_before separate_def ident_def job_abort_id_def job_postfix_def ex_job_def)

definition ex_queued :: "mdb world" where
  "ex_queued = snd (enqueue ex_backend ex_queue [] 0 False (ex_job ''a'') ex_world)"

definition ex_active :: "mdb world" where
  "ex_active = snd (dequeue_job_id ex_backend ex_queue None ex_queued)"

definition ex_id :: string where
  "ex_id = ident ex_queue (ex_job ''a'')"

lemma ex_queued_jobq:
  "jobq_of mview ex_queue None (wdb ex_queued) = Some \<lparr>waiting = [ex_id], running = [], pending = [ex_id \<mapsto> 0]\<rparr>"
proof -
  have "scheduled (before_enqueue [] 0 (ex_job ''a'')) = 0" by (simp add: ex_before ex_job_def)
  then show ?thesis
    using mem.enqueue_refines[OF ex_backend_server refl, where before = "[]" and clock = 0 and j = "ex_job ''a''"
        and tq = ex_queue and w = ex_world and s = empty_jobq and ret = False]
    by (simp add: ex_before_place ex_jobq ex_queued_def ex_id_def Let_def case_prod_unfold
        ex_world_view a_enqueue_def) (simp add: empty_jobq_def)
qed

lemma ex_active_jobq:
  "jobq_of mview ex_queue None (wdb ex_active) = Some \<lparr>waiting = [], running = [ex_id], pending = [ex_id \<mapsto> 0]\<rparr>"
  using mem.dequeue_id_refines[OF ex_backend_server, of None ex_queue ex_queued] ex_queued_jobq
  by (simp add: ex_active_def a_dequeue_def)

section \<open>Properties\<close>


lemma ex_reachable: "reachable ex_backend mview ex_queue None ex_active"
  unfolding ex_active_def ex_queued_def
  by (rule reachable.step[OF reachable.step[OF reachable.start[OF ex_jobq]
        enqueue_step[OF refl ex_before_place(1,2)]] dequeue_step]) simp






text \<open>C4. Finishing a job takes one occurrence of its id off the active list, makes it complete,
  and leaves its record behind for \<open>ttl\<close> seconds: for ever when \<open>ttl\<close> is 0, not at all when it
  is negative. The record carries the status, result and error; the job's callback starts exactly
  when the status is terminal.\<close>

theorem finish_effect:
  "redis_queue (server B) view \<Longrightarrow> jobq_of view tq (job_postfix j) (wdb w) = Some s \<Longrightarrow> separate tq j \<Longrightarrow>
   (let (j1, w') = finish B tq clock st res err j w; i = ident tq j in
    jobq_of view tq (job_postfix j) (wdb w') =
      Some (s\<lparr>running := remove1 i (running s), pending := (pending s)(i := None)\<rparr>) \<and>
    status j1 = st \<and> result j1 = res \<and> jerror j1 = err \<and> completed j1 = now_ms clock \<and>
    view (wdb w') i = (if ttl j > 0 then Some (OStr (serialize B tq j1) (Some (ttl j)))
                       else if ttl j = 0 then Some (OStr (serialize B tq j1) None) else None) \<and>
    callbacks w' = callbacks w @ (if job_callback j \<noteq> None \<and> st \<in> TERMINAL_JOB_STATUSES then [j1] else []))"
proof -
  assume srv: "redis_queue (server B) view" and Q: "jobq_of view tq (job_postfix j) (wdb w) = Some s"
    and sep: "separate tq j"
  have j1: "fst (finish B tq clock st res err j w) = complete (now_ms clock) st res err j"
    by (simp add: finish_def Let_def)
  have cb: "callbacks (snd (finish B tq clock st res err j w)) =
     callbacks w @ (if job_callback j \<noteq> None \<and> st \<in> TERMINAL_JOB_STATUSES
                    then [complete (now_ms clock) st res err j] else [])"
    by (simp add: finish_def Let_def notify_def do_cmd_def run_pipe_def runs_job_callback_def
        has_job_callback_def) (simp add: complete_def)
  show ?thesis
    using redis_queue.finish_refines[OF srv refl Q sep, of clock st res err]
      redis_queue.finish_record[OF srv refl sep, of clock st res err w]
    by (simp add: Let_def case_prod_unfold j1 cb a_finish_def) (simp add: complete_def)
qed

lemma finish_effect_witness:
  "mview (wdb (snd (finish ex_backend ex_queue 5 COMPLETE (PInt 3) PNone (ex_job ''a'') ex_active))) ex_id =
   Some (OStr (RStr ''J'') (Some 60))"
  using finish_effect[OF ex_laws, of ex_queue "ex_job ''a''" ex_active, OF _ ex_separate,
      where clock = 5 and st = COMPLETE and res = "PInt 3" and err = PNone] ex_active_jobq
  by (simp add: Let_def case_prod_unfold ex_id_def serialize_def)
     (simp add: ex_job_def ex_backend_def)

text \<open>C5. Aborting. A job that still waits is taken off the queue, finished as ABORTED with the
  given error, and leaves no abort marker. A job that does not wait is taken off the active list
  and the incomplete set, and its worker is told by the marker, which expires after \<open>tt\<close>
  seconds. In both cases its id is nowhere in the queue afterwards.\<close>

theorem abort_effect:
  "redis_queue (server B) view \<Longrightarrow> jobq_of view tq (job_postfix j) (wdb w) = Some s \<Longrightarrow> separate tq j \<Longrightarrow>
   distinct (waiting s @ running s) \<Longrightarrow> 0 < tt \<Longrightarrow>
   (let (j1, w') = abort B tq clock e tt j w; i = ident tq j in
    \<exists>s'. jobq_of view tq (job_postfix j) (wdb w') = Some s' \<and>
      i \<notin> set (waiting s' @ running s') \<and> pending s' i = None \<and>
      waiting s' = removeAll i (waiting s) \<and>
      (if i \<in> set (waiting s)
       then status j1 = ABORTED \<and> jerror j1 = PStr e \<and> view (wdb w') (job_abort_id tq j) = None
       else j1 = j \<and> view (wdb w') (job_abort_id tq j) = Some (OStr (RStr e) (Some tt))))"
proof -
  assume srv: "redis_queue (server B) view" and Q: "jobq_of view tq (job_postfix j) (wdb w) = Some s"
    and sep: "separate tq j" and dist: "distinct (waiting s @ running s)" and tt: "0 < tt"
  let ?i = "ident tq j"
  note law = redis_queue.axioms[OF srv]
  note lists = law(1) and base = redis_lists.axioms(1)[OF law(1)]
  note q = Q[unfolded jobq_of_Some]
  have rep: "reply_of (server B) (LREM (qkey tq (job_postfix j) ''queued'') 0 ?i) (wdb w) =
     Num (int (length (waiting s) - length (removeAll ?i (waiting s))))"
    using redis_lists.lrem_reply[OF lists, of "wdb w" "qkey tq (job_postfix j) ''queued''" "waiting s" 0 ?i] q
    by simp
  have n: "(length (waiting s) - length (removeAll ?i (waiting s)) = 0) = (?i \<notin> set (waiting s))"
    using redis_queue.length_removeAll_less[OF srv, of ?i "waiting s"] by fastforce
  have res: "if ?i \<in> set (waiting s)
     then status (fst (abort B tq clock e tt j w)) = ABORTED \<and> jerror (fst (abort B tq clock e tt j w)) = PStr e \<and>
          view (wdb (snd (abort B tq clock e tt j w))) (job_abort_id tq j) = None
     else fst (abort B tq clock e tt j w) = j \<and>
          view (wdb (snd (abort B tq clock e tt j w))) (job_abort_id tq j) = Some (OStr (RStr e) (Some tt))"
    using sep tt n
    by (auto simp: abort_def Let_def case_prod_unfold rep do_cmd_def redis_server.del_effect[OF base]
        redis_server.setex_effect[OF base] redis_server.write_frame[OF base] job_keys separate_def queue_keys_def
        finish_def complete_def)
  show ?thesis
    using redis_queue.abort_refines[OF srv refl Q sep, of clock e tt] res dist
    by (auto simp: Let_def case_prod_unfold a_abort_def a_finish_def a_drop_def
        intro!: exI[of _ "a_abort ?i s"])
qed

lemma abort_effect_witness:
  "mview (wdb (snd (abort ex_backend ex_queue 5 ''stop'' 5 (ex_job ''a'') ex_active)))
     (job_abort_id ex_queue (ex_job ''a'')) = Some (OStr (RStr ''stop'') (Some 5))"
  using abort_effect[OF ex_laws, of ex_queue "ex_job ''a''" ex_active, OF _ ex_separate,
      where clock = 5 and e = "''stop''" and tt = 5] ex_active_jobq
  by (auto simp: Let_def case_prod_unfold)

text \<open>C6. Retrying. The job is QUEUED again with the error noted, its finish and start times
  cleared and its record kept without expiry. With a delay it leaves both lists and
  becomes due after the delay; without one it goes to the end of the queue. The push queue
  is told in the background, and no callback runs.\<close>

theorem retry_effect:
  "redis_queue (server B) view \<Longrightarrow> jobq_of view tq (job_postfix j) (wdb w) = Some s \<Longrightarrow> separate tq j \<Longrightarrow>
   (let (j1, w') = retry B tq clock rnd err j w; i = ident tq j; delay = next_retry_delay rnd j1 in
    jobq_of view tq (job_postfix j) (wdb w') =
      Some (if delay \<noteq> 0
            then s\<lparr>running := remove1 i (running s), waiting := remove1 i (waiting s),
                   pending := (pending s)(i \<mapsto> clock + delay)\<rparr>
            else s\<lparr>running := remove1 i (running s), waiting := remove1 i (waiting s) @ [i],
                   pending := (pending s)(i \<mapsto> scheduled j)\<rparr>) \<and>
    status j1 = QUEUED \<and> jerror j1 = err \<and> completed j1 = 0 \<and> started j1 = 0 \<and> attempts j1 = attempts j \<and>
    view (wdb w') i = Some (OStr (serialize B tq j1) None) \<and>
    background w' = background w @ push_cmds (pushq tq) i \<and> callbacks w' = callbacks w)"
proof -
  assume srv: "redis_queue (server B) view" and Q: "jobq_of view tq (job_postfix j) (wdb w) = Some s"
    and sep: "separate tq j"
  have j1: "fst (retry B tq clock rnd err j w) = reset (now_ms clock) QUEUED err j"
    by (simp add: retry_def Let_def)
  have rest: "background (snd (retry B tq clock rnd err j w)) = background w @ push_cmds (pushq tq) (ident tq j)"
    "callbacks (snd (retry B tq clock rnd err j w)) = callbacks w"
    by (simp_all add: retry_def Let_def notify_def do_cmd_def run_pipe_def runs_job_callback_def
        TERMINAL_JOB_STATUSES_def)
  show ?thesis
    using redis_queue.retry_refines[OF srv refl Q sep, of clock rnd err]
      redis_queue.retry_record[OF srv refl, of tq clock rnd err j w]
    by (simp add: Let_def case_prod_unfold j1 rest a_delay_def a_requeue_def) (simp add: reset_def)
qed

lemma retry_effect_witness:
  "status (fst (retry ex_backend ex_queue 5 0 (PStr ''boom'') (ex_job ''a'') ex_active)) = QUEUED"
  using retry_effect[OF ex_laws, of ex_queue "ex_job ''a''" ex_active, OF _ ex_separate,
      where clock = 5 and rnd = 0 and err = "PStr ''boom''"] ex_active_jobq
  by (simp add: Let_def case_prod_unfold)

text \<open>C7. Rescheduling first finishes the job as RESCHEDULED, then stores it again as QUEUED and
  makes it due after the waiting time: it is in neither list, and incomplete with the time
  at which it is due.\<close>

theorem reschedule_effect:
  "redis_queue (server B) view \<Longrightarrow> jobq_of view tq (job_postfix j) (wdb w) = Some s \<Longrightarrow> separate tq j \<Longrightarrow>
   distinct (waiting s @ running s) \<Longrightarrow>
   (let (j1, w') = reschedule B tq clock wait err j w; i = ident tq j in
    \<exists>s'. jobq_of view tq (job_postfix j) (wdb w') = Some s' \<and>
      i \<notin> set (waiting s' @ running s') \<and> pending s' = (pending s)(i \<mapsto> clock + wait) \<and>
      status j1 = QUEUED \<and> jerror j1 = err \<and> result j1 = PNone)"
proof -
  assume srv: "redis_queue (server B) view" and Q: "jobq_of view tq (job_postfix j) (wdb w) = Some s"
    and sep: "separate tq j" and dist: "distinct (waiting s @ running s)"
  have j1: "fst (reschedule B tq clock wait err j w) =
      reset (now_ms clock) QUEUED err (complete (now_ms clock) RESCHEDULED PNone err j)"
    by (simp add: reschedule_def finish_def Let_def case_prod_unfold)
  show ?thesis
    using redis_queue.reschedule_refines[OF srv refl Q sep, of clock wait err] dist
    by (simp add: Let_def case_prod_unfold j1 a_delay_def a_finish_def distinct_remove1_removeAll_eq distinct_removeAll)
       (simp add: reset_def complete_def)
qed

lemma reschedule_effect_witness:
  "status (fst (reschedule ex_backend ex_queue 5 10 PNone (ex_job ''a'') ex_active)) = QUEUED"
  using reschedule_effect[OF ex_laws, of ex_queue "ex_job ''a''" ex_active, OF _ ex_separate,
      where clock = 5 and wait = 10 and err = PNone] ex_active_jobq
  by (auto simp: Let_def case_prod_unfold)

text \<open>Dequeuing takes the newest waiting job, the one appended last, moves its id to the front
  of the active list and returns its record; on an empty queue nothing changes and there is no
  job. A worker that names itself looks only at the queue bound to it.\<close>

theorem dequeue_newest:
  "redis_queue (server B) view \<Longrightarrow> jobq_of view tq p (wdb w) = Some s \<Longrightarrow> p \<noteq> Some [] \<Longrightarrow>
   (let (r, w') = dequeue B tq p None w in
    jobq_of view tq p (wdb w') =
      Some (if waiting s = [] then s
            else s\<lparr>waiting := butlast (waiting s), running := last (waiting s) # running s\<rparr>) \<and>
    (waiting s = [] \<longrightarrow> r = Inr None) \<and>
    (waiting s \<noteq> [] \<longrightarrow> (\<forall>j. get_job_by_id B tq (last (waiting s)) w' = Inr j \<longrightarrow> r = Inr (Some j)) \<and>
       (\<forall>e. get_job_by_id B tq (last (waiting s)) w' = Inl e \<longrightarrow> r = Inl e)))"
proof -
  assume srv: "redis_queue (server B) view" and Q: "jobq_of view tq p (wdb w) = Some s" and p: "p \<noteq> Some []"
  note ref = redis_queue.dequeue_id_refines[OF srv refl p Q]
  have "dequeue B tq p None w =
     (case fst (dequeue_job_id B tq p w) of
        DequeueError \<Rightarrow> (Inr None, snd (dequeue_job_id B tq p w))
      | GotJob jid \<Rightarrow> (bindR (get_job_by_id B tq jid (snd (dequeue_job_id B tq p w))) (\<lambda>j. Inr (Some j)),
                      snd (dequeue_job_id B tq p w))
      | NoJob \<Rightarrow> (Inr None, snd (dequeue_job_id B tq p w)))"
  proof (cases p)
    case None
    then show ?thesis by (simp add: dequeue_def case_prod_unfold Let_def cong: dequeued_id.case_cong)
  next
    case (Some x)
    then show ?thesis
      using p by (simp add: dequeue_def case_prod_unfold Let_def cong: dequeued_id.case_cong)
  qed
  then show ?thesis using ref by (simp add: Let_def case_prod_unfold a_dequeue_def)
qed

lemma dequeue_newest_witness:
  "\<exists>w'. snd (dequeue ex_backend ex_queue None None ex_queued) = w' \<and>
     jobq_of mview ex_queue None (wdb w') =
       Some \<lparr>waiting = [], running = [ex_id], pending = [ex_id \<mapsto> 0]\<rparr>"
  using dequeue_newest[OF ex_laws ex_queued_jobq] by (simp add: Let_def case_prod_unfold)

text \<open>A retry without a delay does not respect the job's scheduled time. A job that was
  scheduled for a time and is retried with delay 0 is put into the queued list and
  keeps its past time in the incomplete set, so the next run of the schedule script queues the
  same id a second time: it will be executed twice.\<close>

theorem retry_scheduled_duplicates:
  "redis_queue (server B) view \<Longrightarrow> jobq_of view tq (job_postfix j) (wdb w) = Some s \<Longrightarrow> separate tq j \<Longrightarrow>
   next_retry_delay rnd (reset (now_ms clock) QUEUED err j) = 0 \<Longrightarrow>
   1 \<le> scheduled j \<Longrightarrow> scheduled j \<le> seconds (now_ms clock') \<Longrightarrow> 0 < lock \<Longrightarrow>
   view (wdb (snd (retry B tq clock rnd err j w))) (qkey tq (job_postfix j) ''scheduled'') = None \<Longrightarrow>
   (let w1 = snd (retry B tq clock rnd err j w);
        w2 = snd (schedule B tq lock (job_postfix j) clock' w1) in
    \<exists>s'. jobq_of view tq (job_postfix j) (wdb w2) = Some s' \<and> 2 \<le> count_list (waiting s') (ident tq j))"
proof -
  assume srv: "redis_queue (server B) view" and Q: "jobq_of view tq (job_postfix j) (wdb w) = Some s"
    and sep: "separate tq j" and d: "next_retry_delay rnd (reset (now_ms clock) QUEUED err j) = 0"
    and sch: "1 \<le> scheduled j" "scheduled j \<le> seconds (now_ms clock')" and l: "0 < lock"
    and free: "view (wdb (snd (retry B tq clock rnd err j w))) (qkey tq (job_postfix j) ''scheduled'') = None"
  let ?i = "ident tq j"
  have Q1: "jobq_of view tq (job_postfix j) (wdb (snd (retry B tq clock rnd err j w))) =
      Some (a_requeue ?i (scheduled j) s)"
    using redis_queue.retry_refines[OF srv refl Q sep, of clock rnd err] d by simp
  obtain ids where ids: "set ids = due (seconds (now_ms clock')) (a_requeue ?i (scheduled j) s)"
    "jobq_of view tq (job_postfix j)
       (wdb (snd (schedule B tq lock (job_postfix j) clock' (snd (retry B tq clock rnd err j w))))) =
     Some (a_schedule ids (a_requeue ?i (scheduled j) s))"
    using redis_queue.schedule_refines[OF srv refl Q1 l, of clock'] free by auto
  have "?i \<in> set ids" using ids(1) sch by (auto simp: due_def a_requeue_def)
  then have "0 < count_list ids ?i" using count_list_0_iff by fastforce
  then show ?thesis using ids(2) by (auto simp: Let_def a_schedule_def a_requeue_def)
qed

definition ex_past_job :: job where
  "ex_past_job = (ex_job ''a'')\<lparr>scheduled := 2\<rparr>"

lemma ex_past_place:
  "job_postfix ex_past_job = None" "separate ex_queue ex_past_job" "ident ex_queue ex_past_job = ex_id"
  using ex_separate
  by (simp_all add: ex_past_job_def separate_def ident_def job_abort_id_def job_postfix_def ex_job_def ex_id_def)

lemma retry_scheduled_duplicates_witness:
  "\<exists>s'. jobq_of mview ex_queue None
      (wdb (snd (schedule ex_backend ex_queue 1 None 9
         (snd (retry ex_backend ex_queue 5 0 PNone ex_past_job ex_active))))) = Some s' \<and>
    2 \<le> count_list (waiting s') ex_id"
proof -
  have delay: "next_retry_delay 0 (reset (now_ms 5) QUEUED PNone ex_past_job) = 0"
    by code_simp
  have free: "mview (wdb (snd (retry ex_backend ex_queue 5 0 PNone ex_past_job ex_active)))
      (qkey ex_queue None ''scheduled'') = None"
    by code_simp
  have sch: "1 \<le> scheduled ex_past_job" "scheduled ex_past_job \<le> seconds (now_ms 9)"
    by (simp_all add: ex_past_job_def seconds_def now_ms_def)
  show ?thesis
    using retry_scheduled_duplicates[OF ex_laws, of ex_queue ex_past_job ex_active, OF _ ex_past_place(2) delay sch,
        where lock = 1] ex_active_jobq free
    by (simp add: ex_past_place)
qed

end
