(* ===== verification/Queue_Monitor.thy ===== *)
theory Queue_Monitor
  imports Queue_Lifecycle
begin

text \<open>
  The housekeeping of a task queue: what a sweep does with each entry of the active list, what
  the check for stuck jobs does on its first and second visit, which key the counts read, and
  which session the two session properties hand out.
\<close>

section \<open>Sweeping\<close>

text \<open>A sweep takes an entry off the active list exactly when it has to. An id whose record
  is missing or unreadable is dropped from the active list and the incomplete set; a job that has
  ended or is stuck is finished as ABORTED with the error ''swept''; a job that is still
  within its timeout and heartbeat is left alone, with the database untouched.\<close>

theorem sweep_entry:
  "redis_queue (server B) view \<Longrightarrow> jobq_of view tq p (wdb w) = Some s \<Longrightarrow> i \<noteq> [] \<Longrightarrow>
   (pq_enabled (pushq tq) \<longrightarrow> queue_key (pushq tq) \<notin> queue_keys tq p) \<Longrightarrow>
   (let r = deserialize B tq (case data of None \<Rightarrow> Nil | Some v \<Rightarrow> Bulk v);
        (swept', w') = sweep_one B tq clock (qkey tq p ''active'') (qkey tq p ''incomplete'') (i, data) (swept, w);
        now = now_ms clock in
    (case r of
       Inl e \<Rightarrow> swept' = swept @ [i] \<and>
         jobq_of view tq p (wdb w') =
           Some (s\<lparr>running := removeAll i (running s), pending := (pending s)(i := None)\<rparr>)
     | Inr j \<Rightarrow>
         if status j \<in> TERMINAL_JOB_STATUSES \<or>
            status j = ACTIVE \<and>
              (now - started j > millis (timeout j) \<or>
               heartbeat j \<noteq> 0 \<and> now - touched j > millis (heartbeat j))
         then swept' = swept @ [i] \<and> w' = snd (finish B tq clock ABORTED PNone (PStr ''swept'') j w)
         else swept' = swept \<and> w' = w))"
proof -
  assume srv: "redis_queue (server B) view" and Q: "jobq_of view tq p (wdb w) = Some s" and i: "i \<noteq> []"
    and pq: "pq_enabled (pushq tq) \<longrightarrow> queue_key (pushq tq) \<notin> queue_keys tq p"
  have sw: "sweepable (now_ms clock) j \<longleftrightarrow> status j \<in> TERMINAL_JOB_STATUSES \<or>
     status j = ACTIVE \<and> (now_ms clock - started j > millis (timeout j) \<or>
        heartbeat j \<noteq> 0 \<and> now_ms clock - touched j > millis (heartbeat j))" for j
    by (simp add: sweepable_def stuck_def seconds_gt_iff not_incomplete_iff_terminal)
  show ?thesis
    using redis_queue.sweep_missing_refines[OF srv refl Q i pq]
    by (simp add: sweep_one_def Let_def case_prod_unfold sw a_drop_def split: sum.split)
qed

lemma sweep_entry_witness:
  "snd (sweep_one ex_backend ex_queue 5 (qkey ex_queue None ''active'') (qkey ex_queue None ''incomplete'')
          (ex_id, Some (RStr ''J'')) ([], ex_active)) = ex_active"
proof -
  have "deserialize ex_backend ex_queue (Bulk (RStr ''J'')) = Inr (ex_job ''a'')"
    by (simp add: deserialize_def ex_backend_def ex_queue_def ex_job_def)
  moreover have "status (ex_job ''a'') = NEW" by (simp add: ex_job_def)
  ultimately show ?thesis
    using sweep_entry[OF ex_laws ex_active_jobq, where i = ex_id and data = "Some (RStr ''J'')"
        and clock = 5 and swept = "[]"]
    by (simp add: ex_id_def Let_def case_prod_unfold TERMINAL_JOB_STATUSES_def ex_queue_def PushQueue_init_def)
qed

section \<open>Stuck jobs\<close>

lemma stuck_key_separate [simp]:
  "create_namespace tq ''stuck'' \<noteq> qkey tq p ''queued''" "create_namespace tq ''stuck'' \<noteq> qkey tq p ''active''"
  "create_namespace tq ''stuck'' \<noteq> qkey tq p ''incomplete''" "create_namespace tq ''stuck'' \<notin> queue_keys tq p"
  by (cases p; simp add: create_namespace_def qkey_def postfixed_def queue_keys_def)+

text \<open>The check for stuck jobs queues a waiting job a second time. It considers the records
  that do not expire and whose job is not scheduled, not a cron job and not active. The
  first visit only notes the id; the next one puts the id at the head of the queued list
  without taking out the occurrence that may be there, so a job that is merely
  waiting for its turn at both visits is then queued twice.\<close>

theorem stuck_check_duplicates:
  "redis_queue (server B) view \<Longrightarrow> get_job_by_id B tq i w = Inr j \<Longrightarrow> ident tq j = i \<Longrightarrow>
   jobq_of view tq (job_postfix j) (wdb w) = Some s \<Longrightarrow>
   as_set (view (wdb w) (create_namespace tq ''stuck'')) = Some known \<Longrightarrow>
   scheduled j \<le> 0 \<Longrightarrow> \<not> str_in ''cronjob'' i \<Longrightarrow> status j \<noteq> ACTIVE \<Longrightarrow> remaining \<le> 0 \<Longrightarrow>
   (let (ids', w') = check_stuck_job B tq (i, ''string'', remaining) (ids, w) in
    if i \<notin> known
    then ids' = ids \<and> jobq_of view tq (job_postfix j) (wdb w') = Some s \<and>
         as_set (view (wdb w') (create_namespace tq ''stuck'')) = Some (insert i known)
    else \<exists>s'. ids' = ids @ [i] \<and> jobq_of view tq (job_postfix j) (wdb w') = Some s' \<and>
           waiting s' = i # waiting s \<and> running s' = remove1 i (running s) \<and>
           pending s' = (pending s)(i \<mapsto> scheduled j) \<and>
           as_set (view (wdb w') (create_namespace tq ''stuck'')) = Some (known - {i}))"
proof -
  assume srv: "redis_queue (server B) view" and get: "get_job_by_id B tq i w = Inr j" and i: "ident tq j = i"
    and Q: "jobq_of view tq (job_postfix j) (wdb w) = Some s"
    and K: "as_set (view (wdb w) (create_namespace tq ''stuck'')) = Some known"
    and c: "scheduled j \<le> 0" "\<not> str_in ''cronjob'' i" "status j \<noteq> ACTIVE" "remaining \<le> 0"
  let ?k = "create_namespace tq ''stuck''" and ?p = "job_postfix j"
  note sets = redis_queue.axioms(3)[OF srv]
  have rep: "(reply_of (server B) (SADD ?k i) (wdb w) = Num 0) = (i \<in> known)"
    by (subst redis_sets.sadd_reply[OF sets, OF K, of i]) simp
  have K1: "as_set (view (after (server B) (SADD ?k i) (wdb w)) ?k) = Some (insert i known)"
    by (rule redis_sets.sadd_effect[OF sets, OF K])
  have Q1: "jobq_of view tq ?p (after (server B) (SADD ?k i) (wdb w)) = Some s"
    using redis_queue.jobq_neutral[OF srv, of "SADD ?k i" tq ?p] Q by simp
  let ?pipe = "[LREM (job_active_key tq j) 1 i, LPUSH (job_queued_key tq j) [i],
                ZREM (job_incomplete_key tq j) i, ZADD (job_incomplete_key tq j) [(scheduled j, i)]]"
  let ?d2 = "snd (run_pipeline (server B) ?pipe (after (server B) (SADD ?k i) (wdb w)))"
  have Q2: "jobq_of view tq ?p ?d2 = Some (a_unstick i (scheduled j) s)"
    using redis_queue.jobq_cmds[OF srv] Q1 by (simp add: job_keys a_unstick_def)
  have base: "redis_server (server B) view"
    using redis_queue.axioms(1)[OF srv] by (rule redis_lists.axioms(1))
  have K2: "as_set (view ?d2 ?k) = Some (insert i known)"
    using redis_server.pipeline_frame[OF base, of ?k ?pipe] K1 by (simp add: job_keys)
  have Q3: "jobq_of view tq ?p (after (server B) (SREM ?k i) ?d2) = Some (a_unstick i (scheduled j) s)"
    using redis_queue.jobq_neutral[OF srv, of "SREM ?k i" tq ?p ?d2] Q2 by simp
  have K3: "as_set (view (after (server B) (SREM ?k i) ?d2) ?k) = Some (known - {i})"
    using redis_sets.srem_effect[OF sets, OF K2, of i] by auto
  show ?thesis
  proof (cases "i \<in> known")
    case True
    then have "check_stuck_job B tq (i, ''string'', remaining) (ids, w) =
       (ids @ [i], do_cmd B (SREM ?k i) (run_pipe B ?pipe (do_cmd B (SADD ?k i) w)))"
      using c get i rep by (simp add: check_stuck_job_def Let_def)
    then show ?thesis using True Q3 K3
      by (auto simp: do_cmd_def run_pipe_def a_unstick_def simp del: run_pipeline.simps)
  next
    case False
    then have "check_stuck_job B tq (i, ''string'', remaining) (ids, w) = (ids, do_cmd B (SADD ?k i) w)"
      using c get i rep by (simp add: check_stuck_job_def Let_def)
    then show ?thesis using False Q1 K1 by (simp add: do_cmd_def)
  qed
qed

definition ex_stuck :: "mdb world" where
  "ex_stuck = snd (check_stuck_job ex_backend ex_queue (ex_id, ''string'', -1) ([], ex_queued))"

lemma stuck_check_duplicates_witness:
  "jobq_of mview ex_queue None (wdb ex_stuck) = Some \<lparr>waiting = [ex_id], running = [], pending = [ex_id \<mapsto> 0]\<rparr>"
proof -
  have get: "get_job_by_id ex_backend ex_queue ex_id ex_queued = Inr (ex_job ''a'')" by code_simp
  have K: "mview (wdb ex_queued) (create_namespace ex_queue ''stuck'') = None" by code_simp
  have cron: "\<not> str_in ''cronjob'' ex_id" by code_simp
  have c: "scheduled (ex_job ''a'') \<le> 0" "status (ex_job ''a'') \<noteq> ACTIVE" by (simp_all add: ex_job_def)
  show ?thesis
    using stuck_check_duplicates[OF ex_laws get, where s = "\<lparr>waiting = [ex_id], running = [], pending = [ex_id \<mapsto> 0]\<rparr>"
        and known = "{}" and remaining = "-1" and ids = "[]"] ex_queued_jobq K cron c
    by (simp add: ex_id_def[symmetric] ex_stuck_def Let_def case_prod_unfold)
qed

section \<open>Counts and sessions\<close>

text \<open>The count of scheduled jobs reads the wrong key. It counts in the key that the schedule
  script uses as its lock, a plain string, and not in the sorted set of incomplete jobs where
  the scheduled times are; the other counts read the key they name, with the worker's
  postfix, and an unknown kind is a ValueError.\<close>

theorem count_keys:
  "count_query tq ''queued'' p = Inr (LLen (postfixed (create_namespace tq ''queued'') (if opt_truthy p then p else None))) \<and>
   count_query tq ''active'' p = Inr (LLen (postfixed (create_namespace tq ''active'') (if opt_truthy p then p else None))) \<and>
   count_query tq ''incomplete'' p = Inr (ZCard (postfixed (create_namespace tq ''incomplete'') (if opt_truthy p then p else None))) \<and>
   count_query tq ''scheduled'' None = Inr (ZCountFrom1 (qkey tq None ''scheduled'')) \<and>
   qkey tq None ''scheduled'' \<noteq> qkey tq None ''incomplete'' \<and>
   count_query tq ''done'' p = Inl ValueError"
  by (simp add: count_query_def qkey_def postfixed_def Let_def)

text \<open>The raw session and the queue's session share one slot. Whichever of the two is asked
  for first is handed out for both from then on, so after a check for stuck jobs on a fresh queue
  every operation runs over the raw session, and after any other operation
  the check runs over the session with serialization; \<open>raw_ctx_slot\<close> is never
  filled.\<close>

theorem sessions_shared:
  "ctx_slot s = None \<longrightarrow>
   (let (r1, s1) = get_raw_ctx s; (c1, s2) = get_ctx s1; (c2, t1) = get_ctx s; (r2, t2) = get_raw_ctx t1 in
    r1 = RawSession \<and> c1 = RawSession \<and> c2 = QueueSession \<and> r2 = QueueSession \<and>
    raw_ctx_slot s2 = raw_ctx_slot s \<and> raw_ctx_slot t2 = raw_ctx_slot s)"
  by (simp add: get_raw_ctx_def get_ctx_def)

lemma sessions_shared_witness:
  "fst (get_ctx (snd (get_raw_ctx \<lparr>ctx_slot = None, raw_ctx_slot = None\<rparr>))) = RawSession"
  using sessions_shared[of "\<lparr>ctx_slot = None, raw_ctx_slot = None\<rparr>"]
  by (simp add: Let_def case_prod_unfold)

end
