(* ===== verification/Kwargs.thy ===== *)
theory Kwargs
  imports Job_Model
begin

text \<open>
  Keyword arguments: \<^verbatim>\<open>kvdb/types/base.py\<close> (\<open>extract_kwargs\<close>,
  \<open>extract_config_and_kwargs\<close>) and \<open>Job.create\<close> of \<^verbatim>\<open>kvdb/types/jobs.py\<close>, which splits the
  arguments of an enqueue call into the fields of the job and the arguments of its function.
  The fields of a model class are the parameter \<open>flds\<close>.
\<close>

section \<open>Extracting the fields of a model\<close>

definition opt_nonempty :: "string option \<Rightarrow> string option" where
  "opt_nonempty p = (if opt_truthy p then p else None)"

definition extract_kwargs ::
    "string list \<Rightarrow> string option \<Rightarrow> bool \<Rightarrow> string list option \<Rightarrow> string list option \<Rightarrow> bool \<Rightarrow> pydict \<Rightarrow> pydict" where
  "extract_kwargs flds prefix include_prefix include exclude exclude_none kwargs =
     (let k1 = (case opt_nonempty prefix of
                  Some p \<Rightarrow>
                    dict_update []
                      (map (\<lambda>(k, v). (if include_prefix then k else str_replace k p '''', v))
                        (filter (\<lambda>(k, v). starts_with p k \<and> str_replace k p '''' \<in> set flds) kwargs))
                | None \<Rightarrow> filter (\<lambda>(k, v). k \<in> set flds) kwargs);
          k2 = (if exclude_none then filter (\<lambda>(k, v). v \<noteq> PNone) k1 else k1);
          k3 = (case include of
                  Some inc \<Rightarrow> dict_update k2 (filter (\<lambda>(k, v). k \<in> set inc) k2)
                | None \<Rightarrow> k2) in
      case exclude of
        Some ex \<Rightarrow> filter (\<lambda>(k, v). k \<notin> set ex) k3
      | None \<Rightarrow> k3)"

definition extract_config_and_kwargs ::
    "string list \<Rightarrow> string option \<Rightarrow> bool \<Rightarrow> string list option \<Rightarrow> string list option \<Rightarrow> bool \<Rightarrow> pydict \<Rightarrow> pydict \<times> pydict" where
  "extract_config_and_kwargs flds prefix include_prefix include exclude exclude_none kwargs =
     (let config = extract_kwargs flds prefix include_prefix include exclude exclude_none kwargs;
          rest = filter (\<lambda>(k, v). \<not> dict_has k config) kwargs;
          rest = (case opt_nonempty prefix of
                    Some p \<Rightarrow> filter (\<lambda>(k, v). \<not> dict_has (p @ k) config) rest
                  | None \<Rightarrow> rest) in
      (config, rest))"

lemma wf_dict_filter [simp]: "wf_dict d \<Longrightarrow> wf_dict (filter P d)"
  by (simp add: wf_dict_def distinct_map_filter)

lemma dict_get_filter_val:
  "wf_dict d \<Longrightarrow> dict_get (filter (\<lambda>(k, v). P k v) d) k =
     (case dict_get d k of None \<Rightarrow> None | Some v \<Rightarrow> if P k v then Some v else None)"
proof (induction d)
  case (Cons a d)
  obtain k' v where a: "a = (k', v)" by fastforce
  from Cons.prems have wf: "wf_dict d" and new: "k' \<notin> fst ` set d" by (auto simp: wf_dict_def a)
  have none: "dict_get d k' = None" using new by (simp add: dict_get_def map_of_eq_None_iff)
  show ?case using Cons.IH[OF wf] none
    by (auto simp: a dict_get_def split: option.splits)
qed (simp add: dict_get_def)

lemma dict_update_self:
  assumes "wf_dict d" and "\<And>k v. (k, v) \<in> set e \<Longrightarrow> dict_get d k = Some v" and "wf_dict e"
  shows "dict_get (dict_update d e) k = dict_get d k"
proof (cases "dict_get e k")
  case (Some v)
  then have "dict_get d k = Some v" by (intro assms(2)) (simp add: dict_get_def map_of_SomeD)
  then show ?thesis using Some by (simp add: dict_get_update[OF assms(3)])
qed (simp add: dict_get_update[OF assms(3)])

text \<open>Without a prefix, the fields and the rest partition the arguments.\<close>

lemma extract_kwargs_get:
  assumes "wf_dict kwargs"
  shows "dict_get (extract_kwargs flds None ip inc None en kwargs) k =
    (case dict_get kwargs k of None \<Rightarrow> None
     | Some v \<Rightarrow> if k \<in> set flds \<and> (en \<longrightarrow> v \<noteq> PNone) then Some v else None)"
proof -
  let ?k1 = "filter (\<lambda>(k, v). k \<in> set flds) kwargs"
  let ?k2 = "if en then filter (\<lambda>(k, v). v \<noteq> PNone) ?k1 else ?k1"
  have wf2: "wf_dict ?k2" using assms by simp
  have g2: "dict_get ?k2 k = (case dict_get kwargs k of None \<Rightarrow> None
     | Some v \<Rightarrow> if k \<in> set flds \<and> (en \<longrightarrow> v \<noteq> PNone) then Some v else None)"
    using assms
    by (cases en) (simp_all add: dict_get_filter_val[of _ "\<lambda>k v. k \<in> set flds"]
        dict_get_filter_val[of _ "\<lambda>k v. v \<noteq> PNone"] del: filter_filter split: option.splits)
  have self: "dict_get (dict_update ?k2 (filter (\<lambda>(k, v). k \<in> set i) ?k2)) k = dict_get ?k2 k" for i
  proof (rule dict_update_self)
    show "wf_dict ?k2" by (rule wf2)
    show "wf_dict (filter (\<lambda>(k, v). k \<in> set i) ?k2)" using wf2 by simp
    show "dict_get ?k2 k = Some v" if "(k, v) \<in> set (filter (\<lambda>(k, v). k \<in> set i) ?k2)" for k v
      using that wf2 by (simp add: dict_get_def wf_dict_def)
  qed
  show ?thesis
    by (cases inc) (simp_all add: extract_kwargs_def opt_nonempty_def Let_def self g2 del: dict_update.simps)
qed

text \<open>\<open>extract_config_and_kwargs\<close> without a prefix partitions the arguments: every argument
  is in the configuration when it names a field and is not None, and in the rest otherwise,
  with its value, and never in both. The \<open>_include\<close> filter has no effect: whatever it
  lists, all fields are returned.\<close>

theorem extract_partition:
  "wf_dict kwargs \<Longrightarrow>
   (let (config, rest) = extract_config_and_kwargs flds None ip inc None True kwargs in
    (\<forall>k. dict_get config k = (case dict_get kwargs k of None \<Rightarrow> None
            | Some v \<Rightarrow> if k \<in> set flds \<and> v \<noteq> PNone then Some v else None)) \<and>
    (\<forall>k. dict_get rest k = (if dict_get config k = None then dict_get kwargs k else None)) \<and>
    (\<forall>k. dict_get config k = dict_get (fst (extract_config_and_kwargs flds None ip None None True kwargs)) k))"
  by (auto simp: extract_config_and_kwargs_def opt_nonempty_def Let_def extract_kwargs_get dict_get_filter_key
      dict_has_iff split: option.splits)

lemma extract_partition_witness:
  "fst (extract_config_and_kwargs [''ttl''] None False (Some []) None True [(''ttl'', PInt 5), (''x'', PInt 1)]) =
     [(''ttl'', PInt 5)] \<and>
   dict_get (fst (extract_config_and_kwargs [''ttl''] None False (Some []) None True
      [(''ttl'', PInt 5), (''x'', PInt 1)])) ''ttl'' = Some (PInt 5)"
  using extract_partition[of "[(''ttl'', PInt 5), (''x'', PInt 1)]" "[''ttl'']" False "Some []"]
  by (simp add: wf_dict_def extract_config_and_kwargs_def extract_kwargs_def opt_nonempty_def Let_def
      dict_get_def dict_set_def dict_has_def)

text \<open>With a prefix the extraction drops every argument that is no prefixed field, and the
  second component is not deduplicated: an argument taken into the configuration under its
  stripped name stays in the rest under its prefixed name.\<close>

theorem extract_prefix_keeps_rest:
  "wf_dict kwargs \<Longrightarrow> dict_get kwargs (''_'' @ k) = Some v \<Longrightarrow> k \<in> set flds \<Longrightarrow>
   str_replace (''_'' @ k) ''_'' '''' = k \<Longrightarrow>
   (\<forall>x. ''_'' @ x \<notin> set flds) \<Longrightarrow>
   (let (config, rest) = extract_config_and_kwargs flds (Some ''_'') False None None True kwargs in
    (\<forall>x. dict_has x config \<longrightarrow> x \<in> set flds) \<and> dict_get rest (''_'' @ k) = Some v)"
proof -
  assume wf: "wf_dict kwargs" and v: "dict_get kwargs (''_'' @ k) = Some v" and k: "k \<in> set flds"
    and r: "str_replace (''_'' @ k) ''_'' '''' = k" and pure: "\<forall>x. ''_'' @ x \<notin> set flds"
  let ?c = "extract_kwargs flds (Some ''_'') False None None True kwargs"
  let ?m = "map (\<lambda>(k, v). (str_replace k ''_'' '''', v))
      (filter (\<lambda>(k, v). starts_with ''_'' k \<and> str_replace k ''_'' '''' \<in> set flds) kwargs)"
  have sub: "fst ` set ?c \<subseteq> fst ` set (dict_update [] ?m)"
    by (auto simp: extract_kwargs_def opt_nonempty_def Let_def simp del: fst_dict_update)
  have "fst ` set ?m \<subseteq> set flds" by auto
  with sub have "fst ` set ?c \<subseteq> set flds" by simp
  then have only: "x \<in> set flds" if "dict_has x ?c" for x
    using that by (auto simp: dict_has_def)
  have "\<not> dict_has (''_'' @ k) ?c" "\<not> dict_has (''_'' @ ''_'' @ k) ?c"
    using only pure by blast+
  then have "dict_get (snd (extract_config_and_kwargs flds (Some ''_'') False None None True kwargs)) (''_'' @ k) = Some v"
    using v by (simp add: extract_config_and_kwargs_def opt_nonempty_def Let_def dict_get_filter_key del: filter_filter)
  then show ?thesis
    using only by (simp add: extract_config_and_kwargs_def Let_def case_prod_unfold)
qed

lemma extract_prefix_keeps_rest_witness:
  "dict_get (snd (extract_config_and_kwargs [''key''] (Some ''_'') False None None True
      [(''_key'', PStr ''a''), (''x'', PInt 1)])) (''_'' @ ''key'') = Some (PStr ''a'')"
  using extract_prefix_keeps_rest[of "[(''_key'', PStr ''a''), (''x'', PInt 1)]" "''key''" "PStr ''a''" "[''key'']"]
  by (simp add: wf_dict_def dict_get_def str_replace_def Let_def case_prod_unfold)

section \<open>Creating a job\<close>

definition job_fields :: "string list" where
  "job_fields =
     [''timeout'', ''retries'', ''ttl'', ''retry_delay'', ''retry_backoff'', ''max_stuck_duration'',
      ''heartbeat'', ''scheduled'', ''progress'', ''attempts'', ''completed'', ''queued'', ''started'',
      ''touched'', ''queue'', ''function'', ''args'', ''kwargs'', ''key'', ''result'', ''error'', ''status'',
      ''metadata'', ''worker_id'', ''worker_name'', ''job_callback'', ''job_callback_kwargs'',
      ''bypass_lock'', ''queue_name'']"

text \<open>The loop of \<open>create\<close>: a field goes into the job's attributes, anything else into the
  dictionary under \<open>kwargs\<close>. A \<open>kwargs\<close> argument that is no dictionary
  cannot be assigned to.\<close>

fun create_attrs :: "pydict \<Rightarrow> pydict \<Rightarrow> pydict result" where
  "create_attrs acc [] = Inr acc"
| "create_attrs acc ((k, v) # rest) =
     (if k \<in> set job_fields then create_attrs (dict_set k v acc) rest
      else case dict_get acc ''kwargs'' of
        Some (PDict d) \<Rightarrow> create_attrs (dict_set ''kwargs'' (PDict (dict_set k v d)) acc) rest
      | _ \<Rightarrow> Inl TypeError)"

definition job_kwargs :: "pyval list \<Rightarrow> pydict \<Rightarrow> pydict result" where
  "job_kwargs args kwargs = create_attrs [(''kwargs'', PDict []), (''args'', PTuple args)] kwargs"

text \<open>\<open>setattr\<close> on a job, for the fields the model keeps. A value outside the field's type is
  \<open>None\<close>: the job leaves the model.\<close>

fun string_option :: "pyval \<Rightarrow> string option option" where
  "string_option PNone = Some None"
| "string_option (PStr s) = Some (Some s)"
| "string_option _ = None"

fun list_items :: "pyval \<Rightarrow> pyval list option" where
  "list_items (PList xs) = Some xs"
| "list_items (PTuple xs) = Some xs"
| "list_items _ = None"

fun int_of :: "pyval \<Rightarrow> int option" where
  "int_of (PInt i) = Some i"
| "int_of _ = None"

definition job_setattr :: "string \<Rightarrow> pyval \<Rightarrow> job \<Rightarrow> job option" where
  "job_setattr k v j =
     (if k = ''args'' then map_option (\<lambda>xs. j\<lparr>jargs := xs\<rparr>) (list_items v)
      else if k = ''kwargs'' then (case v of PDict d \<Rightarrow> Some (j\<lparr>jkwargs := d\<rparr>) | _ \<Rightarrow> None)
      else if k = ''key'' then (case v of PStr s \<Rightarrow> Some (j\<lparr>jkey := s\<rparr>) | _ \<Rightarrow> None)
      else if k = ''function'' then (case v of PStr s \<Rightarrow> Some (j\<lparr>jfunction := s\<rparr>) | _ \<Rightarrow> None)
      else if k = ''result'' then Some (j\<lparr>result := v\<rparr>)
      else if k = ''error'' then Some (j\<lparr>jerror := v\<rparr>)
      else if k = ''worker_id'' then map_option (\<lambda>s. j\<lparr>worker_id := s\<rparr>) (string_option v)
      else if k = ''worker_name'' then map_option (\<lambda>s. j\<lparr>worker_name := s\<rparr>) (string_option v)
      else if k = ''job_callback'' then map_option (\<lambda>s. j\<lparr>job_callback := s\<rparr>) (string_option v)
      else if k = ''queue_name'' then map_option (\<lambda>s. j\<lparr>job_queue_name := s\<rparr>) (string_option v)
      else if k = ''timeout'' then map_option (\<lambda>i. j\<lparr>timeout := i\<rparr>) (int_of v)
      else if k = ''retries'' then map_option (\<lambda>i. j\<lparr>retries := i\<rparr>) (int_of v)
      else if k = ''ttl'' then map_option (\<lambda>i. j\<lparr>ttl := i\<rparr>) (int_of v)
      else if k = ''heartbeat'' then map_option (\<lambda>i. j\<lparr>heartbeat := i\<rparr>) (int_of v)
      else if k = ''attempts'' then map_option (\<lambda>i. j\<lparr>attempts := i\<rparr>) (int_of v)
      else if k = ''scheduled'' then map_option (\<lambda>x. j\<lparr>scheduled := x\<rparr>) (number_value v)
      else if k = ''retry_delay'' then map_option (\<lambda>x. j\<lparr>retry_delay := x\<rparr>) (number_value v)
      else None)"

fun set_attrs :: "pydict \<Rightarrow> job \<Rightarrow> job option" where
  "set_attrs [] j = Some j"
| "set_attrs ((k, v) # rest) j = (case job_setattr k v j of None \<Rightarrow> None | Some j' \<Rightarrow> set_attrs rest j')"

text \<open>\<open>create\<close> on a job instance; \<open>build\<close> is the construction of a new job from its function
  name and attributes by the validating constructor.\<close>

datatype job_or_func = FuncName string | JobInstance job | Callable string | Invalid

definition create ::
    "(string \<Rightarrow> pydict \<Rightarrow> job option) \<Rightarrow> (string \<Rightarrow> string) \<Rightarrow> job_or_func \<Rightarrow> pyval list \<Rightarrow> pydict \<Rightarrow> job option result" where
  "create build build_function_name jf args kwargs =
     bindR (job_kwargs args kwargs) (\<lambda>attrs.
       case jf of
         FuncName f \<Rightarrow> Inr (build f attrs)
       | JobInstance j \<Rightarrow> Inr (set_attrs attrs j)
       | Callable f \<Rightarrow> Inr (build (build_function_name f) attrs)
       | Invalid \<Rightarrow> Inl ValueError)"

lemma create_attrs_get:
  assumes "wf_dict kwargs" and "\<not> dict_has ''kwargs'' kwargs" and "dict_get acc ''kwargs'' = Some (PDict d)"
  shows "\<exists>acc' d'. create_attrs acc kwargs = Inr acc' \<and> dict_get acc' ''kwargs'' = Some (PDict d') \<and>
    (\<forall>k. k \<noteq> ''kwargs'' \<longrightarrow> dict_get acc' k =
       (case dict_get kwargs k of Some v \<Rightarrow> if k \<in> set job_fields then Some v else dict_get acc k
        | None \<Rightarrow> dict_get acc k)) \<and>
    (\<forall>k. dict_get d' k =
       (case dict_get kwargs k of Some v \<Rightarrow> if k \<notin> set job_fields then Some v else dict_get d k
        | None \<Rightarrow> dict_get d k))"
  using assms
proof (induction kwargs arbitrary: acc d)
  case Nil
  then show ?case by (simp add: dict_get_def)
next
  case (Cons a kwargs)
  obtain k v where a: "a = (k, v)" by fastforce
  have wf: "wf_dict kwargs" and none: "dict_get kwargs k = None" and nk: "k \<noteq> ''kwargs''"
    and nh: "\<not> dict_has ''kwargs'' kwargs"
    using Cons.prems by (auto simp: a wf_dict_def dict_get_def dict_has_def map_of_eq_None_iff)
  have g: "dict_get (a # kwargs) x = (if x = k then Some v else dict_get kwargs x)" for x
    by (simp add: a dict_get_def)
  show ?case
  proof (cases "k \<in> set job_fields")
    case True
    have "dict_get (dict_set k v acc) ''kwargs'' = Some (PDict d)" using Cons.prems nk by simp
    from Cons.IH[OF wf nh this] obtain acc' d' where
      c: "create_attrs (dict_set k v acc) kwargs = Inr acc'" "dict_get acc' ''kwargs'' = Some (PDict d')"
        "\<And>k'. k' \<noteq> ''kwargs'' \<Longrightarrow> dict_get acc' k' =
          (case dict_get kwargs k' of Some v' \<Rightarrow> if k' \<in> set job_fields then Some v' else dict_get (dict_set k v acc) k'
           | None \<Rightarrow> dict_get (dict_set k v acc) k')"
        "\<And>k'. dict_get d' k' =
          (case dict_get kwargs k' of Some v' \<Rightarrow> if k' \<notin> set job_fields then Some v' else dict_get d k'
           | None \<Rightarrow> dict_get d k')" by blast
    show ?thesis
    proof (intro exI conjI allI impI)
      show "create_attrs acc (a # kwargs) = Inr acc'" using c(1) True  by (simp add: a)
      show "dict_get acc' k' = (case dict_get (a # kwargs) k' of
          Some v' \<Rightarrow> if k' \<in> set job_fields then Some v' else dict_get acc k' | None \<Rightarrow> dict_get acc k')"
        if "k' \<noteq> ''kwargs''" for k'
        using c(3)[OF that] that True none by (cases "k' = k") (simp_all add: g split: option.splits)
      show "dict_get d' k' = (case dict_get (a # kwargs) k' of
          Some v' \<Rightarrow> if k' \<notin> set job_fields then Some v' else dict_get d k' | None \<Rightarrow> dict_get d k')" for k'
        using c(4)[of k'] True none by (cases "k' = k") (simp_all add: g split: option.splits)
    qed (rule c(2))
  next
    case False
    let ?acc = "dict_set ''kwargs'' (PDict (dict_set k v d)) acc"
    have "dict_get ?acc ''kwargs'' = Some (PDict (dict_set k v d))" by simp
    from Cons.IH[OF wf nh this] obtain acc' d' where
      c: "create_attrs ?acc kwargs = Inr acc'" "dict_get acc' ''kwargs'' = Some (PDict d')"
        "\<And>k'. k' \<noteq> ''kwargs'' \<Longrightarrow> dict_get acc' k' =
          (case dict_get kwargs k' of Some v' \<Rightarrow> if k' \<in> set job_fields then Some v' else dict_get ?acc k'
           | None \<Rightarrow> dict_get ?acc k')"
        "\<And>k'. dict_get d' k' =
          (case dict_get kwargs k' of Some v' \<Rightarrow> if k' \<notin> set job_fields then Some v' else dict_get (dict_set k v d) k'
           | None \<Rightarrow> dict_get (dict_set k v d) k')" by blast
    show ?thesis
    proof (intro exI conjI allI impI)
      show "create_attrs acc (a # kwargs) = Inr acc'" using c(1) False Cons.prems(3) by (simp add: a)
      show "dict_get acc' k' = (case dict_get (a # kwargs) k' of
          Some v' \<Rightarrow> if k' \<in> set job_fields then Some v' else dict_get acc k' | None \<Rightarrow> dict_get acc k')"
        if "k' \<noteq> ''kwargs''" for k'
        using c(3)[OF that] that False none by (cases "k' = k") (simp_all add: g split: option.splits)
      show "dict_get d' k' = (case dict_get (a # kwargs) k' of
          Some v' \<Rightarrow> if k' \<notin> set job_fields then Some v' else dict_get d k' | None \<Rightarrow> dict_get d k')" for k'
        using c(4)[of k'] False none by (cases "k' = k") (simp_all add: g split: option.splits)
    qed (rule c(2))
  qed
qed

text \<open>\<open>Job.create\<close> loses no argument: an argument that names a field of the job
  becomes that attribute, every other one becomes an argument of the function, and the
  positional arguments become \<open>args\<close>.\<close>

theorem create_splits:
  "wf_dict kwargs \<Longrightarrow> \<not> dict_has ''kwargs'' kwargs \<Longrightarrow> \<not> dict_has ''args'' kwargs \<Longrightarrow>
   \<exists>attrs d. job_kwargs args kwargs = Inr attrs \<and>
     dict_get attrs ''kwargs'' = Some (PDict d) \<and> dict_get attrs ''args'' = Some (PTuple args) \<and>
     (\<forall>k v. dict_get kwargs k = Some v \<longrightarrow>
        (if k \<in> set job_fields then dict_get attrs k = Some v else dict_get d k = Some v)) \<and>
     (\<forall>k. dict_get kwargs k = None \<longrightarrow> dict_get d k = None)"
proof -
  assume wf: "wf_dict kwargs" and nk: "\<not> dict_has ''kwargs'' kwargs" and na: "\<not> dict_has ''args'' kwargs"
  let ?acc = "[(''kwargs'', PDict []), (''args'', PTuple args)]"
  have "dict_get ?acc ''kwargs'' = Some (PDict [])" by (simp add: dict_get_def)
  from create_attrs_get[OF wf nk this] obtain acc' d' where
    c: "create_attrs ?acc kwargs = Inr acc'" "dict_get acc' ''kwargs'' = Some (PDict d')"
      "\<And>k. k \<noteq> ''kwargs'' \<Longrightarrow> dict_get acc' k =
        (case dict_get kwargs k of Some v \<Rightarrow> if k \<in> set job_fields then Some v else dict_get ?acc k
         | None \<Rightarrow> dict_get ?acc k)"
      "\<And>k. dict_get d' k =
        (case dict_get kwargs k of Some v \<Rightarrow> if k \<notin> set job_fields then Some v else dict_get [] k
         | None \<Rightarrow> dict_get [] k)" by blast
  have "dict_get acc' ''args'' = Some (PTuple args)"
    using c(3)[of "''args''"] na by (simp add: dict_has_iff dict_get_def)
  moreover have "k \<noteq> ''kwargs''" if "dict_get kwargs k = Some v" for k v
    using that nk by (auto simp: dict_has_iff)
  ultimately show ?thesis
    using c by (auto simp: job_kwargs_def dict_get_def[of "[]"] split: option.splits
        intro!: exI[of _ acc'] exI[of _ d'])
qed

lemma create_splits_witness:
  "\<exists>attrs d. job_kwargs [PInt 1] [(''ttl'', PInt 5), (''x'', PInt 7)] = Inr attrs \<and>
     dict_get attrs ''kwargs'' = Some (PDict d) \<and> dict_get attrs ''ttl'' = Some (PInt 5) \<and>
     dict_get d ''x'' = Some (PInt 7)"
proof -
  have h: "wf_dict [(''ttl'', PInt 5), (''x'', PInt 7)]"
    "\<not> dict_has ''kwargs'' [(''ttl'', PInt 5), (''x'', PInt 7)]"
    "\<not> dict_has ''args'' [(''ttl'', PInt 5), (''x'', PInt 7)]"
    by (simp_all add: wf_dict_def dict_has_def)
  have f: "''ttl'' \<in> set job_fields" "''x'' \<notin> set job_fields" by (simp_all add: job_fields_def)
  have g: "dict_get [(''ttl'', PInt 5), (''x'', PInt 7)] ''ttl'' = Some (PInt 5)"
    "dict_get [(''ttl'', PInt 5), (''x'', PInt 7)] ''x'' = Some (PInt 7)"
    by (simp_all add: dict_get_def)
  obtain attrs d where c: "job_kwargs [PInt 1] [(''ttl'', PInt 5), (''x'', PInt 7)] = Inr attrs"
      "dict_get attrs ''kwargs'' = Some (PDict d)"
      "\<forall>k v. dict_get [(''ttl'', PInt 5), (''x'', PInt 7)] k = Some v \<longrightarrow>
        (if k \<in> set job_fields then dict_get attrs k = Some v else dict_get d k = Some v)"
    using create_splits[OF h, of "[PInt 1]"] by blast
  have "dict_get attrs ''ttl'' = Some (PInt 5)" using c(3)[rule_format, OF g(1)] f by simp
  moreover have "dict_get d ''x'' = Some (PInt 7)" using c(3)[rule_format, OF g(2)] f by simp
  ultimately show ?thesis using c(1,2) by blast
qed

text \<open>Creating a job from a job instance without further arguments erases its arguments:
  \<open>job.enqueue()\<close> calls \<open>queue.enqueue(self)\<close>, which sets \<open>args\<close> and \<open>kwargs\<close> of the
  instance to empty before it is serialised; all other fields are kept.\<close>

theorem create_erases_arguments:
  "create build name (JobInstance j) [] [] = Inr (Some (j\<lparr>jargs := [], jkwargs := []\<rparr>))"
  by (simp add: create_def job_kwargs_def job_setattr_def)

end
