(* ===== verification/Queue_Jobs.thy ===== *)
theory Queue_Jobs
  imports Queue_Monitor Kwargs
begin

text \<open>
  The operations of \<^verbatim>\<open>kvdb/tasks/queue.py\<close> on many jobs: preparing the arguments of mapped and
  broadcast jobs, listening for their end, collecting their results, and waiting for jobs by
  polling. What the server and the other processes do in the meantime is an argument: the
  messages a listener receives, the outcome of each refresh.
\<close>

section \<open>Preparing jobs\<close>

text \<open>The keyword names and the generator of default keys, numbered in the order of its calls.\<close>

record job_kws =
  key_kw :: string
  timeout_kw :: string
  fresh_key :: "nat \<Rightarrow> string"

definition truthy_key :: "pyval option \<Rightarrow> pyval option" where
  "truthy_key v = (case v of Some x \<Rightarrow> if truthy x then Some x else None | None \<Rightarrow> None)"

text \<open>One dictionary: timeout and key first, then the defaults, the job's own arguments and the
  worker. The key is popped from the job's arguments, so it is found only once.\<close>

definition prepare_one ::
    "job_kws \<Rightarrow> pyval \<Rightarrow> pydict \<Rightarrow> pydict \<Rightarrow> nat \<times> pydict \<Rightarrow> pydict \<times> nat \<times> pydict" where
  "prepare_one cfg tmo defaults worker_kw st =
     (let (n, kw) = st;
          given = truthy_key (dict_get kw (key_kw cfg));
          kw' = dict_del (key_kw cfg) kw;
          (key, n') = (case given of Some v \<Rightarrow> (v, n) | None \<Rightarrow> (PStr (fresh_key cfg n), Suc n));
          d = dict_update (dict_update (dict_update
                (dict_set (key_kw cfg) key [(timeout_kw cfg, tmo)]) defaults) kw') worker_kw in
      (d, n', kw'))"

fun prepare_workers ::
    "job_kws \<Rightarrow> pyval \<Rightarrow> pydict \<Rightarrow> pydict list \<Rightarrow> nat \<times> pydict \<Rightarrow> pydict list \<times> nat" where
  "prepare_workers cfg tmo defaults [] st = ([], fst st)"
| "prepare_workers cfg tmo defaults (wk # wks) st =
     (let (d, st') = prepare_one cfg tmo defaults wk st;
          (ds, n) = prepare_workers cfg tmo defaults wks st' in (d # ds, n))"

fun prepare_all ::
    "job_kws \<Rightarrow> pyval \<Rightarrow> pydict \<Rightarrow> pydict list \<Rightarrow> pydict list \<Rightarrow> nat \<Rightarrow> pydict list \<times> nat" where
  "prepare_all cfg tmo defaults wks [] n = ([], n)"
| "prepare_all cfg tmo defaults wks (kw # kws) n =
     (let (ds, n') = prepare_workers cfg tmo defaults wks (n, kw);
          (es, n'') = prepare_all cfg tmo defaults wks kws n' in (ds @ es, n''))"

text \<open>Which workers: an explicit selection, the selector's result, the names, or, for a
  broadcast, every registered id.\<close>

record worker_choice =
  broadcast :: bool
  workers_selected :: "pydict list"
  selector_result :: "pydict list option"
  worker_names :: "string list"

definition choose_workers :: "string list \<Rightarrow> worker_choice \<Rightarrow> pydict list option" where
  "choose_workers worker_ids c =
     (if \<not> broadcast c \<and> selector_result c = None \<and> worker_names c = [] \<and> workers_selected c = [] then None
      else if workers_selected c \<noteq> [] then Some (workers_selected c)
      else case selector_result c of
        Some ws \<Rightarrow> Some ws
      | None \<Rightarrow> if worker_names c \<noteq> [] then Some (map (\<lambda>n. [(''worker_name'', PStr n)]) (worker_names c))
                else Some (map (\<lambda>i. [(''worker_id'', PStr i)]) worker_ids))"

definition prepare_job_kws ::
    "job_kws \<Rightarrow> int \<Rightarrow> string list \<Rightarrow> worker_choice \<Rightarrow> pydict list \<Rightarrow> pydict \<Rightarrow> pydict list \<times> pydict list option" where
  "prepare_job_kws cfg default_timeout worker_ids c iter_kwargs kwargs =
     (let tmo = (case dict_get kwargs (timeout_kw cfg) of Some v \<Rightarrow> v | None \<Rightarrow> PInt default_timeout);
          defaults = dict_del (key_kw cfg) (dict_del (timeout_kw cfg) kwargs) in
      case choose_workers worker_ids c of
        None \<Rightarrow> (fst (prepare_all cfg tmo defaults [[]] iter_kwargs 0), None)
      | Some wks \<Rightarrow> (fst (prepare_all cfg tmo defaults wks iter_kwargs 0), Some wks))"

lemma length_prepare_workers [simp]: "length (fst (prepare_workers cfg tmo d wks st)) = length wks"
  by (induction wks arbitrary: st) (simp_all add: Let_def case_prod_unfold)

lemma length_prepare_all [simp]:
  "length (fst (prepare_all cfg tmo d wks kws n)) = length wks * length kws"
  by (induction kws arbitrary: n) (simp_all add: Let_def case_prod_unfold)

lemma prepare_workers_bound:
  "x \<in> set (fst (prepare_workers cfg tmo d wks st)) \<Longrightarrow> wf_dict wk \<Longrightarrow> \<forall>w\<in>set wks. w = wk \<Longrightarrow>
   dict_get wk k = Some v \<Longrightarrow> dict_get x k = Some v"
  by (induction wks arbitrary: st)
     (auto simp: Let_def case_prod_unfold prepare_one_def dict_get_update)

lemma prepare_worker_of:
  "i < length wks \<Longrightarrow> wf_dict (wks ! i) \<Longrightarrow> dict_get (wks ! i) k = Some v \<Longrightarrow>
   dict_get (fst (prepare_workers cfg tmo d wks st) ! i) k = Some v"
proof (induction wks arbitrary: st i)
  case (Cons w ws)
  then show ?case
    by (cases i) (simp_all add: Let_def case_prod_unfold prepare_one_def dict_get_update)
qed simp

text \<open>Preparing jobs gives one job per set of arguments and worker; without a choice of workers
  one per set of arguments. Every worker of a broadcast gets exactly one job per set of arguments,
  bound to it: whatever the caller's arguments say, the worker's own binding wins.\<close>

theorem prepare_jobs_per_worker:
  "fst (prepare_job_kws cfg t ids c [kw] kwargs) = ds \<Longrightarrow>
   (case choose_workers ids c of
      None \<Rightarrow> length ds = 1
    | Some wks \<Rightarrow> length ds = length wks \<and>
        (\<forall>i < length wks. wf_dict (wks ! i) \<longrightarrow>
           (\<forall>k v. dict_get (wks ! i) k = Some v \<longrightarrow> dict_get (ds ! i) k = Some v)))"
  by (auto simp: prepare_job_kws_def Let_def case_prod_unfold prepare_worker_of split: option.splits)

lemma prepare_jobs_per_worker_witness:
  "length (fst (prepare_job_kws \<lparr>key_kw = ''key'', timeout_kw = ''timeout'', fresh_key = nat_digits\<rparr> 900
     [''w1'', ''w2''] \<lparr>broadcast = True, workers_selected = [], selector_result = None, worker_names = []\<rparr>
     [[(''a'', PInt 1)]] [])) = 2"
  using prepare_jobs_per_worker[of "\<lparr>key_kw = ''key'', timeout_kw = ''timeout'', fresh_key = nat_digits\<rparr>" 900
     "[''w1'', ''w2'']" "\<lparr>broadcast = True, workers_selected = [], selector_result = None, worker_names = []\<rparr>"
     "[(''a'', PInt 1)]" "[]", OF refl]
  by (simp add: choose_workers_def)

section \<open>Listening for the end of jobs\<close>

text \<open>The key a listener finds in a message is the last part of the channel's name.\<close>

lemma key_from_id_job_id:
  "CHR '':'' \<notin> set k \<Longrightarrow> \<not> str_in (job_id_prefix tq) k \<Longrightarrow> key_from_id (job_id tq k) = k"
  by (simp add: key_from_id_def job_id_def)

definition map_callback :: "bool \<Rightarrow> string \<Rightarrow> job_status \<Rightarrow> string set \<Rightarrow> bool \<times> string set" where
  "map_callback return_exceptions key st pending_keys =
     (let p = (if st \<in> TERMINAL_JOB_STATUSES then pending_keys - {key} else pending_keys) in
      if st \<in> UNSUCCESSFUL_TERMINAL_JOB_STATUSES \<and> \<not> return_exceptions then (True, p)
      else (p = {}, p))"

text \<open>\<open>listen\<close>: the messages of the subscribed channels until the callback says stop; \<open>None\<close>
  while it is still listening. A message carries the channel and the published status.\<close>

fun listen :: "bool \<Rightarrow> (string \<times> job_status) list \<Rightarrow> string set \<Rightarrow> string set option" where
  "listen return_exceptions [] pending_keys = None"
| "listen return_exceptions ((channel, st) # msgs) pending_keys =
     (let (stop, p) = map_callback return_exceptions (key_from_id channel) st pending_keys in
      if stop then Some p else listen return_exceptions msgs p)"

lemma listen_pending_antimono: "listen r msgs p = Some p' \<Longrightarrow> p' \<subseteq> p"
  by (induction r msgs p rule: listen.induct)
     (auto simp: map_callback_def Let_def case_prod_unfold split: if_splits)

lemma listen_keeps_foreign:
  "k \<in> p \<Longrightarrow> \<forall>(c, st) \<in> set msgs. key_from_id c \<noteq> k \<Longrightarrow> listen True msgs p = None"
proof (induction msgs arbitrary: p)
  case (Cons m msgs)
  obtain c st where m: "m = (c, st)" by fastforce
  let ?p = "if st \<in> TERMINAL_JOB_STATUSES then p - {key_from_id c} else p"
  have k: "k \<in> ?p" using Cons.prems by (auto simp: m)
  then have "listen True msgs ?p = None" using Cons.prems(2) by (intro Cons.IH) auto
  then show ?case using k by (auto simp: m map_callback_def Let_def)
qed simp

lemma listen_all_done:
  "p \<noteq> {} \<Longrightarrow> \<forall>k\<in>p. \<exists>(c, st) \<in> set msgs. key_from_id c = k \<and> st \<in> TERMINAL_JOB_STATUSES \<Longrightarrow>
   listen True msgs p = Some {}"
proof (induction True msgs p rule: listen.induct)
  case (2 c st msgs p)
  let ?p = "if st \<in> TERMINAL_JOB_STATUSES then p - {key_from_id c} else p"
  show ?case
  proof (cases "?p = {}")
    case True
    then show ?thesis by (simp add: map_callback_def Let_def)
  next
    case False
    have "\<forall>k\<in>?p. \<exists>(c, st) \<in> set msgs. key_from_id c = k \<and> st \<in> TERMINAL_JOB_STATUSES"
      using "2.prems"(2) by (auto split: if_splits)
    then show ?thesis
      using "2.hyps"[of "(False, ?p)" False ?p] False by (simp add: map_callback_def Let_def)
  qed
qed auto

text \<open>Mapping jobs waits for all of them, provided that no key contains a colon. With
  exceptions returned, the listener stops once every key has seen a terminal status on
  its channel; a key with a colon is never recognised in the channel's name, so the
  listener does not stop on any messages.\<close>

theorem map_listens_for_all:
  "keys \<noteq> [] \<Longrightarrow> (\<forall>k \<in> set keys. \<not> str_in (job_id_prefix tq) k) \<Longrightarrow>
   (if \<forall>k \<in> set keys. CHR '':'' \<notin> set k
    then (\<forall>k \<in> set keys. \<exists>st \<in> TERMINAL_JOB_STATUSES. (job_id tq k, st) \<in> set msgs) \<longrightarrow>
         listen True msgs (set keys) = Some {}
    else listen True msgs (set keys) = None)"
proof -
  assume ne: "keys \<noteq> []" and pre: "\<forall>k \<in> set keys. \<not> str_in (job_id_prefix tq) k"
  show ?thesis
  proof (cases "\<forall>k \<in> set keys. CHR '':'' \<notin> set k")
    case True
    have "listen True msgs (set keys) = Some {}"
      if "\<forall>k \<in> set keys. \<exists>st \<in> TERMINAL_JOB_STATUSES. (job_id tq k, st) \<in> set msgs"
      using that True pre ne key_from_id_job_id by (intro listen_all_done) fastforce+
    then show ?thesis using True by simp
  next
    case False
    then obtain k where k: "k \<in> set keys" "CHR '':'' \<in> set k" by blast
    have "key_from_id c \<noteq> k" for c
      using k(2) rsplit_last_no_sep[of "CHR '':''" c] by (auto simp: key_from_id_def)
    then have "listen True msgs (set keys) = None"
      using k(1) by (intro listen_keeps_foreign) auto
    then show ?thesis unfolding if_not_P[OF False] .
  qed
qed

lemma map_listens_for_all_witness:
  "listen True [(job_id ex_queue ''a:b'', COMPLETE)] (set [''a:b'']) = None"
proof -
  have pre: "\<forall>k \<in> set [''a:b'']. \<not> str_in (job_id_prefix ex_queue) k" by code_simp
  show ?thesis
    using map_listens_for_all[OF _ pre, of "[(job_id ex_queue ''a:b'', COMPLETE)]"] by simp
qed

section \<open>Collecting results\<close>

datatype job_outcome = NoJobFound | FailedWith string job_status pyval | ResultOf pyval

fun collect_results :: "task_queue \<Rightarrow> bool \<Rightarrow> (job option \<times> string) list \<Rightarrow> job_outcome list result" where
  "collect_results tq return_exceptions [] = Inr []"
| "collect_results tq return_exceptions ((oj, key) # rest) =
     (case oj of
        None \<Rightarrow>
          if \<not> return_exceptions then Inl ValueError
          else bindR (collect_results tq return_exceptions rest) (\<lambda>rs. Inr (NoJobFound # rs))
      | Some j \<Rightarrow>
          if status j \<in> UNSUCCESSFUL_TERMINAL_JOB_STATUSES then
            (if \<not> return_exceptions then Inl JobError
             else bindR (collect_results tq return_exceptions rest)
                    (\<lambda>rs. Inr (FailedWith (ident tq j) (status j) (jerror j) # rs)))
          else bindR (collect_results tq return_exceptions rest) (\<lambda>rs. Inr (ResultOf (result j) # rs)))"

definition outcome_of :: "task_queue \<Rightarrow> job option \<Rightarrow> job_outcome" where
  "outcome_of tq oj =
     (case oj of None \<Rightarrow> NoJobFound
      | Some j \<Rightarrow> if has_failed j then FailedWith (ident tq j) (status j) (jerror j) else ResultOf (result j))"

lemma collect_returning: "collect_results tq True js = Inr (map (outcome_of tq \<circ> fst) js)"
  by (induction js) (auto simp: outcome_of_def has_failed_def split: option.splits)

lemma collect_raising:
  "collect_results tq False js =
     (if \<forall>(oj, k) \<in> set js. \<exists>j. oj = Some j \<and> \<not> has_failed j
      then Inr (map (\<lambda>(oj, k). ResultOf (result (the oj))) js)
      else (case find (\<lambda>(oj, k). \<not> (\<exists>j. oj = Some j \<and> \<not> has_failed j)) js of
              Some (None, k) \<Rightarrow> Inl ValueError | _ \<Rightarrow> Inl JobError))"
  by (induction js) (auto simp: has_failed_def split: option.splits prod.splits)

text \<open>The results of mapped jobs come in the order of the jobs, one for each. With
  exceptions returned nothing is raised: a missing job gives None, a failed one its error.
  Otherwise the first job that is missing or failed decides: a missing one raises
  ValueError, a failed one JobError, and only if there is none the results are returned.\<close>

theorem map_results_in_order:
  "collect_results tq True js = Inr (map (outcome_of tq \<circ> fst) js) \<and>
   collect_results tq False js =
     (if \<forall>(oj, k) \<in> set js. \<exists>j. oj = Some j \<and> \<not> has_failed j
      then Inr (map (\<lambda>(oj, k). ResultOf (result (the oj))) js)
      else (case find (\<lambda>(oj, k). \<not> (\<exists>j. oj = Some j \<and> \<not> has_failed j)) js of
              Some (None, k) \<Rightarrow> Inl ValueError | _ \<Rightarrow> Inl JobError))"
  using collect_returning collect_raising by blast

lemma map_results_in_order_witness:
  "collect_results ex_queue True [(None, ''b'')] = Inr [NoJobFound]"
  using map_results_in_order[of ex_queue "[(None, ''b'')]"] by (simp add: outcome_of_def)

section \<open>Waiting for jobs\<close>

text \<open>\<open>refresh\<close>: the attributes of the stored job, or the exception.\<close>

definition refresh :: "'db backend \<Rightarrow> task_queue \<Rightarrow> job \<Rightarrow> 'db world \<Rightarrow> job result" where
  "refresh B tq j w =
     (case fetch_job B tq (jkey j) True w of
        Inl e \<Rightarrow> Inl e
      | Inr None \<Rightarrow> Inl RuntimeError
      | Inr (Some j') \<Rightarrow> Inr j')"

text \<open>The polling loop of \<open>wait_for_job\<close> on the outcomes of its refreshes; \<open>None\<close> while it is
  still waiting. The second component counts how often the job was enqueued again.\<close>

fun wait_for_job :: "bool \<Rightarrow> job result list \<Rightarrow> job \<Rightarrow> nat \<Rightarrow> (job result \<times> nat) option" where
  "wait_for_job raise_exceptions [] j n = None"
| "wait_for_job raise_exceptions (r # rs) j n =
     (case r of
        Inl AttributeError \<Rightarrow> Some (if raise_exceptions then Inl AttributeError else Inr j, n)
      | Inl RuntimeError \<Rightarrow>
          if status j = COMPLETE then Some (Inr j, Suc n)
          else if has_failed j then Some (if raise_exceptions then Inl JobError else Inr j, Suc n)
          else wait_for_job raise_exceptions rs j (Suc n)
      | Inl e \<Rightarrow> Some (Inl e, n)
      | Inr j' \<Rightarrow>
          if status j' = COMPLETE then Some (Inr j', n)
          else if has_failed j' then Some (if raise_exceptions then Inl JobError else Inr j', n)
          else wait_for_job raise_exceptions rs j' n)"

text \<open>Waiting for a job whose record is gone does not enqueue it again. A refresh of a
  missing job raises AttributeError, never the RuntimeError that the loop answers by enqueueing,
  so the wait ends at once with the job as it was last seen, or with the AttributeError.\<close>

theorem wait_for_missing_job:
  "redis_queue (server B) view \<Longrightarrow> view (wdb w) (ident tq j) = None \<Longrightarrow>
   refresh B tq j w = Inl AttributeError \<and>
   wait_for_job raise_exceptions (refresh B tq j w # rs) j n =
     Some (if raise_exceptions then Inl AttributeError else Inr j, n) \<and>
   refresh B tq j' w' \<noteq> Inl RuntimeError"
proof -
  assume srv: "redis_queue (server B) view" and v: "view (wdb w) (ident tq j) = None"
  have never: "fetch_job B tq k True w' \<noteq> Inl RuntimeError \<and> fetch_job B tq k True w' \<noteq> Inr None" for k w'
    by (auto simp: fetch_job_def get_job_by_id_def deserialize_def split: sum.splits rreply.splits rval.splits option.splits)
  have "refresh B tq j w = Inl AttributeError"
    using redis_queue.fetch_missing[OF srv refl v] by (simp add: refresh_def)
  then show ?thesis using never[of "jkey j'" w']
    by (auto simp: refresh_def split: sum.splits option.splits)
qed

lemma wait_for_missing_job_witness:
  "wait_for_job False [refresh ex_backend ex_queue (ex_job ''a'') ex_world] (ex_job ''a'') 0 =
     Some (Inr (ex_job ''a''), 0)"
  using wait_for_missing_job[OF ex_laws ex_world_view, of ex_queue "ex_job ''a''" False "[]" 0 "ex_job ''a''" ex_world]
  by simp

end
