(* ===== verification/Queue_Waiting.thy ===== *)
theory Queue_Waiting
  imports Queue_Jobs "HOL-Library.Multiset"
begin

text \<open>
  Waiting for several jobs, as a list (\<open>wait_for_jobs\<close>) or one by one (\<open>as_jobs_complete\<close>), in
  \<^verbatim>\<open>kvdb/tasks/queue.py\<close>. Both loops remove jobs from the very list they run over, which is also the
  list of the caller: the position in it goes on although the list has become shorter. What a
  refresh finds is an argument, a function of the number of refreshes so far and of the job; so is
  what enqueueing a job again does. A list of distinct job objects is assumed, two of which may
  have the same key. \<open>fuel\<close> bounds the number of refreshes; \<open>None\<close> means the loop is still
  waiting.
\<close>

section \<open>One job of a pass\<close>

text \<open>\<open>list.remove\<close>: the first element that equals the job, that is, has its key.\<close>

fun remove_job :: "job \<Rightarrow> job list \<Rightarrow> job list result" where
  "remove_job x [] = Inl ValueError"
| "remove_job x (j # js) =
     (if job_eq j (JobOf x) then Inr js
      else bindR (remove_job x js) (\<lambda>js'. Inr (j # js')))"

text \<open>The list that is waited for, the results so far, how often the progress of the source job
  was raised, how often a job was enqueued again.\<close>

record wait_state =
  jobs_left :: "job list"
  collected :: "pyval list"
  source_steps :: nat
  reenqueued :: nat

record wait_env =
  refreshed :: "nat \<Rightarrow> job \<Rightarrow> job result"
  enqueued_again :: "job \<Rightarrow> job result"
  has_source :: bool
  raising :: bool

definition drop_job :: "job \<Rightarrow> wait_state \<Rightarrow> error option \<times> wait_state" where
  "drop_job j st =
     (case remove_job j (jobs_left st) of
        Inl e \<Rightarrow> (Some e, st)
      | Inr js \<Rightarrow> (None, st\<lparr>jobs_left := js\<rparr>))"

text \<open>What a pass does with the job once it is refreshed. \<open>as_jobs_complete\<close> asks
  \<open>job.is_complete\<close>, which is the same test, and gives the result away where \<open>wait_for_jobs\<close> appends
  it.\<close>

definition settle_job :: "wait_env \<Rightarrow> job \<Rightarrow> wait_state \<Rightarrow> error option \<times> wait_state" where
  "settle_job env j st =
     (if status j = COMPLETE then
        drop_job j (st\<lparr>collected := collected st @ [result j],
                       source_steps := source_steps st + (if has_source env then 1 else 0)\<rparr>)
      else if has_failed j then
        (if raising env then (Some JobError, st) else drop_job j st)
      else (None, st))"

definition poll_job :: "wait_env \<Rightarrow> nat \<Rightarrow> nat \<Rightarrow> wait_state \<Rightarrow> error option \<times> wait_state" where
  "poll_job env t i st =
     (let j = jobs_left st ! i; put = (\<lambda>j'. st\<lparr>jobs_left := (jobs_left st)[i := j']\<rparr>) in
      case refreshed env t j of
        Inr j' \<Rightarrow> settle_job env j' (put j')
      | Inl RuntimeError \<Rightarrow>
          (case enqueued_again env j of
             Inl e \<Rightarrow> (Some e, st)
           | Inr j' \<Rightarrow> settle_job env j' ((put j')\<lparr>reenqueued := Suc (reenqueued st)\<rparr>))
      | Inl AttributeError \<Rightarrow>
          if raising env then (Some AttributeError, st)
          else (case drop_job j st of
                  (Some e, st') \<Rightarrow> (Some e, st')
                | (None, st') \<Rightarrow> settle_job env j st')
      | Inl e \<Rightarrow> (Some e, st))"

section \<open>Waiting for all\<close>

text \<open>A pass that has come to the end of the list starts again at its head.\<close>

fun wait_loop :: "wait_env \<Rightarrow> nat \<Rightarrow> nat \<Rightarrow> nat \<Rightarrow> wait_state \<Rightarrow> (error option \<times> wait_state) option" where
  "wait_loop env 0 t i st = (if jobs_left st = [] then Some (None, st) else None)"
| "wait_loop env (Suc fuel) t i st =
     (if jobs_left st = [] then Some (None, st)
      else let i' = (if i < length (jobs_left st) then i else 0) in
        case poll_job env t i' st of
          (Some e, st') \<Rightarrow> Some (Some e, st')
        | (None, st') \<Rightarrow> wait_loop env fuel (Suc t) (Suc i') st')"

definition start_waiting :: "job list \<Rightarrow> wait_state" where
  "start_waiting jobs = \<lparr>jobs_left = jobs, collected = [], source_steps = 0, reenqueued = 0\<rparr>"

text \<open>The results or the exception, and the list of the caller afterwards. A failed job raises
  \<open>JobError\<close>; an error that is itself an exception object is not distinguished from it.\<close>

definition wait_for_jobs :: "wait_env \<Rightarrow> nat \<Rightarrow> job list \<Rightarrow> (pyval list result \<times> job list) option" where
  "wait_for_jobs env fuel jobs =
     map_option (\<lambda>(x, st). (case x of None \<Rightarrow> Inr (collected st) | Some e \<Rightarrow> Inl e, jobs_left st))
       (wait_loop env fuel 0 0 (start_waiting jobs))"

section \<open>Yielding jobs as they complete\<close>

text \<open>After each pass, numbered from 0, the caller's \<open>cancel_func\<close> and the time that has gone by are
  looked at. A maximum of 0 counts as none. A generator that is exhausted has given away its
  results, cancelled some jobs and left some in the list.\<close>

record wait_limits =
  cancel_func :: "(nat \<Rightarrow> bool) option"
  elapsed :: "nat \<Rightarrow> rat"
  max_wait_duration :: "rat option"
  cancel_on_expiration :: bool

record wait_outcome =
  yielded :: "pyval list"
  aborted :: "job list"
  remaining :: "job list"
  failure :: "error option"
  steps_of_source :: nat

definition over_time :: "wait_limits \<Rightarrow> nat \<Rightarrow> bool" where
  "over_time lts n =
     (case max_wait_duration lts of None \<Rightarrow> False | Some m \<Rightarrow> m \<noteq> 0 \<and> elapsed lts n > m)"

definition finish_waiting :: "wait_limits \<Rightarrow> job list \<Rightarrow> wait_state \<Rightarrow> wait_outcome" where
  "finish_waiting lts cancelled st =
     \<lparr>yielded = collected st,
      aborted = cancelled @ (if cancel_on_expiration lts then jobs_left st else []),
      remaining = jobs_left st, failure = None, steps_of_source = source_steps st\<rparr>"

text \<open>The end of a pass: \<open>None\<close> when another one follows.\<close>

definition pass_end :: "wait_limits \<Rightarrow> nat \<Rightarrow> wait_state \<Rightarrow> wait_outcome option" where
  "pass_end lts n st =
     (if (case cancel_func lts of None \<Rightarrow> False | Some c \<Rightarrow> c n)
      then Some (finish_waiting lts (jobs_left st) st)
      else if over_time lts n then Some (finish_waiting lts [] st)
      else if jobs_left st = [] then Some (finish_waiting lts [] st)
      else None)"

fun complete_loop ::
    "wait_env \<Rightarrow> wait_limits \<Rightarrow> nat \<Rightarrow> nat \<Rightarrow> nat \<Rightarrow> nat \<Rightarrow> wait_state \<Rightarrow> wait_outcome option" where
  "complete_loop env lts 0 t n i st =
     (if i < length (jobs_left st) then None else pass_end lts n st)"
| "complete_loop env lts (Suc fuel) t n i st =
     (let more = i < length (jobs_left st) in
      case (if more then None else pass_end lts n st) of
        Some r \<Rightarrow> Some r
      | None \<Rightarrow>
          let i' = (if more then i else 0); n' = (if more then n else Suc n) in
          case poll_job env t i' st of
            (Some e, st') \<Rightarrow> Some ((finish_waiting lts [] st')\<lparr>aborted := [], failure := Some e\<rparr>)
          | (None, st') \<Rightarrow> complete_loop env lts fuel (Suc t) n' (Suc i') st')"

definition as_jobs_complete :: "wait_env \<Rightarrow> wait_limits \<Rightarrow> nat \<Rightarrow> job list \<Rightarrow> wait_outcome option" where
  "as_jobs_complete env lts fuel jobs =
     (if jobs = [] then Some (finish_waiting lts [] (start_waiting jobs))
      else complete_loop env lts fuel 0 0 0 (start_waiting jobs))"


section \<open>Removing from the list\<close>

lemma remove_job_length: "remove_job x js = Inr js' \<Longrightarrow> Suc (length js') = length js"
  by (induction js arbitrary: js') (auto split: if_splits simp: bindR_Inr_iff)

lemma remove_job_present: "jkey x \<in> jkey ` set js \<Longrightarrow> \<exists>js'. remove_job x js = Inr js'"
  by (induction js) auto

lemma remove_job_absent: "jkey x \<notin> jkey ` set js \<Longrightarrow> remove_job x js = Inl ValueError"
  by (induction js) auto

lemma remove_job_at:
  "jkey x \<notin> jkey ` set ks \<Longrightarrow> jkey j = jkey x \<Longrightarrow> remove_job x (ks @ j # js) = Inr (ks @ js)"
  by (induction ks) auto

lemma drop_job_at:
  "jkey x \<notin> jkey ` set ks \<Longrightarrow> jkey j = jkey x \<Longrightarrow> jobs_left st = ks @ j # js \<Longrightarrow>
   drop_job x st = (None, st\<lparr>jobs_left := ks @ js\<rparr>)"
  by (simp add: drop_job_def remove_job_at)

section \<open>The order of the results\<close>

fun evens :: "'a list \<Rightarrow> 'a list" and odds :: "'a list \<Rightarrow> 'a list" where
  "evens [] = []"
| "evens (x # xs) = x # odds xs"
| "odds [] = []"
| "odds (x # xs) = evens xs"

lemma length_odds: "length (odds xs) \<le> length xs" "length (evens xs) \<le> length xs"
  by (induction xs) auto

lemma mset_evens_odds: "mset (evens xs) + mset (odds xs) = mset xs"
  by (induction xs) (auto simp: add.commute)

text \<open>A pass takes every other job; the next one takes every other job of those left over.\<close>

function skip_order :: "'a list \<Rightarrow> 'a list" where
  "skip_order [] = []"
| "skip_order (x # xs) = evens (x # xs) @ skip_order (odds (x # xs))"
  by pat_completeness auto
termination
  by (relation "measure length") (auto simp: length_odds le_imp_less_Suc)

lemma mset_skip_order: "mset (skip_order xs) = mset xs"
proof (induction xs rule: skip_order.induct)
  case (2 x xs)
  show ?case using 2 mset_evens_odds[of "x # xs"] by simp
qed simp


definition always_complete :: "wait_env \<Rightarrow> (job \<Rightarrow> job) \<Rightarrow> bool" where
  "always_complete env ended \<longleftrightarrow>
     (\<forall>t j. refreshed env t j = Inr (ended j) \<and> status (ended j) = COMPLETE \<and> jkey (ended j) = jkey j)"

definition take_result :: "wait_env \<Rightarrow> job list \<Rightarrow> pyval list \<Rightarrow> wait_state \<Rightarrow> wait_state" where
  "take_result env js rs st =
     st\<lparr>jobs_left := js, collected := collected st @ rs,
        source_steps := source_steps st + (if has_source env then length rs else 0)\<rparr>"

lemma take_result_twice [simp]:
  "take_result env js rs (take_result env js' rs' st) = take_result env js (rs' @ rs) st"
  by (cases st) (simp add: take_result_def)

lemma take_result_left [simp]: "jobs_left (take_result env js rs st) = js"
  by (simp add: take_result_def)

lemma poll_complete_at:
  assumes r: "refreshed env t j = Inr j'" and c: "status j' = COMPLETE" "jkey j' = jkey j"
    and l: "jobs_left st = ks @ j # js" and d: "jkey j \<notin> jkey ` set ks"
  shows "poll_job env t (length ks) st = (None, take_result env (ks @ js) [result j'] st)"
proof -
  have "jkey j' \<notin> jkey ` set ks" using d c by simp
  then show ?thesis
    using r c by (simp add: l poll_job_def settle_job_def drop_job_def remove_job_at Let_def nth_append
        list_update_append take_result_def)
qed

lemma wait_loop_from_head:
  "i \<ge> length (jobs_left st) \<Longrightarrow> wait_loop env fuel t i st = wait_loop env fuel t 0 st"
  by (cases fuel) (auto simp: Let_def)

lemma wait_loop_order:
  assumes env: "always_complete env ended"
  shows "jobs_left st = ks @ js \<Longrightarrow> distinct (map jkey (ks @ js)) \<Longrightarrow> length (ks @ js) \<le> fuel \<Longrightarrow>
    wait_loop env fuel t (length ks) st =
      Some (None, take_result env [] (map (result \<circ> ended) (evens js @ skip_order (ks @ odds js))) st)"
proof (induction fuel arbitrary: ks js st t)
  case 0
  then show ?case by (cases st) (simp add: take_result_def)
next
  case (Suc fuel)
  have poll: "poll_job env t (length ks) st = (None, take_result env (ks @ js) [result (ended j)] st)"
    if "jobs_left st = ks @ j # js" "distinct (map jkey (ks @ j # js))" for ks js j
    using that env by (intro poll_complete_at) (auto simp: always_complete_def)
  have step: "wait_loop env (Suc fuel) t (length ks) st =
      Some (None, take_result env [] (map (result \<circ> ended) (j # odds zs @ skip_order (ks @ evens zs))) st)"
    if l: "jobs_left st = ks @ j # zs" and d: "distinct (map jkey (ks @ j # zs))"
      and f: "length (ks @ zs) \<le> fuel" for ks j zs
  proof (cases zs)
    case Nil
    have "wait_loop env (Suc fuel) t (length ks) st =
        wait_loop env fuel (Suc t) (length ([] :: job list)) (take_result env ks [result (ended j)] st)"
      using l poll[OF l d] by (simp add: Let_def Nil wait_loop_from_head)
    also have "\<dots> = Some (None, take_result env [] (map (result \<circ> ended) (evens ks @ skip_order (odds ks)))
        (take_result env ks [result (ended j)] st))"
      using d f by (subst Suc.IH[of _ "[]" ks]) (simp_all add: Nil)
    finally show ?thesis by (cases ks) (simp_all add: Nil)
  next
    case (Cons y ys)
    have "wait_loop env (Suc fuel) t (length ks) st =
        wait_loop env fuel (Suc t) (length (ks @ [y])) (take_result env (ks @ zs) [result (ended j)] st)"
      using l poll[OF l d] by (simp add: Let_def)
    also have "\<dots> = Some (None, take_result env [] (map (result \<circ> ended) (evens ys @ skip_order ((ks @ [y]) @ odds ys)))
        (take_result env (ks @ zs) [result (ended j)] st))"
      using d f by (intro Suc.IH) (auto simp: Cons)
    finally show ?thesis by (simp add: Cons)
  qed
  show ?case
  proof (cases js)
    case (Cons j zs)
    then show ?thesis using step[of ks j zs] Suc.prems by (simp del: wait_loop.simps add: comp_def)
  next
    case js: Nil
    show ?thesis
    proof (cases ks)
      case Nil
      then show ?thesis using Suc.prems js by (cases st) (simp add: take_result_def)
    next
      case (Cons k kk)
      have "wait_loop env (Suc fuel) t (length ks) st = wait_loop env (Suc fuel) t (length ([] :: job list)) st"
        using Suc.prems js by (simp add: wait_loop_from_head del: wait_loop.simps)
      then show ?thesis using step[of "[]" k kk] Suc.prems by (simp add: js Cons comp_def del: wait_loop.simps)
    qed
  qed
qed

text \<open>C16. The results of \<open>wait_for_jobs\<close> are not in the order of the jobs. When every refresh
  finds its job complete, as many refreshes as there are jobs suffice, all results come once and
  the list of the caller is empty afterwards, but each pass skips every other job: the results
  of four jobs come as first, third, second, fourth.\<close>

theorem wait_skips_jobs:
  assumes "always_complete env ended" and "distinct (map jkey jobs)" and "length jobs \<le> fuel"
  shows "wait_for_jobs env fuel jobs = Some (Inr (map (result \<circ> ended) (skip_order jobs)), []) \<and>
    mset (skip_order jobs) = mset jobs"
proof -
  have "wait_loop env fuel 0 (length ([] :: job list)) (start_waiting jobs) =
      Some (None, take_result env [] (map (result \<circ> ended) (evens jobs @ skip_order ([] @ odds jobs)))
        (start_waiting jobs))"
    using assms by (intro wait_loop_order) (simp_all add: start_waiting_def)
  moreover have "evens jobs @ skip_order (odds jobs) = skip_order jobs" by (cases jobs) simp_all
  ultimately show ?thesis
    by (simp add: wait_for_jobs_def mset_skip_order take_result_def start_waiting_def)
qed

definition ex_ended :: "job \<Rightarrow> job" where
  "ex_ended j = j\<lparr>status := COMPLETE, result := PStr (jkey j)\<rparr>"

definition ex_wait :: wait_env where
  "ex_wait = \<lparr>refreshed = \<lambda>t j. Inr (ex_ended j), enqueued_again = Inr, has_source = False, raising = False\<rparr>"

lemma ex_wait_complete: "always_complete ex_wait ex_ended"
  by (simp add: always_complete_def ex_wait_def ex_ended_def)

lemma wait_skips_jobs_witness:
  "wait_for_jobs ex_wait 4 (map ex_job [''a'', ''b'', ''c'', ''d'']) =
     Some (Inr (map PStr [''a'', ''c'', ''b'', ''d'']), [])"
  using wait_skips_jobs[OF ex_wait_complete, of "map ex_job [''a'', ''b'', ''c'', ''d'']" 4]
  by (simp add: ex_ended_def ex_job_def)


section \<open>The generator against the list\<close>

definition unlimited :: "wait_limits \<Rightarrow> bool" where
  "unlimited lts \<longleftrightarrow> cancel_func lts = None \<and> (\<forall>n. \<not> over_time lts n)"

definition outcome_of_wait :: "wait_limits \<Rightarrow> error option \<times> wait_state \<Rightarrow> wait_outcome" where
  "outcome_of_wait lts r =
     (case r of (None, st) \<Rightarrow> finish_waiting lts [] st
      | (Some e, st) \<Rightarrow> (finish_waiting lts [] st)\<lparr>aborted := [], failure := Some e\<rparr>)"

lemma pass_end_unlimited:
  "unlimited lts \<Longrightarrow>
   pass_end lts n st = (if jobs_left st = [] then Some (finish_waiting lts [] st) else None)"
  by (simp add: unlimited_def pass_end_def)

lemma complete_loop_unlimited:
  "unlimited lts \<Longrightarrow>
   complete_loop env lts fuel t n i st = map_option (outcome_of_wait lts) (wait_loop env fuel t i st)"
proof (induction fuel arbitrary: t n i st)
  case 0
  then show ?case by (auto simp: pass_end_unlimited outcome_of_wait_def)
next
  case (Suc fuel)
  show ?case
  proof (cases "jobs_left st = []")
    case True
    then show ?thesis using Suc.prems by (simp add: pass_end_unlimited outcome_of_wait_def)
  next
    case False
    define i' where "i' = (if i < length (jobs_left st) then i else 0)"
    obtain x st' where p: "poll_job env t i' st = (x, st')" by fastforce
    then show ?thesis using Suc False
      by (cases x) (auto simp: pass_end_unlimited outcome_of_wait_def i'_def Let_def split: if_splits)
  qed
qed

lemma wait_loop_nothing [simp]: "jobs_left st = [] \<Longrightarrow> wait_loop env fuel t i st = Some (None, st)"
  by (cases fuel) simp_all

text \<open>C15. Without a \<open>cancel_func\<close> and without a limit on the time, \<open>as_jobs_complete\<close> gives away
  what \<open>wait_for_jobs\<close> returns, in the same order, ends when that returns, raises what it raises and
  leaves the same jobs in the list of the caller; whatever the refreshes find.\<close>

theorem generator_yields_results:
  "unlimited lts \<Longrightarrow>
   map_option (\<lambda>r. (case failure r of None \<Rightarrow> Inr (yielded r) | Some e \<Rightarrow> Inl e, remaining r))
     (as_jobs_complete env lts fuel jobs) = wait_for_jobs env fuel jobs"
proof -
  assume u: "unlimited lts"
  have "(case failure (outcome_of_wait lts r) of None \<Rightarrow> Inr (yielded (outcome_of_wait lts r)) | Some e \<Rightarrow> Inl e,
      remaining (outcome_of_wait lts r)) = (case fst r of None \<Rightarrow> Inr (collected (snd r)) | Some e \<Rightarrow> Inl e,
      jobs_left (snd r))" for r
    by (cases r; cases "fst r") (auto simp: outcome_of_wait_def finish_waiting_def)
  then show ?thesis
    by (auto simp: as_jobs_complete_def wait_for_jobs_def complete_loop_unlimited[OF u] option.map_comp
        comp_def start_waiting_def finish_waiting_def case_prod_unfold simp del: wait_loop.simps complete_loop.simps)
qed

definition ex_limits :: wait_limits where
  "ex_limits = \<lparr>cancel_func = None, elapsed = of_nat, max_wait_duration = Some 0, cancel_on_expiration = True\<rparr>"

lemma generator_yields_results_witness:
  "map_option yielded (as_jobs_complete ex_wait ex_limits 3 (map ex_job [''a'', ''b'', ''c''])) =
     Some (map PStr [''a'', ''c'', ''b''])"
proof -
  have u: "unlimited ex_limits" by (simp add: unlimited_def ex_limits_def over_time_def)
  have w: "wait_for_jobs ex_wait 3 (map ex_job [''a'', ''b'', ''c'']) = Some (Inr (map PStr [''a'', ''c'', ''b'']), [])"
    by code_simp
  have "\<exists>r. as_jobs_complete ex_wait ex_limits 3 (map ex_job [''a'', ''b'', ''c'']) = Some r \<and>
      yielded r = map PStr [''a'', ''c'', ''b'']"
    using generator_yields_results[OF u, of ex_wait 3 "map ex_job [''a'', ''b'', ''c'']"] unfolding w
    by (auto split: option.splits)
  then show ?thesis by auto
qed

section \<open>The end of waiting\<close>

definition always_found :: "wait_env \<Rightarrow> bool" where
  "always_found env \<longleftrightarrow> (\<forall>t j. \<exists>j'. refreshed env t j = Inr j' \<and> jkey j' = jkey j)"

definition ended_after :: "wait_env \<Rightarrow> nat \<Rightarrow> bool" where
  "ended_after env n \<longleftrightarrow>
     (\<forall>t j j'. n \<le> t \<longrightarrow> refreshed env t j = Inr j' \<longrightarrow> status j' \<in> TERMINAL_JOB_STATUSES)"

lemma settle_dropped:
  "\<not> raising env \<Longrightarrow> settle_job env j st =
     (if status j = COMPLETE then
        drop_job j (st\<lparr>collected := collected st @ [result j],
                       source_steps := source_steps st + (if has_source env then 1 else 0)\<rparr>)
      else if has_failed j then drop_job j st else (None, st))"
  by (simp add: settle_job_def)

lemma terminal_cases: "status j \<in> TERMINAL_JOB_STATUSES \<longleftrightarrow> status j = COMPLETE \<or> has_failed j"
  by (cases "status j") (auto simp: has_failed_def TERMINAL_JOB_STATUSES_def UNSUCCESSFUL_TERMINAL_JOB_STATUSES_def)

lemma drop_job_present:
  "jkey j \<in> jkey ` set (jobs_left st) \<Longrightarrow>
   \<exists>js. drop_job j st = (None, st\<lparr>jobs_left := js\<rparr>) \<and> Suc (length js) = length (jobs_left st)"
  using remove_job_present[of j "jobs_left st"] by (auto simp: drop_job_def dest: remove_job_length)

lemma settle_job_counts:
  assumes "jkey j \<in> jkey ` set (jobs_left st)" "\<not> raising env"
  shows "\<exists>st'. settle_job env j st = (None, st') \<and>
    length (jobs_left st') + (if status j \<in> TERMINAL_JOB_STATUSES then 1 else 0) = length (jobs_left st) \<and>
    length (collected st') = length (collected st) + (if status j = COMPLETE then 1 else 0)"
proof -
  have "\<exists>js. drop_job j s = (None, s\<lparr>jobs_left := js\<rparr>) \<and> Suc (length js) = length (jobs_left s)"
    if "jobs_left s = jobs_left st" for s :: wait_state
    using drop_job_present[of j s] assms(1) that by simp
  from this[of st] this[of "st\<lparr>collected := collected st @ [result j],
      source_steps := source_steps st + (if has_source env then 1 else 0)\<rparr>"]
  show ?thesis
    using assms(2) by (auto simp: settle_dropped terminal_cases has_failed_def)
qed

lemma poll_job_counts:
  assumes "always_found env" "\<not> raising env" "i < length (jobs_left st)"
  shows "\<exists>j' st'. refreshed env t (jobs_left st ! i) = Inr j' \<and> poll_job env t i st = (None, st') \<and>
    length (jobs_left st') + (if status j' \<in> TERMINAL_JOB_STATUSES then 1 else 0) = length (jobs_left st) \<and>
    length (collected st') = length (collected st) + (if status j' = COMPLETE then 1 else 0)"
proof -
  obtain j' where j': "refreshed env t (jobs_left st ! i) = Inr j'"
    using assms(1) unfolding always_found_def by blast
  have "j' \<in> set ((jobs_left st)[i := j'])" using assms(3) by (metis length_list_update nth_list_update_eq nth_mem)
  then show ?thesis
    using settle_job_counts[of j' "st\<lparr>jobs_left := (jobs_left st)[i := j']\<rparr>" env] j' assms(2)
    by (simp add: poll_job_def Let_def)
qed

lemma wait_loop_ends:
  assumes env: "always_found env" "\<not> raising env" "ended_after env n"
  shows "length (jobs_left st) + (n - t) \<le> fuel \<Longrightarrow>
    \<exists>st'. wait_loop env fuel t i st = Some (None, st') \<and> jobs_left st' = [] \<and>
      length (collected st') \<le> length (collected st) + length (jobs_left st)"
proof (induction fuel arbitrary: t i st)
  case (Suc fuel)
  show ?case
  proof (cases "jobs_left st = []")
    case False
    define i' where "i' = (if i < length (jobs_left st) then i else 0)"
    have "i' < length (jobs_left st)" using False by (auto simp: i'_def)
    from poll_job_counts[OF env(1,2) this, of t]
    obtain j' st' where p: "refreshed env t (jobs_left st ! i') = Inr j'" "poll_job env t i' st = (None, st')"
      "length (jobs_left st') + (if status j' \<in> TERMINAL_JOB_STATUSES then 1 else 0) = length (jobs_left st)"
      "length (collected st') = length (collected st) + (if status j' = COMPLETE then 1 else 0)"
      by blast
    have t: "n \<le> t \<Longrightarrow> status j' \<in> TERMINAL_JOB_STATUSES" using env(3) p(1) by (auto simp: ended_after_def)
    have "length (jobs_left st') + (n - Suc t) \<le> fuel" using p(3) t Suc.prems by (cases "n \<le> t") (auto split: if_splits)
    from Suc.IH[OF this, of "Suc i'"] obtain u where
      u: "wait_loop env fuel (Suc t) (Suc i') st' = Some (None, u)" "jobs_left u = []"
        "length (collected u) \<le> length (collected st') + length (jobs_left st')" by blast
    have "wait_loop env (Suc fuel) t i st = Some (None, u)"
      using False p(2) u(1) by (simp add: i'_def[symmetric] Let_def)
    moreover have "length (collected st') + length (jobs_left st') \<le> length (collected st) + length (jobs_left st)"
      using p(3,4) terminal_cases[of j'] by (auto split: if_splits)
    ultimately show ?thesis using u by auto
  qed simp
qed simp

text \<open>C14. Waiting ends. When every refresh finds the record of its job and from the n-th refresh on
  every job that is looked at has ended, waiting without raising returns after at most n more
  refreshes than there are jobs, with at most one result for each job, and the list of the
  caller is empty; even when jobs share their key.\<close>

theorem waiting_ends:
  assumes "always_found env" and "\<not> raising env" and "ended_after env n" and "length jobs + n \<le> fuel"
  shows "\<exists>rs. wait_for_jobs env fuel jobs = Some (Inr rs, []) \<and> length rs \<le> length jobs"
  using wait_loop_ends[OF assms(1-3), of "start_waiting jobs" 0 fuel 0] assms(4)
  by (auto simp: wait_for_jobs_def start_waiting_def)

text \<open>The third refresh is the first that finds its job at an end.\<close>

definition ex_slow :: wait_env where
  "ex_slow = \<lparr>refreshed = \<lambda>t j. Inr (if t < 2 then j else ex_ended j), enqueued_again = Inr,
              has_source = True, raising = False\<rparr>"

lemma waiting_ends_witness:
  "\<exists>rs. wait_for_jobs ex_slow 4 [ex_job ''a'', ex_job ''a''] = Some (Inr rs, []) \<and> length rs \<le> 2"
proof -
  have "always_found ex_slow" by (simp add: always_found_def ex_slow_def ex_ended_def)
  moreover have "ended_after ex_slow 2"
    by (auto simp: ended_after_def ex_slow_def ex_ended_def TERMINAL_JOB_STATUSES_def)
  moreover have "\<not> raising ex_slow" by (simp add: ex_slow_def)
  ultimately show ?thesis
    using waiting_ends[of ex_slow 2 "[ex_job ''a'', ex_job ''a'']" 4] by (simp add: numeral_2_eq_2)
qed

section \<open>Records that are gone\<close>

lemma poll_gone:
  assumes "refreshed env t j = Inl AttributeError" "\<not> raising env" "jobs_left st = j # js"
    "jkey j \<notin> jkey ` set js" "status j \<in> TERMINAL_JOB_STATUSES"
  shows "\<exists>st'. poll_job env t 0 st = (Some ValueError, st') \<and> jobs_left st' = js"
proof -
  have d: "drop_job j st = (None, st\<lparr>jobs_left := js\<rparr>)" using assms(3) by (simp add: drop_job_def)
  have r: "remove_job j js = Inl ValueError" using assms(4) by (rule remove_job_absent)
  have "status j = COMPLETE \<or> has_failed j" using assms(5) by (simp add: terminal_cases)
  then show ?thesis
    using assms(1-3) d r by (auto simp: poll_job_def Let_def settle_dropped drop_job_def)
qed

text \<open>Waiting, without raising, for a job that has ended and whose record is gone: the job is
  taken out of the list, and because it has ended it is taken out a second time, a ValueError.
  A job whose record is gone and that had not ended when last seen is dropped in silence: there
  are fewer results than jobs.\<close>

theorem ended_job_removed_twice:
  assumes "redis_queue (server B) view" and "view (wdb w) (ident tq j) = None"
    and "refreshed env 0 j = refresh B tq j w" and "\<not> raising env" and "distinct (map jkey (j # js))"
  shows "if status j \<in> TERMINAL_JOB_STATUSES
    then wait_for_jobs env (Suc fuel) (j # js) = Some (Inl ValueError, js)
    else wait_for_jobs env (Suc fuel) [j] = Some (Inr [], [])"
proof -
  have gone: "refreshed env 0 j = Inl AttributeError"
    using redis_queue.fetch_missing[OF assms(1) refl assms(2)] assms(3) by (simp add: refresh_def)
  show ?thesis
  proof (cases "status j \<in> TERMINAL_JOB_STATUSES")
    case True
    have "jkey j \<notin> jkey ` set js" using assms(5) by auto
    from poll_gone[OF gone assms(4) _ this True, of "start_waiting (j # js)"]
    obtain st' where "poll_job env 0 0 (start_waiting (j # js)) = (Some ValueError, st')" "jobs_left st' = js"
      by (auto simp: start_waiting_def)
    then show ?thesis using True by (simp add: wait_for_jobs_def start_waiting_def)
  next
    case False
    then have "status j \<noteq> COMPLETE" "\<not> has_failed j" by (simp_all add: terminal_cases)
    then have "poll_job env 0 0 (start_waiting [j]) = (None, start_waiting [])"
      using gone assms(4) by (simp add: poll_job_def Let_def settle_dropped drop_job_def start_waiting_def)
    then show ?thesis using False by (cases fuel) (simp_all add: wait_for_jobs_def start_waiting_def)
  qed
qed

lemma ended_job_removed_twice_witness:
  "wait_for_jobs \<lparr>refreshed = \<lambda>t j. refresh ex_backend ex_queue j ex_world, enqueued_again = Inr,
       has_source = False, raising = False\<rparr> 1 [ex_ended (ex_job ''a''), ex_job ''b''] =
     Some (Inl ValueError, [ex_job ''b''])"
proof -
  let ?env = "\<lparr>refreshed = \<lambda>t j. refresh ex_backend ex_queue j ex_world, enqueued_again = Inr,
       has_source = False, raising = False\<rparr>"
  have v: "mview (wdb ex_world) (ident ex_queue (ex_ended (ex_job ''a''))) = None" by (rule ex_world_view)
  have t: "status (ex_ended (ex_job ''a'')) \<in> TERMINAL_JOB_STATUSES" by (simp add: ex_ended_def TERMINAL_JOB_STATUSES_def)
  show ?thesis
    using ended_job_removed_twice[OF ex_laws v, of ?env "[ex_job ''b'']" 0] t
    by (simp add: ex_ended_def ex_job_def)
qed

section \<open>Cancelling\<close>

lemma cancelled_pass:
  "cancel_func lts = Some c \<Longrightarrow> c n \<Longrightarrow> i \<ge> length (jobs_left st) \<Longrightarrow>
   complete_loop env lts fuel t n i st = Some (finish_waiting lts (jobs_left st) st)"
  by (cases fuel) (auto simp: pass_end_def)

text \<open>Cancelling and the flag for expiration together abort the jobs that are left twice.\<close>

lemma cancelled_twice:
  assumes "cancel_func lts = Some c" "c n" "i \<ge> length (jobs_left st)"
  shows "map_option aborted (complete_loop env lts fuel t n i st) =
    Some (if cancel_on_expiration lts then jobs_left st @ jobs_left st else jobs_left st)"
  using assms by (simp add: cancelled_pass finish_waiting_def)

end
