(* ===== verification/Task_Function.thy ===== *)
theory Task_Function
  imports Job_Model "HOL-Library.List_Lexorder" "HOL-Library.Char_ord"
begin

text \<open>
  \<^verbatim>\<open>kvdb/tasks/types.py\<close> (\<open>TaskFunction\<close>), the attribute matching of
  \<^verbatim>\<open>kvdb/tasks/utils.py\<close> and the registry of functions of \<^verbatim>\<open>kvdb/tasks/tasks.py\<close>
  (\<open>QueueTasks\<close>). Exceptions are named by their class; \<open>float(s)\<close> is modelled for decimal
  numerals. The Python function itself is a parameter.
\<close>

section \<open>Comparing attributes\<close>

datatype cmp_op = CEq | CNe | CGe | CLe | CGt | CLt | CContains

definition digits_val :: "string \<Rightarrow> rat" where
  "digits_val s = foldl (\<lambda>n c. 10 * n + of_nat (of_char c - 48)) 0 s"

definition is_numeric :: "string \<Rightarrow> bool" where
  "is_numeric s \<longleftrightarrow> s \<noteq> [] \<and> list_all is_digit s"

definition parse_unsigned :: "string \<Rightarrow> rat option" where
  "parse_unsigned s =
     (let ip = takeWhile is_digit s; rest = dropWhile is_digit s in
      case rest of
        [] \<Rightarrow> if ip \<noteq> [] then Some (digits_val ip) else None
      | c # fp \<Rightarrow>
          if c = CHR ''.'' \<and> list_all is_digit fp \<and> (ip \<noteq> [] \<or> fp \<noteq> [])
          then Some (digits_val ip + digits_val fp / 10 ^ length fp) else None)"

definition py_float :: "pyval \<Rightarrow> rat result" where
  "py_float v =
     (case v of
        PStr s \<Rightarrow>
          (let t = str_strip s in
           case (case t of
                   [] \<Rightarrow> None
                 | c # r \<Rightarrow> if c = CHR ''-'' then map_option uminus (parse_unsigned r)
                           else if c = CHR ''+'' then parse_unsigned r else parse_unsigned t) of
             Some x \<Rightarrow> Inr x | None \<Rightarrow> Inl ValueError)
      | _ \<Rightarrow> Inl TypeError)"

definition py_eq :: "pyval \<Rightarrow> pyval \<Rightarrow> bool" where
  "py_eq a b =
     (case (number_value a, number_value b) of (Some x, Some y) \<Rightarrow> x = y | _ \<Rightarrow> a = b)"

definition py_less :: "pyval \<Rightarrow> pyval \<Rightarrow> bool result" where
  "py_less a b =
     (case (number_value a, number_value b) of
        (Some x, Some y) \<Rightarrow> Inr (x < y)
      | _ \<Rightarrow> (case (a, b) of (PStr s, PStr t) \<Rightarrow> Inr (s < t) | _ \<Rightarrow> Inl TypeError))"

definition py_contains :: "pyval \<Rightarrow> pyval \<Rightarrow> bool result" where
  "py_contains a b =
     (case a of
        PStr s \<Rightarrow> (case b of PStr t \<Rightarrow> Inr (str_in t s) | _ \<Rightarrow> Inl TypeError)
      | PList xs \<Rightarrow> Inr (list_ex (\<lambda>x. py_eq x b) xs)
      | PTuple xs \<Rightarrow> Inr (list_ex (\<lambda>x. py_eq x b) xs)
      | PSet xs \<Rightarrow> Inr (list_ex (\<lambda>x. py_eq x b) xs)
      | PDict d \<Rightarrow> Inr (case b of PStr k \<Rightarrow> dict_has k d | _ \<Rightarrow> False)
      | _ \<Rightarrow> Inl TypeError)"

definition apply_op :: "cmp_op \<Rightarrow> pyval \<Rightarrow> pyval \<Rightarrow> bool result" where
  "apply_op c a b =
     (case c of
        CEq \<Rightarrow> Inr (py_eq a b)
      | CNe \<Rightarrow> Inr (\<not> py_eq a b)
      | CLt \<Rightarrow> py_less a b
      | CGt \<Rightarrow> py_less b a
      | CLe \<Rightarrow> bindR (py_less a b) (\<lambda>l. Inr (l \<or> py_eq a b))
      | CGe \<Rightarrow> bindR (py_less b a) (\<lambda>l. Inr (l \<or> py_eq a b))
      | CContains \<Rightarrow> py_contains a b)"

definition parse_target :: "string \<Rightarrow> cmp_op \<times> string" where
  "parse_target t =
     (if starts_with ''!'' t then (CNe, str_strip (drop 1 t))
      else if starts_with ''>='' t then (CGe, str_strip (drop 2 t))
      else if starts_with ''<='' t then (CLe, str_strip (drop 2 t))
      else if starts_with ''>'' t then (CGt, str_strip (drop 1 t))
      else if starts_with ''<'' t then (CLt, str_strip (drop 1 t))
      else if starts_with ''in'' t then (CContains, str_strip (drop 2 t))
      else if str_in ''~'' t then (CContains, str_strip (rsplit_last (CHR ''~'') t))
      else (CEq, t))"

text \<open>A boolean is an \<open>int\<close>, so the branch for booleans is never reached.\<close>

definition get_comparison :: "pyval \<Rightarrow> pyval \<Rightarrow> bool result" where
  "get_comparison source target =
     (let (c, src, tgt) =
        (case target of
           PStr t \<Rightarrow> let (c, s) = parse_target t in
                     (c, source, if is_numeric s then PFloat (digits_val s) else PStr s)
         | PInt i \<Rightarrow> (CGt, source, target)
         | PFloat r \<Rightarrow> (CGt, source, target)
         | PBool b \<Rightarrow> (CGt, source, target)
         | PList xs \<Rightarrow> (CContains, case source of PList ys \<Rightarrow> source | PTuple ys \<Rightarrow> source | _ \<Rightarrow> PList [source], target)
         | PTuple xs \<Rightarrow> (CContains, case source of PList ys \<Rightarrow> source | PTuple ys \<Rightarrow> source | _ \<Rightarrow> PList [source], target)
         | _ \<Rightarrow> (CEq, source, target)) in
      if number_value src \<noteq> None \<and> number_value tgt = None
      then bindR (py_float tgt) (\<lambda>x. apply_op c src (PFloat x))
      else apply_op c src tgt)"

datatype match_type = MatchUnset | MatchWord string | MatchCount int

definition stops_early :: "match_type \<Rightarrow> int \<Rightarrow> bool" where
  "stops_early mt n = (case mt of MatchCount m \<Rightarrow> m \<le> n | MatchWord s \<Rightarrow> s = ''any'' | MatchUnset \<Rightarrow> False)"

text \<open>The loop over the shared keys: \<open>None\<close> when it returns True early, else the count.\<close>

fun scan_matches :: "match_type \<Rightarrow> pydict \<Rightarrow> pydict \<Rightarrow> string list \<Rightarrow> int \<Rightarrow> int option result" where
  "scan_matches mt src tgt [] n = Inr (Some n)"
| "scan_matches mt src tgt (k # ks) n =
     bindR (get_comparison (the (dict_get src k)) (the (dict_get tgt k))) (\<lambda>b.
       if b then (if stops_early mt (n + 1) then Inr None else scan_matches mt src tgt ks (n + 1))
       else scan_matches mt src tgt ks n)"

definition shared_keys :: "pydict \<Rightarrow> pydict \<Rightarrow> string list" where
  "shared_keys src tgt = filter (\<lambda>k. dict_has k src) (dict_keys tgt)"

definition determine_match_from_attributes :: "pydict \<Rightarrow> pydict \<Rightarrow> match_type \<Rightarrow> bool result" where
  "determine_match_from_attributes src tgt mt =
     (if mt = MatchUnset \<or> mt = MatchWord ''none'' then Inr True
      else if shared_keys src tgt = [] then Inr False
      else bindR (scan_matches mt src tgt (shared_keys src tgt) 0) (\<lambda>r.
        case r of
          None \<Rightarrow> Inr True
        | Some n \<Rightarrow> Inr (case mt of
            MatchCount m \<Rightarrow> m \<le> n
          | MatchWord s \<Rightarrow> s = ''all'' \<and> n = int (length (shared_keys src tgt))
          | MatchUnset \<Rightarrow> False)))"

section \<open>Task functions\<close>

datatype retry_rule = RetryUnset | RetryExcluded bool | ExcludeList "string list" | ExcludeSet "string list"

record task_function =
  tf_name :: string
  tf_phase :: "string option"
  silenced :: bool
  silenced_stages :: "string list"
  tf_kwargs :: pydict
  default_kwargs :: "pydict option"
  function_default_kwargs :: "pydict option"
  cron_expr :: "string option"
  tf_queue_name :: "string option"
  worker_attributes :: pydict
  attribute_match_type :: match_type
  inject_ctx :: bool
  inject_args :: bool
  inject_kwargs :: bool
  exclude_retry_exceptions :: retry_rule
  on_failure :: bool

definition is_cronjob :: "task_function \<Rightarrow> bool" where
  "is_cronjob f \<longleftrightarrow> cron_expr f \<noteq> None"

definition flag :: "string \<Rightarrow> pydict \<Rightarrow> bool" where
  "flag k d = (case dict_get d k of Some v \<Rightarrow> truthy v | None \<Rightarrow> False)"

definition include_phase_as_function :: "task_function \<Rightarrow> bool" where
  "include_phase_as_function f = flag ''include_phase_as_function'' (tf_kwargs f)"

definition should_set_ctx :: "task_function \<Rightarrow> bool" where
  "should_set_ctx f = flag ''set_ctx'' (tf_kwargs f)"

definition is_silenced :: "string \<Rightarrow> task_function \<Rightarrow> bool" where
  "is_silenced stage f \<longleftrightarrow> silenced f \<or> stage \<in> set (silenced_stages f)"

definition should_run_for_phase :: "string \<Rightarrow> task_function \<Rightarrow> bool" where
  "should_run_for_phase phase f \<longleftrightarrow> opt_truthy (tf_phase f) \<and> tf_phase f = Some phase"

definition match_truthy :: "match_type \<Rightarrow> bool" where
  "match_truthy mt = (case mt of MatchUnset \<Rightarrow> False | MatchWord s \<Rightarrow> s \<noteq> [] | MatchCount n \<Rightarrow> n \<noteq> 0)"

definition is_enabled :: "pydict \<Rightarrow> match_type \<Rightarrow> string option \<Rightarrow> task_function \<Rightarrow> bool result" where
  "is_enabled wattrs mt qn f =
     (if qn \<noteq> None \<and> tf_queue_name f \<noteq> None \<and> qn \<noteq> tf_queue_name f then Inr False
      else if opt_truthy (tf_phase f) \<and> \<not> include_phase_as_function f then Inr False
      else if worker_attributes f = [] then Inr True
      else
        let m = (if match_truthy mt then mt else attribute_match_type f) in
        if \<not> match_truthy m then Inr True
        else determine_match_from_attributes wattrs (worker_attributes f) m)"

text \<open>\<open>__call__\<close>: what the function is called with, in the order of the attempts.\<close>

record shape =
  with_ctx :: bool
  with_args :: bool
  with_kwargs :: bool

definition call_attempts :: "task_function \<Rightarrow> shape list" where
  "call_attempts f =
     (if inject_ctx f then [\<lparr>with_ctx = True, with_args = inject_args f, with_kwargs = inject_kwargs f\<rparr>]
      else if inject_args f \<and> inject_kwargs f then [\<lparr>with_ctx = False, with_args = True, with_kwargs = True\<rparr>]
      else if inject_args f then
        [\<lparr>with_ctx = False, with_args = True, with_kwargs = False\<rparr>,
         \<lparr>with_ctx = False, with_args = True, with_kwargs = True\<rparr>]
      else if inject_kwargs f then
        [\<lparr>with_ctx = False, with_args = False, with_kwargs = True\<rparr>,
         \<lparr>with_ctx = False, with_args = True, with_kwargs = True\<rparr>]
      else [\<lparr>with_ctx = False, with_args = False, with_kwargs = False\<rparr>])"

fun first_ok :: "(shape \<Rightarrow> 'a result) \<Rightarrow> shape list \<Rightarrow> 'a result" where
  "first_ok g [] = Inl TypeError"
| "first_ok g [s] = g s"
| "first_ok g (s # t # ss) = (case g s of Inr v \<Rightarrow> Inr v | Inl e \<Rightarrow> first_ok g (t # ss))"

definition call_function :: "(shape \<Rightarrow> 'a result) \<Rightarrow> task_function \<Rightarrow> 'a result" where
  "call_function g f = first_ok g (call_attempts f)"

text \<open>\<open>isinstance\<close> with a set as its second argument is a TypeError. What is not an exception
  is an instance of none.\<close>

definition is_instance :: "(string \<Rightarrow> string \<Rightarrow> bool) \<Rightarrow> pyval \<Rightarrow> string list \<Rightarrow> bool" where
  "is_instance subclass v cs = (case v of PExc c \<Rightarrow> list_ex (subclass c) cs | _ \<Rightarrow> False)"

definition should_retry_on_error :: "(string \<Rightarrow> string \<Rightarrow> bool) \<Rightarrow> pyval \<Rightarrow> task_function \<Rightarrow> bool result" where
  "should_retry_on_error subclass err f =
     (case exclude_retry_exceptions f of
        RetryUnset \<Rightarrow> Inr True
      | RetryExcluded b \<Rightarrow> Inr (\<not> b)
      | ExcludeList cs \<Rightarrow> Inr (\<not> is_instance subclass err cs)
      | ExcludeSet cs \<Rightarrow> Inl TypeError)"

text \<open>Merging the defaults into the arguments; \<open>merge_map\<close> and \<open>merge_list\<close> are the
  combinations of two dictionaries and of two lists.\<close>

fun merge_items ::
    "(pyval \<Rightarrow> pyval \<Rightarrow> pyval) \<Rightarrow> (pyval \<Rightarrow> pyval \<Rightarrow> pyval) \<Rightarrow> pydict \<Rightarrow> pydict option \<Rightarrow> pydict \<Rightarrow> pydict result" where
  "merge_items mm ml dk fd [] = Inr []"
| "merge_items mm ml dk fd ((k, v) # kvs) =
     bindR (case dict_get dk k of
              None \<Rightarrow> Inr v
            | Some d \<Rightarrow> (case fd of
                None \<Rightarrow> Inl AttributeError
              | Some fdk \<Rightarrow> Inr
                  (if py_eq (case dict_get fdk k of Some x \<Rightarrow> x | None \<Rightarrow> PNone) v
                   then (case v of PDict e \<Rightarrow> mm d v | PList e \<Rightarrow> ml d v | _ \<Rightarrow> v) else v)))
       (\<lambda>v'. bindR (merge_items mm ml dk fd kvs) (\<lambda>r. Inr ((k, v') # r)))"

definition update_function_kwargs ::
    "(pyval \<Rightarrow> pyval \<Rightarrow> pyval) \<Rightarrow> (pyval \<Rightarrow> pyval \<Rightarrow> pyval) \<Rightarrow> pydict \<Rightarrow> task_function \<Rightarrow> pydict result" where
  "update_function_kwargs mm ml kwargs f =
     (case default_kwargs f of
        None \<Rightarrow> Inr kwargs
      | Some dk \<Rightarrow>
          if dk = [] then Inr kwargs
          else bindR (merge_items mm ml dk (function_default_kwargs f) kwargs)
                 (\<lambda>kw. Inr (dict_update kw (filter (\<lambda>(k, v). \<not> dict_has k kwargs) dk))))"

section \<open>The registry\<close>

record queue_tasks =
  qt_queue_name :: string
  tfunctions :: "(string \<times> task_function) list"
  has_child_objects :: bool
  child_object_mapping :: "(string \<times> string) list"
  last_registered :: "string option"

definition add_function :: "task_function \<Rightarrow> queue_tasks \<Rightarrow> queue_tasks" where
  "add_function f q =
     (if dict_has (tf_name f) (tfunctions q) then q else q\<lparr>tfunctions := tfunctions q @ [(tf_name f, f)]\<rparr>)
       \<lparr>last_registered := Some (tf_name f)\<rparr>"

fun filter_result :: "('a \<Rightarrow> bool result) \<Rightarrow> 'a list \<Rightarrow> 'a list result" where
  "filter_result P [] = Inr []"
| "filter_result P (x # xs) =
     bindR (P x) (\<lambda>b. bindR (filter_result P xs) (\<lambda>ys. Inr (if b then x # ys else ys)))"

definition get_functions :: "pydict \<Rightarrow> match_type \<Rightarrow> queue_tasks \<Rightarrow> task_function list result" where
  "get_functions wattrs mt q =
     filter_result (\<lambda>f. if is_cronjob f then Inr False else is_enabled wattrs mt (Some (qt_queue_name q)) f)
       (map snd (tfunctions q))"

definition get_cronjobs :: "pydict \<Rightarrow> match_type \<Rightarrow> queue_tasks \<Rightarrow> task_function list result" where
  "get_cronjobs wattrs mt q =
     filter_result (\<lambda>f. if \<not> is_cronjob f then Inr False else is_enabled wattrs mt None f)
       (map snd (tfunctions q))"

definition is_function_silenced :: "string \<Rightarrow> string \<Rightarrow> queue_tasks \<Rightarrow> bool result" where
  "is_function_silenced name stage q =
     (case dict_get (tfunctions q) name of
        None \<Rightarrow> Inl ValueError | Some f \<Rightarrow> Inr (is_silenced stage f))"

definition ensure_job_in_functions :: "queue_tasks \<Rightarrow> job \<Rightarrow> job result" where
  "ensure_job_in_functions q j =
     (if dict_has (jfunction j) (tfunctions q) then Inr j
      else if \<not> has_child_objects q then Inl ValueError
      else case dict_get (child_object_mapping q) (jfunction j) of
        None \<Rightarrow> Inl ValueError
      | Some g \<Rightarrow> Inr (j\<lparr>jfunction := g\<rparr>))"

definition add_function_to_silenced :: "string \<Rightarrow> string list \<Rightarrow> queue_tasks \<Rightarrow> queue_tasks result" where
  "add_function_to_silenced name stages q =
     (case dict_get (tfunctions q) name of
        None \<Rightarrow> Inl KeyError
      | Some f \<Rightarrow> Inr (q\<lparr>tfunctions := dict_set name
          (if stages \<noteq> [] then f\<lparr>silenced_stages := remdups (silenced_stages f @ stages)\<rparr> else f\<lparr>silenced := True\<rparr>)
          (tfunctions q)\<rparr>))"

section \<open>What matching means\<close>

lemma stops_early_mono: "stops_early mt a \<Longrightarrow> a \<le> c \<Longrightarrow> stops_early mt c"
  by (auto simp: stops_early_def split: match_type.splits)

lemma scan_spec:
  assumes "\<forall>k \<in> set ks. get_comparison (the (dict_get src k)) (the (dict_get tgt k)) = Inr (b k)"
  shows "\<exists>r. scan_matches mt src tgt ks n = Inr r \<and>
    (r = None \<longrightarrow> filter b ks \<noteq> [] \<and> stops_early mt (n + int (length (filter b ks)))) \<and>
    (\<forall>x. r = Some x \<longrightarrow> x = n + int (length (filter b ks)) \<and>
       (filter b ks \<noteq> [] \<longrightarrow> \<not> stops_early mt (n + int (length (filter b ks)))))"
  using assms
proof (induction ks arbitrary: n)
  case (Cons k ks)
  have k: "get_comparison (the (dict_get src k)) (the (dict_get tgt k)) = Inr (b k)" using Cons.prems by simp
  have ks: "\<forall>k \<in> set ks. get_comparison (the (dict_get src k)) (the (dict_get tgt k)) = Inr (b k)"
    using Cons.prems by simp
  show ?case
  proof (cases "b k")
    case False
    then show ?thesis using Cons.IH[OF ks, of n] k by simp
  next
    case True
    have add: "n + 1 + int (length (filter b ks)) = n + int (length (filter b (k # ks)))" using True by simp
    show ?thesis
    proof (cases "stops_early mt (n + 1)")
      case stop: True
      then have "stops_early mt (n + int (length (filter b (k # ks))))"
        by (rule stops_early_mono) (simp add: True)
      then show ?thesis using k True stop by simp
    next
      case go: False
      have "filter b ks = [] \<Longrightarrow> \<not> stops_early mt (n + int (length (filter b (k # ks))))"
        using go True by simp
      then show ?thesis
        using Cons.IH[OF ks, of "n + 1"] k True go unfolding add by auto
    qed
  qed
qed simp

text \<open>What an attribute match decides, when no comparison fails. No common attribute is no
  match. Otherwise only the attributes that both sides name are compared: ''any'' needs one of
  them to match, a number that many, ''all'' all of them, so an attribute that the worker
  does not have at all does not count against it.\<close>

theorem determine_match_spec:
  assumes "\<forall>k \<in> set (shared_keys src tgt). get_comparison (the (dict_get src k)) (the (dict_get tgt k)) = Inr (b k)"
    and "mt \<noteq> MatchUnset" "mt \<noteq> MatchWord ''none''"
  shows "determine_match_from_attributes src tgt mt = Inr
    (shared_keys src tgt \<noteq> [] \<and>
     (case mt of
        MatchCount m \<Rightarrow> m \<le> int (length (filter b (shared_keys src tgt)))
      | MatchWord s \<Rightarrow> s = ''any'' \<and> (\<exists>k \<in> set (shared_keys src tgt). b k) \<or>
                       s = ''all'' \<and> (\<forall>k \<in> set (shared_keys src tgt). b k)
      | MatchUnset \<Rightarrow> False))"
proof -
  let ?ks = "shared_keys src tgt"
  obtain r where r: "scan_matches mt src tgt ?ks 0 = Inr r"
    and n: "r = None \<Longrightarrow> filter b ?ks \<noteq> [] \<and> stops_early mt (int (length (filter b ?ks)))"
    and s: "\<And>x. r = Some x \<Longrightarrow> x = int (length (filter b ?ks)) \<and>
       (filter b ?ks \<noteq> [] \<longrightarrow> \<not> stops_early mt (int (length (filter b ?ks))))"
    using scan_spec[OF assms(1), of mt 0] by auto
  have ex: "filter b ?ks \<noteq> [] \<longleftrightarrow> (\<exists>k \<in> set ?ks. b k)" by (simp add: filter_empty_conv)
  have al: "length (filter b ?ks) = length ?ks \<longleftrightarrow> (\<forall>k \<in> set ?ks. b k)"
    using filter_id_conv[of b ?ks] length_filter_less[of _ ?ks b] by (metis nat_less_le)
  show ?thesis
  proof (cases r)
    case None
    then show ?thesis using r n[OF None] ex assms(2,3)
      by (auto simp: determine_match_from_attributes_def stops_early_def split: match_type.splits)
  next
    case (Some x)
    then show ?thesis using r s[OF Some] ex al assms(2,3)
      by (auto simp: determine_match_from_attributes_def stops_early_def split: match_type.splits)
  qed
qed

theorem determine_match_spec_witness:
  "determine_match_from_attributes [(''n_gpus'', PInt 2)] [(''n_gpus'', PStr ''>= 1''), (''zone'', PStr ''a'')] (MatchWord ''all'')
   = Inr True"
proof -
  let ?src = "[(''n_gpus'', PInt 2)]" and ?tgt = "[(''n_gpus'', PStr ''>= 1''), (''zone'', PStr ''a'')]"
  have ks: "shared_keys ?src ?tgt = [''n_gpus'']" by (simp add: shared_keys_def dict_has_def dict_keys_def)
  have "get_comparison (PInt 2) (PStr ''>= 1'') = Inr True" by code_simp
  then have "\<forall>k \<in> set (shared_keys ?src ?tgt). get_comparison (the (dict_get ?src k)) (the (dict_get ?tgt k)) = Inr True"
    by (simp add: ks dict_get_def)
  from determine_match_spec[OF this] show ?thesis by (simp add: ks)
qed

text \<open>Two kinds of wanted attribute never match. A wanted list is looked for, as a whole,
  among the worker's value, so a value that is one of its elements does not match. A wanted
  boolean is compared by \<open>>\<close>, because a boolean is a number, so a worker whose attribute is
  True does not match a function that wants True.\<close>

theorem list_and_bool_targets:
  "(case source of PList ys \<Rightarrow> False | PTuple ys \<Rightarrow> False | _ \<Rightarrow> True) \<Longrightarrow>
   get_comparison source (PList xs) = Inr False \<and> get_comparison source (PTuple xs) = Inr False \<and>
   get_comparison (PBool b) (PBool True) = Inr False"
  by (auto simp: get_comparison_def apply_op_def py_contains_def py_eq_def py_less_def split: pyval.splits)

theorem list_and_bool_targets_witness:
  "get_comparison (PStr ''a'') (PList [PStr ''a'', PStr ''b'']) = Inr False"
  using list_and_bool_targets[of "PStr ''a''" "[PStr ''a'', PStr ''b'']"] by simp

end
