(* ===== verification/Task_Registry.thy ===== *)
theory Task_Registry
  imports Queue_Lifecycle Task_Function
begin

text \<open>
  The operations of \<^verbatim>\<open>kvdb/tasks/queue.py\<close> as they are called: each one asks the registry, after
  it has changed the state, whether it may log the job's function, and raises a ValueError
  when the function is not registered there. \<open>Task_Queue\<close> has the state changes;
  here are the calls with the exception that leaves them, and what such a job does to a sweep and to an abort.
\<close>

definition log_check :: "queue_tasks \<Rightarrow> string \<Rightarrow> job \<Rightarrow> error option" where
  "log_check q stage j = (case is_function_silenced (jfunction j) stage q of Inl e \<Rightarrow> Some e | Inr b \<Rightarrow> None)"

lemma log_check_iff: "log_check q stage j = (if dict_has (jfunction j) (tfunctions q) then None else Some ValueError)"
proof -
  have "dict_has k fs \<longleftrightarrow> dict_get fs k \<noteq> None" for k and fs :: "(string \<times> task_function) list"
    by (simp add: dict_has_def dict_get_def map_of_eq_None_iff)
  then show ?thesis by (auto simp: log_check_def is_function_silenced_def split: option.splits)
qed

type_synonym 'db call = "error option \<times> job \<times> 'db world"

definition finish_call ::
    "'db backend \<Rightarrow> task_queue \<Rightarrow> queue_tasks \<Rightarrow> rat \<Rightarrow> job_status \<Rightarrow> pyval \<Rightarrow> pyval \<Rightarrow> job \<Rightarrow> 'db world \<Rightarrow> 'db call" where
  "finish_call B tq q clock st res err j w =
     (let (j1, w1) = finish B tq clock st res err j w in
      (if st \<noteq> RESCHEDULED then log_check q ''finish'' j1 else None, j1, w1))"

definition retry_call ::
    "'db backend \<Rightarrow> task_queue \<Rightarrow> queue_tasks \<Rightarrow> rat \<Rightarrow> rat \<Rightarrow> pyval \<Rightarrow> job \<Rightarrow> 'db world \<Rightarrow> 'db call" where
  "retry_call B tq q clock rnd err j w =
     (let (j1, w1) = retry B tq clock rnd err j w in (log_check q ''retry'' j1, j1, w1))"

definition reschedule_call ::
    "'db backend \<Rightarrow> task_queue \<Rightarrow> queue_tasks \<Rightarrow> rat \<Rightarrow> rat \<Rightarrow> pyval \<Rightarrow> job \<Rightarrow> 'db world \<Rightarrow> 'db call" where
  "reschedule_call B tq q clock wait_time err j w =
     (let (j1, w1) = reschedule B tq clock wait_time err j w in (log_check q ''reschedule'' j1, j1, w1))"

text \<open>An abort whose \<open>finish\<close> raises stops there: the abort marker is not deleted and the push
  queue not told.\<close>

definition abort_call ::
    "'db backend \<Rightarrow> task_queue \<Rightarrow> queue_tasks \<Rightarrow> rat \<Rightarrow> string \<Rightarrow> int \<Rightarrow> job \<Rightarrow> 'db world \<Rightarrow> 'db call" where
  "abort_call B tq q clock err tt j w =
     (let jid = ident tq j;
          pipe = [LREM (job_queued_key tq j) 0 jid, ZREM (job_incomplete_key tq j) jid,
                  EXPIRE jid (tt + 1), SETEX (job_abort_id tq j) tt (RStr err)];
          (replies, d) = run_pipeline (server B) pipe (wdb w);
          w1 = w\<lparr>wdb := d\<rparr>;
          dequeued = (case hd replies of Num n \<Rightarrow> n \<noteq> 0 | _ \<Rightarrow> False);
          (x, j2, w2) = (if dequeued then
                           let (x, j', w') = finish_call B tq q clock ABORTED PNone (PStr err) j w1 in
                           (x, j', if x = None then do_cmd B (DEL [job_abort_id tq j]) w' else w')
                         else (None, j, do_cmd B (LREM (job_active_key tq j) 0 jid) w1)) in
      (x, j2, if x = None
              then w2\<lparr>background := background w2 @ in_background (pq_remove (pushq tq) (Some jid) None None)\<rparr>
              else w2))"

definition enqueue_call ::
    "'db backend \<Rightarrow> task_queue \<Rightarrow> queue_tasks \<Rightarrow> (job \<Rightarrow> job) list \<Rightarrow> rat \<Rightarrow> bool \<Rightarrow> job \<Rightarrow> 'db world
     \<Rightarrow> job option result \<times> 'db world" where
  "enqueue_call B tq q before clock return_existing_job j w =
     (let j2 = before_enqueue before clock j;
          (ok, d) = enqueue_script (server B) (job_incomplete_key tq j2) (ident tq j2)
                      (job_queued_key tq j2) (job_abort_id tq j2) (serialize B tq j2) (scheduled j2) (wdb w);
          w1 = w\<lparr>wdb := d\<rparr> in
      if ok then (case log_check q ''enqueue'' j2 of Some e \<Rightarrow> (Inl e, w1) | None \<Rightarrow> (Inr (Some j2), w1))
      else if return_existing_job then (fetch_job B tq (ident tq j2) True w1, w1)
      else (Inr None, w1))"

text \<open>The loop of \<open>sweep\<close>: a job whose function is unknown ends it, after that job was finished.\<close>

fun sweep_loop ::
    "'db backend \<Rightarrow> task_queue \<Rightarrow> queue_tasks \<Rightarrow> rat \<Rightarrow> string \<Rightarrow> string \<Rightarrow> (string \<times> rval option) list
     \<Rightarrow> string list \<Rightarrow> 'db world \<Rightarrow> string list result \<times> 'db world" where
  "sweep_loop B tq q clock active incomplete [] swept w = (Inr swept, w)"
| "sweep_loop B tq q clock active incomplete ((jid, data) # rest) swept w =
     (case deserialize B tq (case data of None \<Rightarrow> Nil | Some v \<Rightarrow> Bulk v) of
        Inl e \<Rightarrow> sweep_loop B tq q clock active incomplete rest (swept @ [jid]) (sweep_missing B tq active incomplete jid w)
      | Inr j \<Rightarrow>
          if sweepable (now_ms clock) j
          then (case finish_call B tq q clock ABORTED PNone (PStr ''swept'') j w of
                  (Some x, j1, w1) \<Rightarrow> (Inl x, w1)
                | (None, j1, w1) \<Rightarrow> sweep_loop B tq q clock active incomplete rest (swept @ [jid]) w1)
          else sweep_loop B tq q clock active incomplete rest swept w)"

definition sweep_call ::
    "'db backend \<Rightarrow> task_queue \<Rightarrow> queue_tasks \<Rightarrow> int \<Rightarrow> string option \<Rightarrow> rat \<Rightarrow> 'db world \<Rightarrow> string list result \<times> 'db world" where
  "sweep_call B tq q lock wid clock w =
     (let active = qkey tq wid ''active''; incomplete = qkey tq wid ''incomplete'';
          (ids, d) = cleanup_script (server B) (qkey tq wid ''sweep'') active lock (wdb w);
          w1 = w\<lparr>wdb := d\<rparr>;
          job_ids = (case ids of None \<Rightarrow> [] | Some xs \<Rightarrow> xs) in
      if job_ids = [] then (Inr [], w1)
      else
        let data = (case reply_of (server B) (MGET job_ids) (wdb w1) of Multi vs \<Rightarrow> vs | _ \<Rightarrow> []) in
        sweep_loop B tq q clock active incomplete (zip job_ids data) [] (do_cmd B (MGET job_ids) w1))"

definition sweep_job_call :: "'db backend \<Rightarrow> task_queue \<Rightarrow> queue_tasks \<Rightarrow> rat \<Rightarrow> string \<Rightarrow> 'db world \<Rightarrow> 'db world" where
  "sweep_job_call B tq q clock jid w =
     (case get_job_by_id B tq jid w of
        Inl e \<Rightarrow> w
      | Inr j \<Rightarrow>
          let (x, w1) = (if sweepable (now_ms clock) j
                         then (case finish_call B tq q clock ABORTED PNone (PStr ''swept'') j w of (x, j1, w1) \<Rightarrow> (x, w1))
                         else (None, w)) in
          if x \<noteq> None then w1
          else sweep_missing B tq (qkey tq None ''active'') (qkey tq None ''incomplete'') jid w1)"

section \<open>With every function registered\<close>

definition registered :: "queue_tasks \<Rightarrow> job \<Rightarrow> bool" where
  "registered q j \<longleftrightarrow> dict_has (jfunction j) (tfunctions q)"

lemma function_kept [simp]:
  "jfunction (complete n st r e j) = jfunction j" "jfunction (reset n st e j) = jfunction j"
  by (simp_all add: complete_def reset_def)

lemma finish_job: "fst (finish B tq clock st res err j w) = complete (now_ms clock) st res err j"
  by (simp add: finish_def Let_def)

lemma calls_registered:
  assumes "registered q j"
  shows "finish_call B tq q clock st res err j w = (None, finish B tq clock st res err j w)"
    and "retry_call B tq q clock rnd err j w = (None, retry B tq clock rnd err j w)"
    and "abort_call B tq q clock e tt j w = (None, abort B tq clock e tt j w)"
  using assms
  by (simp_all add: finish_call_def retry_call_def abort_call_def abort_def log_check_iff registered_def finish_job
      case_prod_unfold Let_def retry_def)

lemma enqueue_registered:
  "registered q (before_enqueue before clock j) \<Longrightarrow>
   enqueue_call B tq q before clock ret j w = enqueue B tq before clock ret j w"
  by (simp add: enqueue_call_def enqueue_def log_check_iff registered_def Let_def case_prod_unfold)

lemma sweep_loop_registered:
  assumes "\<And>jid v j. (jid, v) \<in> set idvs \<Longrightarrow> deserialize B tq (case v of None \<Rightarrow> Nil | Some x \<Rightarrow> Bulk x) = Inr j \<Longrightarrow> registered q j"
  shows "sweep_loop B tq q clock active incomplete idvs swept w =
    (case fold (sweep_one B tq clock active incomplete) idvs (swept, w) of (s, w') \<Rightarrow> (Inr s, w'))"
  using assms
proof (induction idvs arbitrary: swept w)
  case (Cons a idvs)
  obtain jid v where a: "a = (jid, v)" by fastforce
  have IH: "sweep_loop B tq q clock active incomplete idvs s w' =
      (case fold (sweep_one B tq clock active incomplete) idvs (s, w') of (s, w') \<Rightarrow> (Inr s, w'))" for s w'
    by (rule Cons.IH) (use Cons.prems in auto)
  have "registered q j" if "deserialize B tq (case v of None \<Rightarrow> Nil | Some x \<Rightarrow> Bulk x) = Inr j" for j
    using Cons.prems[of jid v j] a that by simp
  moreover have "fold (sweep_one B tq clock active incomplete) (a # idvs) (swept, w) =
      fold (sweep_one B tq clock active incomplete) idvs
        (case deserialize B tq (case v of None \<Rightarrow> Nil | Some x \<Rightarrow> Bulk x) of
           Inl e \<Rightarrow> (swept @ [jid], sweep_missing B tq active incomplete jid w)
         | Inr j \<Rightarrow> if sweepable (now_ms clock) j
                   then (swept @ [jid], snd (finish B tq clock ABORTED PNone (PStr ''swept'') j w)) else (swept, w))"
    by (simp add: a sweep_one_def)
  ultimately show ?case
    by (auto simp: a IH calls_registered case_prod_unfold split: sum.splits)
qed simp

section \<open>With an unknown function\<close>

lemma before_none:
  "ident tq (before_enqueue [] clock j) = ident tq j" "job_postfix (before_enqueue [] clock j) = job_postfix j"
  "separate tq (before_enqueue [] clock j) = separate tq j" "job_abort_id tq (before_enqueue [] clock j) = job_abort_id tq j"
  "scheduled (before_enqueue [] clock j) = scheduled j" "jfunction (before_enqueue [] clock j) = jfunction j"
  by (simp_all add: before_enqueue_def ident_def job_postfix_def separate_def job_abort_id_def)

lemma enqueue_call_world: "snd (enqueue_call B tq q before clock ret j w) = snd (enqueue B tq before clock ret j w)"
  by (simp add: enqueue_call_def enqueue_def Let_def case_prod_unfold split: option.splits)

lemma enqueue_call_unknown:
  "\<not> registered q (before_enqueue before clock j) \<Longrightarrow> fst (enqueue B tq before clock False j w) \<noteq> Inr None \<Longrightarrow>
   fst (enqueue_call B tq q before clock ret j w) = Inl ValueError"
  by (auto simp: enqueue_call_def enqueue_def Let_def case_prod_unfold log_check_iff registered_def split: if_splits)

context redis_queue
begin

lemma finish_frame:
  assumes B: "server B = exec"
    and k: "k \<noteq> ident tq j" "k \<notin> queue_keys tq (job_postfix j)" "pq_enabled (pushq tq) \<longrightarrow> queue_key (pushq tq) \<noteq> k"
  shows "view (wdb (snd (finish B tq clock st r e j w))) k = view (wdb w) k"
proof -
  have unpush: "view (snd (run_pipeline exec (unpush_cmds (pushq tq) i) d)) k = view d k" for i d
    by (rule pipeline_frame) (use k in \<open>auto simp: queue_keys_def\<close>)
  have pub: "view (wdb (notify B tq j' w')) k = view (wdb w') k" for j' w'
    by (simp add: notify_def do_cmd_def Let_def B read_frame)
  have ne: "k \<noteq> qkey tq (job_postfix j) ''active''" "k \<noteq> qkey tq (job_postfix j) ''incomplete''"
    using k(2) by (auto simp: queue_keys_def)
  show ?thesis
    using ne k(1) by (simp add: finish_def Let_def pub run_pipe_def B snd_pipeline_append unpush job_keys write_frame)
qed

lemma abort_call_unknown:
  assumes B: "server B = exec" and Q: "Q tq (job_postfix j) (wdb w) = Some s" and sep: "separate tq j"
    and un: "\<not> registered q j" and wt: "ident tq j \<in> set (waiting s)" and tt: "0 < tt"
    and pq: "pq_enabled (pushq tq) \<longrightarrow> queue_key (pushq tq) \<noteq> job_abort_id tq j"
  obtains w' where "abort_call B tq q clock e tt j w = (Some ValueError, complete (now_ms clock) ABORTED PNone (PStr e) j, w')"
    "view (wdb w') (job_abort_id tq j) = Some (OStr (RStr e) (Some tt))"
proof -
  let ?i = "ident tq j"
  let ?pipe = "[LREM (job_queued_key tq j) 0 ?i, ZREM (job_incomplete_key tq j) ?i,
                EXPIRE ?i (tt + 1), SETEX (job_abort_id tq j) tt (RStr e)]"
  let ?w1 = "w\<lparr>wdb := snd (run_pipeline exec ?pipe (wdb w))\<rparr>"
  let ?w2 = "snd (finish B tq clock ABORTED PNone (PStr e) j ?w1)"
  have rep: "hd (fst (run_pipeline exec ?pipe (wdb w))) = Num (int (length (waiting s) - length (removeAll ?i (waiting s))))"
    using Q by (simp add: jobq_of_Some job_keys lrem_reply)
  have n: "length (waiting s) - length (removeAll ?i (waiting s)) \<noteq> 0"
    using length_removeAll_less[OF wt] by simp
  have "abort_call B tq q clock e tt j w = (Some ValueError, complete (now_ms clock) ABORTED PNone (PStr e) j, ?w2)"
    unfolding abort_call_def using rep n un
    by (simp add: B Let_def case_prod_unfold finish_call_def finish_job log_check_iff registered_def)
  moreover have "view (wdb ?w2) (job_abort_id tq j) = Some (OStr (RStr e) (Some tt))"
    using sep pq tt by (subst finish_frame[OF B]) (auto simp: separate_def setex_effect)
  ultimately show thesis by (rule that)
qed

lemma marker_refuses:
  assumes B: "server B = exec" and v: "view (wdb w) (job_abort_id tq j) \<noteq> None"
  shows "fst (enqueue B tq [] clock False j w) = Inr None"
  using v by (auto simp: enqueue_def enqueue_script_def B Let_def case_prod_unfold before_none exists_reply)

end

text \<open>C11. What an unknown function does. Enqueueing a job whose function is not in the registry raises
  a ValueError, yet the job is in the queue; aborting such a job while it waits raises too, after
  it was finished, and leaves the abort marker behind, so that the same key cannot be
  enqueued again until the marker expires.\<close>

theorem unknown_function_raises_late:
  assumes "redis_queue (server B) view" and "jobq_of view tq (job_postfix j) (wdb w) = Some s" and "separate tq j"
    and "jfunction j \<notin> fst ` set (tfunctions q)" and "0 < tt"
    and "pq_enabled (pushq tq) \<longrightarrow> queue_key (pushq tq) \<noteq> job_abort_id tq j"
  shows "(pending s (ident tq j) = None \<and> view (wdb w) (job_abort_id tq j) = None \<longrightarrow>
      fst (enqueue_call B tq q [] clock ret j w) = Inl ValueError \<and>
      jobq_of view tq (job_postfix j) (wdb (snd (enqueue_call B tq q [] clock ret j w))) =
        Some (s\<lparr>waiting := (if scheduled j = 0 then waiting s @ [ident tq j] else waiting s),
                pending := (pending s)(ident tq j \<mapsto> scheduled j)\<rparr>)) \<and>
    (ident tq j \<in> set (waiting s) \<longrightarrow>
      (case abort_call B tq q clock e tt j w of (x, j1, w') \<Rightarrow>
         x = Some ValueError \<and> status j1 = ABORTED \<and>
         view (wdb w') (job_abort_id tq j) = Some (OStr (RStr e) (Some tt)) \<and>
         fst (enqueue B tq [] clock' False j w') = Inr None))"
proof (intro conjI impI)
  have un: "\<not> registered q j" "\<not> registered q (before_enqueue [] clock j)"
    using assms(4) by (simp_all add: registered_def dict_has_def before_none)
  {
    assume free: "pending s (ident tq j) = None \<and> view (wdb w) (job_abort_id tq j) = None"
    have *: "jobq_of view tq (job_postfix j) (wdb (snd (enqueue B tq [] clock r j w))) = Some (a_enqueue (ident tq j) (scheduled j) s) \<and>
        fst (enqueue B tq [] clock r j w) = Inr (Some (before_enqueue [] clock j))" for r
      using redis_queue.enqueue_refines[OF assms(1) refl refl, where before = "[]" and clock = clock and j = j and tq = tq and w = w and ret = r]
        assms(2,3) free by (simp add: before_none Let_def case_prod_unfold)
    show "fst (enqueue_call B tq q [] clock ret j w) = Inl ValueError"
      by (rule enqueue_call_unknown[OF un(2)]) (simp add: *)
    show "jobq_of view tq (job_postfix j) (wdb (snd (enqueue_call B tq q [] clock ret j w))) =
        Some (s\<lparr>waiting := (if scheduled j = 0 then waiting s @ [ident tq j] else waiting s),
                pending := (pending s)(ident tq j \<mapsto> scheduled j)\<rparr>)"
      using * by (simp add: enqueue_call_world a_enqueue_def)
  }
  assume wt: "ident tq j \<in> set (waiting s)"
  obtain w' where "abort_call B tq q clock e tt j w = (Some ValueError, complete (now_ms clock) ABORTED PNone (PStr e) j, w')"
    "view (wdb w') (job_abort_id tq j) = Some (OStr (RStr e) (Some tt))"
    using redis_queue.abort_call_unknown[OF assms(1) refl assms(2,3) un(1) wt assms(5,6)] by blast
  then show "case abort_call B tq q clock e tt j w of (x, j1, w') \<Rightarrow>
         x = Some ValueError \<and> status j1 = ABORTED \<and>
         view (wdb w') (job_abort_id tq j) = Some (OStr (RStr e) (Some tt)) \<and>
         fst (enqueue B tq [] clock' False j w') = Inr None"
    by (simp add: redis_queue.marker_refuses[OF assms(1) refl])
qed

definition ex_no_functions :: queue_tasks where
  "ex_no_functions = \<lparr>qt_queue_name = ''global'', tfunctions = [], has_child_objects = False,
     child_object_mapping = [], last_registered = None\<rparr>"

theorem unknown_function_raises_late_witness:
  "fst (enqueue_call ex_backend ex_queue ex_no_functions [] 0 False (ex_job ''a'') ex_world) = Inl ValueError \<and>
   fst (abort_call ex_backend ex_queue ex_no_functions 1 ''stop'' 5 (ex_job ''a'') ex_queued) = Some ValueError"
proof -
  have pq: "pq_enabled (pushq ex_queue) \<longrightarrow> queue_key (pushq ex_queue) \<noteq> job_abort_id ex_queue (ex_job ''a'')"
    by code_simp
  have un: "jfunction (ex_job ''a'') \<notin> fst ` set (tfunctions ex_no_functions)" by (simp add: ex_no_functions_def)
  have Q0: "jobq_of mview ex_queue (job_postfix (ex_job ''a'')) (wdb ex_world) = Some empty_jobq"
    by (simp add: ex_jobq)
  have Q1: "jobq_of mview ex_queue (job_postfix (ex_job ''a'')) (wdb ex_queued) =
      Some \<lparr>waiting = [ex_id], running = [], pending = [ex_id \<mapsto> 0]\<rparr>"
    by (simp add: ex_queued_jobq)
  have "fst (enqueue_call ex_backend ex_queue ex_no_functions [] 0 False (ex_job ''a'') ex_world) = Inl ValueError"
    using unknown_function_raises_late[OF ex_laws Q0 ex_separate un _ pq, where tt = 5 and clock = 0 and ret = False]
    by (auto simp: ex_world_view empty_jobq_def)
  moreover have "fst (abort_call ex_backend ex_queue ex_no_functions 1 ''stop'' 5 (ex_job ''a'') ex_queued) = Some ValueError"
    using unknown_function_raises_late[OF ex_laws Q1 ex_separate un _ pq, where tt = 5 and clock = 1 and e = "''stop''"]
    by (auto simp: ex_id_def case_prod_unfold)
  ultimately show ?thesis ..
qed

end
