(* ===== verification/Worker.thy ===== *)
theory Worker
  imports Task_Queue Task_Function
begin

text \<open>
  \<^verbatim>\<open>kvdb/tasks/worker.py\<close>: how a worker takes a job from a queue, runs its function and
  records the outcome, aborts and reschedules the jobs it runs, and keeps its processing tasks
  going. The outcome of the function, the hooks and the error text are arguments; a worker
  reads the clock when it starts the job (\<open>clock\<close>) and when it is done with it (\<open>clock2\<close>).
  Logging is left out.
\<close>

section \<open>The worker\<close>

record worker =
  wk_id :: string
  wk_name :: string
  wk_functions :: "(string \<times> task_function) list"
  tasks_idx :: int
  failure_calls :: "string list"

text \<open>What happens to the function's task: it returns, raises, is cancelled (by \<open>abort\<close> or
  otherwise), or could not be created.\<close>

datatype run_outcome =
    Returns pyval
  | RaisesJobError string
  | Raises string
  | Cancelled bool
  | NotCreated string

text \<open>The state of a handler: the exception that leaves it, the worker, the world.\<close>

type_synonym 'db handled = "error option \<times> worker \<times> 'db world"

definition run_on_failure_callback :: "task_function \<Rightarrow> job \<Rightarrow> worker \<Rightarrow> worker" where
  "run_on_failure_callback f j wk = (if on_failure f then wk\<lparr>failure_calls := failure_calls wk @ [jkey j]\<rparr> else wk)"

definition retry_text :: "string \<Rightarrow> pyval" where
  "retry_text s = (if s \<noteq> [] then PStr s else PStr ''Retrying'')"

section \<open>The exception handlers\<close>

text \<open>\<open>fo\<close> is the function, \<open>None\<close> when the exception came before it was looked up: then
  any use of it is an AttributeError that leaves the handler; a job whose function is not in the
  registry makes \<open>finish\<close> itself raise, after it has done its work.\<close>

definition handle_exception ::
    "'db backend \<Rightarrow> task_queue \<Rightarrow> queue_tasks \<Rightarrow> (string \<Rightarrow> string \<Rightarrow> bool) \<Rightarrow> rat \<Rightarrow> rat \<Rightarrow> string \<Rightarrow> string \<Rightarrow>
     task_function option \<Rightarrow> job \<Rightarrow> worker \<Rightarrow> 'db world \<Rightarrow> 'db handled" where
  "handle_exception B tq q subclass clock rnd err e fo j wk w =
     (if attempts j > retries j then
        let (j1, w1) = finish B tq clock FAILED PNone (PStr err) j w in
        (case fo of
           None \<Rightarrow> (Some (if dict_has (jfunction j) (tfunctions q) then AttributeError else ValueError), wk, w1)
         | Some f \<Rightarrow> (None, run_on_failure_callback f j1 wk, w1))
      else case fo of
        None \<Rightarrow> (Some AttributeError, wk, w)
      | Some f \<Rightarrow>
          (case should_retry_on_error subclass (PExc e) f of
             Inl x \<Rightarrow> (Some x, wk, w)
           | Inr True \<Rightarrow> (None, wk, snd (retry B tq clock rnd (retry_text err) j w))
           | Inr False \<Rightarrow>
               let (j1, w1) = finish B tq clock FAILED PNone (PExc e) (j\<lparr>retries := 0\<rparr>) w in
               (None, run_on_failure_callback f j1 wk, w1)))"

definition error_or :: "pyval \<Rightarrow> job \<Rightarrow> pyval" where
  "error_or e j = (if truthy (jerror j) then jerror j else e)"

definition handle_job_error ::
    "'db backend \<Rightarrow> task_queue \<Rightarrow> (string \<Rightarrow> string \<Rightarrow> bool) \<Rightarrow> rat \<Rightarrow> rat \<Rightarrow> string \<Rightarrow> string \<Rightarrow>
     task_function \<Rightarrow> job \<Rightarrow> worker \<Rightarrow> 'db world \<Rightarrow> 'db handled" where
  "handle_job_error B tq subclass clock rnd err e f j wk w =
     (if attempts j > retries j then
        let (j1, w1) = finish B tq clock FAILED PNone (PStr err) j w in
        (None, run_on_failure_callback f j1 wk, w1)
      else case should_retry_on_error subclass (error_or (PExc e) j) f of
        Inl x \<Rightarrow> (Some x, wk, w)
      | Inr True \<Rightarrow> (None, wk, snd (retry B tq clock rnd (retry_text err) j w))
      | Inr False \<Rightarrow>
          let (j0, w0) = update_job B tq clock (j\<lparr>retries := 0\<rparr>) w;
              (j1, w1) = finish B tq clock FAILED PNone (PExc e) j0 w0 in
          (None, run_on_failure_callback f j1 wk, w1))"

definition handle_cancelled ::
    "'db backend \<Rightarrow> task_queue \<Rightarrow> (string \<Rightarrow> string \<Rightarrow> bool) \<Rightarrow> rat \<Rightarrow> rat \<Rightarrow> bool \<Rightarrow>
     task_function \<Rightarrow> job \<Rightarrow> worker \<Rightarrow> 'db world \<Rightarrow> 'db handled" where
  "handle_cancelled B tq subclass clock rnd aborted f j wk w =
     (if \<not> is_complete j \<and> \<not> aborted then
        (case should_retry_on_error subclass (error_or (PExc ''CancelledError'') j) f of
           Inl x \<Rightarrow> (Some x, wk, w)
         | Inr True \<Rightarrow> (None, wk, snd (retry B tq clock rnd (PStr ''cancelled'') j w))
         | Inr False \<Rightarrow> (None, wk, w))
      else (None, wk, w))"

section \<open>Processing\<close>

definition rejected :: "worker \<Rightarrow> job \<Rightarrow> bool" where
  "rejected wk j \<longleftrightarrow>
     opt_truthy (worker_id j) \<and> worker_id j \<noteq> Some (wk_id wk) \<or>
     opt_truthy (worker_name j) \<and> worker_name j \<noteq> Some (wk_name wk)"

definition start_job :: "rat \<Rightarrow> job \<Rightarrow> job" where
  "start_job clock j = j\<lparr>started := now_ms clock, status := ACTIVE, attempts := attempts j + 1\<rparr>"

text \<open>Looking the function up in the registry and among the worker's functions.\<close>

definition lookup_function :: "queue_tasks \<Rightarrow> worker \<Rightarrow> job \<Rightarrow> (job \<times> task_function) result" where
  "lookup_function q wk j =
     bindR (ensure_job_in_functions q j) (\<lambda>j1.
       bindR (is_function_silenced (jfunction j1) ''process'' q) (\<lambda>s.
         case dict_get (wk_functions wk) (jfunction j1) of
           None \<Rightarrow> Inl KeyError | Some f \<Rightarrow> Inr (j1, f)))"

definition run_accepted ::
    "'db backend \<Rightarrow> task_queue \<Rightarrow> queue_tasks \<Rightarrow> (string \<Rightarrow> string \<Rightarrow> bool) \<Rightarrow> error option \<Rightarrow> rat \<Rightarrow> rat \<Rightarrow> rat \<Rightarrow>
     string \<Rightarrow> run_outcome \<Rightarrow> job \<Rightarrow> worker \<Rightarrow> 'db world \<Rightarrow> 'db handled" where
  "run_accepted B tq q subclass before clock clock2 rnd err outcome j wk w =
     (let wk1 = wk\<lparr>tasks_idx := tasks_idx wk + 1\<rparr>;
          (j2, w2) = update_job B tq clock (start_job clock j) w in
      case before of
        Some x \<Rightarrow> handle_exception B tq q subclass clock2 rnd err ''Exception'' None j2 wk1 w2
      | None \<Rightarrow>
          (case lookup_function q wk1 j2 of
             Inl x \<Rightarrow> handle_exception B tq q subclass clock2 rnd err ''ValueError'' None j2 wk1 w2
           | Inr (j3, f) \<Rightarrow>
               (case outcome of
                  Returns v \<Rightarrow> (None, wk1, snd (finish B tq clock2 COMPLETE v PNone j3 w2))
                | RaisesJobError e \<Rightarrow> handle_job_error B tq subclass clock2 rnd err e f j3 wk1 w2
                | Raises e \<Rightarrow> handle_exception B tq q subclass clock2 rnd err e (Some f) j3 wk1 w2
                | Cancelled aborted \<Rightarrow> handle_cancelled B tq subclass clock2 rnd aborted f j3 wk1 w2
                | NotCreated e \<Rightarrow>
                    handle_exception B tq q subclass clock2 rnd err e (Some f) j3
                      (wk1\<lparr>tasks_idx := tasks_idx wk1 - 1\<rparr>) w2)))"

text \<open>\<open>process_queue\<close>: whatever \<open>dequeue\<close> raises is suppressed or caught, as there is no job yet;
  the \<open>finally\<close> clause always decrements.\<close>

definition process_queue ::
    "'db backend \<Rightarrow> task_queue \<Rightarrow> queue_tasks \<Rightarrow> (string \<Rightarrow> string \<Rightarrow> bool) \<Rightarrow> error option \<Rightarrow> rat \<Rightarrow> rat \<Rightarrow> rat \<Rightarrow>
     string \<Rightarrow> run_outcome \<Rightarrow> bool \<Rightarrow> worker \<Rightarrow> 'db world \<Rightarrow> 'db handled" where
  "process_queue B tq q subclass before clock clock2 rnd err outcome broadcast wk w =
     (let (r, w1) = dequeue B tq (if broadcast then Some (wk_id wk) else None)
                      (if broadcast then Some (wk_name wk) else None) w;
          (x, wk2, w2) =
            (case r of
               Inr (Some j) \<Rightarrow>
                 if rejected wk j then (None, wk, w1)
                 else run_accepted B tq q subclass before clock clock2 rnd err outcome j wk w1
             | _ \<Rightarrow> (None, wk, w1)) in
      (x, wk2\<lparr>tasks_idx := tasks_idx wk2 - 1\<rparr>, w2))"

definition process_broadcast ::
    "'db backend \<Rightarrow> task_queue \<Rightarrow> queue_tasks \<Rightarrow> (string \<Rightarrow> string \<Rightarrow> bool) \<Rightarrow> error option \<Rightarrow> rat \<Rightarrow> rat \<Rightarrow> rat \<Rightarrow>
     string \<Rightarrow> run_outcome \<Rightarrow> int \<Rightarrow> worker \<Rightarrow> 'db world \<Rightarrow> worker \<times> 'db world" where
  "process_broadcast B tq q subclass before clock clock2 rnd err outcome sweep_lock wk w =
     (case process_queue B tq q subclass before clock clock2 rnd err outcome True wk w of
        (Some x, wk1, w1) \<Rightarrow> (wk1, w1)
      | (None, wk1, w1) \<Rightarrow>
          let w2 = snd (schedule B tq 1 (Some (wk_id wk)) clock2 w1);
              w3 = snd (schedule B tq 1 (Some (wk_name wk)) clock2 w2);
              w4 = snd (sweep B tq sweep_lock (Some (wk_id wk)) clock2 w3);
              w5 = snd (sweep B tq sweep_lock (Some (wk_name wk)) clock2 w4) in
          (wk1, w5))"

section \<open>Aborting and rescheduling running jobs\<close>

fun group_insert :: "string \<Rightarrow> 'a \<Rightarrow> (string \<times> 'a list) list \<Rightarrow> (string \<times> 'a list) list" where
  "group_insert k x [] = [(k, [x])]"
| "group_insert k x ((k', xs) # g) = (if k = k' then (k', xs @ [x]) # g else (k', xs) # group_insert k x g)"

definition sort_jobs :: "('a \<Rightarrow> string) \<Rightarrow> 'a list \<Rightarrow> (string \<times> 'a list) list" where
  "sort_jobs name jobs = fold (\<lambda>j. group_insert (name j) j) jobs []"

definition queue_of :: "job \<Rightarrow> string" where
  "queue_of j = (case job_queue_name j of Some n \<Rightarrow> n | None \<Rightarrow> ''None'')"

definition reschedule_jobs ::
    "'db backend \<Rightarrow> (string \<Rightarrow> task_queue) \<Rightarrow> rat \<Rightarrow> rat \<Rightarrow> pyval \<Rightarrow> job list \<Rightarrow> 'db world \<Rightarrow> 'db world" where
  "reschedule_jobs B queue_dict clock wait_time err jobs w =
     fold (\<lambda>(name, js). fold (\<lambda>j w. snd (reschedule B (queue_dict name) clock wait_time err j w)) js)
       (sort_jobs queue_of jobs) w"

definition running_ms :: "int \<Rightarrow> job \<Rightarrow> int" where
  "running_ms now j = (case get_duration now ''running'' j of Inr (Some d) \<Rightarrow> d | _ \<Rightarrow> 0)"

text \<open>One running job with its abort marker; a task that is already done is left alone.\<close>

definition abort_running ::
    "'db backend \<Rightarrow> task_queue \<Rightarrow> rat \<Rightarrow> (job \<times> bool) \<times> rval option \<Rightarrow> 'db world \<Rightarrow> 'db world" where
  "abort_running B tq clock jm w =
     (let ((j, task_done), marker) = jm in
      case marker of
        Some (RStr msg) \<Rightarrow>
          if msg = [] \<or> task_done then w
          else do_cmd B (DEL [job_abort_id tq j]) (snd (finish B tq clock ABORTED PNone (PStr msg) j w))
      | _ \<Rightarrow> w)"

definition worker_abort ::
    "'db backend \<Rightarrow> (string \<Rightarrow> task_queue) \<Rightarrow> rat \<Rightarrow> int \<Rightarrow> (job \<times> bool) list \<Rightarrow> 'db world \<Rightarrow> 'db world" where
  "worker_abort B queue_dict clock abort_threshold running w =
     fold (\<lambda>(name, js) w.
         let tq = queue_dict name; c = MGET (map (job_abort_id tq \<circ> fst) js);
             markers = (case reply_of (server B) c (wdb w) of Multi vs \<Rightarrow> vs | _ \<Rightarrow> []) in
         fold (abort_running B tq clock) (zip js markers) (do_cmd B c w))
       (sort_jobs (queue_of \<circ> fst) (filter (\<lambda>(j, task_done). running_ms (now_ms clock) j \<ge> millis abort_threshold) running)) w"

section \<open>Processing tasks\<close>

text \<open>Every processing task, when it ends, is replaced by one new task for each queue.\<close>

definition process_task :: "string list \<Rightarrow> bool \<Rightarrow> nat option \<Rightarrow> nat list \<times> nat \<Rightarrow> nat list \<times> nat" where
  "process_task queue_names stopping previous tn =
     (let (tasks, next) = tn;
          tasks1 = (case previous of Some t \<Rightarrow> removeAll t tasks | None \<Rightarrow> tasks) in
      if stopping then (tasks1, next)
      else (tasks1 @ [next ..< next + length queue_names], next + length queue_names))"

fun start_tasks :: "string list \<Rightarrow> nat \<Rightarrow> nat list \<times> nat \<Rightarrow> nat list \<times> nat" where
  "start_tasks queue_names 0 tn = tn"
| "start_tasks queue_names (Suc n) tn = start_tasks queue_names n (process_task queue_names False None tn)"

section \<open>Leaders and queues\<close>

definition is_leader_process :: "bool \<Rightarrow> string \<Rightarrow> bool \<Rightarrow> bool" where
  "is_leader_process in_k8s node_name is_primary_process =
     (if in_k8s then is_digit (last node_name) \<and> last node_name = CHR ''0'' \<and> is_primary_process
      else is_primary_process)"

definition wk_get_queue ::
    "string list \<Rightarrow> (string \<times> task_function) list \<Rightarrow> string \<Rightarrow> string option \<Rightarrow> string option result" where
  "wk_get_queue queue_names fs function_name qn =
     bindR (case qn of
              Some n \<Rightarrow> Inr (Some n)
            | None \<Rightarrow>
                if length queue_names = 1 then Inr (Some (hd queue_names))
                else case dict_get fs function_name of None \<Rightarrow> Inl ValueError | Some f \<Rightarrow> Inr (tf_queue_name f))
       (\<lambda>n. case n of
              Some m \<Rightarrow> if m \<in> set queue_names then Inr (Some m) else Inl ValueError
            | None \<Rightarrow> Inl ValueError)"

end
