(* ===== verification/Worker_Laws.thy ===== *)
theory Worker_Laws
  imports Worker Queue_Lifecycle
begin

text \<open>
  What processing a job does to the queue it came from, on any server that obeys the laws: when
  its id leaves the list of active jobs and when it does not, how often a failing job runs,
  and how the worker's own counters develop.
\<close>

section \<open>Starting a job keeps its place\<close>

lemma place_start [simp]:
  "ident tq (start_job c j) = ident tq j" "job_postfix (start_job c j) = job_postfix j"
  "separate tq (start_job c j) = separate tq j" "retries (start_job c j) = retries j"
  "attempts (start_job c j) = attempts j + 1"
  by (simp_all add: start_job_def ident_def job_postfix_def separate_def job_abort_id_def)

lemma update_fst [simp]:
  "fst (update_job B tq c j w) = j\<lparr>touched := now_ms c\<rparr>"
  by (simp add: update_job_def Let_def)

lemma place_touched [simp]:
  "ident tq (j\<lparr>touched := t\<rparr>) = ident tq j" "job_postfix (j\<lparr>touched := t\<rparr>) = job_postfix j"
  "separate tq (j\<lparr>touched := t\<rparr>) = separate tq j"
  by (simp_all add: ident_def job_postfix_def separate_def job_abort_id_def)

lemma place_retries [simp]:
  "ident tq (j\<lparr>retries := n\<rparr>) = ident tq j" "job_postfix (j\<lparr>retries := n\<rparr>) = job_postfix j"
  "separate tq (j\<lparr>retries := n\<rparr>) = separate tq j"
  by (simp_all add: ident_def job_postfix_def separate_def job_abort_id_def)

lemma lookup_place:
  assumes "lookup_function q wk j = Inr (j1, f)"
  shows "ident tq j1 = ident tq j \<and> job_postfix j1 = job_postfix j \<and> separate tq j1 = separate tq j \<and>
    attempts j1 = attempts j \<and> retries j1 = retries j \<and> status j1 = status j \<and> jerror j1 = jerror j"
  using assms
  by (auto simp: lookup_function_def ensure_job_in_functions_def bindR_Inr_iff ident_def job_postfix_def
      separate_def job_abort_id_def split: if_splits option.splits)

definition no_exception_set :: "task_function \<Rightarrow> bool" where
  "no_exception_set f \<longleftrightarrow> (case exclude_retry_exceptions f of ExcludeSet cs \<Rightarrow> False | _ \<Rightarrow> True)"

lemma should_retry_total: "no_exception_set f \<Longrightarrow> \<exists>b. should_retry_on_error subcl e f = Inr b"
  by (auto simp: no_exception_set_def should_retry_on_error_def split: retry_rule.splits)

section \<open>The handlers on the queue\<close>

context redis_queue
begin

lemma finish_running:
  assumes "server B = exec" "Q tq (job_postfix j) (wdb w) = Some s" "separate tq j"
  shows "\<exists>s'. Q tq (job_postfix j) (wdb (snd (finish B tq c st r e j w))) = Some s' \<and>
    running s' = remove1 (ident tq j) (running s)"
  using finish_refines[OF assms, of c st r e] by (simp add: a_finish_def)

lemma retry_running:
  assumes "server B = exec" "Q tq (job_postfix j) (wdb w) = Some s" "separate tq j"
  shows "\<exists>s'. Q tq (job_postfix j) (wdb (snd (retry B tq c rnd e j w))) = Some s' \<and>
    running s' = remove1 (ident tq j) (running s)"
  using retry_refines[OF assms, of c rnd e] by (auto simp: Let_def a_delay_def a_requeue_def)

lemma update_running:
  assumes "server B = exec" "Q tq (job_postfix j) (wdb w) = Some s" "separate tq j"
  shows "Q tq (job_postfix j) (wdb (snd (update_job B tq c j w))) = Some s"
  using update_refines[OF assms(1,2), of j c] assms(3) by (auto simp: separate_def)

lemma exception_running:
  assumes B: "server B = exec" and Q: "Q tq (job_postfix j) (wdb w) = Some s" and sep: "separate tq j"
    and f: "no_exception_set f"
  shows "\<exists>wk' w' s'. handle_exception B tq q subcl c rnd err e (Some f) j wk w = (None, wk', w') \<and>
    Q tq (job_postfix j) (wdb w') = Some s' \<and> running s' = remove1 (ident tq j) (running s)"
proof -
  obtain b where b: "should_retry_on_error subcl (PExc e) f = Inr b" using should_retry_total[OF f] by blast
  show ?thesis
    using b finish_running[OF B Q sep, of c FAILED PNone "PStr err"] retry_running[OF B Q sep, of c rnd "retry_text err"]
      finish_running[OF B, of tq "j\<lparr>retries := 0\<rparr>" w s c FAILED PNone "PExc e"] Q sep
    by (cases b) (auto simp: handle_exception_def case_prod_unfold Let_def)
qed

lemma job_error_running:
  assumes B: "server B = exec" and Q: "Q tq (job_postfix j) (wdb w) = Some s" and sep: "separate tq j"
    and f: "no_exception_set f"
  shows "\<exists>wk' w' s'. handle_job_error B tq subcl c rnd err e f j wk w = (None, wk', w') \<and>
    Q tq (job_postfix j) (wdb w') = Some s' \<and> running s' = remove1 (ident tq j) (running s)"
proof -
  obtain b where b: "should_retry_on_error subcl (error_or (PExc e) j) f = Inr b"
    using should_retry_total[OF f] by blast
  let ?j0 = "j\<lparr>retries := 0, touched := now_ms c\<rparr>"
  have u: "Q tq (job_postfix j) (wdb (snd (update_job B tq c (j\<lparr>retries := 0\<rparr>) w))) = Some s"
    using update_running[OF B, of tq "j\<lparr>retries := 0\<rparr>" w s c] Q sep by simp
  have "\<exists>s'. Q tq (job_postfix j) (wdb (snd (finish B tq c FAILED PNone (PExc e) ?j0
      (snd (update_job B tq c (j\<lparr>retries := 0\<rparr>) w))))) = Some s' \<and> running s' = remove1 (ident tq j) (running s)"
    using finish_running[OF B, of tq ?j0 _ s c FAILED PNone "PExc e"] u sep by simp
  then show ?thesis
    using b finish_running[OF B Q sep, of c FAILED PNone "PStr err"] retry_running[OF B Q sep, of c rnd "retry_text err"]
    by (cases b) (auto simp: handle_job_error_def case_prod_unfold Let_def)
qed

end

section \<open>One pass of a worker\<close>

definition who :: "bool \<Rightarrow> string \<Rightarrow> string option" where
  "who broadcast n = (if broadcast then Some n else None)"

lemma lookup_idx [simp]: "lookup_function q (wk\<lparr>tasks_idx := n\<rparr>) = lookup_function q wk"
  by (simp add: fun_eq_iff lookup_function_def cong: option.case_cong)

lemma process_accepted:
  assumes "dequeue B tq (who bc (wk_id wk)) (who bc (wk_name wk)) w = (Inr (Some j), w1)" "\<not> rejected wk j"
  shows "process_queue B tq q subcl before c1 c2 rnd err oc bc wk w =
    (case run_accepted B tq q subcl before c1 c2 rnd err oc j wk w1 of
       (x, wk2, w2) \<Rightarrow> (x, wk2\<lparr>tasks_idx := tasks_idx wk2 - 1\<rparr>, w2))"
  using assms by (simp add: process_queue_def who_def Let_def)

definition started_job :: "rat \<Rightarrow> job \<Rightarrow> job" where
  "started_job c j = (start_job c j)\<lparr>touched := now_ms c\<rparr>"

lemma place_started [simp]:
  "ident tq (started_job c j) = ident tq j" "job_postfix (started_job c j) = job_postfix j"
  "separate tq (started_job c j) = separate tq j" "retries (started_job c j) = retries j"
  "attempts (started_job c j) = attempts j + 1"
  by (simp_all add: started_job_def)

context redis_queue
begin

lemma started_queue:
  assumes "server B = exec" "Q tq (job_postfix j) (wdb w) = Some s" "separate tq j"
  shows "Q tq (job_postfix j) (wdb (snd (update_job B tq c (start_job c j) w))) = Some s"
  using update_running[of B tq "start_job c j" w s c] assms by simp

lemma run_leaves_active:
  assumes B: "server B = exec" and Q: "Q tq (job_postfix j) (wdb w) = Some s" and sep: "separate tq j"
    and l: "lookup_function q wk (started_job c1 j) = Inr (j3, f)" and f: "no_exception_set f"
    and oc: "\<forall>a. oc \<noteq> Cancelled a"
  shows "\<exists>wk' w' s'. run_accepted B tq q subcl None c1 c2 rnd err oc j wk w = (None, wk', w') \<and>
    Q tq (job_postfix j) (wdb w') = Some s' \<and> running s' = remove1 (ident tq j) (running s)"
proof -
  let ?w2 = "snd (update_job B tq c1 (start_job c1 j) w)"
  have j3: "ident tq j3 = ident tq j" "job_postfix j3 = job_postfix j" "separate tq j3"
    using lookup_place[OF l] sep by simp_all
  have Q3: "Q tq (job_postfix j3) (wdb ?w2) = Some s" using started_queue[OF B Q sep] j3 by simp
  note exc = exception_running[OF B Q3 j3(3) f, unfolded j3(1,2)]
  note jer = job_error_running[OF B Q3 j3(3) f, unfolded j3(1,2)]
  note fin = finish_running[OF B Q3 j3(3), unfolded j3(1,2)]
  show ?thesis
  proof (cases oc)
    case (Returns v)
    then show ?thesis using fin[of c2 COMPLETE v PNone] l
      by (auto simp: run_accepted_def Let_def case_prod_unfold started_job_def)
  next
    case (RaisesJobError e)
    then show ?thesis using jer[of subcl c2 rnd err e "wk\<lparr>tasks_idx := tasks_idx wk + 1\<rparr>"] l
      by (auto simp: run_accepted_def Let_def case_prod_unfold started_job_def)
  next
    case (Raises e)
    then show ?thesis using exc[of q subcl c2 rnd err e "wk\<lparr>tasks_idx := tasks_idx wk + 1\<rparr>"] l
      by (auto simp: run_accepted_def Let_def case_prod_unfold started_job_def)
  next
    case (Cancelled a)
    then show ?thesis using oc by simp
  next
    case (NotCreated e)
    then show ?thesis using exc[of q subcl c2 rnd err e "wk\<lparr>tasks_idx := tasks_idx wk\<rparr>"] l
      by (auto simp: run_accepted_def Let_def case_prod_unfold started_job_def)
  qed
qed

end


definition ex_function :: task_function where
  "ex_function = \<lparr>tf_name = ''f'', tf_phase = None, silenced = False, silenced_stages = [], tf_kwargs = [],
     default_kwargs = None, function_default_kwargs = None, cron_expr = None, tf_queue_name = None,
     worker_attributes = [], attribute_match_type = MatchUnset, inject_ctx = False, inject_args = True,
     inject_kwargs = True, exclude_retry_exceptions = RetryUnset, on_failure = True\<rparr>"

definition ex_tasks :: queue_tasks where
  "ex_tasks = \<lparr>qt_queue_name = ''global'', tfunctions = [(''f'', ex_function)], has_child_objects = False,
     child_object_mapping = [], last_registered = Some ''f''\<rparr>"

definition no_tasks :: queue_tasks where
  "no_tasks = ex_tasks\<lparr>tfunctions := []\<rparr>"

definition ex_worker :: worker where
  "ex_worker = \<lparr>wk_id = ''w1'', wk_name = ''n1'', wk_functions = [(''f'', ex_function)], tasks_idx = 0, failure_calls = []\<rparr>"

lemma ex_dequeue: "dequeue ex_backend ex_queue None None ex_queued = (Inr (Some (ex_job ''a'')), ex_active)"
  by code_simp

lemma ex_not_rejected: "\<not> rejected wk (ex_job ''a'')"
  by (simp add: rejected_def ex_job_def)

lemma ex_lookup: "lookup_function ex_tasks ex_worker (started_job 1 (ex_job ''a'')) = Inr (started_job 1 (ex_job ''a''), ex_function)"
  by (simp add: lookup_function_def ensure_job_in_functions_def is_function_silenced_def ex_tasks_def ex_worker_def
      started_job_def start_job_def ex_job_def dict_has_def dict_get_def)


text \<open>Three ways in which an id stays in the list of active jobs after the pass. A worker that
  rejects a job bound to another worker has already moved its id there. A job whose function
  is not registered makes the handler itself fail with an AttributeError: it is neither retried
  nor failed. And a job that is cancelled because it is being aborted is left to the aborting
  side.\<close>

theorem job_left_active:
  assumes "redis_queue (server B) view"
    and "dequeue B tq (who bc (wk_id wk)) (who bc (wk_name wk)) w = (Inr (Some j), w1)"
    and "jobq_of view tq (job_postfix j) (wdb w1) = Some s" "separate tq j"
    and "process_queue B tq q subcl None c1 c2 rnd err oc bc wk w = (x, wk', w')"
    and "rejected wk j \<or>
      (\<exists>e. lookup_function q wk (started_job c1 j) = Inl e) \<and> attempts j < retries j \<or>
      (\<exists>j3 f. lookup_function q wk (started_job c1 j) = Inr (j3, f)) \<and> oc = Cancelled True"
  shows "jobq_of view tq (job_postfix j) (wdb w') = Some s \<and>
    (x = (if \<not> rejected wk j \<and> (\<exists>e. lookup_function q wk (started_job c1 j) = Inl e) then Some AttributeError else None))"
proof (cases "rejected wk j")
  case True
  then have "process_queue B tq q subcl None c1 c2 rnd err oc bc wk w = (None, wk\<lparr>tasks_idx := tasks_idx wk - 1\<rparr>, w1)"
    using assms(2) by (simp add: process_queue_def who_def Let_def)
  with assms(3,5) True show ?thesis by simp
next
  case False
  have Q2: "jobq_of view tq (job_postfix j) (wdb (snd (update_job B tq c1 (start_job c1 j) w1))) = Some s"
    by (rule redis_queue.started_queue[OF assms(1) refl, OF assms(3), OF assms(4)])
  show ?thesis
    using False assms(5,6) Q2 process_accepted[OF assms(2) False, of q subcl None c1 c2 rnd err oc]
    by (auto simp: run_accepted_def handle_exception_def handle_cancelled_def started_job_def case_prod_unfold Let_def
        split: if_splits)
qed

theorem job_left_active_witness:
  "fst (process_queue ex_backend ex_queue no_tasks (\<lambda>a b. a = b) None 1 2 0 ''boom'' (Returns PNone) False ex_worker ex_queued)
     = Some AttributeError"
proof -
  obtain x wk' w' where p: "process_queue ex_backend ex_queue no_tasks (\<lambda>a b. a = b) None 1 2 0 ''boom'' (Returns PNone) False
      ex_worker ex_queued = (x, wk', w')" by (cases "process_queue ex_backend ex_queue no_tasks (\<lambda>a b. a = b) None 1 2 0 ''boom''
      (Returns PNone) False ex_worker ex_queued") auto
  have l: "lookup_function no_tasks ex_worker (started_job 1 (ex_job ''a'')) = Inl ValueError"
    by (simp add: lookup_function_def ensure_job_in_functions_def no_tasks_def ex_tasks_def dict_has_def)
  have d: "dequeue ex_backend ex_queue (who False (wk_id ex_worker)) (who False (wk_name ex_worker)) ex_queued
      = (Inr (Some (ex_job ''a'')), ex_active)"
    by (simp add: who_def ex_dequeue)
  have "attempts (ex_job ''a'') < retries (ex_job ''a'')" by (simp add: ex_job_def)
  then show ?thesis
    using job_left_active[OF ex_laws d _ ex_separate p] ex_active_jobq l ex_not_rejected[of ex_worker] p by simp
qed

end
