(* ===== verification/Queue_Calls.thy ===== *)
theory Queue_Calls
  imports Queue_Waiting Task_Registry Worker_Laws "HOL-Library.AList"
begin

text \<open>
  The calls of \<^verbatim>\<open>kvdb/tasks/queue.py\<close> from the function and the keyword arguments of the caller to the job
  and its result: \<open>enqueue\<close>, \<open>map\<close>, \<open>apply\<close>, \<open>broadcast\<close>, \<open>defer\<close>, the queue as a function, the hooks.
  They compose the preparation of the arguments, the creation of the job, the enqueueing, the
  listener and the collection of the results. What workers do while a call waits is an argument:
  the messages of the channels and the change of the world. \<open>None\<close> stands for a call
  that is still waiting or leaves the model.
\<close>

section \<open>Names of keyword arguments, hooks\<close>

definition with_prefix :: "string option \<Rightarrow> string \<Rightarrow> string" where
  "with_prefix p s = (case opt_nonempty p of Some q \<Rightarrow> q @ s | None \<Rightarrow> s)"

definition kwarg_names :: "string option \<Rightarrow> (nat \<Rightarrow> string) \<Rightarrow> job_kws" where
  "kwarg_names p fresh =
     \<lparr>key_kw = with_prefix p ''key'', timeout_kw = with_prefix p ''timeout'', fresh_key = fresh\<rparr>"

text \<open>The hooks are kept in the order of their registration under the identity of the function.\<close>

type_synonym hooks = "(nat \<times> (job \<Rightarrow> job)) list"

definition register_before_enqueue :: "nat \<Rightarrow> (job \<Rightarrow> job) \<Rightarrow> hooks \<Rightarrow> hooks" where
  "register_before_enqueue i cb hs = AList.update i cb hs"

definition unregister_before_enqueue :: "nat \<Rightarrow> hooks \<Rightarrow> hooks" where
  "unregister_before_enqueue i hs = AList.delete i hs"

lemma hook_replaced:
  "map_of (register_before_enqueue i cb hs) = (map_of hs)(i \<mapsto> cb)"
  "map_of (unregister_before_enqueue i hs) = (map_of hs)(i := None)"
  by (simp_all add: register_before_enqueue_def unregister_before_enqueue_def update_conv' delete_conv')

section \<open>Enqueueing a function\<close>

text \<open>The configuration of the queue, the registry, the validating constructor of jobs and the
  time of the call.\<close>

record 'db call_env =
  backend :: "'db backend"
  tqueue :: task_queue
  known_functions :: queue_tasks
  enqueue_hooks :: hooks
  kwarg_prefix :: "string option"
  config_timeout :: int
  default_keys :: "nat \<Rightarrow> string"
  build_job :: "string \<Rightarrow> pydict \<Rightarrow> job option"
  function_name :: "string \<Rightarrow> string"
  call_time :: rat

definition names_of :: "'db call_env \<Rightarrow> job_kws" where
  "names_of env = kwarg_names (kwarg_prefix env) (default_keys env)"

text \<open>With a prefix only the arguments that name a field of the job behind the prefix are passed on.\<close>

definition own_kwargs :: "string option \<Rightarrow> pydict \<Rightarrow> pydict" where
  "own_kwargs p kwargs =
     (case opt_nonempty p of
        Some q \<Rightarrow> extract_kwargs job_fields (Some q) False None None True kwargs
      | None \<Rightarrow> kwargs)"

text \<open>The argument \<open>return_existing_job\<close> is the method's own. A validation error leaves nothing behind; a
  job instance with values outside the model leaves it.\<close>

definition enqueue_func ::
    "'db call_env \<Rightarrow> job_or_func \<Rightarrow> pyval list \<Rightarrow> pydict \<Rightarrow> 'db world \<Rightarrow> (job option result \<times> 'db world) option" where
  "enqueue_func env jf args kwargs w =
     (let return_existing_job = (case dict_get kwargs ''return_existing_job'' of Some v \<Rightarrow> truthy v | None \<Rightarrow> False);
          kw = own_kwargs (kwarg_prefix env) (dict_del ''return_existing_job'' kwargs) in
      case create (build_job env) (function_name env) jf args kw of
        Inl e \<Rightarrow> Some (Inl e, w)
      | Inr None \<Rightarrow> (case jf of JobInstance j \<Rightarrow> None | _ \<Rightarrow> Some (Inl (OtherError ''ValidationError''), w))
      | Inr (Some j) \<Rightarrow>
          Some (enqueue_call (backend env) (tqueue env) (known_functions env) (map snd (enqueue_hooks env)) (call_time env)
                  return_existing_job j w))"

text \<open>\<open>defer\<close> leaves the call to a task that sleeps first and returns at once.\<close>

type_synonym deferred_call = "rat \<times> job_or_func \<times> pydict"

definition defer_job :: "rat \<Rightarrow> job_or_func \<Rightarrow> pydict \<Rightarrow> deferred_call list \<Rightarrow> deferred_call list" where
  "defer_job wait_time jf kwargs tasks = tasks @ [(wait_time, jf, kwargs)]"

definition run_deferred ::
    "'db call_env \<Rightarrow> ('db world \<Rightarrow> 'db world) \<Rightarrow> deferred_call \<Rightarrow> 'db world \<Rightarrow> (job option result \<times> 'db world) option" where
  "run_deferred env meanwhile task w =
     (case task of (wait_time, jf, kwargs) \<Rightarrow>
        enqueue_func (env\<lparr>call_time := call_time env + wait_time\<rparr>) jf [] kwargs (meanwhile w))"

section \<open>Mapping, applying, broadcasting\<close>

definition select_workers ::
    "(pyval list \<Rightarrow> pydict \<Rightarrow> pydict list result) \<Rightarrow> pydict \<Rightarrow> pyval list \<Rightarrow> pydict \<Rightarrow> pydict list result" where
  "select_workers func attributes args kwargs =
     (if dict_has ''worker_attributes'' kwargs then Inl TypeError
      else func args (dict_set ''worker_attributes'' (PDict attributes) kwargs))"

text \<open>\<open>gather\<close> starts every call; the first exception leaves it, and the other calls still run.\<close>

fun gather_enqueue ::
    "'db call_env \<Rightarrow> job_or_func \<Rightarrow> pydict list \<Rightarrow> 'db world \<Rightarrow> (error option \<times> 'db world) option" where
  "gather_enqueue env jf [] w = Some (None, w)"
| "gather_enqueue env jf (d # ds) w =
     (case enqueue_func env jf [] d w of
        None \<Rightarrow> None
      | Some (r, w1) \<Rightarrow>
          (case gather_enqueue env jf ds w1 of
             None \<Rightarrow> None
           | Some (x, w2) \<Rightarrow> Some (case r of Inl e \<Rightarrow> Some e | Inr _ \<Rightarrow> x, w2)))"

fun fetch_each :: "'db backend \<Rightarrow> task_queue \<Rightarrow> string list \<Rightarrow> 'db world \<Rightarrow> job option list result" where
  "fetch_each B tq [] w = Inr []"
| "fetch_each B tq (k # ks) w =
     bindR (fetch_job B tq k True w) (\<lambda>j. bindR (fetch_each B tq ks w) (\<lambda>js. Inr (j # js)))"

fun str_of_key :: "pyval \<Rightarrow> string option" where
  "str_of_key (PStr s) = Some s"
| "str_of_key _ = None"

text \<open>The keys are read from the prepared arguments under the name \<open>key\<close>, whatever the prefix. A
  list without jobs, keys that are no strings, and job instances, which every call would
  change in turn, are left out.\<close>

definition map_jobs ::
    "'db call_env \<Rightarrow> worker_choice \<Rightarrow> string list \<Rightarrow> bool \<Rightarrow> job_or_func \<Rightarrow> pydict list \<Rightarrow> pydict \<Rightarrow>
     (string \<times> job_status) list \<Rightarrow> ('db world \<Rightarrow> 'db world) \<Rightarrow> 'db world \<Rightarrow>
     (job_outcome list result \<times> 'db world) option" where
  "map_jobs env c worker_ids return_exceptions jf iter_kwargs kwargs msgs meanwhile w =
     (let tmo = (case dict_get kwargs (timeout_kw (names_of env)) of Some v \<Rightarrow> v | None \<Rightarrow> PInt (config_timeout env));
          ds = fst (prepare_job_kws (names_of env) (config_timeout env) worker_ids c iter_kwargs kwargs);
          keys = map (\<lambda>d. dict_get d ''key'') ds in
      if (\<exists>j. jf = JobInstance j) \<or> ds = [] then None
      else if None \<in> set keys then Some (Inl KeyError, w)
      else if None \<in> set (map (str_of_key \<circ> the) keys) then None
      else let job_keys = map (the \<circ> str_of_key \<circ> the) keys in
        case gather_enqueue env jf ds w of
          None \<Rightarrow> None
        | Some (Some e, w1) \<Rightarrow> Some (Inl e, w1)
        | Some (None, w1) \<Rightarrow>
            let w2 = meanwhile w1 in
            case listen return_exceptions msgs (set job_keys) of
              None \<Rightarrow> if tmo = PNone then None else Some (Inl TimeoutError, w2)
            | Some p \<Rightarrow>
                Some (bindR (fetch_each (backend env) (tqueue env) job_keys w2)
                        (\<lambda>jobs. collect_results (tqueue env) return_exceptions (zip jobs job_keys)), w2))"

datatype applied = AllResults "job_outcome list" | FirstResult job_outcome | NoResult

definition apply_job ::
    "'db call_env \<Rightarrow> worker_choice \<Rightarrow> string list \<Rightarrow> bool \<Rightarrow> job_or_func \<Rightarrow> pydict \<Rightarrow>
     (string \<times> job_status) list \<Rightarrow> ('db world \<Rightarrow> 'db world) \<Rightarrow> 'db world \<Rightarrow> (applied result \<times> 'db world) option" where
  "apply_job env c worker_ids return_all_results jf kwargs msgs meanwhile w =
     map_option (\<lambda>(r, w'). (bindR r (\<lambda>results.
         Inr (if return_all_results then AllResults results
              else case results of x # _ \<Rightarrow> FirstResult x | [] \<Rightarrow> NoResult)), w'))
       (map_jobs env c worker_ids False jf [kwargs] [] msgs meanwhile w)"

text \<open>The loop of \<open>broadcast\<close> stops at the first exception.\<close>

fun enqueue_in_turn ::
    "'db call_env \<Rightarrow> job_or_func \<Rightarrow> pydict list \<Rightarrow> job option list \<Rightarrow> 'db world \<Rightarrow> (job option list result \<times> 'db world) option" where
  "enqueue_in_turn env jf [] jobs w = Some (Inr jobs, w)"
| "enqueue_in_turn env jf (d # ds) jobs w =
     (case enqueue_func env jf [] d w of
        None \<Rightarrow> None
      | Some (Inl e, w1) \<Rightarrow> Some (Inl e, w1)
      | Some (Inr j, w1) \<Rightarrow> enqueue_in_turn env jf ds (jobs @ [j]) w1)"

text \<open>The keyword arguments are the arguments of the one job and the defaults of all jobs.\<close>

definition broadcast_kwargs :: "'db call_env \<Rightarrow> worker_choice \<Rightarrow> string list \<Rightarrow> pydict \<Rightarrow> pydict list" where
  "broadcast_kwargs env c worker_ids kwargs =
     fst (prepare_job_kws (names_of env) (config_timeout env) worker_ids (c\<lparr>broadcast := True\<rparr>) [kwargs] kwargs)"

definition broadcast_jobs ::
    "'db call_env \<Rightarrow> worker_choice \<Rightarrow> string list \<Rightarrow> job_or_func \<Rightarrow> pydict \<Rightarrow> 'db world \<Rightarrow>
     (job option list result \<times> 'db world) option" where
  "broadcast_jobs env c worker_ids jf kwargs w =
     (if \<exists>j. jf = JobInstance j then None
      else enqueue_in_turn env jf (broadcast_kwargs env c worker_ids kwargs) [] w)"

definition broadcast_wait ::
    "'db call_env \<Rightarrow> worker_choice \<Rightarrow> string list \<Rightarrow> job_or_func \<Rightarrow> pydict \<Rightarrow>
     (string \<times> job_status) list \<Rightarrow> ('db world \<Rightarrow> 'db world) \<Rightarrow> 'db world \<Rightarrow>
     (job_outcome list result \<times> 'db world) option" where
  "broadcast_wait env c worker_ids jf kwargs msgs meanwhile w =
     map_jobs env (c\<lparr>broadcast := True\<rparr>) worker_ids False jf [kwargs] [] msgs meanwhile w"

text \<open>The queue as a function: the second parameter of \<open>apply\<close> is \<open>broadcast\<close>, so a positional argument
  is a second value for it.\<close>

datatype call_result = Applied applied | Enqueued "job option"

definition queue_call ::
    "'db call_env \<Rightarrow> worker_choice \<Rightarrow> string list \<Rightarrow> bool \<Rightarrow> bool \<Rightarrow> job_or_func \<Rightarrow> pyval list \<Rightarrow> pydict \<Rightarrow>
     (string \<times> job_status) list \<Rightarrow> ('db world \<Rightarrow> 'db world) \<Rightarrow> 'db world \<Rightarrow> (call_result result \<times> 'db world) option" where
  "queue_call env c worker_ids blocking return_existing_job jf args kwargs msgs meanwhile w =
     (if blocking then
        if args \<noteq> [] then Some (Inl TypeError, w)
        else map_option (\<lambda>(r, w'). (bindR r (\<lambda>x. Inr (Applied x)), w'))
               (apply_job env c worker_ids False jf kwargs msgs meanwhile w)
      else map_option (\<lambda>(r, w'). (bindR r (\<lambda>x. Inr (Enqueued x)), w'))
             (enqueue_func env jf args (dict_set ''return_existing_job'' (PBool return_existing_job) kwargs) w))"

section \<open>With a prefix\<close>

lemma own_kwargs_prefixed:
  assumes p: "opt_nonempty p = Some q"
  shows "own_kwargs p (dict_del r (filter (\<lambda>(k, v). starts_with q k \<or> k = r) kwargs)) = own_kwargs p (dict_del r kwargs)"
proof -
  have q: "opt_nonempty (Some q) = Some q" using p by (auto simp: opt_nonempty_def split: if_splits)
  have "filter (\<lambda>(k, v). starts_with q k \<and> str_replace k q '''' \<in> set job_fields)
      (dict_del r (filter (\<lambda>(k, v). starts_with q k \<or> k = r) kwargs)) =
    filter (\<lambda>(k, v). starts_with q k \<and> str_replace k q '''' \<in> set job_fields) (dict_del r kwargs)"
    by (auto simp: dict_del_def AList.delete_eq intro!: filter_cong)
  then show ?thesis by (simp add: own_kwargs_def p extract_kwargs_def q)
qed

lemma dict_get_Cons: "dict_get ((k, v) # d) x = (if k = x then Some v else dict_get d x)"
  by (simp add: dict_get_def)

lemma dict_get_Nil [simp]: "dict_get [] x = None"
  by (simp add: dict_get_def)

lemma dict_get_update_absent:
  "dict_get e k = None \<Longrightarrow> dict_get (dict_update d e) k = dict_get d k"
  by (induction d e rule: dict_update.induct) (auto simp: dict_get_Cons split: if_splits)

lemma prepare_one_absent:
  assumes "key_kw cfg \<noteq> k" "timeout_kw cfg \<noteq> k" "dict_get defaults k = None" "dict_get wk k = None"
    "dict_get (snd st) k = None"
  shows "dict_get (fst (prepare_one cfg tmo defaults wk st)) k = None"
    "dict_get (snd (snd (prepare_one cfg tmo defaults wk st))) k = None"
  using assms
  by (simp_all add: prepare_one_def Let_def case_prod_unfold dict_get_update_absent dict_get_Cons)

text \<open>C13. With a prefix for the arguments of the queue, functions get no arguments and mapping is
  impossible. Enqueueing passes on only the prefixed fields of the job: the arguments without the
  prefix make no difference. And \<open>map\<close>, on which \<open>apply\<close> and a waiting broadcast rest, looks for the
  keys of the jobs under the name without the prefix: a KeyError before anything is enqueued,
  unless the function happens to have an argument of that name.\<close>

theorem prefix_loses_arguments:
  assumes p: "opt_nonempty (kwarg_prefix env) = Some q"
  shows "enqueue_func env jf args kwargs w =
      enqueue_func env jf args
        (filter (\<lambda>(k, v). starts_with q k \<or> k = ''return_existing_job'') kwargs) w \<and>
    (choose_workers ids c = None \<and> dict_get iter_kw ''key'' = None \<and> dict_get kwargs ''key'' = None \<and>
     (\<forall>j. jf \<noteq> JobInstance j) \<longrightarrow>
      map_jobs env c ids return_exceptions jf (iter_kw # iter_kws) kwargs msgs meanwhile w = Some (Inl KeyError, w))"
proof (intro conjI impI)
  show "enqueue_func env jf args kwargs w =
      enqueue_func env jf args (filter (\<lambda>(k, v). starts_with q k \<or> k = ''return_existing_job'') kwargs) w"
    by (simp add: enqueue_func_def own_kwargs_prefixed[OF p] dict_get_filter_key)
  assume h: "choose_workers ids c = None \<and> dict_get iter_kw ''key'' = None \<and> dict_get kwargs ''key'' = None \<and>
     (\<forall>j. jf \<noteq> JobInstance j)"
  let ?n = "names_of env"
  let ?ds = "fst (prepare_job_kws ?n (config_timeout env) ids c (iter_kw # iter_kws) kwargs)"
  have n: "key_kw ?n \<noteq> ''key''" "timeout_kw ?n \<noteq> ''key''"
    using p by (auto simp: names_of_def kwarg_names_def with_prefix_def opt_nonempty_def split: if_splits
        dest: arg_cong[of _ _ length])
  have "dict_get (fst (prepare_one ?n tmo (dict_del k1 (dict_del k2 kwargs)) [] (0, iter_kw))) ''key'' = None" for tmo k1 k2
    using h n by (intro prepare_one_absent) (auto simp: dict_get_def[of "[]"])
  then have "None \<in> set (map (\<lambda>d. dict_get d ''key'') ?ds)" "?ds \<noteq> []"
    using h by (simp_all add: prepare_job_kws_def Let_def case_prod_unfold)
  then show "map_jobs env c ids return_exceptions jf (iter_kw # iter_kws) kwargs msgs meanwhile w = Some (Inl KeyError, w)"
    using h by (auto simp: map_jobs_def Let_def simp del: set_map)
qed

text \<open>A queue with the prefix of the underscore.\<close>

definition ex_env :: "string option \<Rightarrow> mdb call_env" where
  "ex_env p = \<lparr>backend = ex_backend, tqueue = ex_queue, known_functions = ex_no_functions, enqueue_hooks = [],
     kwarg_prefix = p, config_timeout = 900, default_keys = nat_digits,
     build_job = \<lambda>f attrs. set_attrs (filter (\<lambda>(k, v). k \<noteq> ''timeout'') attrs) (ex_job f), function_name = id, call_time = 0\<rparr>"

definition ex_nobody :: worker_choice where
  "ex_nobody = \<lparr>broadcast = False, workers_selected = [], selector_result = None, worker_names = []\<rparr>"

lemma prefix_loses_arguments_witness:
  "enqueue_func (ex_env (Some ''_'')) (FuncName ''f'') [] [(''x'', PInt 1)] ex_world =
   enqueue_func (ex_env (Some ''_'')) (FuncName ''f'') [] [] ex_world \<and>
   map_jobs (ex_env (Some ''_'')) ex_nobody [] True (FuncName ''f'') [[(''x'', PInt 1)]] [] [] id ex_world =
     Some (Inl KeyError, ex_world)"
proof -
  have p: "opt_nonempty (kwarg_prefix (ex_env (Some ''_''))) = Some ''_''" by (simp add: ex_env_def opt_nonempty_def)
  have c: "choose_workers [] ex_nobody = None" by (simp add: choose_workers_def ex_nobody_def)
  note a = conjunct1[OF prefix_loses_arguments[OF p, where kwargs = "[(''x'', PInt 1)]"]]
  note b = conjunct2[OF prefix_loses_arguments[OF p, where kwargs = "[]"], rule_format]
  have f: "filter (\<lambda>(k, v). starts_with ''_'' k \<or> k = ''return_existing_job'') [(''x'', PInt 1)] = []" by simp
  show ?thesis
  proof
    show "enqueue_func (ex_env (Some ''_'')) (FuncName ''f'') [] [(''x'', PInt 1)] ex_world =
        enqueue_func (ex_env (Some ''_'')) (FuncName ''f'') [] [] ex_world"
      unfolding a f ..
    show "map_jobs (ex_env (Some ''_'')) ex_nobody [] True (FuncName ''f'') [[(''x'', PInt 1)]] [] [] id ex_world =
        Some (Inl KeyError, ex_world)"
      by (rule b) (simp add: c dict_get_def)
  qed
qed

section \<open>Applying a function\<close>

text \<open>What is enqueued for one call of \<open>apply\<close>.\<close>

definition applied_kwargs :: "'db call_env \<Rightarrow> pydict \<Rightarrow> pydict" where
  "applied_kwargs env kwargs =
     fst (prepare_one (names_of env) (PInt (config_timeout env)) [] [] (0, kwargs))"

lemma applied_kwargs_key:
  assumes "opt_nonempty (kwarg_prefix env) = None" "dict_get kwargs ''key'' = Some (PStr k)" "k \<noteq> []"
  shows "dict_get (applied_kwargs env kwargs) ''key'' = Some (PStr k)"
  using assms
  by (simp add: applied_kwargs_def prepare_one_def Let_def names_of_def kwarg_names_def with_prefix_def truthy_key_def
      dict_get_update_absent)

lemma prepared_for_apply:
  "choose_workers ids c = None \<Longrightarrow>
   fst (prepare_job_kws (names_of env) (config_timeout env) ids c [kwargs] []) = [applied_kwargs env kwargs]"
  by (simp add: prepare_job_kws_def applied_kwargs_def Let_def case_prod_unfold dict_get_def[of "[]"] dict_del_def)

lemma listen_hears:
  assumes "CHR '':'' \<notin> set k" "\<not> str_in (job_id_prefix tq) k" "st \<in> TERMINAL_JOB_STATUSES"
  shows "\<exists>p. listen False ((job_id tq k, st) # msgs) {k} = Some p"
  using assms by (simp add: key_from_id_job_id map_callback_def Let_def)

text \<open>C12. Applying a function. The job is enqueued under the caller's key (or already was there); once
  the listener hears that the job has ended, \<open>apply\<close> returns the result that the record of the
  job has at that time, and raises a JobError if the job failed. When the record has expired
  by then, the exception is the AttributeError of the deserialization, not the ValueError that
  \<open>map\<close> has for jobs it does not find.\<close>

theorem apply_gives_result:
  assumes srv: "redis_queue (server (backend env)) view" and pre: "opt_nonempty (kwarg_prefix env) = None"
    and c: "choose_workers ids c = None" and jf: "\<forall>j'. jf \<noteq> JobInstance j'"
    and k: "dict_get kwargs ''key'' = Some (PStr (jkey j))" "jkey j \<noteq> []" "CHR '':'' \<notin> set (jkey j)"
      "\<not> str_in (job_id_prefix (tqueue env)) (jkey j)"
    and enq: "enqueue_func env jf [] (applied_kwargs env kwargs) w = Some (Inr r, w1)"
    and st: "status j \<in> TERMINAL_JOB_STATUSES" "job_queue_name j = Some (queue_name (tqueue env))"
    and dec: "decode_job (backend env) (encode_job (backend env) j) = Some j"
  shows "let w2 = meanwhile w1; rec = view (wdb w2) (ident (tqueue env) j);
             call = apply_job env c ids False jf kwargs ((job_id (tqueue env) (jkey j), status j) # msgs) meanwhile w in
    (rec = None \<longrightarrow> call = Some (Inl AttributeError, w2)) \<and>
    (rec = Some (OStr (serialize (backend env) (tqueue env) j) t) \<longrightarrow>
      call = Some (if has_failed j then Inl JobError else Inr (FirstResult (ResultOf (result j))), w2))"
proof -
  let ?B = "backend env" and ?tq = "tqueue env" and ?w2 = "meanwhile w1"
  obtain p where p: "listen False ((job_id ?tq (jkey j), status j) # msgs) {jkey j} = Some p"
    using listen_hears[OF k(3,4) st(1)] by blast
  have same: "j\<lparr>job_queue_name := Some (queue_name ?tq)\<rparr> = j" using st(2) by (cases j) simp
  have call: "apply_job env c ids False jf kwargs ((job_id ?tq (jkey j), status j) # msgs) meanwhile w =
      Some (bindR (fetch_job ?B ?tq (jkey j) True ?w2) (\<lambda>oj. bindR (collect_results ?tq False [(oj, jkey j)])
        (\<lambda>results. Inr (case results of x # _ \<Rightarrow> FirstResult x | [] \<Rightarrow> NoResult))), ?w2)"
    using applied_kwargs_key[OF pre k(1,2)] jf p
    by (cases "fetch_job ?B ?tq (jkey j) True ?w2")
       (simp_all add: apply_job_def map_jobs_def prepared_for_apply[OF c] enq Let_def del: collect_results.simps listen.simps)
  show ?thesis
    using redis_queue.fetch_missing[OF srv refl, of ?w2 ?tq j]
      redis_queue.fetch_stored[OF srv refl, of ?w2 ?tq j t True] dec same
    by (simp add: Let_def call has_failed_def)
qed

text \<open>A worker writes the result meanwhile.\<close>

definition ex_done :: job where
  "ex_done = (ex_job ''a'')\<lparr>status := COMPLETE, result := PInt 3\<rparr>"

definition ex_apply :: "mdb call_env" where
  "ex_apply = (ex_env None)\<lparr>backend := ex_backend\<lparr>decode_job := \<lambda>s. Some ex_done\<rparr>, known_functions := ex_tasks,
     build_job := \<lambda>f attrs. Some (ex_job ''a'')\<rparr>"

definition ex_works :: "mdb world \<Rightarrow> mdb world" where
  "ex_works w = do_cmd ex_backend (SET (ident ex_queue ex_done) (serialize (backend ex_apply) ex_queue ex_done)) w"

lemma ex_apply_enqueues:
  "map_option (is_ok \<circ> fst) (enqueue_func ex_apply (FuncName ''f'') [] (applied_kwargs ex_apply [(''key'', PStr ''a'')]) ex_world) =
   Some True"
  by code_simp

lemma apply_gives_result_witness:
  "\<exists>w2. apply_job ex_apply ex_nobody [] False (FuncName ''f'') [(''key'', PStr ''a'')]
      [(job_id ex_queue ''a'', COMPLETE)] ex_works ex_world = Some (Inr (FirstResult (ResultOf (PInt 3))), w2)"
proof -
  obtain r w1 where enq: "enqueue_func ex_apply (FuncName ''f'') [] (applied_kwargs ex_apply [(''key'', PStr ''a'')]) ex_world =
      Some (Inr r, w1)"
    using ex_apply_enqueues
    by (cases "enqueue_func ex_apply (FuncName ''f'') [] (applied_kwargs ex_apply [(''key'', PStr ''a'')]) ex_world")
       (auto, metis is_ok.simps(1) obj_sumE)
  have srv: "redis_queue (server (backend ex_apply)) mview" using ex_laws by (simp add: ex_apply_def ex_backend_def)
  have tq: "tqueue ex_apply = ex_queue" by (simp add: ex_apply_def ex_env_def)
  have d: "status ex_done = COMPLETE" "jkey ex_done = ''a''" "result ex_done = PInt 3" "\<not> has_failed ex_done"
      "job_queue_name ex_done = Some (queue_name ex_queue)"
    by (simp_all add: ex_done_def ex_job_def has_failed_def UNSUCCESSFUL_TERMINAL_JOB_STATUSES_def ex_queue_def)
  have v: "mview (wdb (ex_works w1)) (ident ex_queue ex_done) =
      Some (OStr (serialize (backend ex_apply) ex_queue ex_done) None)"
    by (simp add: ex_works_def do_cmd_def mem.set_effect)
  have pre: "\<not> str_in (job_id_prefix ex_queue) ''a''" by code_simp
  have c: "choose_workers [] ex_nobody = None" by (simp add: choose_workers_def ex_nobody_def)
  have p: "opt_nonempty (kwarg_prefix ex_apply) = None" by (simp add: ex_apply_def ex_env_def opt_nonempty_def)
  have k: "dict_get [(''key'', PStr ''a'')] ''key'' = Some (PStr (jkey ex_done))" by (simp add: dict_get_def d)
  have dec: "decode_job (backend ex_apply) (encode_job (backend ex_apply) ex_done) = Some ex_done"
    by (simp add: ex_apply_def)
  have t: "status ex_done \<in> TERMINAL_JOB_STATUSES" using d by (simp add: TERMINAL_JOB_STATUSES_def)
  have "apply_job ex_apply ex_nobody [] False (FuncName ''f'') [(''key'', PStr ''a'')]
      ((job_id (tqueue ex_apply) (jkey ex_done), status ex_done) # []) ex_works ex_world =
      Some (Inr (FirstResult (ResultOf (PInt 3))), ex_works w1)"
    using apply_gives_result[OF srv p c _ k _ _ _ enq t, where t = None and msgs = "[]" and meanwhile = ex_works] pre dec v d tq by (simp add: Let_def)
  then show ?thesis by (auto simp: d tq)
qed

section \<open>The keys of a broadcast, the queue as a function\<close>

lemma prepare_workers_key:
  assumes "\<And>wk. wk \<in> set wks \<Longrightarrow> dict_get wk (key_kw cfg) = None" "dict_get defaults (key_kw cfg) = None"
  shows "truthy_key (dict_get (snd st) (key_kw cfg)) = None \<Longrightarrow>
    i < length wks \<Longrightarrow>
    dict_get (fst (prepare_workers cfg tmo defaults wks st) ! i) (key_kw cfg) = Some (PStr (fresh_key cfg (fst st + i)))"
  using assms(1)
proof (induction wks arbitrary: st i)
  case (Cons wk wks)
  have absent: "dict_get (dict_del (key_kw cfg) d) (key_kw cfg) = None" for d :: pydict by simp
  show ?case
  proof (cases i)
    case 0
    then show ?thesis using Cons.prems assms(2)
      by (cases st) (simp add: Let_def case_prod_unfold prepare_one_def dict_get_update_absent)
  next
    case (Suc i')
    then show ?thesis
      using Cons.IH[of "snd (prepare_one cfg tmo defaults wk st)" i'] Cons.prems
      by (cases st) (simp add: Let_def case_prod_unfold prepare_one_def truthy_key_def)
  qed
qed simp

text \<open>The key that the caller of a broadcast asks for is that of the first worker's job; the jobs of
  the other workers get new keys, numbered here in the order they are drawn. So no two of the jobs are
  taken for the same, but the caller cannot find the others under the key.\<close>

theorem broadcast_keys:
  assumes "choose_workers ids (c\<lparr>broadcast := True\<rparr>) = Some wks" and "i < length wks"
    and "\<forall>wk \<in> set wks. dict_get wk (key_kw (names_of env)) = None"
    and "truthy_key (dict_get kwargs (key_kw (names_of env))) = Some k"
  shows "dict_get (broadcast_kwargs env c ids kwargs ! i) (key_kw (names_of env)) =
    Some (case i of 0 \<Rightarrow> k | Suc m \<Rightarrow> PStr (default_keys env m))"
proof -
  let ?n = "names_of env"
  obtain wk ws where wks: "wks = wk # ws" using assms(2) by (cases wks) auto
  have fk: "fresh_key ?n = default_keys env" by (simp add: names_of_def kwarg_names_def)
  let ?tmo = "case dict_get kwargs (timeout_kw ?n) of Some v \<Rightarrow> v | None \<Rightarrow> PInt (config_timeout env)"
  let ?def = "dict_del (key_kw ?n) (dict_del (timeout_kw ?n) kwargs)"
  have e: "broadcast_kwargs env c ids kwargs = fst (prepare_workers ?n ?tmo ?def wks (0, kwargs))"
    using assms(1) by (simp add: broadcast_kwargs_def prepare_job_kws_def Let_def case_prod_unfold)
  show ?thesis
  proof (cases i)
    case 0
    then show ?thesis using assms(3,4)
      by (simp add: e wks Let_def case_prod_unfold prepare_one_def dict_get_update_absent)
  next
    case (Suc m)
    let ?st = "snd (prepare_one ?n ?tmo ?def wk (0, kwargs))"
    have st: "fst ?st = 0" "truthy_key (dict_get (snd ?st) (key_kw ?n)) = None"
      using assms(4) by (simp_all add: prepare_one_def Let_def truthy_key_def)
    have "dict_get (fst (prepare_workers ?n ?tmo ?def ws ?st) ! m) (key_kw ?n) = Some (PStr (fresh_key ?n (fst ?st + m)))"
      using assms(2,3) st(2) Suc by (intro prepare_workers_key) (auto simp: wks)
    then show ?thesis using st(1) by (simp add: e wks Suc Let_def case_prod_unfold fk)
  qed
qed

lemma broadcast_keys_witness:
  "dict_get (broadcast_kwargs (ex_env None) ex_nobody [''w1'', ''w2''] [(''key'', PStr ''a'')] ! 1) ''key'' = Some (PStr ''0'')"
proof -
  have n: "key_kw (names_of (ex_env None)) = ''key''"
    by (simp add: names_of_def kwarg_names_def with_prefix_def opt_nonempty_def ex_env_def)
  have f: "default_keys (ex_env None) 0 = ''0''" by code_simp
  have c: "choose_workers [''w1'', ''w2''] (ex_nobody\<lparr>broadcast := True\<rparr>) =
      Some [[(''worker_id'', PStr ''w1'')], [(''worker_id'', PStr ''w2'')]]"
    by (simp add: choose_workers_def ex_nobody_def)
  show ?thesis
    using broadcast_keys[OF c, of 1 "ex_env None" "[(''key'', PStr ''a'')]" "PStr ''a''"]
    by (simp add: n f dict_get_Cons truthy_key_def)
qed

text \<open>A blocking call of the queue takes no positional arguments for the function; without
  blocking they become those of the job.\<close>

lemma blocking_call_positional:
  "args \<noteq> [] \<Longrightarrow> queue_call env c ids True ret jf args kwargs msgs meanwhile w = Some (Inl TypeError, w)"
  by (simp add: queue_call_def)

end
