(* ===== verification/Cron.thy ===== *)
theory Cron
  imports Kwargs
begin

text \<open>
  \<^verbatim>\<open>kvdb/utils/cron.py\<close>, the translation of phrases such as ''every 5 minutes'' to cron
  expressions, and the cron jobs of \<^verbatim>\<open>kvdb/types/jobs.py\<close>. The package croniter, which says
  whether an expression is valid and when it fires next, and the regular expression engine
  are parameters: the model starts from the list of matches, each a number, an optional
  offset and a word.
\<close>

section \<open>Units\<close>

datatype tunit = USeconds | UMinutes | UHours | UDays | UWeeks | UMonths

definition time_aliases :: "(string \<times> string) list" where
  "time_aliases =
     [(''s'', ''seconds''), (''sec'', ''seconds''), (''secs'', ''seconds''),
      (''m'', ''minutes''), (''min'', ''minutes''), (''mins'', ''minutes''),
      (''h'', ''hours''), (''hr'', ''hours''), (''hrs'', ''hours''),
      (''d'', ''days''), (''day'', ''days''),
      (''w'', ''weeks''), (''wk'', ''weeks''), (''wks'', ''weeks''),
      (''mo'', ''months''), (''mon'', ''months''), (''mons'', ''months'')]"

definition unit_named :: "string \<Rightarrow> tunit option" where
  "unit_named s = map_of
     [(''seconds'', USeconds), (''minutes'', UMinutes), (''hours'', UHours),
      (''days'', UDays), (''weeks'', UWeeks), (''months'', UMonths)] s"

fun div_value :: "tunit \<Rightarrow> int" where
  "div_value USeconds = 60"
| "div_value UMinutes = 60"
| "div_value UHours = 24"
| "div_value UDays = 7"
| "div_value UWeeks = 4"
| "div_value UMonths = 12"

definition resolve_unit :: "string \<Rightarrow> tunit option" where
  "resolve_unit u =
     (let u1 = (case map_of time_aliases u of Some x \<Rightarrow> x | None \<Rightarrow> u);
          u2 = (if ends_with ''s'' u1 then u1 else u1 @ ''s'') in
      unit_named u2)"

section \<open>Values and offsets\<close>

datatype offset_op = PlusEq | MinusEq

type_synonym cron_match = "nat \<times> (offset_op \<times> nat) option \<times> string"

record time_values =
  tv_seconds :: "int option"
  tv_minutes :: int
  tv_hours :: int
  tv_days :: int
  tv_weeks :: int
  tv_months :: int

type_synonym time_offsets = "tunit \<Rightarrow> int list"

definition no_values :: time_values where
  "no_values = \<lparr>tv_seconds = None, tv_minutes = 0, tv_hours = 0, tv_days = 0, tv_weeks = 0, tv_months = 0\<rparr>"

fun set_unit :: "tunit \<Rightarrow> int \<Rightarrow> time_values \<Rightarrow> time_values" where
  "set_unit USeconds n v = v\<lparr>tv_seconds := Some n\<rparr>"
| "set_unit UMinutes n v = v\<lparr>tv_minutes := n\<rparr>"
| "set_unit UHours n v = v\<lparr>tv_hours := n\<rparr>"
| "set_unit UDays n v = v\<lparr>tv_days := n\<rparr>"
| "set_unit UWeeks n v = v\<lparr>tv_weeks := n\<rparr>"
| "set_unit UMonths n v = v\<lparr>tv_months := n\<rparr>"

definition offset_list :: "tunit \<Rightarrow> int \<Rightarrow> offset_op \<Rightarrow> int \<Rightarrow> int list result" where
  "offset_list u n op k =
     (if n = 0 then Inl ZeroDivisionError
      else
        let d = div_value u;
            iterations = d div n;
            base = (case op of MinusEq \<Rightarrow> n - k | PlusEq \<Rightarrow> n + k) in
        Inr (base # map (\<lambda>i. let v = base + n * int i in if v > d then v mod d else v) [1..<nat iterations]))"

definition cron_match_step ::
    "cron_match \<Rightarrow> time_values \<times> time_offsets \<Rightarrow> (time_values \<times> time_offsets) result" where
  "cron_match_step m st =
     (let (num, off, word) = m; (vals, offs) = st in
      case resolve_unit word of
        None \<Rightarrow> Inl ValueError
      | Some u \<Rightarrow>
          let vals' = set_unit u (int num) vals in
          (case off of
             None \<Rightarrow> Inr (vals', offs)
           | Some (op, k) \<Rightarrow>
               bindR (offset_list u (int num) op (int k)) (\<lambda>l. Inr (vals', offs(u := l)))))"

fun cron_match_all ::
    "cron_match list \<Rightarrow> time_values \<times> time_offsets \<Rightarrow> (time_values \<times> time_offsets) result" where
  "cron_match_all [] st = Inr st"
| "cron_match_all (m # ms) st = bindR (cron_match_step m st) (cron_match_all ms)"

section \<open>Overflow\<close>

definition norm_seconds :: "time_values \<Rightarrow> time_values" where
  "norm_seconds v =
     (case tv_seconds v of
        Some s \<Rightarrow> if s \<noteq> 0 \<and> s \<ge> 60
                  then v\<lparr>tv_minutes := tv_minutes v + s div 60, tv_seconds := Some (s mod 60)\<rparr> else v
      | None \<Rightarrow> v)"

definition norm_minutes :: "time_values \<Rightarrow> time_values" where
  "norm_minutes v =
     (if tv_minutes v \<ge> 60
      then v\<lparr>tv_hours := tv_hours v + tv_minutes v div 60, tv_minutes := tv_minutes v mod 60\<rparr> else v)"

definition norm_hours :: "time_values \<Rightarrow> time_values" where
  "norm_hours v =
     (if tv_hours v \<ge> 24
      then v\<lparr>tv_days := tv_days v + tv_hours v div 24, tv_hours := tv_hours v mod 24\<rparr> else v)"

definition norm_days :: "time_values \<Rightarrow> time_values" where
  "norm_days v =
     (if tv_days v \<ge> 7
      then v\<lparr>tv_weeks := tv_weeks v + tv_days v div 7, tv_days := tv_days v mod 7\<rparr> else v)"

definition norm_weeks :: "time_values \<Rightarrow> time_values" where
  "norm_weeks v =
     (if tv_weeks v \<ge> 4
      then v\<lparr>tv_months := tv_months v + tv_weeks v div 4, tv_weeks := tv_weeks v mod 4\<rparr> else v)"

definition overflow :: "time_values \<Rightarrow> time_values" where
  "overflow v = norm_weeks (norm_days (norm_hours (norm_minutes (norm_seconds v))))"

section \<open>The expression\<close>

fun join_commas :: "string list \<Rightarrow> string" where
  "join_commas [] = ''''"
| "join_commas [x] = x"
| "join_commas (x # y # zs) = x @ '','' @ join_commas (y # zs)"

definition cron_field :: "string option \<Rightarrow> int list \<Rightarrow> int option \<Rightarrow> string option" where
  "cron_field initial offs val =
     (if offs \<noteq> [] then Some (join_commas (map str_of_int offs))
      else case val of
        Some n \<Rightarrow> if n \<noteq> 0 then Some (''*/'' @ str_of_int n) else initial
      | None \<Rightarrow> initial)"

definition default_zero :: "string \<Rightarrow> string \<Rightarrow> string" where
  "default_zero larger smaller = (if larger \<noteq> ''*'' \<and> smaller = ''*'' then ''0'' else smaller)"

definition cron_expression :: "time_values \<Rightarrow> time_offsets \<Rightarrow> string" where
  "cron_expression v offs =
     (let f = (\<lambda>u x. the (cron_field (Some ''*'') (offs u) (Some x)));
          secs = cron_field None (offs USeconds) (tv_seconds v);
          mins = f UMinutes (tv_minutes v); hrs = f UHours (tv_hours v); dys = f UDays (tv_days v);
          wks = f UWeeks (tv_weeks v); mos = f UMonths (tv_months v);
          mins' = default_zero hrs mins;
          hrs' = default_zero dys hrs;
          dys' = default_zero wks dys;
          wks' = default_zero mos wks;
          e = mins' @ '' '' @ hrs' @ '' '' @ dys' @ '' '' @ mos @ '' '' @ wks' in
      str_strip (case secs of Some s \<Rightarrow> if s \<noteq> [] then e @ '' '' @ s else e | None \<Rightarrow> e))"

definition validate_cron_schedule ::
    "(string \<Rightarrow> bool) \<Rightarrow> (string \<Rightarrow> cron_match list) \<Rightarrow> string \<Rightarrow> string result" where
  "validate_cron_schedule is_valid findall schedule =
     (if is_valid schedule then Inr schedule
      else if findall schedule = [] then Inl ValueError
      else bindR (cron_match_all (findall schedule) (no_values, \<lambda>u. []))
             (\<lambda>(v, offs). Inr (cron_expression (overflow v) offs)))"

section \<open>Lemmas on overflow\<close>

definition total_seconds :: "time_values \<Rightarrow> int" where
  "total_seconds v =
     (case tv_seconds v of Some s \<Rightarrow> s | None \<Rightarrow> 0) + 60 * tv_minutes v + 3600 * tv_hours v +
     86400 * tv_days v + 604800 * tv_weeks v + 2419200 * tv_months v"

lemma carry: "k * (a mod m) + k * m * (a div m) = k * (a::int)"
  by (metis distrib_left mod_mult_div_eq mult.assoc)

lemmas carry_eqs = carry[of 1 _ 60, simplified] carry[of 60 _ 60, simplified]
  carry[of 3600 _ 24, simplified] carry[of 86400 _ 7, simplified] carry[of 604800 _ 4, simplified]

lemma norm_total:
  "total_seconds (norm_seconds v) = total_seconds v"
  "total_seconds (norm_minutes v) = total_seconds v"
  "total_seconds (norm_hours v) = total_seconds v"
  "total_seconds (norm_days v) = total_seconds v"
  "total_seconds (norm_weeks v) = total_seconds v"
  by (simp_all add: total_seconds_def norm_seconds_def norm_minutes_def norm_hours_def norm_days_def norm_weeks_def
      carry_eqs split: option.split)

lemma norm_keeps:
  "tv_seconds (norm_minutes v) = tv_seconds v" "tv_seconds (norm_hours v) = tv_seconds v"
  "tv_seconds (norm_days v) = tv_seconds v" "tv_seconds (norm_weeks v) = tv_seconds v"
  "tv_minutes (norm_hours v) = tv_minutes v" "tv_minutes (norm_days v) = tv_minutes v"
  "tv_minutes (norm_weeks v) = tv_minutes v" "tv_hours (norm_days v) = tv_hours v"
  "tv_hours (norm_weeks v) = tv_hours v" "tv_days (norm_weeks v) = tv_days v"
  by (simp_all add: norm_minutes_def norm_hours_def norm_days_def norm_weeks_def)

lemma norm_bounds:
  "tv_seconds (norm_seconds v) = Some s \<Longrightarrow> s < 60" "tv_minutes (norm_minutes v) < 60"
  "tv_hours (norm_hours v) < 24" "tv_days (norm_days v) < 7" "tv_weeks (norm_weeks v) < 4"
  by (auto simp: norm_seconds_def norm_minutes_def norm_hours_def norm_days_def norm_weeks_def
      split: option.splits if_splits)

text \<open>Carrying over keeps the total length of time and brings every unit below its limit:
  seconds and minutes below 60, hours below 24, days below 7, weeks below 4.\<close>

theorem overflow_carries:
  "total_seconds (overflow v) = total_seconds v \<and>
   (\<forall>s. tv_seconds (overflow v) = Some s \<longrightarrow> s < 60) \<and>
   tv_minutes (overflow v) < 60 \<and> tv_hours (overflow v) < 24 \<and>
   tv_days (overflow v) < 7 \<and> tv_weeks (overflow v) < 4"
  using norm_bounds(1) by (simp add: overflow_def norm_total norm_keeps norm_bounds(2-5))

lemma overflow_carries_witness:
  "total_seconds (overflow (no_values\<lparr>tv_minutes := 90\<rparr>)) = 5400 \<and>
   overflow (no_values\<lparr>tv_minutes := 90\<rparr>) = no_values\<lparr>tv_minutes := 30, tv_hours := 1\<rparr>"
  using overflow_carries[of "no_values\<lparr>tv_minutes := 90\<rparr>"]
  by (simp add: total_seconds_def no_values_def overflow_def norm_seconds_def norm_minutes_def norm_hours_def
      norm_days_def norm_weeks_def)

section \<open>What a phrase means\<close>

lemma digits_not_space: "c \<in> set (nat_digits n) \<Longrightarrow> \<not> is_space c \<and> c \<noteq> CHR ''*''"
proof (induction n arbitrary: c rule: nat_digits.induct)
  case (1 n)
  have digit: "\<not> is_space (char_of (48 + m)) \<and> (char_of (48 + m) :: char) \<noteq> CHR ''*''" if "m < 10" for m :: nat
  proof -
    have "m = 0 \<or> m = 1 \<or> m = 2 \<or> m = 3 \<or> m = 4 \<or> m = 5 \<or> m = 6 \<or> m = 7 \<or> m = 8 \<or> m = 9"
      using that by presburger
    then show ?thesis by (elim disjE) (simp_all add: is_space_def char_of_def)
  qed
  from 1 digit show ?case
    by (subst (asm) (2) nat_digits.simps) (auto split: if_splits)
qed

lemma str_of_int_pos: "0 \<le> n \<Longrightarrow> str_of_int n = nat_digits (nat n)"
  by (simp add: str_of_int_def)

lemma str_of_int_not_star: "0 \<le> n \<Longrightarrow> ''*/'' @ str_of_int n \<noteq> ''*''"
  by simp

lemma last_nat_digits: "\<not> is_space (last (nat_digits n))"
  using digits_not_space[of "last (nat_digits n)" n] by simp

lemma str_strip_id: "s \<noteq> [] \<Longrightarrow> \<not> is_space (hd s) \<Longrightarrow> \<not> is_space (last s) \<Longrightarrow> str_strip s = s"
proof -
  assume s: "s \<noteq> []" "\<not> is_space (hd s)" "\<not> is_space (last s)"
  then have "dropWhile is_space s = s" by (cases s) auto
  moreover have "dropWhile is_space (rev s) = rev s"
    using s by (cases s rule: rev_cases) auto
  ultimately show ?thesis by (simp add: str_strip_def)
qed

lemmas overflow_defs = overflow_def norm_seconds_def norm_minutes_def norm_hours_def norm_days_def
  norm_weeks_def no_values_def

text \<open>Without seconds, weeks and months, the expression ends in stars.\<close>

definition every :: "int \<Rightarrow> string" where
  "every x = (if x = 0 then ''*'' else ''*/'' @ nat_digits (nat x))"

lemma cron_field_every: "0 \<le> x \<Longrightarrow> cron_field (Some ''*'') [] (Some x) = Some (every x)"
  by (simp add: cron_field_def every_def str_of_int_pos)

lemma every_star [simp]: "every x = ''*'' \<longleftrightarrow> x = 0"
  by (simp add: every_def)

lemma every_0 [simp]: "every 0 = ''*''"
  by (simp add: every_def)

lemma default_zero_not_space: "0 \<le> x \<Longrightarrow> default_zero l (every x) \<noteq> [] \<and> \<not> is_space (hd (default_zero l (every x)))"
  by (auto simp: default_zero_def every_def is_space_def)

lemma expression_simple:
  assumes "0 \<le> m" "0 \<le> h" "0 \<le> d"
  shows "cron_expression (no_values\<lparr>tv_minutes := m, tv_hours := h, tv_days := d\<rparr>) (\<lambda>u. []) =
    default_zero (every h) (every m) @ '' '' @ default_zero (every d) (every h) @ '' '' @ every d @ '' * *''"
proof -
  let ?e = "default_zero (every h) (every m) @ '' '' @ default_zero (every d) (every h) @ '' '' @ every d @ '' * *''"
  have "str_strip ?e = ?e"
    using default_zero_not_space[OF assms(1), of "every h"] by (intro str_strip_id) (auto simp: is_space_def)
  moreover have "default_zero ''*'' x = x" for x by (simp add: default_zero_def)
  moreover have "cron_field None [] None = None" by (simp add: cron_field_def)
  ultimately show ?thesis
    using assms by (simp add: cron_expression_def no_values_def Let_def cron_field_every)
qed

text \<open>What a single interval becomes. n minutes below 60 and n hours below 24 give the
  expression that fires at that interval, at minute 0 for hours. For n days only the hour is set
  to 0 and the minute stays a star, so the expression fires in every minute of that hour. An
  interval of minutes that is more than an hour and no whole number of hours is split:
  ''every 90 minutes'' becomes every 30 minutes of every hour.\<close>

theorem cron_single_interval:
  "\<not> is_valid s \<Longrightarrow> findall s = [(n, None, word)] \<Longrightarrow> 0 < n \<Longrightarrow>
   (resolve_unit word = Some UMinutes \<longrightarrow> n < 60 \<longrightarrow>
      validate_cron_schedule is_valid findall s = Inr (''*/'' @ nat_digits n @ '' * * * *'')) \<and>
   (resolve_unit word = Some UHours \<longrightarrow> n < 24 \<longrightarrow>
      validate_cron_schedule is_valid findall s = Inr (''0 */'' @ nat_digits n @ '' * * *'')) \<and>
   (resolve_unit word = Some UDays \<longrightarrow> n < 7 \<longrightarrow>
      validate_cron_schedule is_valid findall s = Inr (''* 0 */'' @ nat_digits n @ '' * *'')) \<and>
   (resolve_unit word = Some UMinutes \<longrightarrow> 60 < n \<longrightarrow> n < 1440 \<longrightarrow> n mod 60 \<noteq> 0 \<longrightarrow>
      validate_cron_schedule is_valid findall s =
        Inr (''*/'' @ nat_digits (n mod 60) @ '' */'' @ nat_digits (n div 60) @ '' * * *''))"
proof -
  assume v: "\<not> is_valid s" and m: "findall s = [(n, None, word)]" and n: "0 < n"
  have start: "validate_cron_schedule is_valid findall s =
      Inr (cron_expression (overflow (set_unit u (int n) no_values)) (\<lambda>u. []))"
    if "resolve_unit word = Some u" for u
    using that by (simp add: validate_cron_schedule_def v m cron_match_step_def)
  have mins: "validate_cron_schedule is_valid findall s = Inr (''*/'' @ nat_digits n @ '' * * * *'')"
    if u: "resolve_unit word = Some UMinutes" and l: "n < 60"
  proof -
    have "overflow (set_unit UMinutes (int n) no_values) = no_values\<lparr>tv_minutes := int n, tv_hours := 0, tv_days := 0\<rparr>"
      using l by (simp add: overflow_defs)
    then show ?thesis using n by (simp add: start[OF u] expression_simple default_zero_def every_def)
  qed
  have hrs: "validate_cron_schedule is_valid findall s = Inr (''0 */'' @ nat_digits n @ '' * * *'')"
    if u: "resolve_unit word = Some UHours" and l: "n < 24"
  proof -
    have "overflow (set_unit UHours (int n) no_values) = no_values\<lparr>tv_minutes := 0, tv_hours := int n, tv_days := 0\<rparr>"
      using l by (simp add: overflow_defs)
    then show ?thesis using n by (simp add: start[OF u] expression_simple default_zero_def every_def)
  qed
  have dys: "validate_cron_schedule is_valid findall s = Inr (''* 0 */'' @ nat_digits n @ '' * *'')"
    if u: "resolve_unit word = Some UDays" and l: "n < 7"
  proof -
    have "overflow (set_unit UDays (int n) no_values) = no_values\<lparr>tv_minutes := 0, tv_hours := 0, tv_days := int n\<rparr>"
      using l by (simp add: overflow_defs)
    then show ?thesis using n by (simp add: start[OF u] expression_simple default_zero_def every_def)
  qed
  have split: "validate_cron_schedule is_valid findall s =
        Inr (''*/'' @ nat_digits (n mod 60) @ '' */'' @ nat_digits (n div 60) @ '' * * *'')"
    if u: "resolve_unit word = Some UMinutes" and r: "60 < n" "n < 1440" "n mod 60 \<noteq> 0"
  proof -
    have i: "int n div 60 = int (n div 60)" "int n mod 60 = int (n mod 60)" by (simp_all add: zdiv_int zmod_int)
    have h: "n div 60 < 24" "0 < n div 60" using r(1,2) by (simp_all add: div_greater_zero_iff less_mult_imp_div_less)
    have "overflow (set_unit UMinutes (int n) no_values) =
        no_values\<lparr>tv_minutes := int (n mod 60), tv_hours := int (n div 60), tv_days := 0\<rparr>"
      using h r(1) i by (simp add: overflow_defs)
    then show ?thesis
      using h r(3) by (simp add: start[OF u] expression_simple default_zero_def every_def)
  qed
  show ?thesis using mins hrs dys split by blast
qed

lemma cron_single_interval_witness:
  "validate_cron_schedule (\<lambda>s. False) (\<lambda>s. [(90, None, ''minutes'')]) ''every 90 minutes'' =
     Inr ''*/30 */1 * * *''"
proof -
  have d: "nat_digits 30 = ''30''" "nat_digits (Suc 0) = ''1''" by code_simp+
  have "resolve_unit ''minutes'' = Some UMinutes" by code_simp
  then show ?thesis
    using cron_single_interval[of "\<lambda>s. False" "''every 90 minutes''" "\<lambda>s. [(90, None, ''minutes'')]" 90 "''minutes''"]
    by (simp add: d)
qed

section \<open>Offsets\<close>

text \<open>An offset schedule has one entry per interval of the unit, all congruent to the shifted
  start modulo the interval, and every later entry is at most the size of the unit. The bound is
  reached: ''every 15 += 15 minutes'' lists minute 60, which is no minute, because only
  values above the size of the unit wrap around; an interval of 0 is a ZeroDivisionError.\<close>

theorem offsets_regular:
  "0 < n \<Longrightarrow> n dvd div_value u \<Longrightarrow>
   (\<exists>l. offset_list u n op k = Inr l \<and> length l = nat (div_value u div n) \<and>
      (\<forall>x\<in>set l. n dvd x - (case op of MinusEq \<Rightarrow> n - k | PlusEq \<Rightarrow> n + k)) \<and>
      (\<forall>x\<in>set (tl l). x \<le> div_value u)) \<and>
   offset_list UMinutes 15 PlusEq 15 = Inr [30, 45, 60, 15] \<and>
   offset_list u 0 op k = Inl ZeroDivisionError"
proof -
  assume n: "0 < n" and dv: "n dvd div_value u"
  let ?d = "div_value u" and ?b = "case op of MinusEq \<Rightarrow> n - k | PlusEq \<Rightarrow> n + k"
  let ?f = "\<lambda>i. let v = ?b + n * int i in if v > ?d then v mod ?d else v"
  have dpos: "0 < ?d" by (cases u) simp_all
  then have it: "1 \<le> nat (?d div n)" using n dv by (auto elim!: dvdE simp: zero_less_mult_iff)
  have cong: "n dvd ?f i - ?b" for i
  proof -
    have "n dvd (?b + n * int i) mod ?d - (?b + n * int i)"
      using dv by (metis dvd_diff_commute dvd_minus_mod dvd_trans)
    then have "n dvd ((?b + n * int i) mod ?d - (?b + n * int i)) + n * int i" by (rule dvd_add) simp
    then show ?thesis by (simp add: Let_def)
  qed
  have bound: "?f i \<le> ?d" for i
    using pos_mod_bound[OF dpos, of "?b + n * int i"] by (simp add: Let_def)
  have "offset_list u n op k = Inr (?b # map ?f [1..<nat (?d div n)])"
    using n by (simp add: offset_list_def Let_def)
  moreover have "length (?b # map ?f [1..<nat (?d div n)]) = nat (?d div n)" using it by simp
  moreover have "\<forall>x\<in>set (?b # map ?f [1..<nat (?d div n)]). n dvd x - ?b" using cong by auto
  moreover have "\<forall>x\<in>set (tl (?b # map ?f [1..<nat (?d div n)])). x \<le> ?d" using bound by auto
  moreover have "offset_list UMinutes 15 PlusEq 15 = Inr [30, 45, 60, 15]" by code_simp
  moreover have "offset_list u 0 op k = Inl ZeroDivisionError" by (simp add: offset_list_def)
  ultimately show ?thesis by blast
qed

lemma offsets_regular_witness:
  "\<exists>l. offset_list UMinutes 15 MinusEq 5 = Inr l \<and> length l = 4"
  using offsets_regular[of 15 UMinutes MinusEq 5] by auto

section \<open>Cron jobs\<close>

record cron_job =
  cron :: string
  cron_function :: string
  cron_name :: "string option"
  default_kwargs :: "pydict option"
  callback :: "string option"
  callback_kwargs :: pyval
  cron_bypass_lock :: "bool option"

text \<open>The display name; an empty name falls back to the function's.\<close>

definition function_name :: "cron_job \<Rightarrow> string" where
  "function_name c = (if opt_truthy (cron_name c) then the (cron_name c) else cron_function c)"

definition to_enqueue_kwargs ::
    "cron_job \<Rightarrow> int \<Rightarrow> pyval \<Rightarrow> bool \<Rightarrow> string option \<Rightarrow> pydict \<Rightarrow> pydict" where
  "to_enqueue_kwargs c next_scheduled job_key exclude_none prefix kwargs =
     (let defaults = dict_update (case default_kwargs c of None \<Rightarrow> [] | Some d \<Rightarrow> d) kwargs;
          e = dict_update [(''key'', job_key)] defaults;
          e = (if opt_truthy (callback c)
               then dict_set ''job_callback_kwargs'' (callback_kwargs c)
                      (dict_set ''job_callback'' (PStr (the (callback c))) e)
               else e);
          e = (case cron_bypass_lock c of Some b \<Rightarrow> dict_set ''bypass_lock'' (PBool b) e | None \<Rightarrow> e);
          e = (if exclude_none then filter (\<lambda>(k, v). v \<noteq> PNone) e else e);
          e = dict_set ''scheduled'' (PInt next_scheduled) e;
          e = (if opt_truthy prefix then map (\<lambda>(k, v). (the prefix @ k, v)) e else e) in
      dict_set ''job_or_func'' (PStr (function_name c)) e)"

text \<open>\<open>get_next_cron_run_data\<close>: the interval in the largest unit it exceeds.\<close>

definition next_interval :: "rat \<Rightarrow> rat \<times> string" where
  "next_interval secs =
     (if secs > 60 * 60 * 24 then (secs / (60 * 60 * 24), ''days'')
      else if secs > 60 * 60 then (secs / (60 * 60), ''hrs'')
      else if secs > 60 then (secs / 60, ''mins'')
      else (secs, ''secs''))"

lemma to_enqueue_get:
  assumes "\<not> opt_truthy prefix" "k \<noteq> ''job_or_func''" "k \<noteq> ''scheduled''"
  shows "dict_get (to_enqueue_kwargs c n job_key False prefix kwargs) k =
    (let d = dict_update [(''key'', job_key)] (dict_update (case default_kwargs c of None \<Rightarrow> [] | Some d \<Rightarrow> d) kwargs) in
     if k = ''bypass_lock'' \<and> cron_bypass_lock c \<noteq> None then Some (PBool (the (cron_bypass_lock c)))
     else if k = ''job_callback_kwargs'' \<and> opt_truthy (callback c) then Some (callback_kwargs c)
     else if k = ''job_callback'' \<and> opt_truthy (callback c) then Some (PStr (the (callback c)))
     else dict_get d k)"
  using assms by (auto simp: to_enqueue_kwargs_def Let_def split: option.splits)

text \<open>The arguments a cron job enqueues itself with: its function by name, the next time it is
  due, its callback and lock setting when they are set, and otherwise the caller's arguments over
  the job's defaults over the given key; with None excluded, no argument but the
  callback's survives as None.\<close>

theorem cron_enqueue_arguments:
  "wf_dict kwargs \<Longrightarrow> (\<forall>d. default_kwargs c = Some d \<longrightarrow> wf_dict d) \<Longrightarrow>
   dict_get (to_enqueue_kwargs c n job_key False None kwargs) ''job_or_func'' = Some (PStr (function_name c)) \<and>
   dict_get (to_enqueue_kwargs c n job_key False None kwargs) ''scheduled'' = Some (PInt n) \<and>
   (\<forall>k. k \<notin> {''job_or_func'', ''scheduled'', ''bypass_lock'', ''job_callback'', ''job_callback_kwargs''} \<longrightarrow>
      dict_get (to_enqueue_kwargs c n job_key False None kwargs) k =
        (case dict_get kwargs k of Some v \<Rightarrow> Some v
         | None \<Rightarrow> (case dict_get (case default_kwargs c of None \<Rightarrow> [] | Some d \<Rightarrow> d) k of
                     Some v \<Rightarrow> Some v
                   | None \<Rightarrow> if k = ''key'' then Some job_key else None))) \<and>
   (\<forall>k. dict_get (to_enqueue_kwargs c n job_key True None kwargs) k \<noteq> Some PNone)"
proof -
  assume wf: "wf_dict kwargs" and wd: "\<forall>d. default_kwargs c = Some d \<longrightarrow> wf_dict d"
  let ?d = "case default_kwargs c of None \<Rightarrow> [] | Some d \<Rightarrow> d"
  have wfd: "wf_dict ?d" using wd by (auto simp: wf_dict_def split: option.splits)
  have key: "dict_get [(''key'', job_key)] k = (if k = ''key'' then Some job_key else None)" for k
    by (simp add: dict_get_def)
  have main: "dict_get (to_enqueue_kwargs c n job_key False None kwargs) k =
        (case dict_get kwargs k of Some v \<Rightarrow> Some v
         | None \<Rightarrow> (case dict_get ?d k of Some v \<Rightarrow> Some v | None \<Rightarrow> if k = ''key'' then Some job_key else None))"
    if "k \<notin> {''job_or_func'', ''scheduled'', ''bypass_lock'', ''job_callback'', ''job_callback_kwargs''}" for k
    using that to_enqueue_get[of None k c n job_key kwargs]
    by (simp add: Let_def dict_get_update[OF wf_dict_update[OF wfd]] dict_get_update[OF wf] key split: option.split)
  have none: "dict_get (to_enqueue_kwargs c n job_key True None kwargs) k \<noteq> Some PNone" for k
    by (auto simp: to_enqueue_kwargs_def Let_def dict_get_def[of "filter _ _"] dest!: map_of_SomeD split: if_splits)
  show ?thesis using main none by (simp add: to_enqueue_kwargs_def Let_def)
qed

lemma cron_enqueue_arguments_witness:
  "dict_get (to_enqueue_kwargs \<lparr>cron = ''* * * * *'', cron_function = ''f'', cron_name = None, default_kwargs = None,
      callback = None, callback_kwargs = PNone, cron_bypass_lock = None\<rparr> 60 (PStr ''k'') False None []) ''scheduled'' =
   Some (PInt 60)"
  using cron_enqueue_arguments[of "[]" "\<lparr>cron = ''* * * * *'', cron_function = ''f'', cron_name = None,
      default_kwargs = None, callback = None, callback_kwargs = PNone, cron_bypass_lock = None\<rparr>" 60 "PStr ''k''"]
  by (simp add: wf_dict_def)

end
