(* ===== verification/Persistence.thy ===== *)
theory Persistence
  imports Redis_Memory
begin

text \<open>
  \<^verbatim>\<open>kvdb/components/persistence.py\<close>, class \<open>KVDBStatefulBackend\<close>: a dictionary kept in the
  database. In hash mode every entry is a field of one hash and a second hash, the expiration
  index, holds the second at which a field expires; otherwise every entry is a key of
  its own below the base key. The asynchronous twin of every operation is modelled on its
  own. Time is in whole seconds, as \<open>int(time.time())\<close> gives it.
\<close>

section \<open>Configuration\<close>

text \<open>The serializer encodes a value and decodes what the server returned, which may be nothing;
  without one, or when the session serialises, the value goes over the wire as it is.\<close>

record pdict =
  base_key :: "string option"
  keyjoin :: string
  expiration :: "int option"
  hset_disabled :: bool
  session_serialization_enabled :: bool
  serializer :: "((pyval \<Rightarrow> rval) \<times> (rval option \<Rightarrow> pyval result)) option"
  to_wire :: "pyval \<Rightarrow> rval"
  from_wire :: "rval option \<Rightarrow> pyval"

definition hset_enabled :: "pdict \<Rightarrow> bool" where
  "hset_enabled P \<longleftrightarrow> \<not> hset_disabled P \<and> base_key P \<noteq> None"

definition base :: "pdict \<Rightarrow> string" where
  "base P = (case base_key P of None \<Rightarrow> ''None'' | Some b \<Rightarrow> b)"

definition exp_index_key :: "pdict \<Rightarrow> string" where
  "exp_index_key P = ''_exp_:'' @ base P"

definition encode_value :: "pdict \<Rightarrow> bool \<Rightarrow> pyval \<Rightarrow> rval" where
  "encode_value P raw v =
     (if session_serialization_enabled P \<or> raw then to_wire P v
      else case serializer P of Some (e, d) \<Rightarrow> e v | None \<Rightarrow> to_wire P v)"

definition decode_value :: "pdict \<Rightarrow> bool \<Rightarrow> rval option \<Rightarrow> pyval result" where
  "decode_value P raw v =
     (if session_serialization_enabled P \<or> raw then Inr (from_wire P v)
      else case serializer P of Some (e, d) \<Rightarrow> d v | None \<Rightarrow> Inr (from_wire P v))"

definition get_key :: "pdict \<Rightarrow> string \<Rightarrow> string" where
  "get_key P key =
     (if \<not> opt_truthy (base_key P) then key
      else if str_in (base P) key then key
      else base P @ keyjoin P @ key)"

definition or_expiration :: "pdict \<Rightarrow> int option \<Rightarrow> int option" where
  "or_expiration P ex = (case ex of Some e \<Rightarrow> if e \<noteq> 0 then Some e else expiration P | None \<Rightarrow> expiration P)"

definition set_cmd :: "string \<Rightarrow> rval \<Rightarrow> int option \<Rightarrow> rcmd" where
  "set_cmd k v ex = (case ex of None \<Rightarrow> SET k v | Some t \<Rightarrow> SETEX k t v)"

definition key_pattern :: "pdict \<Rightarrow> string" where
  "key_pattern P = base P @ keyjoin P @ ''*''"

section \<open>Replies\<close>

definition bulk_of :: "rreply \<Rightarrow> rval option" where
  "bulk_of r = (case r of Bulk v \<Rightarrow> Some v | _ \<Rightarrow> None)"

definition multi_of :: "rreply \<Rightarrow> rval option list" where
  "multi_of r = (case r of Multi vs \<Rightarrow> vs | _ \<Rightarrow> [])"

definition names_of :: "rreply \<Rightarrow> string list" where
  "names_of r = (case r of Strs ks \<Rightarrow> ks | _ \<Rightarrow> [])"

definition pairs_of :: "rreply \<Rightarrow> (string \<times> rval) list" where
  "pairs_of r = (case r of Pairs ps \<Rightarrow> ps | _ \<Rightarrow> [])"

definition num_of :: "rreply \<Rightarrow> int" where
  "num_of r = (case r of Num n \<Rightarrow> n | _ \<Rightarrow> 0)"

definition expired :: "rval option \<Rightarrow> int \<Rightarrow> bool" where
  "expired e now = (case e of Some (RInt t) \<Rightarrow> t < now | _ \<Rightarrow> False)"

section \<open>The scripts\<close>

definition hget_script ::
    "'db executor \<Rightarrow> string \<Rightarrow> string \<Rightarrow> string \<Rightarrow> int \<Rightarrow> 'db \<Rightarrow> rval option \<times> 'db" where
  "hget_script exec k1 k2 f now d =
     (case bulk_of (reply_of exec (HGET k1 f) d) of
        None \<Rightarrow> (None, d)
      | Some v \<Rightarrow>
          if expired (bulk_of (reply_of exec (HGET k2 f) d)) now
          then (None, after exec (HDEL k2 [f]) (after exec (HDEL k1 [f]) d))
          else (Some v, d))"

definition hset_script ::
    "'db executor \<Rightarrow> string \<Rightarrow> string \<Rightarrow> string \<Rightarrow> rval \<Rightarrow> int option \<Rightarrow> 'db \<Rightarrow> 'db" where
  "hset_script exec k1 k2 f v e d =
     (let d1 = after exec (HSET k1 [(f, v)]) d in
      case e of Some t \<Rightarrow> after exec (HSET k2 [(f, RInt t)]) d1 | None \<Rightarrow> d1)"

definition hdel_script :: "'db executor \<Rightarrow> string \<Rightarrow> string \<Rightarrow> string \<Rightarrow> 'db \<Rightarrow> 'db" where
  "hdel_script exec k1 k2 f d = after exec (HDEL k2 [f]) (after exec (HDEL k1 [f]) d)"

section \<open>Expiration in hash mode\<close>

definition hset_expire :: "'db executor \<Rightarrow> pdict \<Rightarrow> int \<Rightarrow> string \<Rightarrow> int option \<Rightarrow> 'db \<Rightarrow> 'db" where
  "hset_expire exec P now key ex d =
     (case ex of None \<Rightarrow> d | Some e \<Rightarrow> after exec (HSET (exp_index_key P) [(key, RInt (now + e))]) d)"

definition hset_expire_batch :: "'db executor \<Rightarrow> pdict \<Rightarrow> int \<Rightarrow> string list \<Rightarrow> int option \<Rightarrow> 'db \<Rightarrow> 'db" where
  "hset_expire_batch exec P now keys ex d =
     (case ex of None \<Rightarrow> d
      | Some e \<Rightarrow> after exec (HSET (exp_index_key P) (map (\<lambda>k. (k, RInt (now + e))) keys)) d)"

definition expire_field :: "'db executor \<Rightarrow> pdict \<Rightarrow> int \<Rightarrow> string \<times> rval option \<Rightarrow> 'db \<Rightarrow> 'db" where
  "expire_field exec P now kv d =
     (let (key, e) = kv in
      if expired e now
      then after exec (HDEL (base P) [key]) (after exec (HDEL (exp_index_key P) [key]) d)
      else d)"

definition run_expiration_check :: "'db executor \<Rightarrow> pdict \<Rightarrow> int \<Rightarrow> string list \<Rightarrow> 'db \<Rightarrow> 'db" where
  "run_expiration_check exec P now keys d =
     (let ks = (if keys = [] then names_of (reply_of exec (HKEYS (exp_index_key P)) d) else keys) in
      if ks = [] then d
      else fold (expire_field exec P now) (zip ks (multi_of (reply_of exec (HMGET (exp_index_key P) ks) d))) d)"

definition hset_expiration_check :: "'db executor \<Rightarrow> pdict \<Rightarrow> int \<Rightarrow> string \<Rightarrow> 'db \<Rightarrow> 'db" where
  "hset_expiration_check exec P now key d =
     (if num_of (reply_of exec (HEXISTS (exp_index_key P) key) d) = 0 then d
      else case bulk_of (reply_of exec (HGET (exp_index_key P) key) d) of
        None \<Rightarrow> after exec (HDEL (exp_index_key P) [key]) d
      | Some e \<Rightarrow> expire_field exec P now (key, Some e) d)"

section \<open>Reading and writing\<close>

definition delete :: "'db executor \<Rightarrow> pdict \<Rightarrow> string \<Rightarrow> 'db \<Rightarrow> 'db" where
  "delete exec P key d =
     (if hset_enabled P then hdel_script exec (base P) (exp_index_key P) key d
      else after exec (DEL [get_key P key]) d)"

definition get :: "'db executor \<Rightarrow> pdict \<Rightarrow> int \<Rightarrow> string \<Rightarrow> pyval \<Rightarrow> bool \<Rightarrow> 'db \<Rightarrow> pyval \<times> 'db" where
  "get exec P now key dflt raw d =
     (let (v, d1) = (if hset_enabled P then hget_script exec (base P) (exp_index_key P) key now d
                     else (bulk_of (reply_of exec (GET (get_key P key)) d), d)) in
      case v of
        None \<Rightarrow> (dflt, d1)
      | Some x \<Rightarrow> (case decode_value P raw (Some x) of
                    Inr y \<Rightarrow> (y, d1)
                  | Inl e \<Rightarrow> (dflt, delete exec P key d1)))"

fun decode_values ::
    "'db executor \<Rightarrow> pdict \<Rightarrow> bool \<Rightarrow> (string \<times> rval option) list \<Rightarrow> 'db \<Rightarrow> pyval list \<times> 'db" where
  "decode_values exec P raw [] d = ([], d)"
| "decode_values exec P raw ((k, v) # kvs) d =
     (case decode_value P raw v of
        Inr y \<Rightarrow> (let (ys, d') = decode_values exec P raw kvs d in (y # ys, d'))
      | Inl e \<Rightarrow> (let (ys, d') = decode_values exec P raw kvs (delete exec P k d) in (PNone # ys, d')))"

definition get_values :: "'db executor \<Rightarrow> pdict \<Rightarrow> int \<Rightarrow> string list \<Rightarrow> bool \<Rightarrow> 'db \<Rightarrow> pyval list \<times> 'db" where
  "get_values exec P now keys raw d =
     (let (vs, d1) =
        (if hset_enabled P then
           let d' = run_expiration_check exec P now keys d in
           (multi_of (reply_of exec (HMGET (base P) keys) d'), d')
         else (multi_of (reply_of exec (MGET (map (get_key P) keys)) d), d)) in
      decode_values exec P raw (zip keys vs) d1)"

definition set_value :: "'db executor \<Rightarrow> pdict \<Rightarrow> int \<Rightarrow> string \<Rightarrow> pyval \<Rightarrow> int option \<Rightarrow> bool \<Rightarrow> 'db \<Rightarrow> 'db" where
  "set_value exec P now key v ex raw d =
     (let ex = or_expiration P ex; ev = encode_value P raw v in
      if hset_enabled P
      then hset_script exec (base P) (exp_index_key P) key ev (map_option (\<lambda>e. now + e) ex) d
      else after exec (set_cmd (get_key P key) ev ex) d)"

definition set_batch ::
    "'db executor \<Rightarrow> pdict \<Rightarrow> int \<Rightarrow> pydict \<Rightarrow> int option \<Rightarrow> bool \<Rightarrow> 'db \<Rightarrow> 'db" where
  "set_batch exec P now data ex raw d =
     (let ex = or_expiration P ex; ed = map (\<lambda>(k, v). (k, encode_value P raw v)) data in
      if hset_enabled P
      then hset_expire_batch exec P now (map fst ed) ex (after exec (HSET (base P) ed) d)
      else
        let ed = (if opt_truthy (base_key P) then map (\<lambda>(k, v). (get_key P k, v)) ed else ed);
            d1 = after exec (MSET ed) d in
        case ex of None \<Rightarrow> d1 | Some e \<Rightarrow> fold (\<lambda>(k, v). after exec (EXPIRE k e)) ed d1)"

definition clear :: "'db executor \<Rightarrow> pdict \<Rightarrow> string list \<Rightarrow> 'db \<Rightarrow> 'db" where
  "clear exec P keys d =
     (if hset_enabled P then
        (if keys \<noteq> [] then after exec (HDEL (exp_index_key P) keys) (after exec (HDEL (base P) keys) d)
         else after exec (DEL [base P]) d)
      else if keys \<noteq> [] then after exec (DEL (map (get_key P) keys)) d
      else
        let ks = names_of (reply_of exec (KEYS (key_pattern P)) d) in
        if ks \<noteq> [] then after exec (DEL ks) d else d)"

definition iterate :: "'db executor \<Rightarrow> pdict \<Rightarrow> int \<Rightarrow> 'db \<Rightarrow> string list result \<times> 'db" where
  "iterate exec P now d =
     (if hset_enabled P then
        let d1 = run_expiration_check exec P now [] d in
        (Inr (names_of (reply_of exec (HKEYS (base P)) d1)), d1)
      else if \<not> opt_truthy (base_key P) then (Inl NotImplementedError, d)
      else (Inr (names_of (reply_of exec (KEYS (key_pattern P)) d)), d))"

definition plength :: "'db executor \<Rightarrow> pdict \<Rightarrow> int \<Rightarrow> 'db \<Rightarrow> int result \<times> 'db" where
  "plength exec P now d =
     (if hset_enabled P then
        let d1 = run_expiration_check exec P now [] d in
        (Inr (num_of (reply_of exec (HLEN (base P)) d1)), d1)
      else if \<not> opt_truthy (base_key P) then (Inl NotImplementedError, d)
      else (Inr (int (length (names_of (reply_of exec (KEYS (key_pattern P)) d)))), d))"

definition fetch_set_keys :: "'db executor \<Rightarrow> pdict \<Rightarrow> 'db \<Rightarrow> string list" where
  "fetch_set_keys exec P d = names_of (reply_of exec (KEYS (key_pattern P)) d)"

definition fetch_hset_keys :: "'db executor \<Rightarrow> pdict \<Rightarrow> 'db \<Rightarrow> string list" where
  "fetch_hset_keys exec P d = names_of (reply_of exec (HKEYS (base P)) d)"

definition strip_base :: "pdict \<Rightarrow> string \<Rightarrow> string" where
  "strip_base P k = str_replace k (base P @ keyjoin P) ''''"

text \<open>\<open>get_keys\<close>: in hash mode the pattern is a regular expression (\<open>re.match\<close>, a
  parameter), otherwise the server's glob.\<close>

definition get_keys ::
    "'db executor \<Rightarrow> (string \<Rightarrow> string \<Rightarrow> bool) \<Rightarrow> pdict \<Rightarrow> int \<Rightarrow> string \<Rightarrow> bool \<Rightarrow> 'db \<Rightarrow> string list \<times> 'db" where
  "get_keys exec re_match P now pattern exclude_base_key d =
     (let (keys, d1) =
        (if hset_enabled P then
           let d' = run_expiration_check exec P now [] d in
           (filter (re_match pattern) (fetch_hset_keys exec P d'), d')
         else (names_of (reply_of exec (KEYS (base P @ pattern)) d), d)) in
      (if exclude_base_key then map (strip_base P) keys else keys, d1))"

definition aget_keys ::
    "'db executor \<Rightarrow> (string \<Rightarrow> string \<Rightarrow> bool) \<Rightarrow> pdict \<Rightarrow> int \<Rightarrow> string \<Rightarrow> bool \<Rightarrow> 'db \<Rightarrow> string list \<times> 'db" where
  "aget_keys exec re_match P now pattern exclude_base_key d =
     (let (keys, d1) =
        (if hset_enabled P then
           let d' = run_expiration_check exec P now [] d in
           (filter (re_match pattern) (fetch_hset_keys exec P d'), d')
         else (names_of (reply_of exec (KEYS (base P @ keyjoin P @ pattern)) d), d)) in
      (if exclude_base_key then map (strip_base P) keys else keys, d1))"

definition get_all_keys ::
    "'db executor \<Rightarrow> pdict \<Rightarrow> int \<Rightarrow> bool \<Rightarrow> 'db \<Rightarrow> string list result \<times> 'db" where
  "get_all_keys exec P now exclude_base_key d =
     (if \<not> opt_truthy (base_key P) then (Inl NotImplementedError, d)
      else if hset_enabled P then
        let d1 = run_expiration_check exec P now [] d in (Inr (fetch_hset_keys exec P d1), d1)
      else
        let keys = fetch_set_keys exec P d in
        (Inr (if exclude_base_key then map (strip_base P) keys else keys), d))"

text \<open>\<open>get_all_values\<close> and \<open>get_all_data\<close>: an entry that cannot be decoded is
  deleted and left out. The synchronous \<open>get_all_data\<close> catches only AttributeError; any other
  exception is raised.\<close>

fun decode_all ::
    "'db executor \<Rightarrow> pdict \<Rightarrow> bool \<Rightarrow> (string \<times> rval option) list \<Rightarrow> 'db \<Rightarrow> pydict \<times> 'db" where
  "decode_all exec P raw [] d = ([], d)"
| "decode_all exec P raw ((k, v) # kvs) d =
     (case decode_value P raw v of
        Inr y \<Rightarrow> (let (ys, d') = decode_all exec P raw kvs d in ((k, y) # ys, d'))
      | Inl e \<Rightarrow> decode_all exec P raw kvs (delete exec P k d))"

fun decode_all_strict ::
    "'db executor \<Rightarrow> pdict \<Rightarrow> bool \<Rightarrow> (string \<times> rval option) list \<Rightarrow> 'db \<Rightarrow> pydict result \<times> 'db" where
  "decode_all_strict exec P raw [] d = (Inr [], d)"
| "decode_all_strict exec P raw ((k, v) # kvs) d =
     (case decode_value P raw v of
        Inr y \<Rightarrow> (let (ys, d') = decode_all_strict exec P raw kvs d in
                  (bindR ys (\<lambda>zs. Inr ((k, y) # zs)), d'))
      | Inl AttributeError \<Rightarrow> decode_all_strict exec P raw kvs (delete exec P k d)
      | Inl e \<Rightarrow> (Inl e, d))"

definition get_all_values ::
    "'db executor \<Rightarrow> pdict \<Rightarrow> int \<Rightarrow> bool \<Rightarrow> 'db \<Rightarrow> pyval list result \<times> 'db" where
  "get_all_values exec P now raw d =
     (if \<not> opt_truthy (base_key P) then (Inl NotImplementedError, d)
      else
        let (kvs, d1) =
          (if hset_enabled P then
             let d' = run_expiration_check exec P now [] d in
             (map (\<lambda>(k, v). (k, Some v)) (pairs_of (reply_of exec (HGETALL (base P)) d')), d')
           else let ks = fetch_set_keys exec P d in (zip ks (multi_of (reply_of exec (MGET ks) d)), d));
          (ys, d2) = decode_all exec P raw kvs d1 in
        (Inr (map snd ys), d2))"

definition get_all_data ::
    "'db executor \<Rightarrow> pdict \<Rightarrow> int \<Rightarrow> bool \<Rightarrow> bool \<Rightarrow> 'db \<Rightarrow> pydict result \<times> 'db" where
  "get_all_data exec P now exclude_base_key raw d =
     (if \<not> hset_enabled P \<and> \<not> opt_truthy (base_key P) then (Inl NotImplementedError, d)
      else if hset_enabled P then
        let d1 = run_expiration_check exec P now [] d;
            kvs = map (\<lambda>(k, v). (k, Some v)) (pairs_of (reply_of exec (HGETALL (base P)) d1)) in
        decode_all_strict exec P raw kvs d1
      else
        let ks = fetch_set_keys exec P d;
            (ys, d1) = decode_all_strict exec P raw (zip ks (multi_of (reply_of exec (MGET ks) d))) d in
        (bindR ys (\<lambda>zs. Inr (if exclude_base_key
           then dict_update [] (map (\<lambda>(k, v). (strip_base P k, v)) zs) else zs)), d1))"

definition aget_all_data ::
    "'db executor \<Rightarrow> pdict \<Rightarrow> int \<Rightarrow> bool \<Rightarrow> bool \<Rightarrow> 'db \<Rightarrow> pydict result \<times> 'db" where
  "aget_all_data exec P now exclude_base_key raw d =
     (if \<not> opt_truthy (base_key P) then (Inl NotImplementedError, d)
      else if hset_enabled P then
        let d1 = run_expiration_check exec P now [] d;
            kvs = map (\<lambda>(k, v). (k, Some v)) (pairs_of (reply_of exec (HGETALL (base P)) d1));
            (ys, d2) = decode_all exec P raw kvs d1 in
        (Inr ys, d2)
      else
        let ks = fetch_set_keys exec P d;
            (ys, d1) = decode_all exec P raw (zip ks (multi_of (reply_of exec (MGET ks) d))) d in
        (Inr (if exclude_base_key then dict_update [] (map (\<lambda>(k, v). (strip_base P k, v)) ys) else ys), d1))"

definition contains :: "'db executor \<Rightarrow> pdict \<Rightarrow> int \<Rightarrow> string \<Rightarrow> 'db \<Rightarrow> bool \<times> 'db" where
  "contains exec P now key d =
     (if hset_enabled P then
        let d1 = hset_expiration_check exec P now key d in
        (num_of (reply_of exec (HEXISTS (base P) key) d1) \<noteq> 0, d1)
      else (num_of (reply_of exec (EXISTS (get_key P key)) d) \<noteq> 0, d))"

definition pexpire :: "'db executor \<Rightarrow> pdict \<Rightarrow> int \<Rightarrow> string \<Rightarrow> int \<Rightarrow> 'db \<Rightarrow> 'db" where
  "pexpire exec P now key ex d =
     (if hset_enabled P then hset_expire exec P now key (Some ex) d
      else after exec (EXPIRE (get_key P key) ex) d)"

section \<open>Numbers and sets in hash mode\<close>

definition incrby :: "'db executor \<Rightarrow> pdict \<Rightarrow> string \<Rightarrow> int \<Rightarrow> 'db \<Rightarrow> int \<times> 'db" where
  "incrby exec P key amount d =
     (num_of (reply_of exec (HINCRBY (base P) key amount) d), after exec (HINCRBY (base P) key amount) d)"

definition decrby :: "'db executor \<Rightarrow> pdict \<Rightarrow> string \<Rightarrow> int \<Rightarrow> 'db \<Rightarrow> int \<times> 'db" where
  "decrby exec P key amount d =
     (num_of (reply_of exec (HINCRBY (base P) key (amount * -1)) d),
      after exec (HINCRBY (base P) key (amount * -1)) d)"

text \<open>A Python set as the list of its elements; only a set has the set operations.\<close>

fun as_pyset :: "pyval \<Rightarrow> pyval list result" where
  "as_pyset (PSet xs) = Inr xs"
| "as_pyset _ = Inl AttributeError"

definition set_update :: "pyval list \<Rightarrow> pyval list \<Rightarrow> pyval list" where
  "set_update xs ys = fold (\<lambda>y acc. if y \<in> set acc then acc else acc @ [y]) ys xs"

definition set_difference :: "pyval list \<Rightarrow> pyval list \<Rightarrow> pyval list" where
  "set_difference xs ys = filter (\<lambda>x. x \<notin> set ys) xs"

definition sadd :: "'db executor \<Rightarrow> pdict \<Rightarrow> int \<Rightarrow> string \<Rightarrow> pyval list \<Rightarrow> 'db \<Rightarrow> int result \<times> 'db" where
  "sadd exec P now key vs d =
     (let (v, d1) = get exec P now key (PSet []) False d in
      case as_pyset v of
        Inl e \<Rightarrow> (Inl e, d1)
      | Inr xs \<Rightarrow>
          let ys = set_update xs vs in
          (Inr (int (length ys)), set_value exec P now key (PTuple vs) None False d1))"

definition asadd :: "'db executor \<Rightarrow> pdict \<Rightarrow> int \<Rightarrow> string \<Rightarrow> pyval list \<Rightarrow> 'db \<Rightarrow> int result \<times> 'db" where
  "asadd exec P now key vs d =
     (let (v, d1) = get exec P now key (PSet []) False d in
      case as_pyset v of
        Inl e \<Rightarrow> (Inl e, d1)
      | Inr xs \<Rightarrow>
          let ys = set_update xs vs in
          (Inr (int (length ys)), set_value exec P now key (PSet ys) None False d1))"

definition srem :: "'db executor \<Rightarrow> pdict \<Rightarrow> int \<Rightarrow> string \<Rightarrow> pyval list \<Rightarrow> 'db \<Rightarrow> int result \<times> 'db" where
  "srem exec P now key vs d =
     (let (v, d1) = get exec P now key (PSet []) False d in
      case as_pyset v of
        Inl e \<Rightarrow> (Inl e, d1)
      | Inr xs \<Rightarrow>
          let ys = set_difference xs vs in
          (Inr (int (length ys)), set_value exec P now key (PSet ys) None False d1))"

definition smembers :: "'db executor \<Rightarrow> pdict \<Rightarrow> int \<Rightarrow> string \<Rightarrow> 'db \<Rightarrow> pyval \<times> 'db" where
  "smembers exec P now key d = get exec P now key (PSet []) False d"

definition spop :: "'db executor \<Rightarrow> pdict \<Rightarrow> int \<Rightarrow> string \<Rightarrow> nat \<Rightarrow> 'db \<Rightarrow> pyval list result \<times> 'db" where
  "spop exec P now key n d =
     (let (v, d1) = get exec P now key (PSet []) False d in
      case v of
        PSet xs \<Rightarrow> (Inr (if length xs < n then [] else take n xs), d1)
      | PList xs \<Rightarrow> (Inr (if length xs < n then [] else take n xs), d1)
      | PTuple xs \<Rightarrow> (Inr (if length xs < n then [] else take n xs), d1)
      | _ \<Rightarrow> (Inl TypeError, d1))"

end
