(* ===== verification/Persistence_Async.thy ===== *)
theory Persistence_Async
  imports Persistence
begin

text \<open>
  The asynchronous operations of \<open>KVDBStatefulBackend\<close>, written out as the source has them,
  and the theorem that they do what their synchronous twins do. The three operations that
  differ from their twins (\<open>aget_keys\<close>, \<open>aget_all_data\<close>, \<open>asadd\<close>) are in \<open>Persistence\<close>.
\<close>

definition ahset_expire :: "'db executor \<Rightarrow> pdict \<Rightarrow> int \<Rightarrow> string \<Rightarrow> int option \<Rightarrow> 'db \<Rightarrow> 'db" where
  "ahset_expire exec P now key ex d =
     (if ex = None then d
      else after exec (HSET (exp_index_key P) [(key, RInt (now + the ex))]) d)"

definition ahset_expire_batch :: "'db executor \<Rightarrow> pdict \<Rightarrow> int \<Rightarrow> string list \<Rightarrow> int option \<Rightarrow> 'db \<Rightarrow> 'db" where
  "ahset_expire_batch exec P now keys ex d =
     (if ex = None then d
      else after exec (HSET (exp_index_key P) (map (\<lambda>k. (k, RInt (now + the ex))) keys)) d)"

fun aexpire_fields :: "'db executor \<Rightarrow> pdict \<Rightarrow> int \<Rightarrow> (string \<times> rval option) list \<Rightarrow> 'db \<Rightarrow> 'db" where
  "aexpire_fields exec P now [] d = d"
| "aexpire_fields exec P now ((k, e) # kes) d =
     (case e of
        Some (RInt t) \<Rightarrow>
          if t < now
          then aexpire_fields exec P now kes
                 (after exec (HDEL (base P) [k]) (after exec (HDEL (exp_index_key P) [k]) d))
          else aexpire_fields exec P now kes d
      | _ \<Rightarrow> aexpire_fields exec P now kes d)"

definition arun_expiration_check :: "'db executor \<Rightarrow> pdict \<Rightarrow> int \<Rightarrow> string list \<Rightarrow> 'db \<Rightarrow> 'db" where
  "arun_expiration_check exec P now keys d =
     (let ks = (if keys \<noteq> [] then keys else names_of (reply_of exec (HKEYS (exp_index_key P)) d)) in
      if ks \<noteq> []
      then aexpire_fields exec P now (zip ks (multi_of (reply_of exec (HMGET (exp_index_key P) ks) d))) d
      else d)"

definition ahset_expiration_check :: "'db executor \<Rightarrow> pdict \<Rightarrow> int \<Rightarrow> string \<Rightarrow> 'db \<Rightarrow> 'db" where
  "ahset_expiration_check exec P now key d =
     (if num_of (reply_of exec (HEXISTS (exp_index_key P) key) d) \<noteq> 0 then
        (case bulk_of (reply_of exec (HGET (exp_index_key P) key) d) of
           None \<Rightarrow> after exec (HDEL (exp_index_key P) [key]) d
         | Some e \<Rightarrow> aexpire_fields exec P now [(key, Some e)] d)
      else d)"

definition adelete :: "'db executor \<Rightarrow> pdict \<Rightarrow> string \<Rightarrow> 'db \<Rightarrow> 'db" where
  "adelete exec P key d =
     (if hset_enabled P then hdel_script exec (base P) (exp_index_key P) key d
      else after exec (DEL [get_key P key]) d)"

definition aget :: "'db executor \<Rightarrow> pdict \<Rightarrow> int \<Rightarrow> string \<Rightarrow> pyval \<Rightarrow> bool \<Rightarrow> 'db \<Rightarrow> pyval \<times> 'db" where
  "aget exec P now key dflt raw d =
     (let (v, d1) = (if hset_enabled P then hget_script exec (base P) (exp_index_key P) key now d
                     else (bulk_of (reply_of exec (GET (get_key P key)) d), d)) in
      if v = None then (dflt, d1)
      else case decode_value P raw v of
             Inr y \<Rightarrow> (y, d1)
           | Inl e \<Rightarrow> (dflt, adelete exec P key d1))"

fun adecode_values ::
    "'db executor \<Rightarrow> pdict \<Rightarrow> bool \<Rightarrow> (string \<times> rval option) list \<Rightarrow> 'db \<Rightarrow> pyval list \<times> 'db" where
  "adecode_values exec P raw [] d = ([], d)"
| "adecode_values exec P raw ((k, v) # kvs) d =
     (case decode_value P raw v of
        Inr y \<Rightarrow> (let (ys, d') = adecode_values exec P raw kvs d in (y # ys, d'))
      | Inl e \<Rightarrow> (let (ys, d') = adecode_values exec P raw kvs (adelete exec P k d) in (PNone # ys, d')))"

definition aget_values :: "'db executor \<Rightarrow> pdict \<Rightarrow> int \<Rightarrow> string list \<Rightarrow> bool \<Rightarrow> 'db \<Rightarrow> pyval list \<times> 'db" where
  "aget_values exec P now keys raw d =
     (if hset_enabled P then
        let d' = arun_expiration_check exec P now keys d in
        adecode_values exec P raw (zip keys (multi_of (reply_of exec (HMGET (base P) keys) d'))) d'
      else adecode_values exec P raw (zip keys (multi_of (reply_of exec (MGET (map (get_key P) keys)) d))) d)"

definition aset_value :: "'db executor \<Rightarrow> pdict \<Rightarrow> int \<Rightarrow> string \<Rightarrow> pyval \<Rightarrow> int option \<Rightarrow> bool \<Rightarrow> 'db \<Rightarrow> 'db" where
  "aset_value exec P now key v ex raw d =
     (let ex = or_expiration P ex; ev = encode_value P raw v in
      if hset_enabled P
      then hset_script exec (base P) (exp_index_key P) key ev (if ex = None then None else Some (now + the ex)) d
      else after exec (set_cmd (get_key P key) ev ex) d)"

fun aexpire_keys :: "'db executor \<Rightarrow> int \<Rightarrow> string list \<Rightarrow> 'db \<Rightarrow> 'db" where
  "aexpire_keys exec e [] d = d"
| "aexpire_keys exec e (k # ks) d = aexpire_keys exec e ks (after exec (EXPIRE k e) d)"

definition aset_batch ::
    "'db executor \<Rightarrow> pdict \<Rightarrow> int \<Rightarrow> pydict \<Rightarrow> int option \<Rightarrow> bool \<Rightarrow> 'db \<Rightarrow> 'db" where
  "aset_batch exec P now data ex raw d =
     (let ex = or_expiration P ex; ed = map (\<lambda>(k, v). (k, encode_value P raw v)) data in
      if hset_enabled P
      then ahset_expire_batch exec P now (map fst ed) ex (after exec (HSET (base P) ed) d)
      else
        let ed = (if opt_truthy (base_key P) then map (\<lambda>(k, v). (get_key P k, v)) ed else ed);
            d1 = after exec (MSET ed) d in
        if ex = None then d1 else aexpire_keys exec (the ex) (map fst ed) d1)"

definition aclear :: "'db executor \<Rightarrow> pdict \<Rightarrow> string list \<Rightarrow> 'db \<Rightarrow> 'db" where
  "aclear exec P keys d =
     (if hset_enabled P then
        (if keys = [] then after exec (DEL [base P]) d
         else after exec (HDEL (exp_index_key P) keys) (after exec (HDEL (base P) keys) d))
      else if keys \<noteq> [] then after exec (DEL (map (get_key P) keys)) d
      else
        let ks = names_of (reply_of exec (KEYS (key_pattern P)) d) in
        if ks = [] then d else after exec (DEL ks) d)"

definition aplength :: "'db executor \<Rightarrow> pdict \<Rightarrow> int \<Rightarrow> 'db \<Rightarrow> int result \<times> 'db" where
  "aplength exec P now d =
     (if hset_enabled P then
        let d1 = arun_expiration_check exec P now [] d in
        (Inr (num_of (reply_of exec (HLEN (base P)) d1)), d1)
      else if \<not> opt_truthy (base_key P) then (Inl NotImplementedError, d)
      else (Inr (int (length (names_of (reply_of exec (KEYS (key_pattern P)) d)))), d))"

definition afetch_set_keys :: "'db executor \<Rightarrow> pdict \<Rightarrow> 'db \<Rightarrow> string list" where
  "afetch_set_keys exec P d = names_of (reply_of exec (KEYS (key_pattern P)) d)"

definition afetch_hset_keys :: "'db executor \<Rightarrow> pdict \<Rightarrow> 'db \<Rightarrow> string list" where
  "afetch_hset_keys exec P d = names_of (reply_of exec (HKEYS (base P)) d)"

definition aget_all_keys ::
    "'db executor \<Rightarrow> pdict \<Rightarrow> int \<Rightarrow> bool \<Rightarrow> 'db \<Rightarrow> string list result \<times> 'db" where
  "aget_all_keys exec P now exclude_base_key d =
     (if \<not> opt_truthy (base_key P) then (Inl NotImplementedError, d)
      else if hset_enabled P then
        let d1 = arun_expiration_check exec P now [] d in (Inr (afetch_hset_keys exec P d1), d1)
      else
        let keys = afetch_set_keys exec P d in
        (Inr (if exclude_base_key then map (strip_base P) keys else keys), d))"

fun adecode_all ::
    "'db executor \<Rightarrow> pdict \<Rightarrow> bool \<Rightarrow> (string \<times> rval option) list \<Rightarrow> 'db \<Rightarrow> pyval list \<times> 'db" where
  "adecode_all exec P raw [] d = ([], d)"
| "adecode_all exec P raw ((k, v) # kvs) d =
     (case decode_value P raw v of
        Inr y \<Rightarrow> (let (ys, d') = adecode_all exec P raw kvs d in (y # ys, d'))
      | Inl e \<Rightarrow> adecode_all exec P raw kvs (adelete exec P k d))"

definition aget_all_values ::
    "'db executor \<Rightarrow> pdict \<Rightarrow> int \<Rightarrow> bool \<Rightarrow> 'db \<Rightarrow> pyval list result \<times> 'db" where
  "aget_all_values exec P now raw d =
     (if \<not> opt_truthy (base_key P) then (Inl NotImplementedError, d)
      else if hset_enabled P then
        let d1 = arun_expiration_check exec P now [] d;
            (ys, d2) = adecode_all exec P raw
              (map (\<lambda>(k, v). (k, Some v)) (pairs_of (reply_of exec (HGETALL (base P)) d1))) d1 in
        (Inr ys, d2)
      else
        let ks = afetch_set_keys exec P d;
            (ys, d2) = adecode_all exec P raw (zip ks (multi_of (reply_of exec (MGET ks) d))) d in
        (Inr ys, d2))"

definition acontains :: "'db executor \<Rightarrow> pdict \<Rightarrow> int \<Rightarrow> string \<Rightarrow> 'db \<Rightarrow> bool \<times> 'db" where
  "acontains exec P now key d =
     (if hset_enabled P then
        let d1 = ahset_expiration_check exec P now key d in
        (num_of (reply_of exec (HEXISTS (base P) key) d1) \<noteq> 0, d1)
      else (num_of (reply_of exec (EXISTS (get_key P key)) d) \<noteq> 0, d))"

definition apexpire :: "'db executor \<Rightarrow> pdict \<Rightarrow> int \<Rightarrow> string \<Rightarrow> int \<Rightarrow> 'db \<Rightarrow> 'db" where
  "apexpire exec P now key ex d =
     (if hset_enabled P then ahset_expire exec P now key (Some ex) d
      else after exec (EXPIRE (get_key P key) ex) d)"

definition aincrby :: "'db executor \<Rightarrow> pdict \<Rightarrow> string \<Rightarrow> int \<Rightarrow> 'db \<Rightarrow> int \<times> 'db" where
  "aincrby exec P key amount d =
     (let c = HINCRBY (base P) key amount in (num_of (reply_of exec c d), after exec c d))"

definition adecrby :: "'db executor \<Rightarrow> pdict \<Rightarrow> string \<Rightarrow> int \<Rightarrow> 'db \<Rightarrow> int \<times> 'db" where
  "adecrby exec P key amount d =
     (let c = HINCRBY (base P) key (amount * -1) in (num_of (reply_of exec c d), after exec c d))"

section \<open>The twins agree\<close>

named_theorems twins "an asynchronous operation equals its synchronous twin"

lemma hset_expire_twins [twins]: "ahset_expire = hset_expire" "ahset_expire_batch = hset_expire_batch"
  by (auto simp: fun_eq_iff ahset_expire_def hset_expire_def ahset_expire_batch_def hset_expire_batch_def
      split: option.splits)

lemma aexpire_fields_fold: "aexpire_fields exec P now kes d = fold (expire_field exec P now) kes d"
  by (induction kes arbitrary: d)
     (auto simp: expire_field_def expired_def split: option.splits rval.splits)

lemma run_expiration_twins [twins]: "arun_expiration_check = run_expiration_check"
  by (simp add: fun_eq_iff arun_expiration_check_def run_expiration_check_def aexpire_fields_fold Let_def)

lemma hset_expiration_twins [twins]: "ahset_expiration_check = hset_expiration_check"
  by (simp add: fun_eq_iff ahset_expiration_check_def hset_expiration_check_def aexpire_fields_fold
      cong: option.case_cong)

lemma delete_twins [twins]: "adelete = delete"
  by (simp add: fun_eq_iff adelete_def delete_def)

lemma get_twins [twins]: "aget = get"
  by (auto simp: fun_eq_iff aget_def get_def delete_twins split: option.splits prod.splits sum.splits)

lemma adecode_values_twins [twins]: "adecode_values exec P raw kvs d = decode_values exec P raw kvs d"
  by (induction exec P raw kvs d rule: adecode_values.induct)
     (auto simp: delete_twins split: sum.splits prod.splits)

lemma get_values_twins [twins]: "aget_values = get_values"
  by (simp add: fun_eq_iff aget_values_def get_values_def twins Let_def)

lemma set_twins [twins]: "aset_value = set_value"
  by (auto simp: fun_eq_iff aset_value_def set_value_def Let_def split: option.splits)

lemma aexpire_keys_fold:
  "aexpire_keys exec e (map fst kvs) d = fold (\<lambda>(k, v). after exec (EXPIRE k e)) kvs d"
  by (induction kvs arbitrary: d) auto

lemma set_batch_twins [twins]: "aset_batch = set_batch"
  by (auto simp: fun_eq_iff aset_batch_def set_batch_def twins aexpire_keys_fold Let_def
      simp del: map_map split: option.splits)

lemma clear_twins [twins]: "aclear = clear"
  by (simp add: fun_eq_iff aclear_def clear_def Let_def)

lemma length_twins [twins]: "aplength = plength"
  by (simp add: fun_eq_iff aplength_def plength_def twins)

lemma all_keys_twins [twins]: "aget_all_keys = get_all_keys"
  by (simp add: fun_eq_iff aget_all_keys_def get_all_keys_def twins afetch_hset_keys_def
      afetch_set_keys_def fetch_hset_keys_def fetch_set_keys_def)

lemma adecode_all_twins [twins]:
  "adecode_all exec P raw kvs d =
   (map snd (fst (decode_all exec P raw kvs d)), snd (decode_all exec P raw kvs d))"
  by (induction exec P raw kvs d rule: adecode_all.induct)
     (auto simp: delete_twins split: sum.splits prod.splits)

lemma all_values_twins [twins]: "aget_all_values = get_all_values"
  by (simp add: fun_eq_iff aget_all_values_def get_all_values_def twins afetch_set_keys_def
      fetch_set_keys_def Let_def case_prod_unfold)

lemma contains_twins [twins]: "acontains = contains"
  by (simp add: fun_eq_iff acontains_def contains_def twins)

lemma expire_twins [twins]: "apexpire = pexpire"
  by (simp add: fun_eq_iff apexpire_def pexpire_def twins)

lemma incr_twins [twins]: "aincrby = incrby" "adecrby = decrby"
  by (simp_all add: fun_eq_iff aincrby_def incrby_def adecrby_def decrby_def Let_def)

text \<open>The asynchronous interface of the persistent dictionary is equivalent to the
  synchronous one: on every server, configuration and state, reading, writing, deleting,
  clearing, counting, listing, testing, expiring and incrementing return the same result and
  leave the same database.\<close>

theorem async_twins_agree:
  "(aget = get \<and> aget_values = get_values \<and> aset_value = set_value \<and> aset_batch = set_batch) \<and>
   (adelete = delete \<and> aclear = clear \<and> aplength = plength \<and> aget_all_keys = get_all_keys) \<and>
   (aget_all_values = get_all_values \<and> acontains = contains \<and> apexpire = pexpire) \<and>
   (arun_expiration_check = run_expiration_check \<and> ahset_expiration_check = hset_expiration_check) \<and>
   (aincrby = incrby \<and> adecrby = decrby)"
  by (simp add: twins)

end
