(* ===== verification/Persistence_Laws.thy ===== *)
theory Persistence_Laws
  imports Persistence_Async
begin

text \<open>
  What the persistent dictionary promises, on any server that obeys the laws of hashes. In hash
  mode the state is a pair of maps, the values and the expiration index; \<open>live\<close> is the
  dictionary a reader sees at a given second.
\<close>

definition holds :: "('db \<Rightarrow> string \<Rightarrow> robj option) \<Rightarrow> pdict \<Rightarrow> 'db
    \<Rightarrow> (string \<Rightarrow> rval option) \<Rightarrow> (string \<Rightarrow> rval option) \<Rightarrow> bool" where
  "holds view P d h x \<longleftrightarrow>
     as_hash (view d (base P)) = Some h \<and> as_hash (view d (exp_index_key P)) = Some x"

definition live :: "int \<Rightarrow> (string \<Rightarrow> rval option) \<Rightarrow> (string \<Rightarrow> rval option) \<Rightarrow> string \<Rightarrow> rval option" where
  "live now h x f = (if expired (x f) now then None else h f)"

definition read_as :: "pdict \<Rightarrow> bool \<Rightarrow> pyval \<Rightarrow> rval option \<Rightarrow> pyval" where
  "read_as P raw dflt v =
     (case v of None \<Rightarrow> dflt
      | Some r \<Rightarrow> (case decode_value P raw (Some r) of Inr y \<Rightarrow> y | Inl e \<Rightarrow> dflt))"

lemma exp_index_not_base [simp]: "exp_index_key P \<noteq> base P" "base P \<noteq> exp_index_key P"
proof -
  have "length (exp_index_key P) \<noteq> length (base P)" by (simp add: exp_index_key_def)
  then show "exp_index_key P \<noteq> base P" "base P \<noteq> exp_index_key P" by metis+
qed

context redis_hashes
begin

lemma bulk_hget: "as_hash (view d k) = Some h \<Longrightarrow> bulk_of (reply_of exec (HGET k f) d) = h f"
  by (simp add: bulk_of_def hget_reply split: option.splits)

lemma holds_hset_base: "holds view P d h x \<Longrightarrow> holds view P (after exec (HSET (base P) ps) d) (hset_all ps h) x"
  by (simp add: holds_def hset_effect write_frame)

lemma holds_hset_index:
  "holds view P d h x \<Longrightarrow> holds view P (after exec (HSET (exp_index_key P) ps) d) h (hset_all ps x)"
  by (simp add: holds_def hset_effect write_frame)

lemma holds_hdel_base: "holds view P d h x \<Longrightarrow> holds view P (after exec (HDEL (base P) fs) d) (hdel_all fs h) x"
  by (simp add: holds_def hdel_effect write_frame)

lemma holds_hdel_index:
  "holds view P d h x \<Longrightarrow> holds view P (after exec (HDEL (exp_index_key P) fs) d) h (hdel_all fs x)"
  by (simp add: holds_def hdel_effect write_frame)

lemmas holds_cmds = holds_hset_base holds_hset_index holds_hdel_base holds_hdel_index

lemma hget_script_spec:
  assumes "holds view P d h x"
  shows "fst (hget_script exec (base P) (exp_index_key P) f now d) = live now h x f"
    and "holds view P (snd (hget_script exec (base P) (exp_index_key P) f now d))
       (if expired (x f) now \<and> h f \<noteq> None then h(f := None) else h)
       (if expired (x f) now \<and> h f \<noteq> None then x(f := None) else x)"
proof -
  have b: "bulk_of (reply_of exec (HGET (base P) f) d) = h f"
    "bulk_of (reply_of exec (HGET (exp_index_key P) f) d) = x f"
    using assms by (simp_all add: holds_def bulk_hget)
  have one: "hdel_all [f] m = m(f := None)" for m :: "string \<Rightarrow> rval option" by auto
  show "fst (hget_script exec (base P) (exp_index_key P) f now d) = live now h x f"
    by (simp add: hget_script_def b live_def split: option.splits)
  show "holds view P (snd (hget_script exec (base P) (exp_index_key P) f now d))
       (if expired (x f) now \<and> h f \<noteq> None then h(f := None) else h)
       (if expired (x f) now \<and> h f \<noteq> None then x(f := None) else x)"
    using holds_hdel_index[OF holds_hdel_base[OF assms, of "[f]"], of "[f]"] assms
    by (simp add: hget_script_def b one del: hdel_all.simps split: option.splits)
qed

lemma get_spec:
  assumes "hset_enabled P" "holds view P d h x"
  shows "fst (get exec P now k dflt raw d) = read_as P raw dflt (live now h x k)"
  using hget_script_spec(1)[OF assms(2), of k now] assms(1)
  by (auto simp: get_def read_as_def case_prod_unfold Let_def split: option.splits sum.splits)

lemma set_spec:
  assumes "hset_enabled P" "holds view P d h x"
  shows "holds view P (set_value exec P now k v ex raw d) (h(k \<mapsto> encode_value P raw v))
    (case or_expiration P ex of Some e \<Rightarrow> x(k \<mapsto> RInt (now + e)) | None \<Rightarrow> x)"
proof -
  have h: "holds view P (after exec (HSET (base P) [(k, encode_value P raw v)]) d) (h(k \<mapsto> encode_value P raw v)) x"
    using holds_hset_base[OF assms(2), of "[(k, encode_value P raw v)]"] by simp
  show ?thesis
  proof (cases "or_expiration P ex")
    case None
    then show ?thesis using assms(1) h by (simp add: set_value_def hset_script_def Let_def)
  next
    case (Some e)
    then show ?thesis
      using assms(1) holds_hset_index[OF h, of "[(k, RInt (now + e))]"]
      by (simp add: set_value_def hset_script_def Let_def)
  qed
qed

lemma delete_spec:
  assumes "hset_enabled P" "holds view P d h x"
  shows "holds view P (delete exec P k d) (h(k := None)) (x(k := None))"
proof -
  have one: "hdel_all [k] m = m(k := None)" for m :: "string \<Rightarrow> rval option" by auto
  show ?thesis
    using holds_hdel_index[OF holds_hdel_base[OF assms(2), of "[k]"], of "[k]"] assms(1)
    by (simp add: delete_def hdel_script_def one del: hdel_all.simps)
qed

lemma clear_spec:
  assumes "hset_enabled P" "holds view P d h x"
  shows "holds view P (clear exec P [] d) Map.empty x"
  using assms by (simp add: clear_def holds_def write_frame del_effect)

lemma get_set:
  assumes "hset_enabled P" "holds view P d h x"
    and "decode_value P raw (Some (encode_value P raw v)) = Inr v"
  shows "fst (get exec P now' k dflt raw (set_value exec P now k v ex raw d)) =
      (case or_expiration P ex of
         Some e \<Rightarrow> if now + e < now' then dflt else v
       | None \<Rightarrow> if expired (x k) now' then dflt else v) \<and>
    (k' \<noteq> k \<longrightarrow> fst (get exec P now' k' dflt raw (set_value exec P now k v ex raw d)) =
       fst (get exec P now' k' dflt raw d))"
  using assms get_spec[OF assms(1,2)] get_spec[OF assms(1) set_spec[OF assms(1,2)]]
  by (auto simp: live_def read_as_def expired_def split: option.splits)

section \<open>The expiration check\<close>

lemma expire_field_spec:
  assumes "holds view P d h x"
  shows "holds view P (expire_field exec P now (k, e) d)
    (if expired e now then h(k := None) else h) (if expired e now then x(k := None) else x)"
proof -
  have one: "hdel_all [k] m = m(k := None)" for m :: "string \<Rightarrow> rval option" by auto
  show ?thesis
    using holds_hdel_base[OF holds_hdel_index[OF assms, of "[k]"], of "[k]"] assms
    by (simp add: expire_field_def one del: hdel_all.simps)
qed

lemma expire_fields_spec:
  assumes "holds view P d h x"
  shows "holds view P (fold (expire_field exec P now) (zip ks (map y ks)) d)
    (\<lambda>f. if f \<in> set ks \<and> expired (y f) now then None else h f)
    (\<lambda>f. if f \<in> set ks \<and> expired (y f) now then None else x f)"
  using assms
proof (induction ks arbitrary: d h x)
  case (Cons k ks)
  have *: "holds view P (expire_field exec P now (k, y k) d)
    (if expired (y k) now then h(k := None) else h) (if expired (y k) now then x(k := None) else x)"
    by (rule expire_field_spec[OF Cons.prems])
  have eq: "(\<lambda>f. if f \<in> set ks \<and> expired (y f) now then None
                else (if expired (y k) now then m(k := None) else m) f) =
            (\<lambda>f. if f \<in> set (k # ks) \<and> expired (y f) now then None else m f)"
    for m :: "string \<Rightarrow> rval option" by auto
  show ?case using Cons.IH[OF *] by (simp only: eq) simp
qed simp

lemma run_expiration_spec:
  assumes "holds view P d h x"
  shows "holds view P (run_expiration_check exec P now [] d) (live now h x)
    (\<lambda>f. if expired (x f) now then None else x f)"
proof -
  have x: "as_hash (view d (exp_index_key P)) = Some x" using assms by (simp add: holds_def)
  obtain ks where ks: "reply_of exec (HKEYS (exp_index_key P)) d = Strs ks" "set ks = dom x"
    using hkeys_reply[OF x] by blast
  have m: "multi_of (reply_of exec (HMGET (exp_index_key P) ks) d) = map x ks"
    by (simp add: multi_of_def hmget_reply[OF x])
  have out: "\<not> expired (x f) now" if "f \<notin> set ks" for f
    using that ks(2) by (auto simp: expired_def split: option.splits)
  have "(\<lambda>f. if f \<in> set ks \<and> expired (x f) now then None else h f) = live now h x"
    "(\<lambda>f. if f \<in> set ks \<and> expired (x f) now then None else x f) =
     (\<lambda>f. if expired (x f) now then None else x f)"
    using out by (auto simp: live_def fun_eq_iff)
  then have "holds view P (fold (expire_field exec P now) (zip ks (map x ks)) d) (live now h x)
      (\<lambda>f. if expired (x f) now then None else x f)"
    using expire_fields_spec[OF assms, of now ks x] by simp
  then show ?thesis
    using ks(1) m assms out
    by (cases "ks = []") (auto simp: run_expiration_check_def names_of_def Let_def)
qed

lemma iterate_spec:
  assumes "hset_enabled P" "holds view P d h x"
  shows "\<exists>ks. fst (iterate exec P now d) = Inr ks \<and> distinct ks \<and> set ks = dom (live now h x) \<and>
    fst (plength exec P now d) = Inr (int (length ks))"
proof -
  have l: "as_hash (view (run_expiration_check exec P now [] d) (base P)) = Some (live now h x)"
    using run_expiration_spec[OF assms(2), of now] by (simp add: holds_def)
  obtain ks where ks: "reply_of exec (HKEYS (base P)) (run_expiration_check exec P now [] d) = Strs ks"
    "distinct ks" "set ks = dom (live now h x)"
    using hkeys_reply[OF l] by blast
  have "card (dom (live now h x)) = length ks"
    using ks(2,3) by (metis distinct_card)
  then show ?thesis
    using ks assms(1) hlen_reply[OF l]
    by (auto simp: iterate_def plength_def names_of_def num_of_def Let_def)
qed

section \<open>Plain mode\<close>

lemma plain_get_set:
  assumes "\<not> hset_enabled P" and "decode_value P raw (Some (encode_value P raw v)) = Inr v"
    and "\<And>e. or_expiration P ex = Some e \<Longrightarrow> 0 < e"
  shows "fst (get exec P now' k dflt raw (set_value exec P now k v ex raw d)) = v"
proof -
  let ?d = "set_value exec P now k v ex raw d" and ?k = "get_key P k"
  have "as_str (view ?d ?k) = Some (Some (encode_value P raw v))"
    using assms(1,3) by (auto simp: set_value_def set_cmd_def Let_def set_effect setex_effect split: option.splits)
  then have "reply_of exec (GET ?k) ?d = Bulk (encode_value P raw v)"
    using get_reply by fastforce
  then show ?thesis using assms(1,2) by (simp add: get_def bulk_of_def)
qed

end

section \<open>Properties\<close>

definition ex_pdict :: pdict where
  "ex_pdict = \<lparr>base_key = Some ''app'', keyjoin = '':'', expiration = None, hset_disabled = False,
     session_serialization_enabled = False, serializer = None,
     to_wire = (\<lambda>v. case v of PInt i \<Rightarrow> RInt i | PTuple xs \<Rightarrow> RStr ''t'' | PSet xs \<Rightarrow> RStr ''s'' | _ \<Rightarrow> RStr ''''),
     from_wire = (\<lambda>r. case r of Some (RInt i) \<Rightarrow> PInt i
        | Some (RStr s) \<Rightarrow> if s = ''t'' then PTuple [PStr ''b''] else PSet [PStr ''a'', PStr ''b''] | None \<Rightarrow> PNone)\<rparr>"

lemma ex_pdict_hset [simp]: "hset_enabled ex_pdict"
  by (simp add: hset_enabled_def ex_pdict_def)

lemma ex_pdict_int: "decode_value ex_pdict False (Some (encode_value ex_pdict False (PInt i))) = Inr (PInt i)"
  by (simp add: encode_value_def decode_value_def ex_pdict_def)

lemma ex_pdict_holds: "holds mview ex_pdict [] Map.empty Map.empty"
  by (simp add: holds_def mview_def)

lemma ex_pdict_no_expiration [simp]: "or_expiration ex_pdict None = None" "or_expiration ex_pdict (Some 5) = Some 5"
  by (simp_all add: or_expiration_def ex_pdict_def)

text \<open>C24. Reading returns what was written until it expires. After \<open>set\<close> with an expiry, \<open>get\<close>
  gives the value up to and including the second at which it expires and the default afterwards;
  other keys read as before. Without an expiry the value is subject to whatever
  entry an earlier \<open>set\<close> or \<open>expire\<close> left for the key in the expiration index: a new value
  written without expiry still vanishes when the old one would have.\<close>

theorem pdict_get_set:
  "redis_hashes exec view \<Longrightarrow> hset_enabled P \<Longrightarrow> holds view P d h x \<Longrightarrow>
   decode_value P raw (Some (encode_value P raw v)) = Inr v \<Longrightarrow>
   (let d1 = set_value exec P now k v ex raw d in
    fst (get exec P now' k dflt raw d1) =
      (case or_expiration P ex of
         Some e \<Rightarrow> if now + e < now' then dflt else v
       | None \<Rightarrow> (case x k of Some (RInt t) \<Rightarrow> if t < now' then dflt else v | _ \<Rightarrow> v)) \<and>
    (\<forall>k'. k' \<noteq> k \<longrightarrow> fst (get exec P now' k' dflt raw d1) = fst (get exec P now' k' dflt raw d)))"
  using redis_hashes.get_set[of exec view P d h x raw v now' k dflt now ex]
  by (auto simp: Let_def expired_def split: option.splits rval.splits)

lemma pdict_get_set_witness:
  "fst (get mem_exec ex_pdict 10 ''k'' PNone False (set_value mem_exec ex_pdict 1 ''k'' (PInt 7) (Some 5) False [])) = PNone \<and>
   fst (get mem_exec ex_pdict 6 ''k'' PNone False (set_value mem_exec ex_pdict 1 ''k'' (PInt 7) (Some 5) False [])) = PInt 7"
  using pdict_get_set[OF mem.redis_hashes_axioms ex_pdict_hset ex_pdict_holds ex_pdict_int[of 7],
      where now = 1 and now' = 10 and ex = "Some 5" and k = "''k''" and dflt = PNone]
    pdict_get_set[OF mem.redis_hashes_axioms ex_pdict_hset ex_pdict_holds ex_pdict_int[of 7],
      where now = 1 and now' = 6 and ex = "Some 5" and k = "''k''" and dflt = PNone]
  by (simp add: Let_def)

text \<open>Clearing does not forget expiry times. \<open>clear()\<close> without keys deletes the values but not
  the expiration index, so a key that had expired before, written again without expiry
  after the clear, reads as absent at once.\<close>

theorem clear_keeps_expirations:
  "redis_hashes exec view \<Longrightarrow> hset_enabled P \<Longrightarrow> holds view P d h x \<Longrightarrow>
   decode_value P raw (Some (encode_value P raw v)) = Inr v \<Longrightarrow>
   x k = Some (RInt t) \<Longrightarrow> t < now \<Longrightarrow> or_expiration P None = None \<Longrightarrow>
   (let d1 = clear exec P [] d in
    fst (get exec P now k' dflt raw d1) = dflt \<and>
    fst (get exec P now k dflt raw (set_value exec P now k v None raw d1)) = dflt)"
proof -
  assume srv: "redis_hashes exec view" and m: "hset_enabled P" and h: "holds view P d h x"
    and rt: "decode_value P raw (Some (encode_value P raw v)) = Inr v"
    and x: "x k = Some (RInt t)" "t < now" and ne: "or_expiration P None = None"
  have h1: "holds view P (clear exec P [] d) Map.empty x"
    by (rule redis_hashes.clear_spec[OF srv m h])
  show ?thesis
    using redis_hashes.get_set[OF srv m h1 rt, of now k dflt now None] x ne
      redis_hashes.get_spec[OF srv m h1, of now k' dflt raw]
    by (simp add: Let_def expired_def live_def read_as_def)
qed

lemma clear_keeps_expirations_witness:
  "fst (get mem_exec ex_pdict 9 ''k'' PNone False
     (set_value mem_exec ex_pdict 9 ''k'' (PInt 7) None False
       (clear mem_exec ex_pdict [] (set_value mem_exec ex_pdict 1 ''k'' (PInt 1) (Some 5) False [])))) = PNone"
proof -
  have h: "holds mview ex_pdict (set_value mem_exec ex_pdict 1 ''k'' (PInt 1) (Some 5) False [])
      [''k'' \<mapsto> RInt 1] [''k'' \<mapsto> RInt 6]"
    using mem.set_spec[OF ex_pdict_hset ex_pdict_holds, of 1 "''k''" "PInt 1" "Some 5" False]
    by (simp add: encode_value_def) (simp add: ex_pdict_def)
  show ?thesis
    using clear_keeps_expirations[OF mem.redis_hashes_axioms ex_pdict_hset h ex_pdict_int[of 7],
        where k = "''k''" and t = 6 and now = 9 and dflt = PNone]
    by (simp add: Let_def)
qed

text \<open>C25. Listing and counting see exactly the live entries: after the expiration check that every
  listing runs first, the keys returned are those with a value that has not expired, each once,
  the length is their number, and the expired entries are gone from both hashes.\<close>

theorem listing_shows_live:
  "redis_hashes exec view \<Longrightarrow> hset_enabled P \<Longrightarrow> holds view P d h x \<Longrightarrow>
   (\<exists>ks. fst (iterate exec P now d) = Inr ks \<and> distinct ks \<and>
      set ks = {f. h f \<noteq> None \<and> \<not> expired (x f) now} \<and>
      fst (plength exec P now d) = Inr (int (length ks))) \<and>
   holds view P (run_expiration_check exec P now [] d)
     (\<lambda>f. if expired (x f) now then None else h f) (\<lambda>f. if expired (x f) now then None else x f)"
proof -
  assume srv: "redis_hashes exec view" and m: "hset_enabled P" and h: "holds view P d h x"
  have dom: "dom (live now h x) = {f. h f \<noteq> None \<and> \<not> expired (x f) now}"
    by (auto simp: live_def dom_def split: if_splits)
  have fn: "(\<lambda>f. if expired (x f) now then None else h f) = live now h x"
    by (simp add: live_def fun_eq_iff)
  show ?thesis
    using redis_hashes.iterate_spec[OF srv m h, of now] redis_hashes.run_expiration_spec[OF srv h, of now]
    by (simp add: dom fn)
qed

lemma listing_shows_live_witness:
  "\<exists>ks. fst (iterate mem_exec ex_pdict 3 []) = Inr ks \<and> set ks = {}"
  using listing_shows_live[OF mem.redis_hashes_axioms ex_pdict_hset ex_pdict_holds, of 3] by auto

text \<open>Deleting removes the value together with its expiry: the key reads as the default, every
  other key as before, and a value written later without expiry stays.\<close>

theorem pdict_delete:
  "redis_hashes exec view \<Longrightarrow> hset_enabled P \<Longrightarrow> holds view P d h x \<Longrightarrow>
   decode_value P raw (Some (encode_value P raw v)) = Inr v \<Longrightarrow> or_expiration P None = None \<Longrightarrow>
   (let d1 = delete exec P k d in
    fst (get exec P now k dflt raw d1) = dflt \<and>
    (\<forall>k'. k' \<noteq> k \<longrightarrow> fst (get exec P now k' dflt raw d1) = fst (get exec P now k' dflt raw d)) \<and>
    fst (get exec P now k dflt raw (set_value exec P now k v None raw d1)) = v)"
proof -
  assume srv: "redis_hashes exec view" and m: "hset_enabled P" and h: "holds view P d h x"
    and rt: "decode_value P raw (Some (encode_value P raw v)) = Inr v" and ne: "or_expiration P None = None"
  have h1: "holds view P (delete exec P k d) (h(k := None)) (x(k := None))"
    by (rule redis_hashes.delete_spec[OF srv m h])
  show ?thesis
    using redis_hashes.get_set[OF srv m h1 rt, of now k dflt now None] ne
      redis_hashes.get_spec[OF srv m h1, of now _ dflt raw] redis_hashes.get_spec[OF srv m h, of now _ dflt raw]
    by (simp add: Let_def expired_def live_def read_as_def)
qed

lemma pdict_delete_witness:
  "fst (get mem_exec ex_pdict 9 ''k'' PNone False (delete mem_exec ex_pdict ''k'' [])) = PNone"
  using pdict_delete[OF mem.redis_hashes_axioms ex_pdict_hset ex_pdict_holds ex_pdict_int[of 7],
      where k = "''k''" and now = 9 and dflt = PNone]
  by (simp add: Let_def)

text \<open>The synchronous \<open>sadd\<close> destroys the set it adds to. It returns the size of the union but
  stores only the new values, as a tuple: the old members are lost and the next \<open>sadd\<close>
  raises AttributeError. The asynchronous \<open>asadd\<close> stores the union.\<close>

theorem sadd_loses_members:
  "redis_hashes exec view \<Longrightarrow> hset_enabled P \<Longrightarrow> holds view P d h x \<Longrightarrow> x k = None \<Longrightarrow>
   or_expiration P None = None \<Longrightarrow> h k \<noteq> None \<Longrightarrow> fst (get exec P now k (PSet []) False d) = PSet xs \<Longrightarrow>
   decode_value P False (Some (encode_value P False (PTuple vs))) = Inr (PTuple vs) \<Longrightarrow>
   decode_value P False (Some (encode_value P False (PSet (set_update xs vs)))) = Inr (PSet (set_update xs vs)) \<Longrightarrow>
   holds view P (snd (get exec P now k (PSet []) False d)) h x \<Longrightarrow>
   (let (n, d1) = sadd exec P now k vs d; (m, d2) = asadd exec P now k vs d in
    n = Inr (int (length (set_update xs vs))) \<and> m = n \<and>
    fst (smembers exec P now k d1) = PTuple vs \<and>
    fst (sadd exec P now k ws d1) = Inl AttributeError \<and>
    fst (smembers exec P now k d2) = PSet (set_update xs vs))"
proof -
  assume srv: "redis_hashes exec view" and m: "hset_enabled P" and x: "x k = None"
    and ne: "or_expiration P None = None" and g: "fst (get exec P now k (PSet []) False d) = PSet xs"
    and rt: "decode_value P False (Some (encode_value P False (PTuple vs))) = Inr (PTuple vs)"
      "decode_value P False (Some (encode_value P False (PSet (set_update xs vs)))) = Inr (PSet (set_update xs vs))"
    and h: "holds view P (snd (get exec P now k (PSet []) False d)) h x"
  let ?d = "snd (get exec P now k (PSet []) False d)"
  have a: "fst (get exec P now k (PSet []) False (set_value exec P now k (PTuple vs) None False ?d)) = PTuple vs"
    using redis_hashes.get_set[OF srv m h rt(1), of now k "PSet []" now None] x ne by (simp add: expired_def)
  have b: "fst (get exec P now k (PSet []) False (set_value exec P now k (PSet (set_update xs vs)) None False ?d)) =
      PSet (set_update xs vs)"
    using redis_hashes.get_set[OF srv m h rt(2), of now k "PSet []" now None] x ne by (simp add: expired_def)
  show ?thesis
    by (simp add: sadd_def asadd_def smembers_def case_prod_unfold Let_def g a b)
qed

definition ex_set_db :: mdb where
  "ex_set_db = set_value mem_exec ex_pdict 1 ''s'' (PSet [PStr ''a'', PStr ''b'']) None False []"

lemma sadd_loses_members_witness:
  "fst (smembers mem_exec ex_pdict 2 ''s'' (snd (sadd mem_exec ex_pdict 2 ''s'' [PStr ''b''] ex_set_db))) =
     PTuple [PStr ''b'']"
proof -
  have h: "holds mview ex_pdict ex_set_db [''s'' \<mapsto> RStr ''s''] Map.empty"
    using mem.set_spec[OF ex_pdict_hset ex_pdict_holds, of 1 "''s''" "PSet [PStr ''a'', PStr ''b'']" None False]
    by (simp add: encode_value_def ex_set_db_def) (simp add: ex_pdict_def)
  have g: "get mem_exec ex_pdict 2 ''s'' (PSet []) False ex_set_db = (PSet [PStr ''a'', PStr ''b''], ex_set_db)"
    by code_simp
  have rt: "decode_value ex_pdict False (Some (encode_value ex_pdict False (PTuple [PStr ''b'']))) = Inr (PTuple [PStr ''b''])"
    "decode_value ex_pdict False (Some (encode_value ex_pdict False (PSet (set_update [PStr ''a'', PStr ''b''] [PStr ''b''])))) =
      Inr (PSet (set_update [PStr ''a'', PStr ''b''] [PStr ''b'']))"
    by (simp_all add: encode_value_def decode_value_def ex_pdict_def set_update_def)
  show ?thesis
    using sadd_loses_members[OF mem.redis_hashes_axioms ex_pdict_hset h _ ex_pdict_no_expiration(1) _ _ rt,
        where k = "''s''" and now = 2] g h
    by (simp add: Let_def case_prod_unfold)
qed

text \<open>Keys of a plain dictionary. Keys that do not contain the base key are mapped injectively
  below the base key, and mapping twice is mapping once; a key that contains the base key
  anywhere is taken for a full key, so it is stored outside the dictionary's name space.\<close>

theorem get_key_namespace:
  "base_key P = Some b \<Longrightarrow> b \<noteq> [] \<Longrightarrow>
   (\<not> str_in b k \<longrightarrow> get_key P k = b @ keyjoin P @ k \<and>
      (\<not> str_in b k' \<longrightarrow> (get_key P k = get_key P k') = (k = k'))) \<and>
   (str_in b k \<longrightarrow> get_key P k = k) \<and>
   get_key P (get_key P k) = get_key P k"
  by (auto simp: get_key_def base_def)

lemma get_key_namespace_witness:
  "get_key ex_pdict ''k'' = ''app:k'' \<and> get_key ex_pdict ''myapp:k'' = ''myapp:k''"
proof -
  have b: "base_key ex_pdict = Some ''app''" "keyjoin ex_pdict = '':''" by (simp_all add: ex_pdict_def)
  show ?thesis
    using get_key_namespace[OF b(1), of "''k''"] get_key_namespace[OF b(1), of "''myapp:k''"] b(2) by simp
qed

text \<open>Popping from a set in hash mode returns members but removes none: the same members are
  returned by every following call.\<close>

theorem spop_removes_nothing:
  "redis_hashes exec view \<Longrightarrow> hset_enabled P \<Longrightarrow> holds view P d h x \<Longrightarrow>
   fst (get exec P now k (PSet []) False d) = PSet xs \<Longrightarrow> snd (get exec P now k (PSet []) False d) = d \<Longrightarrow>
   n \<le> length xs \<Longrightarrow>
   fst (spop exec P now k n d) = Inr (take n xs) \<and>
   fst (spop exec P now k n (snd (spop exec P now k n d))) = Inr (take n xs) \<and>
   fst (smembers exec P now k (snd (spop exec P now k n d))) = PSet xs"
  by (simp add: spop_def smembers_def case_prod_unfold Let_def)

lemma spop_removes_nothing_witness:
  "fst (spop mem_exec ex_pdict 2 ''s'' 1 ex_set_db) = Inr [PStr ''a'']"
proof -
  have h: "holds mview ex_pdict ex_set_db [''s'' \<mapsto> RStr ''s''] Map.empty"
    using mem.set_spec[OF ex_pdict_hset ex_pdict_holds, of 1 "''s''" "PSet [PStr ''a'', PStr ''b'']" None False]
    by (simp add: encode_value_def ex_set_db_def) (simp add: ex_pdict_def)
  have g: "get mem_exec ex_pdict 2 ''s'' (PSet []) False ex_set_db = (PSet [PStr ''a'', PStr ''b''], ex_set_db)"
    by code_simp
  show ?thesis
    using spop_removes_nothing[OF mem.redis_hashes_axioms ex_pdict_hset h, where k = "''s''" and now = 2 and n = 1] g
    by simp
qed

end
