(* ===== verification/Connection_Pool.thy ===== *)
theory Connection_Pool
  imports Prelude
begin

text \<open>
  \<^verbatim>\<open>kvdb/components/connection_pool.py\<close> and
  \<^verbatim>\<open>kvdb/components/connection_pool_optimized.py\<close>: the pools of connections. A connection is
  a number; what happens on its socket is an argument. The base classes of the client library
  provide \<open>reset\<close> and \<open>release\<close>: they are parameters, with their documented effect as the
  assumptions of the locale \<open>base_pool\<close>, interpreted on their concrete effect.
\<close>

section \<open>State\<close>

record pool =
  max_connections :: int
  created :: int
  available :: "nat list"
  in_use :: "nat set"
  disconnected :: "nat set"
  next_conn :: nat
  auto_reset :: bool

definition pool_init :: "int option \<Rightarrow> bool \<Rightarrow> pool result" where
  "pool_init mc ar =
     (let m = (case mc of Some x \<Rightarrow> if x \<noteq> 0 then x else 2 ^ 31 | None \<Rightarrow> 2 ^ 31) in
      if m < 0 then Inl ValueError
      else Inr \<lparr>max_connections = m, created = 0, available = [], in_use = {}, disconnected = {},
                next_conn = 0, auto_reset = ar\<rparr>)"

definition make_connection :: "pool \<Rightarrow> (nat \<times> pool) result" where
  "make_connection p =
     (if created p \<ge> max_connections p then Inl ConnectionError
      else Inr (next_conn p, p\<lparr>created := created p + 1, next_conn := next_conn p + 1\<rparr>))"

definition pool_disconnect :: "bool \<Rightarrow> pool \<Rightarrow> pool" where
  "pool_disconnect inuse_connections p =
     p\<lparr>disconnected := disconnected p \<union> set (available p) \<union> (if inuse_connections then in_use p else {})\<rparr>"

definition reset_pool :: "(pool \<Rightarrow> pool) \<Rightarrow> bool \<Rightarrow> pool \<Rightarrow> pool" where
  "reset_pool base_reset inuse_connections p = base_reset (pool_disconnect inuse_connections p)"

text \<open>Taking a connection under the lock: the newest idle one, a new one, or, when there
  are too many and the pool may reset itself, a new one of the reset pool.\<close>

definition take_connection :: "(pool \<Rightarrow> pool) \<Rightarrow> pool \<Rightarrow> (nat \<times> pool) result" where
  "take_connection base_reset p =
     bindR
       (if available p \<noteq> [] then Inr (last (available p), p\<lparr>available := butlast (available p)\<rparr>)
        else case make_connection p of
          Inr r \<Rightarrow> Inr r
        | Inl e \<Rightarrow> if \<not> auto_reset p then Inl e else make_connection (reset_pool base_reset True p))
       (\<lambda>(c, p'). Inr (c, p'\<lparr>in_use := insert c (in_use p')\<rparr>))"

section \<open>Checking a connection\<close>

text \<open>What the socket does in the course of one check: the outcome of connecting, whether data
  is waiting, and the same again after a reconnect.\<close>

record socket =
  connect1 :: "error option"
  pending1 :: "bool result"
  connect2 :: "error option"
  pending2 :: "bool result"

definition conn_error :: "error \<Rightarrow> bool" where
  "conn_error e \<longleftrightarrow> e = ConnectionError \<or> e = OtherError ''OSError'' \<or> e = OtherError ''ConnectionRefusedError''"

text \<open>\<open>reestablish_connection\<close>: try until the delay is used up; \<open>None\<close> in the list of outcomes
  is a success, ConnectionRefusedError a refusal. The variable bound by \<open>except \<dots> as err\<close> is
  deleted at the end of the handler, so the message after the loop fails to read it.\<close>

fun reestablish :: "rat \<Rightarrow> rat \<Rightarrow> rat \<Rightarrow> bool \<Rightarrow> error option list \<Rightarrow> bool result option" where
  "reestablish max_delay interval duration refused [] =
     (if duration < max_delay then None
      else Some (if refused then Inl (OtherError ''UnboundLocalError'') else Inr False))"
| "reestablish max_delay interval duration refused (oc # outs) =
     (if duration < max_delay then
        (case oc of
           None \<Rightarrow> Some (Inr True)
         | Some e \<Rightarrow>
             if e = OtherError ''ConnectionRefusedError''
             then reestablish max_delay interval (duration + interval) True outs
             else Some (Inl e))
      else Some (if refused then Inl (OtherError ''UnboundLocalError'') else Inr False))"

fun areestablish :: "rat \<Rightarrow> rat \<Rightarrow> rat \<Rightarrow> error option list \<Rightarrow> bool result option" where
  "areestablish max_delay interval duration [] = (if duration < max_delay then None else Some (Inr False))"
| "areestablish max_delay interval duration (oc # outs) =
     (if duration < max_delay then
        (case oc of
           None \<Rightarrow> Some (Inr True)
         | Some e \<Rightarrow>
             if e = OtherError ''ConnectionRefusedError''
             then areestablish max_delay interval (duration + interval) outs
             else Some (Inl e))
      else Some (Inr False))"

text \<open>\<open>ensure_connection\<close>: the exception raised, if any, and whether the connection was released
  before. \<open>re\<close> and \<open>re2\<close> are the outcomes of reestablishing after a failed connect and after a
  failed check.\<close>

definition or_timeout :: "bool result \<Rightarrow> error option" where
  "or_timeout re = (case re of Inr True \<Rightarrow> None | Inr False \<Rightarrow> Some TimeoutError | Inl e \<Rightarrow> Some e)"

definition ensure_connection :: "bool \<Rightarrow> bool result \<Rightarrow> bool result \<Rightarrow> socket \<Rightarrow> error option \<times> bool" where
  "ensure_connection auto_pause re re2 s =
     (let first = (case connect1 s of
                     None \<Rightarrow> None
                   | Some e \<Rightarrow> if e = TimeoutError
                              then (if \<not> auto_pause then Some TimeoutError else or_timeout re)
                              else Some e) in
      case first of
        Some e \<Rightarrow> (Some e, False)
      | None \<Rightarrow>
          let r1 = (case pending1 s of Inr True \<Rightarrow> Inl ConnectionError | r \<Rightarrow> r) in
          case r1 of
            Inr b \<Rightarrow> (None, False)
          | Inl e \<Rightarrow>
              if conn_error e then
                (case connect2 s of
                   Some e2 \<Rightarrow> (Some e2, False)
                 | None \<Rightarrow>
                     let r2 = (case pending2 s of Inr True \<Rightarrow> Inl ConnectionError | r \<Rightarrow> r) in
                     case r2 of
                       Inr b \<Rightarrow> (None, False)
                     | Inl e3 \<Rightarrow> if conn_error e3 then (or_timeout re2, False) else (Some e3, False))
              else (Some e, True))"

definition aensure_connection :: "bool \<Rightarrow> bool result \<Rightarrow> bool result \<Rightarrow> socket \<Rightarrow> error option \<times> bool" where
  "aensure_connection auto_pause re re2 s =
     (let first = (case connect1 s of
                     None \<Rightarrow> None
                   | Some e \<Rightarrow> if e = TimeoutError \<or> e = ConnectionError
                              then (if \<not> auto_pause then Some TimeoutError else or_timeout re)
                              else Some e) in
      case first of
        Some e \<Rightarrow> (Some e, False)
      | None \<Rightarrow>
          case pending1 s of
            Inr b \<Rightarrow> (None, False)
          | Inl e \<Rightarrow>
              if conn_error e then
                (case connect2 s of
                   Some e2 \<Rightarrow> (Some e2, False)
                 | None \<Rightarrow>
                     let r2 = (case pending2 s of Inr True \<Rightarrow> Inl ConnectionError | r \<Rightarrow> r) in
                     case r2 of
                       Inr b \<Rightarrow> (None, False)
                     | Inl e3 \<Rightarrow> if conn_error e3 then (or_timeout re2, False) else (Some e3, False))
              else (Some e, True))"

definition get_connection ::
    "(pool \<Rightarrow> pool) \<Rightarrow> (nat \<Rightarrow> pool \<Rightarrow> pool) \<Rightarrow> bool \<Rightarrow> bool result \<Rightarrow> bool result \<Rightarrow> socket \<Rightarrow> pool \<Rightarrow> nat result \<times> pool" where
  "get_connection base_reset base_release auto_pause re re2 s p =
     (case take_connection base_reset p of
        Inl e \<Rightarrow> (Inl e, p)
      | Inr (c, p1) \<Rightarrow>
          (case ensure_connection auto_pause re re2 s of
             (None, r) \<Rightarrow> (Inr c, p1)
           | (Some e, r) \<Rightarrow> (Inl e, if r then base_release c p1 else p1)))"

definition aget_connection ::
    "(pool \<Rightarrow> pool) \<Rightarrow> (nat \<Rightarrow> pool \<Rightarrow> pool) \<Rightarrow> bool \<Rightarrow> bool result \<Rightarrow> bool result \<Rightarrow> socket \<Rightarrow> pool \<Rightarrow> nat result \<times> pool" where
  "aget_connection base_reset base_release auto_pause re re2 s p =
     (case take_connection (\<lambda>q. (base_reset q)\<lparr>created := 0\<rparr>) p of
        Inl e \<Rightarrow> (Inl e, p)
      | Inr (c, p1) \<Rightarrow>
          (case aensure_connection auto_pause re re2 s of
             (None, r) \<Rightarrow> (Inr c, p1)
           | (Some e, r) \<Rightarrow> (Inl e, if r then base_release c p1 else p1)))"

text \<open>The arguments of a recreated pool.\<close>

definition get_init_kwargs :: "pydict \<Rightarrow> pydict \<Rightarrow> pyval \<Rightarrow> pool \<Rightarrow> pydict \<Rightarrow> pydict" where
  "get_init_kwargs connection_kwargs extra_kwargs connection_class p kwargs =
     dict_set ''max_connections'' (PInt (max_connections p))
       (dict_set ''connection_class'' connection_class
         (dict_update (dict_update connection_kwargs extra_kwargs) kwargs))"

definition recreate_kwargs :: "pydict \<Rightarrow> pydict \<Rightarrow> pyval \<Rightarrow> pool \<Rightarrow> pydict \<Rightarrow> pydict \<times> pool" where
  "recreate_kwargs connection_kwargs extra_kwargs connection_class p kwargs =
     (get_init_kwargs connection_kwargs extra_kwargs connection_class p kwargs, pool_disconnect True p)"

section \<open>The blocking pools\<close>

text \<open>A blocking pool takes from a last-in first-out queue whose empty slots stand for
  connections not yet made; when the queue is still empty after the timeout it raises.\<close>

record blocking_pool =
  slots :: "nat option list"
  made :: "nat list"
  next_made :: nat

definition blocking_size :: "int option \<Rightarrow> int" where
  "blocking_size mc = (case mc of Some m \<Rightarrow> if m \<noteq> 0 then m else 50 | None \<Rightarrow> 50)"

definition blocking_make :: "blocking_pool \<Rightarrow> nat \<times> blocking_pool" where
  "blocking_make p = (next_made p, p\<lparr>made := made p @ [next_made p], next_made := next_made p + 1\<rparr>)"

definition blocking_get ::
    "bool \<Rightarrow> bool result \<Rightarrow> bool result \<Rightarrow> socket \<Rightarrow> blocking_pool \<Rightarrow> (nat result \<times> bool) \<times> blocking_pool" where
  "blocking_get auto_pause re re2 s p =
     (case slots p of
        [] \<Rightarrow> ((Inl ConnectionError, False), p)
      | slot # rest \<Rightarrow>
          let p1 = p\<lparr>slots := rest\<rparr>;
              (c, p2) = (case slot of Some c \<Rightarrow> (c, p1) | None \<Rightarrow> blocking_make p1) in
          (case ensure_connection auto_pause re re2 s of
             (None, r) \<Rightarrow> ((Inr c, r), p2)
           | (Some e, r) \<Rightarrow> ((Inl e, r), p2)))"

text \<open>The asynchronous one waits on a condition: \<open>can_get\<close> tells whether it ever holds.\<close>

definition ablocking_get ::
    "(nat \<Rightarrow> pool \<Rightarrow> pool) \<Rightarrow> bool \<Rightarrow> bool result \<Rightarrow> bool result \<Rightarrow> socket \<Rightarrow> bool \<Rightarrow> pool \<Rightarrow> nat result \<times> pool" where
  "ablocking_get base_release auto_pause re re2 s can_get p =
     (if \<not> can_get then (Inl ConnectionError, p)
      else case (if available p \<noteq> []
                 then Inr (last (available p), p\<lparr>available := butlast (available p)\<rparr>)
                 else make_connection p) of
        Inl e \<Rightarrow> (Inl e, p)
      | Inr (c, p1) \<Rightarrow>
          let p2 = p1\<lparr>in_use := insert c (in_use p1)\<rparr> in
          (case aensure_connection auto_pause re re2 s of
             (None, r) \<Rightarrow> (Inr c, p2)
           | (Some e, r) \<Rightarrow> (Inl e, if r then base_release c p2 else p2)))"

section \<open>The optimized pool\<close>

text \<open>Every place that makes a connection increments the counter again after
  \<open>make_connection\<close> has done so.\<close>

definition opt_make :: "pool \<Rightarrow> (nat \<times> pool) result" where
  "opt_make p = bindR (make_connection p) (\<lambda>(c, p'). Inr (c, p'\<lparr>created := created p' + 1\<rparr>))"

text \<open>The path under the lock, and the whole of \<open>get_connection_optimized\<close> up to the
  health check; \<open>None\<close> where it has to wait for a release.\<close>

definition opt_slow :: "pool \<Rightarrow> (nat \<times> pool) result option" where
  "opt_slow p =
     (if available p \<noteq> [] then
        let c = last (available p); p1 = p\<lparr>available := butlast (available p)\<rparr> in
        Some (Inr (c, p1\<lparr>in_use := insert c (in_use p1)\<rparr>))
      else if created p \<ge> max_connections p then None
      else Some (bindR (opt_make p) (\<lambda>(c, p1). Inr (c, p1\<lparr>in_use := insert c (in_use p1)\<rparr>))))"

definition opt_take :: "pool \<Rightarrow> (nat \<times> pool) result option" where
  "opt_take p =
     (if available p \<noteq> [] then
        let c = last (available p); p1 = p\<lparr>available := butlast (available p)\<rparr> in
        if c \<notin> in_use p1 then Some (Inr (c, p1\<lparr>in_use := insert c (in_use p1)\<rparr>))
        else opt_slow (p1\<lparr>available := available p1 @ [c]\<rparr>)
      else opt_slow p)"

text \<open>Warming: the number of connections made and the pool; a connection that fails to connect
  has been counted and ends the loop.\<close>

fun warm_pool :: "(nat \<Rightarrow> bool) \<Rightarrow> nat \<Rightarrow> int \<Rightarrow> pool \<Rightarrow> nat \<times> pool" where
  "warm_pool connects 0 target p = (0, p)"
| "warm_pool connects (Suc fuel) target p =
     (if created p < target then
        (case make_connection p of
           Inl e \<Rightarrow> (0, p)
         | Inr (c, p1) \<Rightarrow>
             if connects c then
               (let (n, p2) = warm_pool connects fuel target
                      (p1\<lparr>available := available p1 @ [c], created := created p1 + 1\<rparr>) in (n + 1, p2))
             else (0, p1))
      else (0, p))"

definition min_idle :: "int \<Rightarrow> pool \<Rightarrow> int" where
  "min_idle n p = min n (max_connections p div 2)"

definition warm :: "(nat \<Rightarrow> bool) \<Rightarrow> int option \<Rightarrow> int \<Rightarrow> pool \<Rightarrow> nat \<times> pool" where
  "warm connects target n p =
     (let t = min (case target of Some x \<Rightarrow> x | None \<Rightarrow> min_idle n p) (max_connections p) in
      warm_pool connects (nat (t - created p)) t p)"

record health_cache =
  check_interval :: rat
  last_check :: rat
  healthy :: bool

definition is_healthy :: "rat \<Rightarrow> bool result \<Rightarrow> health_cache \<Rightarrow> bool \<times> health_cache" where
  "is_healthy now can_read h =
     (if now - last_check h < check_interval h then (healthy h, h)
      else case can_read of
        Inr b \<Rightarrow> (\<not> b, h\<lparr>healthy := \<not> b, last_check := now\<rparr>)
      | Inl e \<Rightarrow> (False, h\<lparr>healthy := False\<rparr>))"

definition mark_used :: "rat \<Rightarrow> health_cache \<Rightarrow> health_cache" where
  "mark_used now h = h\<lparr>last_check := now, healthy := True\<rparr>"

record pool_metrics =
  total_connections :: int
  connection_acquisitions :: int
  connection_creation_time :: rat
  connection_acquisition_time :: rat
  lock_wait_time :: rat
  health_check_time :: rat
  metric_errors :: int

definition metrics_reset :: "pool_metrics \<Rightarrow> pool_metrics" where
  "metrics_reset m = m\<lparr>connection_acquisitions := 0, connection_creation_time := 0,
     connection_acquisition_time := 0, lock_wait_time := 0, health_check_time := 0, metric_errors := 0\<rparr>"

definition avg_acquisition_time_ms :: "pool_metrics \<Rightarrow> rat" where
  "avg_acquisition_time_ms m =
     (if connection_acquisitions m > 0
      then connection_acquisition_time m / of_int (connection_acquisitions m) * 1000 else 0)"

definition avg_creation_time_ms :: "pool_metrics \<Rightarrow> rat" where
  "avg_creation_time_ms m = connection_creation_time m / of_int (max 1 (total_connections m)) * 1000"

section \<open>What the base classes provide\<close>

locale base_pool =
  fixes base_reset :: "pool \<Rightarrow> pool"
    and base_release :: "nat \<Rightarrow> pool \<Rightarrow> pool"
  assumes reset_law: "base_reset p = p\<lparr>created := 0, available := [], in_use := {}\<rparr>"
    and release_law: "c \<in> in_use p \<Longrightarrow>
      base_release c p = p\<lparr>in_use := in_use p - {c}, available := available p @ [c]\<rparr>"

definition std_reset :: "pool \<Rightarrow> pool" where
  "std_reset p = p\<lparr>created := 0, available := [], in_use := {}\<rparr>"

definition std_release :: "nat \<Rightarrow> pool \<Rightarrow> pool" where
  "std_release c p =
     (if c \<in> in_use p then p\<lparr>in_use := in_use p - {c}, available := available p @ [c]\<rparr> else p)"

interpretation std: base_pool std_reset std_release
  by unfold_locales (simp_all add: std_reset_def std_release_def)

text \<open>The books of a pool: a connection is idle or in use, never both or twice, and has been
  made by this pool.\<close>

definition pool_wf :: "pool \<Rightarrow> bool" where
  "pool_wf p \<longleftrightarrow>
     finite (in_use p) \<and> distinct (available p) \<and> set (available p) \<inter> in_use p = {} \<and>
     (\<forall>c \<in> set (available p) \<union> in_use p. c < next_conn p)"

definition open_count :: "pool \<Rightarrow> int" where
  "open_count p = int (length (available p) + card (in_use p))"

named_theorems pool_simps

lemma make_connection_simps [pool_simps]:
  "make_connection p =
     (if created p \<ge> max_connections p then Inl ConnectionError
      else Inr (next_conn p, p\<lparr>created := created p + 1, next_conn := next_conn p + 1\<rparr>))"
  by (simp add: make_connection_def)

lemma pool_init_wf:
  assumes "pool_init mc ar = Inr p"
  shows "pool_wf p \<and> open_count p = 0 \<and> created p = 0 \<and> 0 < max_connections p"
  using assms by (cases mc) (auto simp: pool_init_def pool_wf_def open_count_def Let_def split: if_splits)

lemma pop_wf:
  assumes "pool_wf p" "available p \<noteq> []"
  shows "pool_wf (p\<lparr>available := butlast (available p), in_use := insert (last (available p)) (in_use p)\<rparr>)"
    "open_count (p\<lparr>available := butlast (available p), in_use := insert (last (available p)) (in_use p)\<rparr>)
       = open_count p"
proof -
  obtain ys y where ys: "available p = ys @ [y]" using assms(2) by (cases "available p" rule: rev_cases) auto
  with assms(1) have y: "y \<notin> in_use p" "finite (in_use p)" by (auto simp: pool_wf_def)
  show "pool_wf (p\<lparr>available := butlast (available p), in_use := insert (last (available p)) (in_use p)\<rparr>)"
    using assms(1) ys by (auto simp: pool_wf_def)
  show "open_count (p\<lparr>available := butlast (available p), in_use := insert (last (available p)) (in_use p)\<rparr>)
       = open_count p"
    using y by (simp add: open_count_def ys)
qed

lemma new_wf:
  assumes "pool_wf p"
  shows "pool_wf (p\<lparr>created := k, next_conn := Suc (next_conn p), in_use := insert (next_conn p) (in_use p)\<rparr>)"
    "open_count (p\<lparr>created := k, next_conn := Suc (next_conn p), in_use := insert (next_conn p) (in_use p)\<rparr>)
       = open_count p + 1"
proof -
  have n: "next_conn p \<notin> in_use p" "next_conn p \<notin> set (available p)" and fin: "finite (in_use p)"
    using assms by (auto simp: pool_wf_def)
  show "pool_wf (p\<lparr>created := k, next_conn := Suc (next_conn p), in_use := insert (next_conn p) (in_use p)\<rparr>)"
    using assms n by (auto simp: pool_wf_def less_Suc_eq)
  show "open_count (p\<lparr>created := k, next_conn := Suc (next_conn p), in_use := insert (next_conn p) (in_use p)\<rparr>)
       = open_count p + 1"
    using n fin by (simp add: open_count_def)
qed

lemma idle_wf:
  assumes "pool_wf p"
  shows "pool_wf (p\<lparr>created := k, next_conn := Suc (next_conn p), available := available p @ [next_conn p]\<rparr>)"
  using assms by (auto simp: pool_wf_def less_Suc_eq)

lemma release_wf:
  assumes "pool_wf p" "c \<in> in_use p"
  shows "pool_wf (p\<lparr>in_use := in_use p - {c}, available := available p @ [c]\<rparr>)"
    "open_count (p\<lparr>in_use := in_use p - {c}, available := available p @ [c]\<rparr>) = open_count p"
proof -
  have "card (in_use p) = Suc (card (in_use p - {c}))"
    using assms by (intro card.remove) (auto simp: pool_wf_def)
  then show "open_count (p\<lparr>in_use := in_use p - {c}, available := available p @ [c]\<rparr>) = open_count p"
    by (simp add: open_count_def)
  show "pool_wf (p\<lparr>in_use := in_use p - {c}, available := available p @ [c]\<rparr>)"
    using assms by (auto simp: pool_wf_def)
qed

definition books :: "pool \<Rightarrow> bool" where
  "books p \<longleftrightarrow> pool_wf p \<and> open_count p = created p \<and> created p \<le> max_connections p \<and> 0 < max_connections p"

context base_pool
begin

lemma reset_pool_law:
  "reset_pool base_reset b p = (pool_disconnect b p)\<lparr>created := 0, available := [], in_use := {}\<rparr>"
  by (simp add: reset_pool_def reset_law)

lemma take_idle:
  "available p \<noteq> [] \<Longrightarrow> take_connection base_reset p =
     Inr (last (available p), p\<lparr>available := butlast (available p), in_use := insert (last (available p)) (in_use p)\<rparr>)"
  by (simp add: take_connection_def)

lemma take_new:
  "available p = [] \<Longrightarrow> created p < max_connections p \<Longrightarrow> take_connection base_reset p =
     Inr (next_conn p, p\<lparr>created := created p + 1, next_conn := Suc (next_conn p), in_use := insert (next_conn p) (in_use p)\<rparr>)"
  by (simp add: take_connection_def pool_simps)

lemma take_full:
  "available p = [] \<Longrightarrow> \<not> created p < max_connections p \<Longrightarrow> \<not> auto_reset p \<Longrightarrow>
     take_connection base_reset p = Inl ConnectionError"
  by (simp add: take_connection_def pool_simps)

lemma take_reset:
  "available p = [] \<Longrightarrow> \<not> created p < max_connections p \<Longrightarrow> auto_reset p \<Longrightarrow> 0 < max_connections p \<Longrightarrow>
     take_connection base_reset p =
     Inr (next_conn p, p\<lparr>created := 1, next_conn := Suc (next_conn p), in_use := {next_conn p},
       disconnected := disconnected p \<union> in_use p\<rparr>)"
  by (simp add: take_connection_def pool_simps reset_pool_law pool_disconnect_def)

lemma take_books:
  assumes b: "books p" and t: "take_connection base_reset p = Inr (c, p')"
  shows "books p' \<and> c \<in> in_use p' \<and> max_connections p' = max_connections p"
proof -
  have wf: "pool_wf p" and cnt: "open_count p = created p" "created p \<le> max_connections p" "0 < max_connections p"
    using b by (auto simp: books_def)
  consider "available p \<noteq> []" | "available p = []" "created p < max_connections p"
    | "available p = []" "\<not> created p < max_connections p" "auto_reset p"
    | "available p = []" "\<not> created p < max_connections p" "\<not> auto_reset p" by blast
  then show ?thesis
  proof cases
    case 1
    with t cnt pop_wf[OF wf 1] show ?thesis by (auto simp: take_idle books_def)
  next
    case 2
    with t cnt new_wf[OF wf] show ?thesis by (auto simp: take_new books_def)
  next
    case 3
    with t cnt have "p' = p\<lparr>created := 1, next_conn := Suc (next_conn p), in_use := {next_conn p},
        disconnected := disconnected p \<union> in_use p\<rparr>" "c = next_conn p"
      by (auto simp: take_reset)
    with 3 cnt show ?thesis by (auto simp: books_def pool_wf_def open_count_def)
  next
    case 4
    with t show ?thesis by (simp add: take_full)
  qed
qed

lemma release_books:
  assumes "books p" "c \<in> in_use p"
  shows "books (base_release c p)"
  using assms release_wf[OF _ assms(2)] by (simp add: release_law[OF assms(2)] books_def)

lemma get_outcome:
  assumes "books p" "take_connection base_reset p = Inr (c, p1)"
  shows "get_connection base_reset base_release auto_pause re re2 s p =
     (case ensure_connection auto_pause re re2 s of (oe, r) \<Rightarrow>
        (case oe of None \<Rightarrow> Inr c | Some e \<Rightarrow> Inl e,
         if oe \<noteq> None \<and> r then p1\<lparr>in_use := in_use p1 - {c}, available := available p1 @ [c]\<rparr> else p1))"
proof -
  have "c \<in> in_use p1" using take_books[OF assms] by simp
  then show ?thesis
    by (cases "ensure_connection auto_pause re re2 s"; cases "fst (ensure_connection auto_pause re re2 s)")
       (simp_all add: get_connection_def assms(2) release_law)
qed

lemma get_books:
  assumes "books p"
  shows "books (snd (get_connection base_reset base_release auto_pause re re2 s p))"
proof (cases "take_connection base_reset p")
  case (Inl e)
  then show ?thesis using assms by (simp add: get_connection_def)
next
  case (Inr r)
  obtain c p1 where "r = (c, p1)" by (cases r)
  with Inr have t: "take_connection base_reset p = Inr (c, p1)" by simp
  have "books p1" "c \<in> in_use p1" using take_books[OF assms t] by auto
  then have "books (base_release c p1)" by (rule release_books)
  with \<open>books p1\<close> show ?thesis
    by (simp add: get_outcome[OF assms t] release_law[OF \<open>c \<in> in_use p1\<close>] split: prod.split)
qed

end

section \<open>Reachable pools\<close>

text \<open>A pool as its clients see it: created, asked for connections with any behaviour of the
  sockets, and given back connections that are in use.\<close>

inductive pool_reach :: "int option \<Rightarrow> bool \<Rightarrow> pool \<Rightarrow> bool" for mc ar where
  created: "pool_init mc ar = Inr p \<Longrightarrow> pool_reach mc ar p"
| asked: "pool_reach mc ar p \<Longrightarrow>
    pool_reach mc ar (snd (get_connection std_reset std_release auto_pause re re2 s p))"
| given_back: "pool_reach mc ar p \<Longrightarrow> c \<in> in_use p \<Longrightarrow> pool_reach mc ar (std_release c p)"

lemma pool_reach_books: "pool_reach mc ar p \<Longrightarrow> books p"
proof (induction rule: pool_reach.induct)
  case (created p)
  then show ?case using pool_init_wf[OF created] by (simp add: books_def)
next
  case (asked p auto_pause re re2 s)
  then show ?case by (intro std.get_books)
next
  case (given_back p c)
  then show ?case by (intro std.release_books)
qed

text \<open>C32. In every pool reachable through \<open>get_connection\<close> and \<open>release\<close>, whatever the sockets do,
  the idle and the used connections are distinct and disjoint, their number is the counter of
  made connections, and it stays within \<open>max_connections\<close>.\<close>

theorem pool_books:
  assumes "pool_reach mc ar p"
  shows "distinct (available p) \<and> set (available p) \<inter> in_use p = {} \<and>
    int (length (available p) + card (in_use p)) = created p \<and> created p \<le> max_connections p"
  using pool_reach_books[OF assms] by (simp add: books_def pool_wf_def open_count_def)

definition quiet_socket :: socket where
  "quiet_socket = \<lparr>connect1 = None, pending1 = Inr False, connect2 = None, pending2 = Inr False\<rparr>"

definition broken_socket :: socket where
  "broken_socket = \<lparr>connect1 = Some ConnectionError, pending1 = Inr False, connect2 = None, pending2 = Inr False\<rparr>"

definition small_pool :: "bool \<Rightarrow> pool" where
  "small_pool ar = \<lparr>max_connections = 1, created = 0, available = [], in_use = {}, disconnected = {},
     next_conn = 0, auto_reset = ar\<rparr>"

definition busy_pool :: "bool \<Rightarrow> pool" where
  "busy_pool ar = (small_pool ar)\<lparr>created := 1, in_use := {0}, next_conn := 1\<rparr>"

lemma small_pool_reach: "pool_reach (Some 1) ar (small_pool ar)"
  by (rule pool_reach.created) (simp add: pool_init_def small_pool_def Let_def)

lemma busy_pool_reach: "pool_reach (Some 1) ar (busy_pool ar)"
proof -
  have "snd (get_connection std_reset std_release False (Inr False) (Inr False) quiet_socket (small_pool ar)) = busy_pool ar"
    by (simp add: get_connection_def take_connection_def make_connection_def small_pool_def busy_pool_def
        ensure_connection_def quiet_socket_def)
  with pool_reach.asked[OF small_pool_reach] show ?thesis by metis
qed

theorem pool_books_witness:
  "created (busy_pool True) \<le> max_connections (busy_pool True) \<and> in_use (busy_pool True) = {0}"
  using pool_books[OF busy_pool_reach[of True]] by (simp add: busy_pool_def)

lemma full_pool_error:
  assumes "available p = []" "\<not> created p < max_connections p" "\<not> auto_reset p"
  shows "get_connection std_reset std_release ap re re2 s p = (Inl ConnectionError, p)"
  using std.take_full[OF assms] by (simp add: get_connection_def)

lemma full_pool_resets:
  assumes "books p" "available p = []" "\<not> created p < max_connections p" "auto_reset p"
    and ok: "ensure_connection ap re re2 s = (None, r)"
  shows "\<exists>p'. get_connection std_reset std_release ap re re2 s p = (Inr (next_conn p), p') \<and>
            in_use p' = {next_conn p} \<and> created p' = 1 \<and> in_use p \<subseteq> disconnected p' \<and>
            (\<forall>c \<in> in_use p. std_release c p' = p')"
proof -
  have "0 < max_connections p" and fresh: "c \<in> in_use p \<Longrightarrow> c \<noteq> next_conn p" for c
    using assms(1) by (auto simp: books_def pool_wf_def)
  then show ?thesis
    by (auto simp: get_connection_def std.take_reset[OF assms(2,3,4)] ok std_release_def)
qed

text \<open>A full pool with \<open>auto_reset_enabled\<close> serves the next client by disconnecting every
  connection in use and forgetting it: only the new one is on the books, and giving back a
  forgotten connection has no effect. Without \<open>auto_reset_enabled\<close> the client gets a
  ConnectionError and the pool stays as it is.\<close>

theorem full_pool:
  assumes "pool_reach mc ar p" "available p = []" "created p = max_connections p"
    and "ensure_connection ap re re2 s = (None, r)"
  shows "if auto_reset p
    then \<exists>p'. get_connection std_reset std_release ap re re2 s p = (Inr (next_conn p), p') \<and>
              in_use p' = {next_conn p} \<and> created p' = 1 \<and> in_use p \<subseteq> disconnected p' \<and>
              (\<forall>c \<in> in_use p. std_release c p' = p')
    else get_connection std_reset std_release ap re re2 s p = (Inl ConnectionError, p)"
  using full_pool_resets[OF pool_reach_books[OF assms(1)] assms(2) _ _ assms(4)]
    full_pool_error[OF assms(2)] assms(3) by simp

theorem full_pool_witness:
  "get_connection std_reset std_release True (Inr True) (Inr True) quiet_socket (busy_pool False)
     = (Inl ConnectionError, busy_pool False) \<and>
   (\<exists>p'. get_connection std_reset std_release True (Inr True) (Inr True) quiet_socket (busy_pool True) = (Inr 1, p') \<and>
         in_use p' = {1} \<and> std_release 0 p' = p')"
  using full_pool[OF busy_pool_reach[of False], of True "Inr True" "Inr True" quiet_socket False]
    full_pool[OF busy_pool_reach[of True], of True "Inr True" "Inr True" quiet_socket False]
  by (auto simp: busy_pool_def small_pool_def ensure_connection_def quiet_socket_def)

lemma ensure_released_iff:
  assumes "ensure_connection ap re re2 s = (Some e, r)"
  shows "r \<longleftrightarrow> (connect1 s = None \<or> connect1 s = Some TimeoutError \<and> ap \<and> re = Inr True) \<and>
      pending1 s = Inl e \<and> \<not> conn_error e"
  using assms
  by (auto simp: ensure_connection_def or_timeout_def Let_def conn_error_def
      split: option.splits if_splits sum.splits bool.splits)

text \<open>C34. A connection that fails to connect stays on the books as in use although its client
  only gets the exception: it is given back only when the first look at its socket fails with
  something else than a connection error.\<close>

theorem failed_connection_leaks:
  assumes "pool_reach mc ar p" "take_connection std_reset p = Inr (c, p1)"
    "ensure_connection ap re re2 s = (Some e, r)"
  shows "get_connection std_reset std_release ap re re2 s p =
      (Inl e, if (connect1 s = None \<or> connect1 s = Some TimeoutError \<and> ap \<and> re = Inr True) \<and>
                 pending1 s = Inl e \<and> \<not> conn_error e
              then p1\<lparr>in_use := in_use p1 - {c}, available := available p1 @ [c]\<rparr> else p1) \<and>
    c \<in> in_use p1"
proof -
  have b: "books p" by (rule pool_reach_books[OF assms(1)])
  have "c \<in> in_use p1" using std.take_books[OF b assms(2)] by simp
  then show ?thesis
    by (simp add: std.get_outcome[OF b assms(2)] assms(3) flip: ensure_released_iff[OF assms(3)])
qed

theorem failed_connection_leaks_witness:
  "get_connection std_reset std_release True (Inr True) (Inr True) broken_socket (small_pool True)
     = (Inl ConnectionError, busy_pool True) \<and> in_use (busy_pool True) = {0}"
  using failed_connection_leaks[OF small_pool_reach[of True], of 0 "busy_pool True" True "Inr True" "Inr True"
      broken_socket ConnectionError False]
  by (simp add: ensure_connection_def broken_socket_def take_connection_def make_connection_def
      small_pool_def busy_pool_def)

lemma reestablish_refused:
  "reestablish m i d True outs =
     map_option (\<lambda>r. if r = Inr False then Inl (OtherError ''UnboundLocalError'') else r) (areestablish m i d outs)"
  by (induction m i d "True" outs rule: reestablish.induct) (auto split: option.splits)

text \<open>The two reestablishing loops agree except at the end: after refusals until the delay
  is used up, the asynchronous one answers False and the synchronous one fails with an
  UnboundLocalError, because its \<open>except \<dots> as err\<close> has unbound the variable that the final
  message reads.\<close>

theorem reestablish_twins:
  assumes "0 < max_delay"
  shows "reestablish max_delay interval 0 False outs =
     map_option (\<lambda>r. if r = Inr False then Inl (OtherError ''UnboundLocalError'') else r)
       (areestablish max_delay interval 0 outs)"
  using assms by (cases outs) (auto simp: reestablish_refused split: option.splits)

theorem reestablish_twins_witness:
  "reestablish 1 1 0 False [Some (OtherError ''ConnectionRefusedError'')] = Some (Inl (OtherError ''UnboundLocalError''))"
  by (subst reestablish_twins) simp_all

section \<open>The optimized pool counts twice\<close>

inductive opt_reach :: "int option \<Rightarrow> pool \<Rightarrow> bool" for mc where
  opt_created: "pool_init mc ar = Inr p \<Longrightarrow> opt_reach mc p"
| opt_warmed: "opt_reach mc p \<Longrightarrow> opt_reach mc (snd (warm connects target n p))"
| opt_taken: "opt_reach mc p \<Longrightarrow> opt_take p = Some (Inr (c, p')) \<Longrightarrow> opt_reach mc p'"
| opt_given_back: "opt_reach mc p \<Longrightarrow> c \<in> in_use p \<Longrightarrow> opt_reach mc (std_release c p)"

definition opt_books :: "pool \<Rightarrow> bool" where
  "opt_books p \<longleftrightarrow> pool_wf p \<and> 2 * open_count p \<le> created p \<and> created p \<le> max_connections p + 1"

lemma idle_count:
  "open_count (p\<lparr>created := k, next_conn := j, available := available p @ [x]\<rparr>) = open_count p + 1"
  by (simp add: open_count_def)

lemma counted_wf: "pool_wf (p\<lparr>created := k, next_conn := Suc (next_conn p)\<rparr>) \<longleftrightarrow> pool_wf p"
  if "pool_wf p"
  using that by (auto simp: pool_wf_def less_Suc_eq)

lemma warm_pool_books:
  "opt_books p \<Longrightarrow> target \<le> max_connections p \<Longrightarrow> opt_books (snd (warm_pool connects fuel target p))"
proof (induction connects fuel target p rule: warm_pool.induct)
  case (2 connects fuel target p)
  show ?case
  proof (cases "created p < target")
    case True
    then have less: "created p < max_connections p" using "2.prems"(2) by simp
    let ?p1 = "p\<lparr>created := created p + 1, next_conn := Suc (next_conn p)\<rparr>"
    let ?p2 = "?p1\<lparr>available := available ?p1 @ [next_conn p], created := created ?p1 + 1\<rparr>"
    have p2: "?p2 = p\<lparr>created := created p + 2, next_conn := Suc (next_conn p), available := available p @ [next_conn p]\<rparr>"
      by simp
    have mk: "make_connection p = Inr (next_conn p, ?p1)" using less by (simp add: pool_simps)
    have wf: "pool_wf p" and cnt: "2 * open_count p \<le> created p" using "2.prems"(1) by (auto simp: opt_books_def)
    have "opt_books ?p2"
      unfolding p2 using idle_wf[OF wf] cnt less by (simp add: opt_books_def idle_count)
    then have "opt_books (snd (warm_pool connects fuel target ?p2))" if "connects (next_conn p)"
      by (rule "2.IH"[OF True mk refl that]) (use "2.prems"(2) in simp)
    moreover have "opt_books ?p1"
      using counted_wf[OF wf] wf cnt less by (simp add: opt_books_def open_count_def)
    ultimately show ?thesis
      using True by (simp add: mk case_prod_unfold Let_def)
  qed (use "2.prems" in simp)
qed simp

lemma opt_slow_books:
  assumes "opt_books p" "opt_slow p = Some (Inr (c, p'))"
  shows "opt_books p'"
proof (cases "available p = []")
  case True
  have wf: "pool_wf p" using assms(1) by (simp add: opt_books_def)
  have "created p < max_connections p"
    "p' = p\<lparr>created := created p + 2, next_conn := Suc (next_conn p), in_use := insert (next_conn p) (in_use p)\<rparr>"
    using True assms(2) by (auto simp: opt_slow_def opt_make_def pool_simps split: if_splits)
  with assms(1) new_wf[OF wf] show ?thesis by (simp add: opt_books_def)
next
  case False
  with assms pop_wf[OF _ False] show ?thesis by (auto simp: opt_slow_def opt_books_def Let_def)
qed

lemma opt_take_is_slow: "opt_take p = opt_slow p"
  by (simp add: opt_take_def opt_slow_def Let_def)

lemma opt_reach_books: "opt_reach mc p \<Longrightarrow> opt_books p"
proof (induction rule: opt_reach.induct)
  case (opt_created ar p)
  then show ?case using pool_init_wf[OF opt_created] by (simp add: opt_books_def)
next
  case (opt_warmed p connects target n)
  then show ?case by (simp add: warm_def Let_def warm_pool_books)
next
  case (opt_taken p c p')
  then show ?case by (auto simp: opt_take_is_slow intro: opt_slow_books)
next
  case (opt_given_back p c)
  then show ?case
    using release_wf[of p c] by (simp add: opt_books_def std.release_law)
qed

text \<open>The optimized pool never has more than half of the allowed connections (rounded up):
  each one is counted twice, and a further client waits although the limit is not reached.\<close>

theorem optimized_pool_half:
  assumes "opt_reach mc p"
  shows "set (available p) \<inter> in_use p = {} \<and>
    int (length (available p) + card (in_use p)) \<le> (max_connections p + 1) div 2"
  using opt_reach_books[OF assms] by (auto simp: opt_books_def pool_wf_def open_count_def)

definition warmed_pool :: pool where
  "warmed_pool = snd (warm (\<lambda>c. True) (Some 4) 5 ((small_pool True)\<lparr>max_connections := 4\<rparr>))"

lemma warmed_pool_eq:
  "warmed_pool = (small_pool True)\<lparr>max_connections := 4, created := 4, available := [0, 1], next_conn := 2\<rparr>"
  by (simp add: warmed_pool_def warm_def Let_def small_pool_def make_connection_def eval_nat_numeral)

theorem optimized_pool_half_witness:
  "int (length (available warmed_pool) + card (in_use warmed_pool)) \<le> 2 \<and> available warmed_pool = [0, 1] \<and>
   max_connections warmed_pool = 4"
proof -
  have "opt_reach (Some 4) ((small_pool True)\<lparr>max_connections := 4\<rparr>)"
    by (rule opt_reach.opt_created[of _ True]) (simp add: pool_init_def small_pool_def Let_def)
  then have "opt_reach (Some 4) warmed_pool"
    unfolding warmed_pool_def by (rule opt_reach.opt_warmed)
  from optimized_pool_half[OF this] show ?thesis by (simp add: warmed_pool_eq small_pool_def)
qed

lemma health_cached:
  "now' - now < check_interval h \<Longrightarrow> is_healthy now' r (mark_used now h) = (True, mark_used now h)"
  by (simp add: is_healthy_def mark_used_def)

end
