(* ===== verification/Cachify.thy ===== *)
theory Cachify
  imports Redis_Memory Status "HOL-Library.List_Lexorder" "HOL-Library.Char_ord"
begin

text \<open>
  \<^verbatim>\<open>kvdb/io/cachify/base.py\<close>, class \<open>Cachify\<close>, and \<open>create_cache_key_from_kwargs\<close> of
  \<^verbatim>\<open>kvdb/utils/helpers.py\<close>: the decorator that keeps the results of a function in the
  database. The values are fields of one hash (or keys of their own); hits, hits per key,
  timestamps and expirations are kept in a persistent dictionary of another package, whose
  operations are the parameter \<open>meta_ops\<close>. Callables of the configuration, the decorated
  function, the rendering of values and the hash function are parameters too. The time limit
  of \<open>safely\<close> is not modelled: every block completes.
\<close>

section \<open>Configuration\<close>

type_synonym pyargs = "pyval list \<times> pydict"

datatype exc_rule = NoRule | AllExceptions | TheseExceptions "string list"

datatype disabled_rule = NotDisabled | DisabledFlag bool | DisabledIf "pyargs \<Rightarrow> bool"

datatype after_rule = NeverAfter | AfterHits int | AfterIf "int option \<Rightarrow> pyargs \<Rightarrow> bool"

record cachify =
  cache_field :: "string option"
  cache_name :: "(pyargs \<Rightarrow> string) option"
  cache_prefix :: "string option"
  hset_on :: bool
  ttl :: "int option"
  ttl_kws :: "string list"
  disabled :: disabled_rule
  disabled_kws :: "string list"
  invalidate_if :: "(pyargs \<Rightarrow> bool) option"
  invalidate_kws :: "string list"
  invalidate_after :: after_rule
  overwrite_if :: "(pyargs \<Rightarrow> bool) option"
  overwrite_kws :: "string list"
  exclude_null :: bool
  exclude_exceptions :: exc_rule
  exclude_kws :: "string list"
  exclude_if :: "(pyval \<Rightarrow> pyargs \<Rightarrow> bool) option"
  hit_setter :: "(pyval \<Rightarrow> pyargs \<Rightarrow> pyval result) option"
  hit_getter :: "(pyval \<Rightarrow> pyargs \<Rightarrow> pyval result) option"
  cache_max_size :: "int option"
  max_size_policy :: cache_policy
  raise_exceptions :: bool
  hash_key :: "pyargs \<Rightarrow> string"
  encode :: "pyval \<Rightarrow> rval"
  decode :: "rval \<Rightarrow> pyval result"
  is_subclass :: "string \<Rightarrow> string \<Rightarrow> bool"

text \<open>The marker of a missing value is a tuple, compared by content.\<close>

definition ENOVAL :: pyval where
  "ENOVAL = PTuple [PStr ''ENOVAL'']"

section \<open>The key of a call\<close>

text \<open>\<open>exclude_defaults\<close> calls the class \<open>inspect.Parameter.empty\<close> on every value, and it takes
  no argument.\<close>

record key_options =
  typed :: bool
  exclude_names :: "string list"
  exclude_keys :: "string list"
  drop_null :: bool
  exclude_defaults :: bool
  sep :: string
  is_class_method :: bool
  key_base :: "string option"

fun join :: "string \<Rightarrow> string list \<Rightarrow> string" where
  "join s [] = []"
| "join s [x] = x"
| "join s (x # y # ys) = x @ s @ join s (y # ys)"

definition filter_kwargs :: "key_options \<Rightarrow> pydict \<Rightarrow> pydict result" where
  "filter_kwargs K kwargs =
     (let k1 = filter (\<lambda>(k, v). k \<notin> set (exclude_names K)) kwargs;
          k2 = (if drop_null K then filter (\<lambda>(k, v). v \<noteq> PNone) k1 else k1);
          k3 = filter (\<lambda>(k, v). k \<notin> set (exclude_keys K)) k2 in
      if exclude_defaults K \<and> k3 \<noteq> [] then Inl TypeError else Inr k3)"

definition cache_key_parts ::
    "(pyval \<Rightarrow> string) \<Rightarrow> (pyval \<Rightarrow> string) \<Rightarrow> key_options \<Rightarrow> pyargs \<Rightarrow> string list result" where
  "cache_key_parts py_str type_str K pa =
     (let args = (if is_class_method K then drop 1 (fst pa) else fst pa) in
      bindR (filter_kwargs K (snd pa)) (\<lambda>kwargs.
        let items = sort_key fst kwargs;
            key = map py_str args @
              (if snd pa \<noteq> [] then ''ENOVAL'' # concat (map (\<lambda>(k, v). [k, py_str v]) items) else []) in
        Inr (if typed K then key @ map type_str args @ map (\<lambda>(k, v). type_str v) items else key)))"

definition create_cache_key_from_kwargs ::
    "(string \<Rightarrow> string) \<Rightarrow> (pyval \<Rightarrow> string) \<Rightarrow> (pyval \<Rightarrow> string) \<Rightarrow> key_options \<Rightarrow> pyargs \<Rightarrow> string result" where
  "create_cache_key_from_kwargs xxh py_str type_str K pa =
     bindR (cache_key_parts py_str type_str K pa) (\<lambda>parts.
       Inr (xxh (case key_base K of
                   None \<Rightarrow> join (sep K) parts
                 | Some b \<Rightarrow> b @ sep K @ join (sep K) parts)))"

section \<open>What the call decides\<close>

text \<open>The first of the configured names that was passed is taken out of the arguments.\<close>

fun pop_first :: "string list \<Rightarrow> pydict \<Rightarrow> pyval option \<times> pydict" where
  "pop_first [] kwargs = (None, kwargs)"
| "pop_first (kw # kws) kwargs =
     (case dict_get kwargs kw of
        Some v \<Rightarrow> (Some v, dict_del kw kwargs)
      | None \<Rightarrow> pop_first kws kwargs)"

definition extract_cache_kwargs :: "cachify \<Rightarrow> pydict \<Rightarrow> pydict \<times> pydict" where
  "extract_cache_kwargs C kwargs =
     fold (\<lambda>(name, kws) (ck, kw).
        case pop_first kws kw of (None, kw') \<Rightarrow> (ck, kw') | (Some v, kw') \<Rightarrow> (dict_set name v ck, kw'))
       [(''disabled'', disabled_kws C), (''invalidate'', invalidate_kws C), (''overwrite'', overwrite_kws C),
        (''ttl'', ttl_kws C), (''exclude'', exclude_kws C)] ([], kwargs)"

definition build_hash_name :: "string \<Rightarrow> pyargs \<Rightarrow> cachify \<Rightarrow> cachify" where
  "build_hash_name full_name pa C =
     (case cache_field C of
        Some f \<Rightarrow> C
      | None \<Rightarrow> C\<lparr>cache_field := Some
          (case cache_name C of
             Some n \<Rightarrow> n pa
           | None \<Rightarrow> if opt_truthy (cache_prefix C) then the (cache_prefix C) @ '':'' @ full_name else full_name)\<rparr>)"

definition should_disable :: "cachify \<Rightarrow> pydict \<Rightarrow> pyargs \<Rightarrow> bool" where
  "should_disable C ck pa =
     (if disabled_kws C \<noteq> [] \<and> dict_get ck ''disabled'' = Some (PBool True) then True
      else case disabled C of DisabledIf f \<Rightarrow> f pa | _ \<Rightarrow> False)"

definition should_invalidate :: "cachify \<Rightarrow> int option \<Rightarrow> pydict \<Rightarrow> pyargs \<Rightarrow> bool" where
  "should_invalidate C hits ck pa =
     (case invalidate_if C of
        Some f \<Rightarrow> f pa
      | None \<Rightarrow>
          if invalidate_kws C \<noteq> [] \<and> dict_get ck ''invalidate'' = Some (PBool True) then True
          else case invalidate_after C of
            NeverAfter \<Rightarrow> False
          | AfterHits n \<Rightarrow> (case hits of None \<Rightarrow> False | Some h \<Rightarrow> n \<le> h)
          | AfterIf f \<Rightarrow> f hits pa)"

definition should_overwrite :: "cachify \<Rightarrow> pydict \<Rightarrow> pyargs \<Rightarrow> bool" where
  "should_overwrite C ck pa =
     (case overwrite_if C of
        Some f \<Rightarrow> f pa
      | None \<Rightarrow> overwrite_kws C \<noteq> [] \<and> dict_get ck ''overwrite'' = Some (PBool True))"

definition should_cache_value :: "cachify \<Rightarrow> pyval \<Rightarrow> pydict \<Rightarrow> pyargs \<Rightarrow> bool" where
  "should_cache_value C v ck pa =
     (if exclude_null C \<and> v = PNone then False
      else case exclude_exceptions C of
        TheseExceptions (c # cs) \<Rightarrow>
          \<not> (case v of PExc e \<Rightarrow> list_ex (is_subclass C e) (c # cs) | _ \<Rightarrow> False)
      | r \<Rightarrow>
          if r = AllExceptions \<and> (case v of PExc e \<Rightarrow> True | _ \<Rightarrow> False) then False
          else if exclude_kws C \<noteq> [] \<and> dict_get ck ''exclude'' = Some (PBool True) then False
          else case exclude_if C of Some f \<Rightarrow> \<not> f v pa | None \<Rightarrow> True)"

section \<open>The metadata\<close>

text \<open>The persistent dictionary behind \<open>self.data\<close>: reading with \<open>get\<close> or \<open>[]\<close>, writing,
  taking an entry out of a stored dictionary (\<open>data[k].pop(x, None)\<close>), clearing and flushing.\<close>

record 'm meta_ops =
  m_get :: "string \<Rightarrow> 'm \<Rightarrow> pyval option"
  m_set :: "string \<Rightarrow> pyval \<Rightarrow> 'm \<Rightarrow> 'm"
  m_pop :: "string \<Rightarrow> string \<Rightarrow> 'm \<Rightarrow> 'm"
  m_clear :: "'m \<Rightarrow> 'm"
  m_flush :: "'m \<Rightarrow> 'm"

definition dict_of :: "pyval option \<Rightarrow> pydict" where
  "dict_of v = (case v of Some (PDict d) \<Rightarrow> d | _ \<Rightarrow> [])"

definition m_dict :: "'m meta_ops \<Rightarrow> string \<Rightarrow> 'm \<Rightarrow> pydict" where
  "m_dict M k m = dict_of (m_get M k m)"

definition num_val :: "pyval \<Rightarrow> rat" where
  "num_val v = (case v of PInt i \<Rightarrow> of_int i | PFloat r \<Rightarrow> r | PBool b \<Rightarrow> (if b then 1 else 0) | _ \<Rightarrow> 0)"

definition int_val :: "pyval \<Rightarrow> int" where
  "int_val v = (case v of PInt i \<Rightarrow> i | _ \<Rightarrow> 0)"

definition num_hits :: "'m meta_ops \<Rightarrow> 'm \<Rightarrow> pyval" where
  "num_hits M m = (case m_get M ''hits'' m of Some v \<Rightarrow> v | None \<Rightarrow> PInt 0)"

definition cache_keyhits :: "'m meta_ops \<Rightarrow> 'm \<Rightarrow> pydict" where
  "cache_keyhits M m = m_dict M ''keyhits'' m"

definition cache_timestamps :: "'m meta_ops \<Rightarrow> 'm \<Rightarrow> pydict" where
  "cache_timestamps M m = m_dict M ''timestamps'' m"

definition cache_expirations :: "'m meta_ops \<Rightarrow> 'm \<Rightarrow> pydict" where
  "cache_expirations M m = m_dict M ''expirations'' m"

definition add_hit :: "'m meta_ops \<Rightarrow> 'm \<Rightarrow> 'm" where
  "add_hit M m =
     (let m1 = (if m_get M ''hits'' m = None then m_set M ''hits'' (PInt 0) m else m) in
      case m_get M ''hits'' m1 of
        Some (PInt n) \<Rightarrow> m_set M ''hits'' (PInt (n + 1)) m1
      | Some (PFloat r) \<Rightarrow> m_set M ''hits'' (PFloat (r + 1)) m1
      | Some (PBool b) \<Rightarrow> m_set M ''hits'' (PInt (if b then 2 else 1)) m1
      | _ \<Rightarrow> m_set M ''hits'' (PInt 1) m1)"

definition add_key_hit :: "'m meta_ops \<Rightarrow> string \<Rightarrow> 'm \<Rightarrow> 'm" where
  "add_key_hit M key m =
     (let kh = m_dict M ''keyhits'' m;
          kh = (if dict_has key kh then kh else dict_set key (PInt 0) kh) in
      m_set M ''keyhits'' (PDict (dict_set key (PInt (int_val (the (dict_get kh key)) + 1)) kh)) m)"

definition add_key_timestamp :: "'m meta_ops \<Rightarrow> rat \<Rightarrow> string \<Rightarrow> 'm \<Rightarrow> 'm" where
  "add_key_timestamp M now key m =
     m_set M ''timestamps'' (PDict (dict_set key (PFloat now) (m_dict M ''timestamps'' m))) m"

section \<open>The values in the database\<close>

definition field :: "cachify \<Rightarrow> string" where
  "field C = (case cache_field C of Some f \<Rightarrow> f | None \<Rightarrow> ''None'')"

definition value_key :: "cachify \<Rightarrow> string \<Rightarrow> string" where
  "value_key C key = (if hset_on C then key else field C @ '':'' @ key)"

definition value_of :: "rreply \<Rightarrow> rval option" where
  "value_of r = (case r of Bulk v \<Rightarrow> Some v | _ \<Rightarrow> None)"

definition positive :: "rreply \<Rightarrow> bool" where
  "positive r = (case r of Num n \<Rightarrow> n \<noteq> 0 | _ \<Rightarrow> False)"

definition c_get :: "'db executor \<Rightarrow> cachify \<Rightarrow> string \<Rightarrow> 'db \<Rightarrow> rval option" where
  "c_get exec C key d =
     value_of (reply_of exec (if hset_on C then HGET (field C) key else GET (value_key C key)) d)"

definition c_set :: "'db executor \<Rightarrow> cachify \<Rightarrow> string \<Rightarrow> rval \<Rightarrow> 'db \<Rightarrow> 'db" where
  "c_set exec C key v d =
     after exec (if hset_on C then HSET (field C) [(key, v)] else SET (value_key C key) v) d"

definition c_delete :: "'db executor \<Rightarrow> cachify \<Rightarrow> string \<Rightarrow> 'db \<Rightarrow> 'db" where
  "c_delete exec C key d =
     after exec (if hset_on C then HDEL (field C) [key] else DEL [value_key C key]) d"

definition c_exists :: "'db executor \<Rightarrow> cachify \<Rightarrow> string \<Rightarrow> 'db \<Rightarrow> bool" where
  "c_exists exec C key d =
     positive (reply_of exec (if hset_on C then HEXISTS (field C) key else EXISTS (value_key C key)) d)"

definition c_expire :: "'db executor \<Rightarrow> cachify \<Rightarrow> string \<Rightarrow> int \<Rightarrow> 'db \<Rightarrow> 'db" where
  "c_expire exec C key t d = after exec (EXPIRE (if hset_on C then field C else value_key C key) t) d"

text \<open>Listing the keys of the other mode calls \<open>get_key\<close> with two arguments.\<close>

definition c_length :: "'db executor \<Rightarrow> cachify \<Rightarrow> 'db \<Rightarrow> int result" where
  "c_length exec C d =
     (if hset_on C then Inr (case reply_of exec (HLEN (field C)) d of Num n \<Rightarrow> n | _ \<Rightarrow> 0) else Inl TypeError)"

definition c_keys :: "'db executor \<Rightarrow> cachify \<Rightarrow> 'db \<Rightarrow> string list result" where
  "c_keys exec C d =
     (if hset_on C then Inr (case reply_of exec (HKEYS (field C)) d of Strs ks \<Rightarrow> ks | _ \<Rightarrow> []) else Inl TypeError)"

fun decode_items :: "cachify \<Rightarrow> (string \<times> rval) list \<Rightarrow> pydict result" where
  "decode_items C [] = Inr []"
| "decode_items C ((k, v) # kvs) = bindR (decode C v) (\<lambda>x. bindR (decode_items C kvs) (\<lambda>r. Inr ((k, x) # r)))"

definition c_items :: "'db executor \<Rightarrow> cachify \<Rightarrow> 'db \<Rightarrow> pydict result" where
  "c_items exec C d =
     (if hset_on C
      then decode_items C (case reply_of exec (HGETALL (field C)) d of Pairs ps \<Rightarrow> ps | _ \<Rightarrow> [])
      else Inl TypeError)"

definition num_keys :: "'db executor \<Rightarrow> cachify \<Rightarrow> 'db \<Rightarrow> int result" where
  "num_keys exec C d = bindR (c_length exec C d) (\<lambda>n. Inr (max n 0))"

text \<open>\<open>clear\<close>: a string is a sequence of its characters when it is unpacked.\<close>

datatype keyarg = NoKeys | OneKey string | ManyKeys "string list"

definition keys_of_arg :: "keyarg \<Rightarrow> string list" where
  "keys_of_arg ka = (case ka of NoKeys \<Rightarrow> [] | OneKey s \<Rightarrow> map (\<lambda>c. [c]) s | ManyKeys ks \<Rightarrow> ks)"

definition c_clear :: "'db executor \<Rightarrow> 'm meta_ops \<Rightarrow> cachify \<Rightarrow> keyarg \<Rightarrow> 'db \<times> 'm \<Rightarrow> unit result \<times> 'db \<times> 'm" where
  "c_clear exec M C ka dm =
     (let ks = keys_of_arg ka; (d, m) = dm in
      if ks \<noteq> [] then
        (Inr (), after exec (if hset_on C then HDEL (field C) ks else DEL (map (value_key C) ks)) d, m)
      else
        let m1 = m_clear M m in
        if hset_on C then (Inr (), after exec (DEL [field C]) d, m1)
        else (Inl TypeError, d, m1))"

definition add_key_expiration ::
    "'db executor \<Rightarrow> 'm meta_ops \<Rightarrow> cachify \<Rightarrow> rat \<Rightarrow> string \<Rightarrow> int option \<Rightarrow> 'db \<times> 'm \<Rightarrow> 'db \<times> 'm" where
  "add_key_expiration exec M C now key t dm =
     (let (d, m) = dm in
      case t of
        None \<Rightarrow> (d, m)
      | Some x \<Rightarrow>
          if hset_on C
          then (d, m_set M ''expirations'' (PDict (dict_set key (PFloat (now + of_int x)) (m_dict M ''expirations'' m))) m)
          else (c_expire exec C key x d, m))"

definition pop_meta :: "'m meta_ops \<Rightarrow> string \<Rightarrow> string \<Rightarrow> 'm \<Rightarrow> 'm" where
  "pop_meta M k key m = (if dict_has key (m_dict M k m) then m_pop M k key m else m)"

definition invalidate_cache ::
    "'db executor \<Rightarrow> 'm meta_ops \<Rightarrow> cachify \<Rightarrow> string \<Rightarrow> 'db \<times> 'm \<Rightarrow> 'db \<times> 'm" where
  "invalidate_cache exec M C key dm =
     (c_delete exec C key (fst dm),
      m_flush M (pop_meta M ''expirations'' key (pop_meta M ''timestamps'' key (pop_meta M ''keyhits'' key (snd dm)))))"

section \<open>Expiring and evicting\<close>

definition due_keys :: "rat \<Rightarrow> pydict \<Rightarrow> string list" where
  "due_keys now exps = map fst (filter (\<lambda>(k, t). num_val t < now) exps)"

definition dict_del_all :: "string list \<Rightarrow> pydict \<Rightarrow> pydict" where
  "dict_del_all ks d = fold dict_del ks d"

definition expire_cache_expired_keys ::
    "'db executor \<Rightarrow> 'm meta_ops \<Rightarrow> cachify \<Rightarrow> rat \<Rightarrow> 'db \<times> 'm \<Rightarrow> 'db \<times> 'm" where
  "expire_cache_expired_keys exec M C now dm =
     (let (d, m) = dm;
          exps = m_dict M ''expirations'' m;
          gone = due_keys now exps in
      if gone = [] then dm
      else
        let kh = dict_del_all gone (m_dict M ''keyhits'' m);
            ts = dict_del_all gone (m_dict M ''timestamps'' m);
            m1 = m_set M ''expirations'' (PDict (dict_del_all gone exps)) m;
            m2 = m_set M ''keyhits'' (PDict kh) m1;
            m3 = m_set M ''timestamps'' (PDict ts) m2 in
        snd (c_clear exec M C (ManyKeys gone) (d, m3)))"

text \<open>\<open>sorted(d, key = d.get)\<close> and its reverse, cut to the excess; the key just read is spared.\<close>

definition by_value :: "pydict \<Rightarrow> string list" where
  "by_value d = map fst (sort_key (\<lambda>(k, v). num_val v) d)"

definition by_value_rev :: "pydict \<Rightarrow> string list" where
  "by_value_rev d = map fst (sorted_rev (\<lambda>(k, v). num_val v) d)"

definition victims :: "'m meta_ops \<Rightarrow> cache_policy \<Rightarrow> string \<Rightarrow> nat \<Rightarrow> 'm \<Rightarrow> string list" where
  "victims M policy key n m =
     remove1 key (take n
       (case policy of
          LRU \<Rightarrow> by_value (m_dict M ''timestamps'' m)
        | LFU \<Rightarrow> by_value (m_dict M ''keyhits'' m)
        | FIFO \<Rightarrow> by_value_rev (m_dict M ''timestamps'' m)
        | LIFO \<Rightarrow> by_value (m_dict M ''timestamps'' m)))"

definition avictims :: "'m meta_ops \<Rightarrow> cache_policy \<Rightarrow> string \<Rightarrow> nat \<Rightarrow> 'm \<Rightarrow> string list" where
  "avictims M policy key n m =
     remove1 key (take n
       (case policy of
          LRU \<Rightarrow> by_value_rev (m_dict M ''timestamps'' m)
        | LFU \<Rightarrow> by_value (m_dict M ''keyhits'' m)
        | FIFO \<Rightarrow> by_value_rev (m_dict M ''timestamps'' m)
        | LIFO \<Rightarrow> by_value (m_dict M ''timestamps'' m)))"

definition check_cache_policies ::
    "('m meta_ops \<Rightarrow> cache_policy \<Rightarrow> string \<Rightarrow> nat \<Rightarrow> 'm \<Rightarrow> string list) \<Rightarrow>
     'db executor \<Rightarrow> 'm meta_ops \<Rightarrow> cachify \<Rightarrow> string \<Rightarrow> 'db \<times> 'm \<Rightarrow> unit result \<times> 'db \<times> 'm" where
  "check_cache_policies vics exec M C key dm =
     (case num_keys exec C (fst dm) of
        Inl e \<Rightarrow> (Inl e, dm)
      | Inr n \<Rightarrow>
          (case cache_max_size C of
             None \<Rightarrow> (Inl TypeError, dm)
           | Some mx \<Rightarrow>
               if n \<le> mx then (Inr (), dm)
               else c_clear exec M C (ManyKeys (vics M (max_size_policy C) key (nat (n - mx)) (snd dm))) dm))"

definition validate_cache_policies ::
    "'db executor \<Rightarrow> 'm meta_ops \<Rightarrow> cachify \<Rightarrow> rat \<Rightarrow> string \<Rightarrow> 'db \<times> 'm \<Rightarrow> unit result \<times> 'db \<times> 'm" where
  "validate_cache_policies exec M C now key dm =
     (let (d1, m1) = expire_cache_expired_keys exec M C now (fst dm, add_hit M (snd dm)) in
      if \<not> hset_on C \<or> cache_max_size C = None then (Inr (), d1, m1)
      else check_cache_policies victims exec M C key (d1, add_key_timestamp M now key (add_key_hit M key m1)))"

definition avalidate_cache_policies ::
    "'db executor \<Rightarrow> 'm meta_ops \<Rightarrow> cachify \<Rightarrow> rat \<Rightarrow> string \<Rightarrow> 'db \<times> 'm \<Rightarrow> unit result \<times> 'db \<times> 'm" where
  "avalidate_cache_policies exec M C now key dm =
     (let (d1, m1) = expire_cache_expired_keys exec M C now (fst dm, add_hit M (snd dm)) in
      if \<not> hset_on C \<or> cache_max_size C = None then (Inr (), d1, m1)
      else check_cache_policies avictims exec M C key (d1, add_key_hit M key (add_key_timestamp M now key m1)))"

section \<open>Calls\<close>

definition encode_hit :: "cachify \<Rightarrow> pyval \<Rightarrow> pyargs \<Rightarrow> rval result" where
  "encode_hit C v pa =
     bindR (case hit_setter C of Some f \<Rightarrow> f v pa | None \<Rightarrow> Inr v) (\<lambda>x. Inr (encode C x))"

definition decode_hit :: "cachify \<Rightarrow> rval \<Rightarrow> pyargs \<Rightarrow> pyval result" where
  "decode_hit C r pa =
     bindR (decode C r) (\<lambda>x. case hit_getter C of Some f \<Rightarrow> f x pa | None \<Rightarrow> Inr x)"

text \<open>\<open>retrieve\<close>, with the policies that run after a hit as an argument; they run in the
  call itself.\<close>

definition retrieve ::
    "('db \<times> 'm \<Rightarrow> unit result \<times> 'db \<times> 'm) \<Rightarrow> 'db executor \<Rightarrow> cachify \<Rightarrow> string \<Rightarrow> pydict \<Rightarrow> pyargs \<Rightarrow>
     'db \<times> 'm \<Rightarrow> pyval result \<times> 'db \<times> 'm" where
  "retrieve validate exec C key ck pa dm =
     (if should_overwrite C ck pa then (Inr ENOVAL, dm)
      else if \<not> c_exists exec C key (fst dm) then (Inr ENOVAL, dm)
      else case c_get exec C key (fst dm) of
        None \<Rightarrow> (Inr ENOVAL, dm)
      | Some v \<Rightarrow>
          (case validate dm of
             (Inl e, dm1) \<Rightarrow> (Inl e, dm1)
           | (Inr u, dm1) \<Rightarrow>
               (case decode_hit C v pa of
                  Inl e \<Rightarrow> (Inr ENOVAL, dm1)
                | Inr r \<Rightarrow> (Inr (if r \<noteq> PNone then r else ENOVAL), dm1))))"

definition ttl_of :: "cachify \<Rightarrow> pydict \<Rightarrow> int option" where
  "ttl_of C ck =
     (case dict_get ck ''ttl'' of Some (PInt t) \<Rightarrow> if t \<noteq> 0 then Some t else ttl C | _ \<Rightarrow> ttl C)"

definition store ::
    "'db executor \<Rightarrow> 'm meta_ops \<Rightarrow> cachify \<Rightarrow> rat \<Rightarrow> string \<Rightarrow> pyval \<Rightarrow> pydict \<Rightarrow> pyargs \<Rightarrow> 'db \<times> 'm \<Rightarrow> 'db \<times> 'm" where
  "store exec M C now key v ck pa dm =
     (case encode_hit C v pa of
        Inl e \<Rightarrow> dm
      | Inr r \<Rightarrow> add_key_expiration exec M C now key (ttl_of C ck) (c_set exec C key r (fst dm), snd dm))"

text \<open>One call of the wrapped function: the answer, how often the function itself was called,
  whether it was a hit, and the new state. The post-call hook only sees the result.\<close>

definition run_miss ::
    "'db executor \<Rightarrow> 'm meta_ops \<Rightarrow> cachify \<Rightarrow> (pyargs \<Rightarrow> pyval result) \<Rightarrow> rat \<Rightarrow> string \<Rightarrow> pydict \<Rightarrow> pyargs \<Rightarrow>
     'db \<times> 'm \<Rightarrow> pyval result \<times> 'db \<times> 'm" where
  "run_miss exec M C func now key ck pa dm =
     (case func pa of
        Inl e \<Rightarrow> (if raise_exceptions C then Inl e else Inr PNone, dm)
      | Inr v \<Rightarrow> (Inr v, if should_cache_value C v ck pa then store exec M C now key v ck pa dm else dm))"

definition cached_call ::
    "'db executor \<Rightarrow> 'm meta_ops \<Rightarrow> (pyargs \<Rightarrow> pyval result) \<Rightarrow> rat \<Rightarrow> cachify \<Rightarrow> pyargs \<Rightarrow> 'db \<times> 'm \<Rightarrow>
     (pyval result \<times> nat \<times> bool) \<times> 'db \<times> 'm" where
  "cached_call exec M func now C pa0 dm =
     (let (ck, kwargs) = extract_cache_kwargs C (snd pa0); pa = (fst pa0, kwargs) in
      if should_disable C ck pa then ((func pa, 1, False), dm)
      else
        let key = hash_key C pa;
            dm1 = (if should_invalidate C None ck pa then invalidate_cache exec M C key dm else dm) in
        (case retrieve (validate_cache_policies exec M C now key) exec C key ck pa dm1 of
           (Inl e, dm2) \<Rightarrow> ((Inl e, 0, False), dm2)
         | (Inr v, dm2) \<Rightarrow>
             if v = ENOVAL
             then (case run_miss exec M C func now key ck pa dm2 of (r, dm3) \<Rightarrow> ((r, 1, False), dm3))
             else ((Inr v, 0, True), dm2)))"

definition acached_call ::
    "'db executor \<Rightarrow> 'm meta_ops \<Rightarrow> (pyargs \<Rightarrow> pyval result) \<Rightarrow> rat \<Rightarrow> cachify \<Rightarrow> pyargs \<Rightarrow> 'db \<times> 'm \<Rightarrow>
     (pyval result \<times> nat \<times> bool) \<times> 'db \<times> 'm" where
  "acached_call exec M func now C pa0 dm =
     (let (ck, kwargs) = extract_cache_kwargs C (snd pa0); pa = (fst pa0, kwargs) in
      if should_disable C ck pa then ((func pa, 1, False), dm)
      else
        let key = hash_key C pa;
            hits = Some (int_val (num_hits M (snd dm)));
            dm1 = (if should_invalidate C hits ck pa then invalidate_cache exec M C key dm else dm) in
        (case retrieve (avalidate_cache_policies exec M C now key) exec C key ck pa dm1 of
           (Inl e, dm2) \<Rightarrow> ((Inl e, 0, False), dm2)
         | (Inr v, dm2) \<Rightarrow>
             if v = ENOVAL
             then (case run_miss exec M C func now key ck pa dm2 of (r, dm3) \<Rightarrow> ((r, 1, False), dm3))
             else ((Inr v, 0, True), dm2)))"

text \<open>The wrapper without a session, and with one.\<close>

definition wrapper_call ::
    "'db executor \<Rightarrow> 'm meta_ops \<Rightarrow> string \<Rightarrow> bool \<Rightarrow> (pyargs \<Rightarrow> pyval result) \<Rightarrow> rat \<Rightarrow> cachify \<Rightarrow> pyargs \<Rightarrow>
     'db \<times> 'm \<Rightarrow> (pyval result \<times> nat \<times> bool) \<times> cachify \<times> 'db \<times> 'm" where
  "wrapper_call exec M full_name session_ok func now C pa dm =
     (if \<not> session_ok
      then ((func pa, if is_ok (func pa) then 1 else 2, False), C, dm)
      else
        let C1 = build_hash_name full_name pa C;
            (r, dm1) = cached_call exec M func now C1 pa dm in (r, C1, dm1))"

end
