(* ===== verification/Cachify_Laws.thy ===== *)
theory Cachify_Laws
  imports Cachify
begin

text \<open>
  What the cache promises, on any server that obeys the laws of hashes and any metadata store
  that obeys the laws of a dictionary. In hash mode the cache is the map behind the
  cache field; \<open>m_dict M ''expirations'' m\<close> and its siblings are what the metadata tell of it.
\<close>

section \<open>The metadata store\<close>

locale meta_store =
  fixes M :: "'m meta_ops"
  assumes get_set: "m_get M k (m_set M k' v m) = (if k = k' then Some v else m_get M k m)"
    and get_pop: "m_get M k (m_pop M k' x m) =
      (if k = k' then map_option (\<lambda>v. PDict (dict_del x (dict_of (Some v)))) (m_get M k m) else m_get M k m)"
    and get_clear: "m_get M k (m_clear M m) = None"
    and get_flush: "m_get M k (m_flush M m) = m_get M k m"
begin

lemma dict_after_set [simp]:
  "m_dict M k (m_set M k' (PDict e) m) = (if k = k' then e else m_dict M k m)"
  by (simp add: m_dict_def get_set dict_of_def)

lemma dict_after_set_int [simp]:
  "m_dict M k (m_set M k' (PInt n) m) = (if k = k' then [] else m_dict M k m)"
  by (simp add: m_dict_def get_set dict_of_def)

lemma dict_after_set_float [simp]:
  "m_dict M k (m_set M k' (PFloat n) m) = (if k = k' then [] else m_dict M k m)"
  by (simp add: m_dict_def get_set dict_of_def)

lemma dict_after_pop [simp]:
  "m_dict M k (m_pop M k' x m) = (if k = k' then dict_del x (m_dict M k m) else m_dict M k m)"
  by (simp add: m_dict_def get_pop dict_of_def dict_del_def split: option.split)

lemma dict_after_clear [simp]: "m_dict M k (m_clear M m) = []"
  by (simp add: m_dict_def get_clear dict_of_def)

lemma dict_after_flush [simp]: "m_dict M k (m_flush M m) = m_dict M k m"
  by (simp add: m_dict_def get_flush)

lemma add_hit_dict [simp]: "k \<noteq> ''hits'' \<Longrightarrow> m_dict M k (add_hit M m) = m_dict M k m"
  by (auto simp: add_hit_def Let_def split: option.split pyval.split)

lemma dict_del_absent: "\<not> dict_has x e \<Longrightarrow> dict_del x e = e"
  by (simp add: dict_has_def dict_del_def delete_id)

lemma pop_meta_dict [simp]:
  "m_dict M k (pop_meta M k' x m) = (if k = k' then dict_del x (m_dict M k m) else m_dict M k m)"
  by (simp add: pop_meta_def dict_del_absent)

end

definition mem_meta :: "(string \<times> pyval) list meta_ops" where
  "mem_meta = \<lparr>m_get = (\<lambda>k m. dict_get m k), m_set = dict_set,
     m_pop = (\<lambda>k x m. case dict_get m k of
        Some v \<Rightarrow> dict_set k (PDict (dict_del x (dict_of (Some v)))) m | None \<Rightarrow> m),
     m_clear = (\<lambda>m. []), m_flush = (\<lambda>m. m)\<rparr>"

interpretation mem_meta: meta_store mem_meta
proof unfold_locales
  show "m_get mem_meta k (m_set mem_meta k' v m) = (if k = k' then Some v else m_get mem_meta k m)" for k k' v m
    by (simp add: mem_meta_def)
  show "m_get mem_meta k (m_pop mem_meta k' x m) =
      (if k = k' then map_option (\<lambda>v. PDict (dict_del x (dict_of (Some v)))) (m_get mem_meta k m)
       else m_get mem_meta k m)" for k k' x m
    by (simp add: mem_meta_def split: option.split)
  show "m_get mem_meta k (m_clear mem_meta m) = None" for k m by (simp add: mem_meta_def dict_get_def)
  show "m_get mem_meta k (m_flush mem_meta m) = m_get mem_meta k m" for k m by (simp add: mem_meta_def)
qed

section \<open>The cache as a map\<close>

locale cache_env = redis_hashes exec view + meta_store M
  for exec :: "rcmd \<Rightarrow> 'db \<Rightarrow> rreply \<times> 'db" and view :: "'db \<Rightarrow> string \<Rightarrow> robj option" and M :: "'m meta_ops"

interpretation mem_cache: cache_env mem_exec mview mem_meta
  by unfold_locales

definition caches :: "('db \<Rightarrow> string \<Rightarrow> robj option) \<Rightarrow> cachify \<Rightarrow> 'db \<Rightarrow> (string \<Rightarrow> rval option) \<Rightarrow> bool" where
  "caches view C d h \<longleftrightarrow> hset_on C \<and> as_hash (view d (field C)) = Some h"

context cache_env
begin

lemma cached_get: "caches view C d h \<Longrightarrow> c_get exec C k d = h k"
  by (simp add: caches_def c_get_def hget_reply value_of_def split: option.split)

lemma cached_exists: "caches view C d h \<Longrightarrow> c_exists exec C k d \<longleftrightarrow> h k \<noteq> None"
  by (simp add: caches_def c_exists_def hexists_reply positive_def)

lemma cached_set: "caches view C d h \<Longrightarrow> caches view C (c_set exec C k v d) (h(k \<mapsto> v))"
  by (simp add: caches_def c_set_def hset_effect)

lemma hdel_one: "hdel_all [k] h = h(k := None)"
  by auto

lemma cached_delete: "caches view C d h \<Longrightarrow> caches view C (c_delete exec C k d) (h(k := None))"
  using hdel_effect[of d "field C" h "[k]"]
  by (simp add: caches_def c_delete_def hdel_one del: hdel_all.simps)

lemma cached_num_keys: "caches view C d h \<Longrightarrow> num_keys exec C d = Inr (int (card (dom h)))"
  by (simp add: caches_def num_keys_def c_length_def hlen_reply)

lemma cached_clear_some:
  assumes "caches view C d h" "ks \<noteq> []"
  shows "\<exists>d'. c_clear exec M C (ManyKeys ks) (d, m) = (Inr (), d', m) \<and>
    caches view C d' (\<lambda>k. if k \<in> set ks then None else h k)"
proof -
  have "hdel_all ks h = (\<lambda>k. if k \<in> set ks then None else h k)" by (rule ext) simp
  then show ?thesis
    using assms hdel_effect[of d "field C" h ks] by (auto simp: caches_def c_clear_def keys_of_arg_def)
qed

lemma cached_clear_all:
  assumes "caches view C d h"
  shows "\<exists>d'. c_clear exec M C (ManyKeys []) (d, m) = (Inr (), d', m_clear M m) \<and>
    caches view C d' Map.empty"
  using assms by (auto simp: caches_def c_clear_def keys_of_arg_def del_effect)

lemma expire_spec:
  assumes "caches view C d h"
  shows "\<exists>d' m'. expire_cache_expired_keys exec M C now (d, m) = (d', m') \<and>
    caches view C d' (\<lambda>k. if k \<in> set (due_keys now (m_dict M ''expirations'' m)) then None else h k)"
proof (cases "due_keys now (m_dict M ''expirations'' m) = []")
  case True
  then show ?thesis using assms by (simp add: expire_cache_expired_keys_def)
next
  case False
  define ks where "ks = due_keys now (m_dict M ''expirations'' m)"
  define m3 where "m3 = m_set M ''timestamps'' (PDict (dict_del_all ks (m_dict M ''timestamps'' m)))
     (m_set M ''keyhits'' (PDict (dict_del_all ks (m_dict M ''keyhits'' m)))
       (m_set M ''expirations'' (PDict (dict_del_all ks (m_dict M ''expirations'' m))) m))"
  have "ks \<noteq> []" using False by (simp add: ks_def)
  from cached_clear_some[OF assms this, of m3] obtain d' where
    "c_clear exec M C (ManyKeys ks) (d, m3) = (Inr (), d', m3)"
    "caches view C d' (\<lambda>k. if k \<in> set ks then None else h k)" by blast
  then show ?thesis
    using False by (auto simp: expire_cache_expired_keys_def Let_def ks_def m3_def)
qed

end

section \<open>Calls\<close>

text \<open>A call whose arguments decide nothing: the cache is neither disabled nor invalidated nor
  overwritten. \<open>ck\<close> are the cache's own arguments, \<open>pa\<close> the function's.\<close>

definition quiet_call :: "cachify \<Rightarrow> pyargs \<Rightarrow> pydict \<Rightarrow> pyargs \<Rightarrow> bool" where
  "quiet_call C pa0 ck pa \<longleftrightarrow>
     extract_cache_kwargs C (snd pa0) = (ck, snd pa) \<and> fst pa0 = fst pa \<and>
     \<not> should_disable C ck pa \<and> \<not> should_invalidate C None ck pa \<and> \<not> should_overwrite C ck pa"

definition proper :: "pyval \<Rightarrow> bool" where
  "proper v \<longleftrightarrow> v \<noteq> PNone \<and> v \<noteq> ENOVAL"

abbreviation without :: "string list \<Rightarrow> (string \<Rightarrow> rval option) \<Rightarrow> string \<Rightarrow> rval option" where
  "without ks h \<equiv> (\<lambda>k. if k \<in> set ks then None else h k)"

lemma due_keysI: "dict_get e k = Some (PFloat t) \<Longrightarrow> t < now \<Longrightarrow> k \<in> set (due_keys now e)"
  by (force simp: due_keys_def dict_get_def num_val_def dest: map_of_SomeD)

context cache_env
begin

lemma quiet_call_eq:
  assumes "quiet_call C pa0 ck pa"
  shows "cached_call exec M func now C pa0 dm =
     (case retrieve (validate_cache_policies exec M C now (hash_key C pa)) exec C (hash_key C pa) ck pa dm of
           (Inl e, dm2) \<Rightarrow> ((Inl e, 0, False), dm2)
         | (Inr v, dm2) \<Rightarrow>
             if v = ENOVAL
             then (case run_miss exec M C func now (hash_key C pa) ck pa dm2 of (r, dm3) \<Rightarrow> ((r, 1, False), dm3))
             else ((Inr v, 0, True), dm2))"
  using assms by (cases pa; cases pa0; hypsubst) (simp add: quiet_call_def cached_call_def Let_def)

lemma validate_unbounded:
  assumes "caches view C d h" "cache_max_size C = None"
  shows "\<exists>d' m'. validate_cache_policies exec M C now k (d, m) = (Inr (), d', m') \<and>
    caches view C d' (without (due_keys now (m_dict M ''expirations'' m)) h)"
  using expire_spec[OF assms(1), of now "add_hit M m"] assms(2)
  by (auto simp: validate_cache_policies_def Let_def)

lemma cached_hit:
  assumes q: "quiet_call C pa0 ck pa" and h: "caches view C d h" and mx: "cache_max_size C = None"
    and r: "h (hash_key C pa) = Some r" "decode_hit C r pa = Inr v" "proper v"
  shows "\<exists>d' m'. cached_call exec M func now C pa0 (d, m) = ((Inr v, 0, True), d', m') \<and>
    caches view C d' (without (due_keys now (m_dict M ''expirations'' m)) h)"
proof -
  obtain d' m' where val: "validate_cache_policies exec M C now (hash_key C pa) (d, m) = (Inr (), d', m')"
    and h': "caches view C d' (without (due_keys now (m_dict M ''expirations'' m)) h)"
    using validate_unbounded[OF h mx] by blast
  have "\<not> should_overwrite C ck pa" using q by (simp add: quiet_call_def)
  then have "retrieve (validate_cache_policies exec M C now (hash_key C pa)) exec C (hash_key C pa) ck pa (d, m)
      = (Inr v, d', m')"
    using r by (simp add: retrieve_def cached_exists[OF h] cached_get[OF h] val proper_def)
  then show ?thesis using r(3) h' by (simp add: quiet_call_eq[OF q] proper_def)
qed

lemma cached_miss:
  assumes q: "quiet_call C pa0 ck pa" and h: "caches view C d h" and none: "h (hash_key C pa) = None"
  shows "cached_call exec M func now C pa0 (d, m) =
    (case run_miss exec M C func now (hash_key C pa) ck pa (d, m) of (r, dm) \<Rightarrow> ((r, 1, False), dm))"
proof -
  have "retrieve (validate_cache_policies exec M C now (hash_key C pa)) exec C (hash_key C pa) ck pa (d, m)
      = (Inr ENOVAL, d, m)"
    using none by (simp add: retrieve_def cached_exists[OF h])
  then show ?thesis by (simp add: quiet_call_eq[OF q])
qed

lemma miss_stores:
  assumes h: "caches view C d h" and f: "func pa = Inr v" and c: "should_cache_value C v ck pa"
    and e: "encode_hit C v pa = Inr r"
  shows "\<exists>d' m'. run_miss exec M C func now k ck pa (d, m) = (Inr v, d', m') \<and>
    caches view C d' (h(k \<mapsto> r)) \<and>
    m_dict M ''expirations'' m' = (case ttl_of C ck of
       None \<Rightarrow> m_dict M ''expirations'' m
     | Some t \<Rightarrow> dict_set k (PFloat (now + of_int t)) (m_dict M ''expirations'' m))"
  using cached_set[OF h, of k r] h f c e
  by (auto simp: run_miss_def store_def add_key_expiration_def caches_def split: option.split)

end

context cache_env
begin

lemma stored_then_answered:
  assumes "quiet_call C pa0 ck pa" "caches view C d h" "cache_max_size C = None"
    and "h (hash_key C pa) = None" "func pa = Inr v" "should_cache_value C v ck pa" "proper v"
    and "encode_hit C v pa = Inr r" "decode_hit C r pa = Inr v"
  shows "\<exists>dm1. cached_call exec M func now C pa0 (d, m) = ((Inr v, 1, False), dm1) \<and>
    (\<forall>func2 now2. fst (cached_call exec M func2 now2 C pa0 dm1) = (Inr v, 0, True))"
proof -
  obtain d1 m1 where miss: "run_miss exec M C func now (hash_key C pa) ck pa (d, m) = (Inr v, d1, m1)"
    and h1: "caches view C d1 (h(hash_key C pa \<mapsto> r))"
    using miss_stores[OF assms(2), of func pa v ck r now "hash_key C pa" m] assms(5,6,8) by blast
  have "\<exists>d2 m2. cached_call exec M func2 now2 C pa0 (d1, m1) = ((Inr v, 0, True), d2, m2) \<and>
      caches view C d2 (without (due_keys now2 (m_dict M ''expirations'' m1)) (h(hash_key C pa \<mapsto> r)))" for func2 now2
    by (rule cached_hit[OF assms(1) h1 assms(3)]) (use assms(7,9) in simp_all)
  then have "fst (cached_call exec M func2 now2 C pa0 (d1, m1)) = (Inr v, 0, True)" for func2 now2 by (metis fst_conv)
  then show ?thesis using cached_miss[OF assms(1,2,4)] miss by auto
qed

end

text \<open>C39. A result that has been stored is what the next call with the same arguments answers,
  without calling the function, whatever the time and whatever the function would say by then:
  even after the time to live has passed, because a hit is read before the expired entries are
  removed.\<close>

theorem stored_result_answers:
  assumes "cache_env exec view M" "quiet_call C pa0 ck pa" "caches view C d h" "cache_max_size C = None"
    and "h (hash_key C pa) = None" "func pa = Inr v" "should_cache_value C v ck pa" "proper v"
    and "encode_hit C v pa = Inr r" "decode_hit C r pa = Inr v"
  shows "\<exists>dm1. cached_call exec M func now C pa0 (d, m) = ((Inr v, 1, False), dm1) \<and>
    fst (cached_call exec M func2 now2 C pa0 dm1) = (Inr v, 0, True)"
  using cache_env.stored_then_answered[OF assms(1), of C pa0 ck pa d h func v r now m] assms(2-) by blast

definition ex_cache :: cachify where
  "ex_cache = \<lparr>cache_field = Some ''f'', cache_name = None, cache_prefix = None, hset_on = True, ttl = Some 5,
     ttl_kws = [''cache_ttl''], disabled = NotDisabled, disabled_kws = [''cache_disable''],
     invalidate_if = None, invalidate_kws = [''cache_invalidate''], invalidate_after = NeverAfter,
     overwrite_if = None, overwrite_kws = [''cache_overwrite''], exclude_null = True,
     exclude_exceptions = AllExceptions, exclude_kws = [''cache_exclude''], exclude_if = None,
     hit_setter = None, hit_getter = None, cache_max_size = None, max_size_policy = LFU,
     raise_exceptions = True, hash_key = (\<lambda>pa. ''k''),
     encode = (\<lambda>v. RInt (int_val v)), decode = (\<lambda>r. case r of RInt i \<Rightarrow> Inr (PInt i) | RStr s \<Rightarrow> Inr (PStr s)),
     is_subclass = (\<lambda>c b. c = b)\<rparr>"

lemma ex_cache_quiet: "quiet_call ex_cache ([], []) [] ([], [])"
  by (simp add: quiet_call_def ex_cache_def extract_cache_kwargs_def dict_get_def should_disable_def
      should_invalidate_def should_overwrite_def)

lemma ex_cache_fields:
  "hset_on ex_cache" "cache_max_size ex_cache = None" "hash_key ex_cache pa = ''k''" "field ex_cache = ''f''"
  by (simp_all add: ex_cache_def field_def)

lemma ex_cache_keeps:
  "should_cache_value ex_cache (PInt i) ck pa \<longleftrightarrow> dict_get ck ''exclude'' \<noteq> Some (PBool True)"
  "encode_hit ex_cache (PInt i) pa = Inr (RInt i)" "decode_hit ex_cache (RInt i) pa = Inr (PInt i)"
  "proper (PInt i)"
  by (simp_all add: ex_cache_def should_cache_value_def encode_hit_def decode_hit_def int_val_def
      proper_def ENOVAL_def)

theorem stored_result_answers_witness:
  "\<exists>dm1. cached_call mem_exec mem_meta (\<lambda>pa. Inr (PInt 7)) 0 ex_cache ([], []) ([], []) = ((Inr (PInt 7), 1, False), dm1) \<and>
    fst (cached_call mem_exec mem_meta (\<lambda>pa. Inr (PInt 8)) 100 ex_cache ([], []) dm1) = (Inr (PInt 7), 0, True)"
proof (rule stored_result_answers[OF mem_cache.cache_env_axioms, OF ex_cache_quiet, where h = Map.empty and r = "RInt 7"])
  show "caches mview ex_cache [] Map.empty" by (simp add: caches_def ex_cache_fields mview_def dict_get_def)
qed (simp_all add: ex_cache_fields ex_cache_keeps dict_get_def)

text \<open>An entry past its time to live is served exactly once more: the call finds it, answers
  from it, and removes it; the call after that runs the function.\<close>

theorem expired_served_once:
  assumes "cache_env exec view M" "quiet_call C pa0 ck pa" "caches view C d h" "cache_max_size C = None"
    and "h (hash_key C pa) = Some r" "decode_hit C r pa = Inr v" "proper v"
    and "dict_get (m_dict M ''expirations'' m) (hash_key C pa) = Some (PFloat t)" "t < now"
    and "func pa = Inr v2"
  shows "\<exists>dm1 dm2. cached_call exec M func now C pa0 (d, m) = ((Inr v, 0, True), dm1) \<and>
    cached_call exec M func now2 C pa0 dm1 = ((Inr v2, 1, False), dm2)"
proof -
  obtain d1 m1 where hit: "cached_call exec M func now C pa0 (d, m) = ((Inr v, 0, True), d1, m1)"
    and h1: "caches view C d1 (without (due_keys now (m_dict M ''expirations'' m)) h)"
    using cache_env.cached_hit[OF assms(1), OF assms(2), OF assms(3), OF assms(4), OF assms(5), OF assms(6), OF assms(7)]
    by blast
  have "hash_key C pa \<in> set (due_keys now (m_dict M ''expirations'' m))"
    by (rule due_keysI[OF assms(8,9)])
  then have gone: "without (due_keys now (m_dict M ''expirations'' m)) h (hash_key C pa) = None" by simp
  obtain dm2 where "cached_call exec M func now2 C pa0 (d1, m1) = ((Inr v2, 1, False), dm2)"
    using cache_env.cached_miss[OF assms(1), OF assms(2), OF h1, OF gone] assms(10) by (auto simp: run_miss_def)
  with hit show ?thesis by blast
qed

definition ex_meta :: "(string \<times> pyval) list" where
  "ex_meta = [(''expirations'', PDict [(''k'', PFloat 5)])]"

theorem expired_served_once_witness:
  "\<exists>dm1 dm2. cached_call mem_exec mem_meta (\<lambda>pa. Inr (PInt 8)) 100 ex_cache ([], []) (after mem_exec (HSET ''f'' [(''k'', RInt 7)]) [], ex_meta)
      = ((Inr (PInt 7), 0, True), dm1) \<and>
    cached_call mem_exec mem_meta (\<lambda>pa. Inr (PInt 8)) 101 ex_cache ([], []) dm1 = ((Inr (PInt 8), 1, False), dm2)"
proof (rule expired_served_once[OF mem_cache.cache_env_axioms, OF ex_cache_quiet,
      where h = "[''k'' \<mapsto> RInt 7]" and r = "RInt 7" and t = 5])
  have "as_hash (mview [] ''f'') = Some Map.empty" by (simp add: mview_def dict_get_def)
  from mem.hset_effect[OF this, of "[(''k'', RInt 7)]"]
  show "caches mview ex_cache (after mem_exec (HSET ''f'' [(''k'', RInt 7)]) []) [''k'' \<mapsto> RInt 7]"
    by (simp add: caches_def ex_cache_fields)
qed (simp_all add: ex_cache_fields ex_cache_keeps ex_meta_def m_dict_def mem_meta_def dict_get_def dict_of_def)

section \<open>Eviction\<close>

context cache_env
begin

lemma check_spec:
  assumes "caches view C d h" "cache_max_size C = Some mx" "mx < int (card (dom h))"
    and "ks = vics M (max_size_policy C) k (nat (int (card (dom h)) - mx)) m"
  shows "\<exists>d' m'. check_cache_policies vics exec M C k (d, m) = (Inr (), d', m') \<and>
    (if ks = [] then caches view C d' Map.empty \<and> m' = m_clear M m
     else caches view C d' (without ks h) \<and> m' = m)"
proof (cases "ks = []")
  case True
  then show ?thesis
    using cached_clear_all[OF assms(1), of m] assms(2-4) cached_num_keys[OF assms(1)]
    by (auto simp: check_cache_policies_def)
next
  case False
  then show ?thesis
    using cached_clear_some[OF assms(1) False, of m] assms(2-4) cached_num_keys[OF assms(1)]
    by (auto simp: check_cache_policies_def)
qed

end

text \<open>What an eviction does. When the chosen keys are not empty, exactly they disappear from
  the cache, but the metadata that chose them stay, so the next eviction chooses the same,
  by then absent, keys. When there is nothing to choose, for instance because the only
  candidate is the key just read, the whole cache and all its metadata are deleted.\<close>

theorem eviction_effect:
  assumes "cache_env exec view M" "caches view C d h" "cache_max_size C = Some mx" "mx < int (card (dom h))"
    and "ks = victims M (max_size_policy C) k (nat (int (card (dom h)) - mx)) m"
  shows "\<exists>d' m'. check_cache_policies victims exec M C k (d, m) = (Inr (), d', m') \<and>
    (if ks = [] then caches view C d' Map.empty \<and> (\<forall>x. m_get M x m' = None)
     else caches view C d' (without ks h) \<and> (\<forall>n. victims M (max_size_policy C) k n m' = victims M (max_size_policy C) k n m))"
proof -
  have "m_get M x (m_clear M m) = None" for x
    using assms(1) by (simp add: cache_env_def meta_store.get_clear)
  then show ?thesis
    using cache_env.check_spec[OF assms(1), OF assms(2), OF assms(3), OF assms(4), where vics = victims, OF assms(5)]
    by (auto split: if_splits)
qed

definition small_cache :: cachify where
  "small_cache = ex_cache\<lparr>cache_max_size := Some 1\<rparr>"

definition two_entries :: mdb where
  "two_entries = after mem_exec (HSET ''f'' [(''a'', RInt 1), (''b'', RInt 2)]) []"

lemma two_entries_cached: "caches mview small_cache two_entries [''a'' \<mapsto> RInt 1, ''b'' \<mapsto> RInt 2]"
proof -
  have "as_hash (mview [] ''f'') = Some Map.empty" by (simp add: mview_def dict_get_def)
  from mem.hset_effect[OF this, of "[(''a'', RInt 1), (''b'', RInt 2)]"] show ?thesis
    by (simp add: caches_def small_cache_def ex_cache_def field_def two_entries_def)
qed

theorem eviction_effect_witness:
  "\<exists>d' m'. check_cache_policies victims mem_exec mem_meta small_cache ''a'' (two_entries, ex_meta) = (Inr (), d', m') \<and>
    caches mview small_cache d' Map.empty \<and> (\<forall>x. m_get mem_meta x m' = None)"
proof -
  have "victims mem_meta (max_size_policy small_cache) ''a'' (nat (int (card (dom [''a'' \<mapsto> RInt 1, ''b'' \<mapsto> RInt 2])) - 1)) ex_meta = []"
    by (simp add: victims_def small_cache_def ex_cache_def by_value_def ex_meta_def m_dict_def mem_meta_def dict_get_def dict_of_def)
  then show ?thesis
    using eviction_effect[OF mem_cache.cache_env_axioms, OF two_entries_cached, of 1 "[]" "''a''" ex_meta]
    by (simp add: small_cache_def)
qed

definition score :: "pydict \<Rightarrow> string \<Rightarrow> rat" where
  "score e k = num_val (the (dict_get e k))"

lemma map_score: "wf_dict e \<Longrightarrow> set xs \<subseteq> set e \<Longrightarrow> map (score e) (map fst xs) = map (\<lambda>(k, v). num_val v) xs"
  by (auto simp: score_def wf_dict_def dict_get_def)

lemma by_value_sorted: "wf_dict e \<Longrightarrow> sorted (map (score e) (by_value e))"
  unfolding by_value_def by (subst map_score) auto

lemma by_value_rev_sorted: "wf_dict e \<Longrightarrow> sorted (map (score e) (rev (by_value_rev e)))"
  unfolding by_value_rev_def sorted_rev_def rev_map rev_rev_ident by (subst map_score) auto

lemma set_by_value: "set (by_value e) = fst ` set e" "set (by_value_rev e) = fst ` set e"
  by (auto simp: by_value_def by_value_rev_def)

lemma take_drop_member: "y \<in> set xs \<Longrightarrow> y \<notin> set (take n xs) \<Longrightarrow> y \<in> set (drop n xs)"
  by (metis UnE append_take_drop_id set_append)

lemma lowest_first:
  assumes "wf_dict e" "x \<in> set (take n (by_value e))" "y \<in> fst ` set e" "y \<notin> set (take n (by_value e))"
  shows "score e x \<le> score e y"
  by (rule sorted_take_le_drop[OF by_value_sorted[OF assms(1)] assms(2)])
     (rule take_drop_member, use assms set_by_value in auto)

lemma highest_first:
  assumes "wf_dict e" "x \<in> set (take n (by_value_rev e))" "y \<in> fst ` set e" "y \<notin> set (take n (by_value_rev e))"
  shows "score e y \<le> score e x"
proof -
  let ?ys = "rev (by_value_rev e)"
  have "take (length ?ys - (length ?ys - n)) (by_value_rev e) = take n (by_value_rev e)"
    by (cases "n \<le> length (by_value_rev e)") simp_all
  then have "x \<in> set (drop (length ?ys - n) ?ys)" using assms(2) by (simp add: drop_rev)
  moreover have "drop (length ?ys - (length ?ys - n)) (by_value_rev e) = drop n (by_value_rev e)"
    by (cases "n \<le> length (by_value_rev e)") simp_all
  then have "y \<in> set (take (length ?ys - n) ?ys)"
    using take_drop_member[of y "by_value_rev e" n] assms(3,4) set_by_value(2)[of e] by (simp add: take_rev)
  ultimately show ?thesis by (intro sorted_take_le_drop[OF by_value_rev_sorted[OF assms(1)]])
qed

text \<open>Which entries an eviction picks. Every picked entry ranks before every other tracked one
  that stays (the key just read excepted): with LFU by fewer hits; with LRU and with LIFO by the
  older timestamp, in the synchronous cache; with FIFO by the newer timestamp. So FIFO, documented
  to discard the oldest items first, discards the newest, and LIFO the oldest. In the
  asynchronous cache LRU discards the most recently used ones.\<close>

theorem eviction_order:
  assumes "wf_dict (m_dict M ''keyhits'' m)" "wf_dict (m_dict M ''timestamps'' m)"
  shows "let e = m_dict M (if p = LFU then ''keyhits'' else ''timestamps'') m in
    (\<forall>x \<in> set (victims M p key n m). \<forall>y \<in> fst ` set e - set (victims M p key n m) - {key}.
       if p = FIFO then score e y \<le> score e x else score e x \<le> score e y) \<and>
    (\<forall>x \<in> set (avictims M p key n m). \<forall>y \<in> fst ` set e - set (avictims M p key n m) - {key}.
       if p = FIFO \<or> p = LRU then score e y \<le> score e x else score e x \<le> score e y)"
proof -
  have low: "\<forall>x \<in> set (remove1 key (take n (by_value e))). \<forall>y \<in> fst ` set e - set (remove1 key (take n (by_value e))) - {key}.
       score e x \<le> score e y" if "wf_dict e" for e
    using lowest_first[OF that, of _ n] notin_set_remove1 by (metis DiffE in_set_remove1 singletonI)
  have high: "\<forall>x \<in> set (remove1 key (take n (by_value_rev e))). \<forall>y \<in> fst ` set e - set (remove1 key (take n (by_value_rev e))) - {key}.
       score e y \<le> score e x" if "wf_dict e" for e
    using highest_first[OF that, of _ n] notin_set_remove1 by (metis DiffE in_set_remove1 singletonI)
  show ?thesis
    using low[OF assms(1)] low[OF assms(2)] high[OF assms(2)]
    by (cases p) (simp_all add: victims_def avictims_def Let_def)
qed

theorem eviction_order_witness:
  "victims mem_meta FIFO ''z'' 1 [(''timestamps'', PDict [(''a'', PFloat 1), (''b'', PFloat 2)])] = [''b''] \<and>
   score [(''a'', PFloat 1), (''b'', PFloat 2)] ''a'' \<le> score [(''a'', PFloat 1), (''b'', PFloat 2)] ''b''"
proof -
  let ?m = "[(''timestamps'', PDict [(''a'', PFloat 1), (''b'', PFloat 2)])]"
  have d: "m_dict mem_meta ''keyhits'' ?m = []"
    "m_dict mem_meta ''timestamps'' ?m = [(''a'', PFloat 1), (''b'', PFloat 2)]"
    by (simp_all add: m_dict_def mem_meta_def dict_get_def dict_of_def)
  have v: "victims mem_meta FIFO ''z'' 1 ?m = [''b'']"
    by (simp add: victims_def d by_value_rev_def sorted_rev_def num_val_def)
  have v1: "victims mem_meta FIFO ''z'' (Suc 0) ?m = [''b'']" using v by simp
  have "wf_dict (m_dict mem_meta ''keyhits'' ?m)" "wf_dict (m_dict mem_meta ''timestamps'' ?m)"
    by (simp_all add: d wf_dict_def)
  from eviction_order[OF this, of FIFO "''z''" 1] show ?thesis by (auto simp: v v1 d Let_def simp del: One_nat_def)
qed

section \<open>Flags without effect\<close>

named_theorems other_setting "operations that do not read the two settings"

lemma other_setting_decisions [other_setting]:
  "ttl_of (C\<lparr>disabled := x\<rparr>) = ttl_of C"
  "ttl_of (C\<lparr>invalidate_after := y\<rparr>) = ttl_of C"
  "should_cache_value (C\<lparr>disabled := x\<rparr>) = should_cache_value C"
  "should_cache_value (C\<lparr>invalidate_after := y\<rparr>) = should_cache_value C"
  by (simp_all add: fun_eq_iff ttl_of_def should_cache_value_def
    cong: option.case_cong pyval.case_cong exc_rule.case_cong list.case_cong if_cong)

lemma other_setting_arguments [other_setting]:
  "field (C\<lparr>disabled := x\<rparr>) = field C"
  "field (C\<lparr>invalidate_after := y\<rparr>) = field C"
  "encode_hit (C\<lparr>disabled := x\<rparr>) = encode_hit C"
  "encode_hit (C\<lparr>invalidate_after := y\<rparr>) = encode_hit C"
  "decode_hit (C\<lparr>disabled := x\<rparr>) = decode_hit C"
  "decode_hit (C\<lparr>invalidate_after := y\<rparr>) = decode_hit C"
  "extract_cache_kwargs (C\<lparr>disabled := x\<rparr>) = extract_cache_kwargs C"
  "extract_cache_kwargs (C\<lparr>invalidate_after := y\<rparr>) = extract_cache_kwargs C"
  "should_overwrite (C\<lparr>disabled := x\<rparr>) = should_overwrite C"
  "should_overwrite (C\<lparr>invalidate_after := y\<rparr>) = should_overwrite C"
  by (simp_all add: fun_eq_iff field_def encode_hit_def decode_hit_def extract_cache_kwargs_def should_overwrite_def
    other_setting Let_def case_prod_unfold
    cong: option.case_cong sum.case_cong if_cong)

lemma other_setting_keys [other_setting]:
  "value_key (C\<lparr>disabled := x\<rparr>) = value_key C"
  "value_key (C\<lparr>invalidate_after := y\<rparr>) = value_key C"
  by (simp_all add: fun_eq_iff value_key_def
    other_setting Let_def case_prod_unfold
    cong: option.case_cong sum.case_cong if_cong)

lemma other_setting_server [other_setting]:
  "c_get exec (C\<lparr>disabled := x\<rparr>) = c_get exec C"
  "c_get exec (C\<lparr>invalidate_after := y\<rparr>) = c_get exec C"
  "c_set exec (C\<lparr>disabled := x\<rparr>) = c_set exec C"
  "c_set exec (C\<lparr>invalidate_after := y\<rparr>) = c_set exec C"
  "c_delete exec (C\<lparr>disabled := x\<rparr>) = c_delete exec C"
  "c_delete exec (C\<lparr>invalidate_after := y\<rparr>) = c_delete exec C"
  "c_exists exec (C\<lparr>disabled := x\<rparr>) = c_exists exec C"
  "c_exists exec (C\<lparr>invalidate_after := y\<rparr>) = c_exists exec C"
  "c_expire exec (C\<lparr>disabled := x\<rparr>) = c_expire exec C"
  "c_expire exec (C\<lparr>invalidate_after := y\<rparr>) = c_expire exec C"
  "c_length exec (C\<lparr>disabled := x\<rparr>) = c_length exec C"
  "c_length exec (C\<lparr>invalidate_after := y\<rparr>) = c_length exec C"
  "c_clear exec M (C\<lparr>disabled := x\<rparr>) = c_clear exec M C"
  "c_clear exec M (C\<lparr>invalidate_after := y\<rparr>) = c_clear exec M C"
  by (simp_all add: fun_eq_iff c_get_def c_set_def c_delete_def c_exists_def c_expire_def c_length_def c_clear_def
    other_setting Let_def case_prod_unfold
    cong: option.case_cong sum.case_cong if_cong)

lemma other_setting_cache [other_setting]:
  "num_keys exec (C\<lparr>disabled := x\<rparr>) = num_keys exec C"
  "num_keys exec (C\<lparr>invalidate_after := y\<rparr>) = num_keys exec C"
  "add_key_expiration exec M (C\<lparr>disabled := x\<rparr>) = add_key_expiration exec M C"
  "add_key_expiration exec M (C\<lparr>invalidate_after := y\<rparr>) = add_key_expiration exec M C"
  "invalidate_cache exec M (C\<lparr>disabled := x\<rparr>) = invalidate_cache exec M C"
  "invalidate_cache exec M (C\<lparr>invalidate_after := y\<rparr>) = invalidate_cache exec M C"
  "expire_cache_expired_keys exec M (C\<lparr>disabled := x\<rparr>) = expire_cache_expired_keys exec M C"
  "expire_cache_expired_keys exec M (C\<lparr>invalidate_after := y\<rparr>) = expire_cache_expired_keys exec M C"
  "retrieve val exec (C\<lparr>disabled := x\<rparr>) = retrieve val exec C"
  "retrieve val exec (C\<lparr>invalidate_after := y\<rparr>) = retrieve val exec C"
  by (simp_all add: fun_eq_iff num_keys_def add_key_expiration_def invalidate_cache_def expire_cache_expired_keys_def retrieve_def
    other_setting Let_def case_prod_unfold
    cong: option.case_cong sum.case_cong if_cong)

lemma other_setting_policies [other_setting]:
  "check_cache_policies vics exec M (C\<lparr>disabled := x\<rparr>) = check_cache_policies vics exec M C"
  "check_cache_policies vics exec M (C\<lparr>invalidate_after := y\<rparr>) = check_cache_policies vics exec M C"
  "store exec M (C\<lparr>disabled := x\<rparr>) = store exec M C"
  "store exec M (C\<lparr>invalidate_after := y\<rparr>) = store exec M C"
  by (simp_all add: fun_eq_iff check_cache_policies_def store_def
    other_setting Let_def case_prod_unfold
    cong: option.case_cong sum.case_cong if_cong)

lemma other_setting_calls [other_setting]:
  "validate_cache_policies exec M (C\<lparr>disabled := x\<rparr>) = validate_cache_policies exec M C"
  "validate_cache_policies exec M (C\<lparr>invalidate_after := y\<rparr>) = validate_cache_policies exec M C"
  "run_miss exec M (C\<lparr>disabled := x\<rparr>) = run_miss exec M C"
  "run_miss exec M (C\<lparr>invalidate_after := y\<rparr>) = run_miss exec M C"
  by (simp_all add: fun_eq_iff validate_cache_policies_def run_miss_def
    other_setting Let_def case_prod_unfold
    cong: option.case_cong sum.case_cong if_cong)

lemma should_invalidate_disabled [other_setting]:
  "should_invalidate (C\<lparr>disabled := x\<rparr>) = should_invalidate C"
  by (intro ext) (simp add: should_invalidate_def cong: option.case_cong after_rule.case_cong)

lemma should_disable_invalidate [other_setting]:
  "should_disable (C\<lparr>invalidate_after := x\<rparr>) = should_disable C"
  by (intro ext) (simp add: should_disable_def cong: disabled_rule.case_cong)

lemma should_disable_flag:
  "should_disable (C\<lparr>disabled := DisabledFlag b\<rparr>) = should_disable (C\<lparr>disabled := NotDisabled\<rparr>)"
  by (intro ext) (simp add: should_disable_def)

lemma should_invalidate_no_hits:
  "should_invalidate (C\<lparr>invalidate_after := AfterHits n\<rparr>) None = should_invalidate (C\<lparr>invalidate_after := NeverAfter\<rparr>) None"
  by (intro ext) (simp add: should_invalidate_def split: option.split)

text \<open>Two settings do nothing in the synchronous cache. \<open>disabled = True\<close> does not disable it:
  the flag is read and dropped, and every call goes as without it. \<open>invalidate_after = n\<close>
  never invalidates, since the wrapper does not pass the number of hits; the asynchronous one
  passes it and invalidates from the \<open>n\<close>-th hit on.\<close>

theorem flags_without_effect:
  "cached_call exec M func now (C\<lparr>disabled := DisabledFlag b\<rparr>) pa dm
     = cached_call exec M func now (C\<lparr>disabled := NotDisabled\<rparr>) pa dm \<and>
   cached_call exec M func now (C\<lparr>invalidate_after := AfterHits n\<rparr>) pa dm
     = cached_call exec M func now (C\<lparr>invalidate_after := NeverAfter\<rparr>) pa dm \<and>
   should_invalidate (C\<lparr>invalidate_if := None, invalidate_kws := [], invalidate_after := AfterHits n\<rparr>) (Some i) ck pa = (n \<le> i)"
  by (simp add: cached_call_def should_disable_flag should_invalidate_no_hits other_setting should_invalidate_def
      Let_def case_prod_unfold cong: sum.case_cong if_cong)

section \<open>Keys of calls\<close>

definition kept :: "key_options \<Rightarrow> string \<times> pyval \<Rightarrow> bool" where
  "kept K kv \<longleftrightarrow> fst kv \<notin> set (exclude_names K) \<and> (drop_null K \<longrightarrow> snd kv \<noteq> PNone) \<and> fst kv \<notin> set (exclude_keys K)"

lemma filter_kwargs_eq:
  "filter_kwargs K kw =
     (if exclude_defaults K \<and> (\<exists>kv \<in> set kw. kept K kv) then Inl TypeError else Inr (filter (kept K) kw))"
proof -
  have k: "(\<lambda>kv. (case kv of (k, v) \<Rightarrow> k \<notin> set (exclude_names K)) \<and> (case kv of (k, v) \<Rightarrow> v \<noteq> PNone) \<and>
      (case kv of (k, v) \<Rightarrow> k \<notin> set (exclude_keys K))) = kept K" if "drop_null K"
    using that by (auto simp: kept_def fun_eq_iff)
  have k2: "(\<lambda>kv. (case kv of (k, v) \<Rightarrow> k \<notin> set (exclude_names K)) \<and>
      (case kv of (k, v) \<Rightarrow> k \<notin> set (exclude_keys K))) = kept K" if "\<not> drop_null K"
    using that by (auto simp: kept_def fun_eq_iff)
  have "filter_kwargs K kw =
      (if exclude_defaults K \<and> filter (kept K) kw \<noteq> [] then Inl TypeError else Inr (filter (kept K) kw))"
    by (cases "drop_null K") (simp_all add: filter_kwargs_def Let_def k k2)
  also have "filter (kept K) kw \<noteq> [] \<longleftrightarrow> (\<exists>kv \<in> set kw. kept K kv)"
    by (simp add: filter_empty_conv)
  finally show ?thesis .
qed

lemma sort_items_unique:
  assumes "wf_dict k1" "wf_dict k2" "set k1 = set k2"
  shows "sort_key fst k1 = sort_key fst (k2 :: pydict)"
proof (rule map_sorted_distinct_set_unique[of fst])
  show "inj_on fst (set (sort_key fst k1) \<union> set (sort_key fst k2))"
    using assms by (simp add: wf_dict_def distinct_map)
qed (use assms in \<open>auto simp: wf_dict_def distinct_map\<close>)

text \<open>The key of a call does not depend on the order of its keyword arguments.\<close>

theorem cache_key_order:
  assumes "wf_dict kw1" "wf_dict kw2" "set kw1 = set kw2"
  shows "create_cache_key_from_kwargs xxh py_str type_str K (args, kw1)
    = create_cache_key_from_kwargs xxh py_str type_str K (args, kw2)"
proof -
  have "wf_dict (filter (kept K) kw1)" "wf_dict (filter (kept K) kw2)"
    using assms(1,2) by (auto simp: wf_dict_def intro: distinct_map_filter)
  then have "sort_key fst (filter (kept K) kw1) = sort_key fst (filter (kept K) kw2)"
    by (rule sort_items_unique) (simp add: assms(3))
  moreover have "kw1 = [] \<longleftrightarrow> kw2 = []" using assms(3) by (metis set_empty)
  ultimately have "cache_key_parts py_str type_str K (args, kw1) = cache_key_parts py_str type_str K (args, kw2)"
    by (simp add: cache_key_parts_def filter_kwargs_eq assms(3) Let_def)
  then show ?thesis by (simp add: create_cache_key_from_kwargs_def)
qed

theorem cache_key_order_witness:
  "create_cache_key_from_kwargs id (\<lambda>v. ''v'') (\<lambda>v. ''t'')
     \<lparr>typed = True, exclude_names = [], exclude_keys = [''c''], drop_null = False, exclude_defaults = False,
      sep = '':'', is_class_method = False, key_base = None\<rparr> ([], [(''b'', PInt 1), (''a'', PNone)])
   = create_cache_key_from_kwargs id (\<lambda>v. ''v'') (\<lambda>v. ''t'')
     \<lparr>typed = True, exclude_names = [], exclude_keys = [''c''], drop_null = False, exclude_defaults = False,
      sep = '':'', is_class_method = False, key_base = None\<rparr> ([], [(''a'', PNone), (''b'', PInt 1)])"
  by (rule cache_key_order) (auto simp: wf_dict_def)

end
