(* ===== verification/Worker_Termination.thy ===== *)
theory Worker_Termination
  imports Worker_Laws
begin

text \<open>
  How often a job runs that always fails: a worker that passes over a queue again and again runs
  it until its attempts exceed its retries, and then it is over.
\<close>

section \<open>Passing over a queue repeatedly\<close>

fun run_passes :: "(worker \<Rightarrow> 'db world \<Rightarrow> 'db handled) \<Rightarrow> nat \<Rightarrow> worker \<Rightarrow> 'db world \<Rightarrow> 'db handled" where
  "run_passes p 0 wk w = (None, wk, w)"
| "run_passes p (Suc n) wk w =
     (case p wk w of (Some x, wk', w') \<Rightarrow> (Some x, wk', w') | (None, wk', w') \<Rightarrow> run_passes p n wk' w')"

definition failing_pass ::
    "'db backend \<Rightarrow> task_queue \<Rightarrow> queue_tasks \<Rightarrow> (string \<Rightarrow> string \<Rightarrow> bool) \<Rightarrow> rat \<Rightarrow> rat \<Rightarrow> rat \<Rightarrow> string \<Rightarrow> string \<Rightarrow>
     worker \<Rightarrow> 'db world \<Rightarrow> 'db handled" where
  "failing_pass B tq q subcl c1 c2 rnd err e = process_queue B tq q subcl None c1 c2 rnd err (Raises e) False"

text \<open>What is stored of a job after a failed attempt, when it is to run again.\<close>

definition again :: "rat \<Rightarrow> rat \<Rightarrow> string \<Rightarrow> job \<Rightarrow> int \<Rightarrow> job" where
  "again c1 c2 err j a = (reset (now_ms c2) QUEUED (retry_text err) (started_job c1 j))\<lparr>attempts := a\<rparr>"

lemma again_again: "again c1 c2 err (again c1 c2 err j a) b = again c1 c2 err j b"
  by (simp add: again_def reset_def started_job_def start_job_def progress_reset_def progress_set_def)

lemma again_next: "reset (now_ms c2) QUEUED (retry_text err) (started_job c1 j) = again c1 c2 err j (attempts j + 1)"
  by (simp add: again_def reset_def started_job_def start_job_def)

lemma again_place [simp]:
  "ident tq (again c1 c2 err j a) = ident tq j" "job_postfix (again c1 c2 err j a) = job_postfix j"
  "separate tq (again c1 c2 err j a) = separate tq j" "attempts (again c1 c2 err j a) = a"
  "retries (again c1 c2 err j a) = retries j" "retry_delay (again c1 c2 err j a) = retry_delay j"
  "jfunction (again c1 c2 err j a) = jfunction j" "scheduled (again c1 c2 err j a) = scheduled j"
  "job_queue_name (again c1 c2 err j a) = job_queue_name j" "worker_id (again c1 c2 err j a) = worker_id j"
  "worker_name (again c1 c2 err j a) = worker_name j" "jkey (again c1 c2 err j a) = jkey j" "ttl (again c1 c2 err j a) = ttl j"
  by (simp_all add: again_def reset_def started_job_def start_job_def ident_def job_postfix_def separate_def job_abort_id_def)


section \<open>A job that is retried at once\<close>

text \<open>The function is known to the worker and wants to be retried after \<open>e\<close>, there is no delay,
  and the serializer reads back what the retries store.\<close>

definition retried_at_once ::
    "'db backend \<Rightarrow> task_queue \<Rightarrow> queue_tasks \<Rightarrow> (string \<Rightarrow> string \<Rightarrow> bool) \<Rightarrow> rat \<Rightarrow> rat \<Rightarrow> string \<Rightarrow> string \<Rightarrow>
     task_function \<Rightarrow> worker \<Rightarrow> job \<Rightarrow> bool" where
  "retried_at_once B tq q subcl c1 c2 err e f wk j \<longleftrightarrow>
     job_postfix j = None \<and> separate tq j \<and> scheduled j = 0 \<and> retry_delay j = 0 \<and>
     job_queue_name j = Some (queue_name tq) \<and>
     dict_has (jfunction j) (tfunctions q) \<and> dict_get (wk_functions wk) (jfunction j) = Some f \<and>
     should_retry_on_error subcl (PExc e) f = Inr True \<and>
     decode_job B (encode_job B j) = Some j \<and>
     (\<forall>a > attempts j. decode_job B (encode_job B (again c1 c2 err j a)) = Some (again c1 c2 err j a))"

lemma retried_again:
  "retried_at_once B tq q subcl c1 c2 err e f wk j \<Longrightarrow> attempts j < a \<Longrightarrow>
   retried_at_once B tq q subcl c1 c2 err e f wk (again c1 c2 err j a)"
  by (simp add: retried_at_once_def again_again)

lemma retried_not_rejected: "job_postfix j = None \<Longrightarrow> \<not> rejected wk j"
  by (auto simp: job_postfix_def rejected_def split: if_splits)

lemma started_function [simp]: "jfunction (started_job c j) = jfunction j" "jkey (started_job c j) = jkey j"
  "ttl (started_job c j) = ttl j" "scheduled (started_job c j) = scheduled j"
  by (simp_all add: started_job_def start_job_def)

lemma retried_lookup:
  assumes "dict_has (jfunction j) (tfunctions q)" "dict_get (wk_functions wk) (jfunction j) = Some f"
  shows "lookup_function q wk (started_job c j) = Inr (started_job c j, f)"
proof -
  obtain g where "dict_get (tfunctions q) (jfunction j) = Some g"
    using assms(1) by (auto simp: dict_has_def dict_get_def dest!: weak_map_of_SomeI)
  then show ?thesis
    using assms by (simp add: lookup_function_def ensure_job_in_functions_def is_function_silenced_def)
qed

lemma no_delay: "retry_delay j = 0 \<Longrightarrow> next_retry_delay rnd j = 0"
  by (simp add: next_retry_delay_def exponential_backoff_def raw_backoff_def Let_def)

definition only_waiting :: "string \<Rightarrow> jobq" where
  "only_waiting i = \<lparr>waiting = [i], running = [], pending = [i \<mapsto> 0]\<rparr>"

definition is_queued :: "('db \<Rightarrow> string \<Rightarrow> robj option) \<Rightarrow> 'db backend \<Rightarrow> task_queue \<Rightarrow> job \<Rightarrow> 'db world \<Rightarrow> bool" where
  "is_queued view B tq j w \<longleftrightarrow>
     jobq_of view tq None (wdb w) = Some (only_waiting (ident tq j)) \<and>
     (\<exists>t. view (wdb w) (ident tq j) = Some (OStr (serialize B tq j) t))"

context redis_queue
begin

lemma get_stored:
  assumes B: "server B = exec"
    and v: "view (wdb w) (ident tq j) = Some (OStr (serialize B tq j) t)"
    and n: "job_queue_name j = Some (queue_name tq)" and dec: "decode_job B (encode_job B j) = Some j"
  shows "get_job_by_id B tq (ident tq j) w = Inr j"
proof -
  have "j\<lparr>job_queue_name := Some (queue_name tq)\<rparr> = j" using n by simp
  then have "fetch_job B tq (jkey j) True w = Inr (Some j)" using fetch_stored[OF B v] dec by simp
  then show ?thesis by (auto simp: fetch_job_def ident_def split: sum.splits)
qed

lemma dequeue_queued:
  assumes B: "server B = exec" and q: "is_queued view B tq j w" and s: "job_postfix j = None" "separate tq j"
    and n: "job_queue_name j = Some (queue_name tq)" and dec: "decode_job B (encode_job B j) = Some j"
  obtains w1 where "dequeue B tq None None w = (Inr (Some j), w1)"
    "Q tq None (wdb w1) = Some \<lparr>waiting = [], running = [ident tq j], pending = [ident tq j \<mapsto> 0]\<rparr>"
proof -
  let ?w1 = "snd (dequeue_job_id B tq None w)"
  obtain t where v: "view (wdb w) (ident tq j) = Some (OStr (serialize B tq j) t)"
    and Q0: "Q tq None (wdb w) = Some (only_waiting (ident tq j))"
    using q by (auto simp: is_queued_def)
  have "ident tq j \<notin> written_keys (LMOVE (qkey tq None ''queued'') (qkey tq None ''active'') RIGHT LEFT)"
    using s by (auto simp: separate_def queue_keys_def)
  then have v1: "view (wdb ?w1) (ident tq j) = Some (OStr (serialize B tq j) t)"
    using v B by (simp add: dequeue_job_id_def Let_def do_cmd_def write_frame)
  have d: "fst (dequeue_job_id B tq None w) = GotJob (ident tq j)"
    "Q tq None (wdb ?w1) = Some \<lparr>waiting = [], running = [ident tq j], pending = [ident tq j \<mapsto> 0]\<rparr>"
    using dequeue_id_refines[OF B _ Q0] by (simp_all add: only_waiting_def a_dequeue_def)
  have "dequeue B tq None None w = (Inr (Some j), ?w1)"
    using d(1) get_stored[OF B v1 n dec] by (simp add: dequeue_def case_prod_unfold Let_def)
  then show thesis using d(2) that by blast
qed


lemma failing_pass_runs:
  assumes B: "server B = exec" and r: "retried_at_once B tq q subcl c1 c2 err e f wk j"
    and q: "is_queued view B tq j w"
  obtains w2 where
    "failing_pass B tq q subcl c1 c2 rnd err e wk w =
       (case handle_exception B tq q subcl c2 rnd err e (Some f) (started_job c1 j) (wk\<lparr>tasks_idx := tasks_idx wk + 1\<rparr>) w2 of
          (x, wk', w') \<Rightarrow> (x, wk'\<lparr>tasks_idx := tasks_idx wk' - 1\<rparr>, w'))"
    "Q tq None (wdb w2) = Some \<lparr>waiting = [], running = [ident tq j], pending = [ident tq j \<mapsto> 0]\<rparr>"
proof -
  note r' = r[unfolded retried_at_once_def]
  obtain w1 where d: "dequeue B tq None None w = (Inr (Some j), w1)"
    and Q1: "Q tq None (wdb w1) = Some \<lparr>waiting = [], running = [ident tq j], pending = [ident tq j \<mapsto> 0]\<rparr>"
    using dequeue_queued[OF B q] r' by blast
  let ?w2 = "snd (update_job B tq c1 (start_job c1 j) w1)"
  have Q2: "Q tq None (wdb ?w2) = Some \<lparr>waiting = [], running = [ident tq j], pending = [ident tq j \<mapsto> 0]\<rparr>"
    using started_queue[OF B, of tq j w1 _ c1] Q1 r' by simp
  have l: "lookup_function q (wk\<lparr>tasks_idx := n\<rparr>) (started_job c1 j) = Inr (started_job c1 j, f)" for n
    using retried_lookup[of j q wk f c1] r' by simp
  have "failing_pass B tq q subcl c1 c2 rnd err e wk w =
       (case handle_exception B tq q subcl c2 rnd err e (Some f) (started_job c1 j) (wk\<lparr>tasks_idx := tasks_idx wk + 1\<rparr>) ?w2 of
          (x, wk', w') \<Rightarrow> (x, wk'\<lparr>tasks_idx := tasks_idx wk' - 1\<rparr>, w'))"
    using process_accepted[where bc = False and B = B and tq = tq and w = w, unfolded who_def if_False, OF d
        retried_not_rejected[of j wk], of q subcl None c1 c2 rnd err "Raises e"] r' l
    by (simp add: failing_pass_def run_accepted_def Let_def case_prod_unfold flip: started_job_def)
  with Q2 that show thesis by blast
qed

lemma pass_again:
  assumes B: "server B = exec" and r: "retried_at_once B tq q subcl c1 c2 err e f wk j"
    and q: "is_queued view B tq j w" and more: "attempts j < retries j"
  shows "\<exists>w'. failing_pass B tq q subcl c1 c2 rnd err e wk w = (None, wk, w') \<and>
    is_queued view B tq (again c1 c2 err j (attempts j + 1)) w'"
proof -
  note r' = r[unfolded retried_at_once_def]
  obtain w2 where p: "failing_pass B tq q subcl c1 c2 rnd err e wk w =
       (case handle_exception B tq q subcl c2 rnd err e (Some f) (started_job c1 j) (wk\<lparr>tasks_idx := tasks_idx wk + 1\<rparr>) w2 of
          (x, wk', w') \<Rightarrow> (x, wk'\<lparr>tasks_idx := tasks_idx wk' - 1\<rparr>, w'))"
    and Q2: "Q tq None (wdb w2) = Some \<lparr>waiting = [], running = [ident tq j], pending = [ident tq j \<mapsto> 0]\<rparr>"
    using failing_pass_runs[OF B r q] by blast
  let ?w3 = "snd (retry B tq c2 rnd (retry_text err) (started_job c1 j) w2)"
  have "next_retry_delay rnd (again c1 c2 err j (attempts j + 1)) = 0"
    using r' by (intro no_delay) simp
  then have "Q tq None (wdb ?w3) = Some (only_waiting (ident tq j))"
    using retry_refines[OF B, of tq "started_job c1 j" w2 _ c2 rnd "retry_text err"] Q2 r'
    by (simp add: again_next a_requeue_def only_waiting_def Let_def)
  moreover have "\<exists>t. view (wdb ?w3) (ident tq j) = Some (OStr (serialize B tq (again c1 c2 err j (attempts j + 1))) t)"
    using retry_record[OF B, of tq c2 rnd "retry_text err" "started_job c1 j" w2] by (simp add: again_next)
  moreover have "failing_pass B tq q subcl c1 c2 rnd err e wk w = (None, wk, ?w3)"
    using p more r' by (simp add: handle_exception_def)
  ultimately show ?thesis by (auto simp: is_queued_def)
qed

lemma pass_ends:
  assumes B: "server B = exec" and r: "retried_at_once B tq q subcl c1 c2 err e f wk j"
    and q: "is_queued view B tq j w" and last: "retries j \<le> attempts j"
  shows "\<exists>w' j'. failing_pass B tq q subcl c1 c2 rnd err e wk w = (None, run_on_failure_callback f j wk, w') \<and>
    Q tq None (wdb w') = Some empty_jobq \<and> status j' = FAILED \<and> attempts j' = attempts j + 1 \<and>
    view (wdb w') (ident tq j) =
      (if ttl j > 0 then Some (OStr (serialize B tq j') (Some (ttl j)))
       else if ttl j = 0 then Some (OStr (serialize B tq j') None) else None)"
proof -
  note r' = r[unfolded retried_at_once_def]
  obtain w2 where p: "failing_pass B tq q subcl c1 c2 rnd err e wk w =
       (case handle_exception B tq q subcl c2 rnd err e (Some f) (started_job c1 j) (wk\<lparr>tasks_idx := tasks_idx wk + 1\<rparr>) w2 of
          (x, wk', w') \<Rightarrow> (x, wk'\<lparr>tasks_idx := tasks_idx wk' - 1\<rparr>, w'))"
    and Q2: "Q tq None (wdb w2) = Some \<lparr>waiting = [], running = [ident tq j], pending = [ident tq j \<mapsto> 0]\<rparr>"
    using failing_pass_runs[OF B r q] by blast
  let ?j' = "complete (now_ms c2) FAILED PNone (PStr err) (started_job c1 j)"
  let ?w3 = "snd (finish B tq c2 FAILED PNone (PStr err) (started_job c1 j) w2)"
  have "failing_pass B tq q subcl c1 c2 rnd err e wk w = (None, run_on_failure_callback f j wk, ?w3)"
    using p last by (simp add: handle_exception_def case_prod_unfold run_on_failure_callback_def finish_def Let_def)
      (simp add: complete_def)
  moreover have "Q tq None (wdb ?w3) = Some empty_jobq"
    using finish_refines[OF B, of tq "started_job c1 j" w2 _ c2 FAILED PNone "PStr err"] Q2 r'
    by (simp add: a_finish_def empty_jobq_def)
  moreover have "attempts ?j' = attempts j + 1" by (simp add: complete_def)
  ultimately show ?thesis
    using finish_record[OF B, of tq "started_job c1 j" c2 FAILED PNone "PStr err" w2] r'
    by (intro exI[of _ ?w3] exI[of _ ?j']) (simp add: Let_def)
qed


lemma passes_waiting:
  assumes B: "server B = exec"
  shows "retried_at_once B tq q subcl c1 c2 err e f wk j \<Longrightarrow> is_queued view B tq j w \<Longrightarrow>
    m \<le> nat (retries j - attempts j) \<Longrightarrow>
    \<exists>j' w'. run_passes (failing_pass B tq q subcl c1 c2 rnd err e) m wk w = (None, wk, w') \<and>
      is_queued view B tq j' w' \<and> retried_at_once B tq q subcl c1 c2 err e f wk j' \<and>
      attempts j' = attempts j + int m \<and> retries j' = retries j \<and> ttl j' = ttl j \<and> jkey j' = jkey j"
proof (induction m arbitrary: j w)
  case (Suc m)
  let ?j1 = "again c1 c2 err j (attempts j + 1)"
  have more: "attempts j < retries j" and m: "m \<le> nat (retries ?j1 - attempts ?j1)" using Suc.prems(3) by simp_all
  obtain w1 where w1: "failing_pass B tq q subcl c1 c2 rnd err e wk w = (None, wk, w1)" "is_queued view B tq ?j1 w1"
    using pass_again[OF B Suc.prems(1,2) more, of rnd] by blast
  obtain j' w' where "run_passes (failing_pass B tq q subcl c1 c2 rnd err e) m wk w1 = (None, wk, w')"
      "is_queued view B tq j' w'" "retried_at_once B tq q subcl c1 c2 err e f wk j'"
      "attempts j' = attempts ?j1 + int m" "retries j' = retries ?j1" "ttl j' = ttl ?j1" "jkey j' = jkey ?j1"
    using Suc.IH[OF retried_again[OF Suc.prems(1), of "attempts j + 1", OF less_add_one] w1(2) m] by blast
  then show ?case using w1(1) by (intro exI[of _ j'] exI[of _ w']) simp
qed auto

end

lemma run_passes_Suc:
  "run_passes p (Suc n) wk w =
     (case run_passes p n wk w of (Some x, wk', w') \<Rightarrow> (Some x, wk', w') | (None, wk', w') \<Rightarrow> p wk' w')"
proof (induction n arbitrary: wk w)
  case (Suc n)
  obtain x wk1 w1 where p: "p wk w = (x, wk1, w1)" by (cases "p wk w") auto
  have unfold: "run_passes p (Suc m) wk w = (case x of Some y \<Rightarrow> (Some y, wk1, w1) | None \<Rightarrow> run_passes p m wk1 w1)" for m
    by (cases x) (simp_all add: p)
  show ?case
    using unfold[of "Suc n"] unfold[of n] Suc.IH[of wk1 w1] by (cases x) (simp_all del: run_passes.simps)
qed (auto split: prod.splits option.splits)

text \<open>C9. A job that always fails does not run forever. If its exception may be retried and there
  is no retry delay, a worker that passes over the queue runs it, after each of the first
  retries - attempts passes finding it queued again with one more attempt noted, and with
  the next pass it is over: FAILED with all its attempts counted, off the queue, and the
  failure callback called exactly once.\<close>

theorem failing_job_ends:
  assumes "redis_queue (server B) view"
    and "retried_at_once B tq q subcl c1 c2 err e f wk j" and "is_queued view B tq j w"
    and "n = nat (retries j - attempts j)" and "p = failing_pass B tq q subcl c1 c2 rnd err e"
  shows "(\<forall>m\<le>n. \<exists>j' w'. run_passes p m wk w = (None, wk, w') \<and> is_queued view B tq j' w' \<and>
      jkey j' = jkey j \<and> attempts j' = attempts j + int m) \<and>
    (\<exists>j' w'. run_passes p (Suc n) wk w = (None, run_on_failure_callback f j wk, w') \<and>
      jobq_of view tq None (wdb w') = Some empty_jobq \<and>
      status j' = FAILED \<and> attempts j' = attempts j + int n + 1 \<and>
      view (wdb w') (ident tq j) =
        (if ttl j > 0 then Some (OStr (serialize B tq j') (Some (ttl j)))
         else if ttl j = 0 then Some (OStr (serialize B tq j') None) else None))"
proof (intro conjI allI impI)
  note waiting = redis_queue.passes_waiting[OF assms(1) refl assms(2,3), of _ rnd]
  show "\<exists>j' w'. run_passes p m wk w = (None, wk, w') \<and> is_queued view B tq j' w' \<and>
      jkey j' = jkey j \<and> attempts j' = attempts j + int m" if "m \<le> n" for m
    using waiting[of m] that assms(4,5) by auto
  obtain j1 w1 where w1: "run_passes p n wk w = (None, wk, w1)" and q1: "is_queued view B tq j1 w1"
    and r1: "retried_at_once B tq q subcl c1 c2 err e f wk j1" and a1: "attempts j1 = attempts j + int n"
    and same: "retries j1 = retries j" "ttl j1 = ttl j" "jkey j1 = jkey j"
    using waiting[of n] assms(4,5) by auto
  have last: "retries j1 \<le> attempts j1" using a1 same assms(4) by simp
  show "\<exists>j' w'. run_passes p (Suc n) wk w = (None, run_on_failure_callback f j wk, w') \<and>
      jobq_of view tq None (wdb w') = Some empty_jobq \<and>
      status j' = FAILED \<and> attempts j' = attempts j + int n + 1 \<and>
      view (wdb w') (ident tq j) =
        (if ttl j > 0 then Some (OStr (serialize B tq j') (Some (ttl j)))
         else if ttl j = 0 then Some (OStr (serialize B tq j') None) else None)"
    using redis_queue.pass_ends[OF assms(1) refl r1 q1 last, of rnd] a1 same assms(5) w1
    by (auto simp: run_passes_Suc ident_def run_on_failure_callback_def simp del: run_passes.simps)
qed

text \<open>A serializer that keeps what matters of the job of the example: the number of attempts.\<close>

definition ex_fresh :: job where
  "ex_fresh = before_enqueue [] 0 (ex_job ''a'')"

definition ex_codec :: "mdb backend" where
  "ex_codec = \<lparr>server = mem_exec, encode_job = (\<lambda>j. replicate (nat (attempts j)) CHR ''x''),
     decode_job = (\<lambda>s. Some (if s = [] then ex_fresh else again 1 2 ''boom'' ex_fresh (int (length s))))\<rparr>"

definition ex_fresh_queued :: "mdb world" where
  "ex_fresh_queued = snd (enqueue ex_codec ex_queue [] 0 False (ex_job ''a'') ex_world)"

lemma ex_fresh_eq: "ex_fresh = (ex_job ''a'')\<lparr>status := QUEUED\<rparr>"
  by (simp add: ex_fresh_def ex_before ex_job_def)

lemma ex_fresh_place: "ident ex_queue ex_fresh = ex_id" "job_postfix ex_fresh = None" "separate ex_queue ex_fresh"
  using ex_before_place by (simp_all add: ex_fresh_def ex_id_def)

lemma ex_retried:
  "retried_at_once ex_codec ex_queue ex_tasks (\<lambda>a b. a = b) 1 2 ''boom'' ''ValueError'' ex_function ex_worker ex_fresh"
  using ex_fresh_place(2,3)
  by (auto simp: retried_at_once_def ex_codec_def)
     (simp_all add: ex_fresh_eq ex_job_def ex_queue_def ex_tasks_def ex_worker_def ex_function_def dict_has_def dict_get_def
      should_retry_on_error_def)

lemma ex_fresh_is_queued: "is_queued mview ex_codec ex_queue ex_fresh ex_fresh_queued"
proof -
  have "jobq_of mview ex_queue None (wdb ex_fresh_queued) = Some (only_waiting ex_id)"
    using mem.enqueue_refines[of ex_codec, OF _ refl, where before = "[]" and clock = 0 and j = "ex_job ''a''"
        and tq = ex_queue and w = ex_world and s = empty_jobq and ret = False]
    by (simp add: ex_before_place ex_jobq ex_fresh_queued_def only_waiting_def ex_id_def Let_def case_prod_unfold
        ex_world_view a_enqueue_def ex_codec_def) (simp add: empty_jobq_def ex_before ex_job_def)
  moreover have "map_of (wdb ex_fresh_queued) ex_id = Some (MStr (serialize ex_codec ex_queue ex_fresh) None)"
    by code_simp
  ultimately show ?thesis by (simp add: is_queued_def ex_fresh_place mview_def)
qed

theorem failing_job_ends_witness:
  "\<exists>wk' w'. run_passes (failing_pass ex_codec ex_queue ex_tasks (\<lambda>a b. a = b) 1 2 0 ''boom'' ''ValueError'') 2
     ex_worker ex_fresh_queued = (None, wk', w') \<and>
     jobq_of mview ex_queue None (wdb w') = Some empty_jobq \<and> failure_calls wk' = [''a'']"
proof -
  have n: "nat (retries ex_fresh - attempts ex_fresh) = 1" by (simp add: ex_fresh_eq ex_job_def)
  have laws: "redis_queue (server ex_codec) mview" by (simp add: ex_codec_def mem.redis_queue_axioms)
  have two: "(2 :: nat) = Suc 1" by simp
  have "failure_calls (run_on_failure_callback ex_function ex_fresh ex_worker) = [''a'']" by code_simp
  then show ?thesis
    using failing_job_ends[OF laws ex_retried ex_fresh_is_queued refl refl, of 0] unfolding n two by blast
qed

end
