(* ===== verification/Worker_Upkeep.thy ===== *)
theory Worker_Upkeep
  imports Worker_Laws Task_Registry Cron Kwargs
begin

text \<open>
  The rest of \<^verbatim>\<open>kvdb/tasks/worker.py\<close>: how a worker chooses its functions, and its upkeep: the
  periodic enqueueing of cron jobs, moving of due jobs, sweeping and heartbeats. \<open>build\<close> is the
  validating constructor of jobs (\<open>None\<close>: it refuses), \<open>due_at\<close> the next time a cron expression is
  due, from the library croniter.
\<close>

section \<open>Choosing functions\<close>

record cron_task =
  ct_name :: string
  ct_queue :: string
  ct_cron :: cron_job
  ct_unique :: bool

text \<open>\<open>init_functions\<close>: given functions are filtered, otherwise those of the registry are taken; a
  cron job whose expression is not valid raises, after the jobs before it were added.\<close>

fun add_cronjobs ::
    "(string \<Rightarrow> bool) \<Rightarrow> (cron_task \<times> task_function) list \<Rightarrow> (string \<times> task_function) list \<Rightarrow>
     (string \<times> task_function) list result" where
  "add_cronjobs is_valid [] fs = Inr fs"
| "add_cronjobs is_valid ((c, f) # cs) fs =
     (if is_valid (cron (ct_cron c)) then add_cronjobs is_valid cs (dict_set (tf_name f) f fs) else Inl ValueError)"

definition init_functions ::
    "(string \<Rightarrow> bool) \<Rightarrow> pydict \<Rightarrow> match_type \<Rightarrow> task_function list \<Rightarrow> task_function list \<Rightarrow>
     (cron_task \<times> task_function) list \<Rightarrow> (cron_task \<times> task_function) list \<Rightarrow>
     ((string \<times> task_function) list \<times> (string \<times> cron_task) list) result" where
  "init_functions is_valid wattrs mt given known given_cron registered_cron =
     bindR (if given = [] then Inr known else filter_result (is_enabled wattrs mt None) given) (\<lambda>fs.
       let cs = (if given_cron = [] then registered_cron else given_cron);
           named = dict_update [] (map (\<lambda>f. (tf_name f, f)) fs) in
       bindR (add_cronjobs is_valid cs named) (\<lambda>all.
         Inr (all, dict_update [] (map (\<lambda>(c, f). (tf_name f, c)) cs))))"

definition upkeep_tasks :: "bool \<Rightarrow> bool \<Rightarrow> string list" where
  "upkeep_tasks leader primary_worker =
     [''abort'', ''schedule'', ''sweep'', ''heartbeat''] @ (if leader \<and> primary_worker then [''check_stuck_jobs''] else [])"

section \<open>Upkeep\<close>

text \<open>Enqueueing by function name with keyword arguments.\<close>

definition enqueue_named ::
    "'db backend \<Rightarrow> task_queue \<Rightarrow> queue_tasks \<Rightarrow> (string \<Rightarrow> pydict \<Rightarrow> job option) \<Rightarrow> (job \<Rightarrow> job) list \<Rightarrow> rat \<Rightarrow> string option \<Rightarrow>
     string \<Rightarrow> pydict \<Rightarrow> 'db world \<Rightarrow> job option result \<times> 'db world" where
  "enqueue_named B tq q build before clock prefix f kwargs w =
     (let kws = (if opt_truthy prefix then extract_kwargs job_fields prefix False None None True kwargs else kwargs) in
      case create build (\<lambda>n. n) (FuncName f) [] kws of
        Inl e \<Rightarrow> (Inl e, w)
      | Inr None \<Rightarrow> (Inl (OtherError ''ValidationError''), w)
      | Inr (Some j) \<Rightarrow> enqueue_call B tq q before clock False j w)"

definition cron_kwargs :: "task_queue \<Rightarrow> string \<Rightarrow> string option \<Rightarrow> int \<Rightarrow> cron_task \<Rightarrow> pydict" where
  "cron_kwargs tq cronjob_prefix prefix next_run c =
     filter (\<lambda>(k, v). k \<noteq> ''job_or_func'')
       (to_enqueue_kwargs (ct_cron c) next_run
          (if ct_unique c then PStr (job_id tq (cronjob_prefix @ '':'' @ function_name (ct_cron c))) else PNone)
          True prefix [])"

text \<open>\<open>schedule\<close>: the due jobs of a queue are moved once for each cron job of that queue.\<close>

fun worker_schedule ::
    "'db backend \<Rightarrow> (string \<times> task_queue \<times> queue_tasks) list \<Rightarrow> (string \<Rightarrow> pydict \<Rightarrow> job option) \<Rightarrow> (job \<Rightarrow> job) list \<Rightarrow>
     string \<Rightarrow> string option \<Rightarrow> (cron_task \<Rightarrow> int) \<Rightarrow> int \<Rightarrow> rat \<Rightarrow> cron_task list \<Rightarrow> 'db world \<Rightarrow> error option \<times> 'db world" where
  "worker_schedule B queues build before cronjob_prefix prefix due_at lock clock [] w = (None, w)"
| "worker_schedule B queues build before cronjob_prefix prefix due_at lock clock (c # cs) w =
     (case dict_get queues (ct_queue c) of
        None \<Rightarrow> (Some KeyError, w)
      | Some (tq, q) \<Rightarrow>
          (case enqueue_named B tq q build before clock prefix (function_name (ct_cron c))
                  (cron_kwargs tq cronjob_prefix prefix (due_at c) c) w of
             (Inl e, w1) \<Rightarrow> (Some e, w1)
           | (Inr r, w1) \<Rightarrow>
               worker_schedule B queues build before cronjob_prefix prefix due_at lock clock cs
                 (snd (schedule B tq lock None clock w1))))"

fun worker_sweep ::
    "'db backend \<Rightarrow> (string \<times> task_queue \<times> queue_tasks) list \<Rightarrow> int \<Rightarrow> rat \<Rightarrow> 'db world \<Rightarrow> error option \<times> 'db world" where
  "worker_sweep B [] lock clock w = (None, w)"
| "worker_sweep B ((name, tq, q) # queues) lock clock w =
     (case sweep_call B tq q lock None clock w of
        (Inl x, w1) \<Rightarrow> (Some x, w1)
      | (Inr swept, w1) \<Rightarrow> worker_sweep B queues lock clock w1)"

section \<open>A worker's pass is made of queue steps\<close>

text \<open>What the records of a queue have to satisfy: a record that is dequeued is that of the id taken,
  and its job is neither bound to a worker nor scheduled for a time, so that a retry cannot
  queue it twice.\<close>

definition reads_its_jobs :: "'db backend \<Rightarrow> ('db \<Rightarrow> string \<Rightarrow> robj option) \<Rightarrow> task_queue \<Rightarrow> 'db world \<Rightarrow> bool" where
  "reads_its_jobs B view tq w \<longleftrightarrow>
     (\<forall>j w1. dequeue B tq None None w = (Inr (Some j), w1) \<longrightarrow>
        is_active view tq None w1 (ident tq j) \<and> job_postfix j = None \<and> separate tq j \<and>
        scheduled j = 0 \<and> 0 \<le> retry_delay j)"

lemma backoff_nonneg: "0 \<le> retry_delay j \<Longrightarrow> 0 \<le> rnd \<Longrightarrow> rnd \<le> 1 \<Longrightarrow> 0 \<le> next_retry_delay rnd j"
  using exponential_backoff_range[of "retry_delay j" "retry_delay j" rnd "attempts j" True]
  by (simp add: next_retry_delay_def)

lemma retry_separates_unscheduled:
  "scheduled j = 0 \<Longrightarrow> 0 \<le> retry_delay j \<Longrightarrow> 0 < c \<Longrightarrow> 0 \<le> rnd \<Longrightarrow> rnd \<le> 1 \<Longrightarrow> retry_separates c rnd e j"
  using backoff_nonneg[of "reset (now_ms c) QUEUED e j" rnd] by (auto simp: retry_separates_def Let_def)

lemma snd_dequeue: "snd (dequeue B tq None None w) = snd (dequeue_job_id B tq None w)"
  by (simp add: dequeue_def case_prod_unfold Let_def split: dequeued_id.split)

text \<open>What the operations of one job do to a predicate on worlds: \<open>P\<close> holds while the job is
  active, \<open>R\<close> also when it no longer is.\<close>

definition kept_by_job ::
    "'db backend \<Rightarrow> task_queue \<Rightarrow> rat \<Rightarrow> rat \<Rightarrow> job \<Rightarrow> ('db world \<Rightarrow> bool) \<Rightarrow> ('db world \<Rightarrow> bool) \<Rightarrow> bool" where
  "kept_by_job B tq c rnd j P R \<longleftrightarrow>
     (\<forall>k w. ident tq k = ident tq j \<longrightarrow> job_postfix k = job_postfix j \<longrightarrow> separate tq k \<longrightarrow>
        scheduled k = scheduled j \<longrightarrow> retry_delay k = retry_delay j \<longrightarrow> P w \<longrightarrow> R w \<and>
        (\<forall>st r e. R (snd (finish B tq c st r e k w))) \<and> (\<forall>e. R (snd (retry B tq c rnd e k w))) \<and>
        P (snd (update_job B tq c k w)))"

lemma kept_finish:
  "kept_by_job B tq c rnd j P R \<Longrightarrow> ident tq k = ident tq j \<Longrightarrow> job_postfix k = job_postfix j \<Longrightarrow> separate tq k \<Longrightarrow>
   scheduled k = scheduled j \<Longrightarrow> retry_delay k = retry_delay j \<Longrightarrow> P w \<Longrightarrow>
   R w \<and> R (snd (finish B tq c st r e k w)) \<and> R (snd (retry B tq c rnd e' k w)) \<and> P (snd (update_job B tq c k w))"
  by (simp add: kept_by_job_def)

lemma kept_same_place:
  "kept_by_job B tq c rnd j P R \<Longrightarrow> ident tq k = ident tq j \<Longrightarrow> job_postfix k = job_postfix j \<Longrightarrow>
   scheduled k = scheduled j \<Longrightarrow> retry_delay k = retry_delay j \<Longrightarrow> kept_by_job B tq c rnd k P R"
  by (simp add: kept_by_job_def)

lemma handlers_keep:
  assumes k: "kept_by_job B tq c rnd j P R" and s: "separate tq j" and w: "P w"
  shows "R (snd (snd (handle_exception B tq q subcl c rnd err e fo j wk w)))"
    and "R (snd (snd (handle_job_error B tq subcl c rnd err e f j wk w)))"
    and "R (snd (snd (handle_cancelled B tq subcl c rnd aborted f j wk w)))"
proof -
  note here = kept_finish[OF k refl refl s refl refl w]
  have zero: "R (snd (finish B tq c st r e0 (j\<lparr>retries := 0\<rparr>) w)) \<and> P (snd (update_job B tq c (j\<lparr>retries := 0\<rparr>) w))" for st r e0
    using kept_finish[OF k, of "j\<lparr>retries := 0\<rparr>" w st r e0] s w by simp
  then have two: "R (snd (finish B tq c st r e0 (j\<lparr>retries := 0, touched := t\<rparr>) (snd (update_job B tq c (j\<lparr>retries := 0\<rparr>) w))))"
    for st r e0 t
    using kept_finish[OF k, of "j\<lparr>retries := 0, touched := t\<rparr>" "snd (update_job B tq c (j\<lparr>retries := 0\<rparr>) w)" st r e0] s
    by simp
  show "R (snd (snd (handle_exception B tq q subcl c rnd err e fo j wk w)))"
    using here zero w
    by (auto simp: handle_exception_def case_prod_unfold Let_def split: option.splits sum.splits bool.splits)
  show "R (snd (snd (handle_job_error B tq subcl c rnd err e f j wk w)))"
    using here two w
    by (auto simp: handle_job_error_def case_prod_unfold Let_def split: sum.splits bool.splits)
  show "R (snd (snd (handle_cancelled B tq subcl c rnd aborted f j wk w)))"
    using here w by (auto simp: handle_cancelled_def split: sum.splits bool.splits)
qed

lemma lookup_more:
  "lookup_function q wk j = Inr (j1, f) \<Longrightarrow> scheduled j1 = scheduled j \<and> retry_delay j1 = retry_delay j"
  by (auto simp: lookup_function_def ensure_job_in_functions_def bindR_Inr_iff split: if_splits option.splits)

lemma started_more [simp]: "scheduled (start_job c j) = scheduled j" "retry_delay (start_job c j) = retry_delay j"
  by (simp_all add: start_job_def)

lemma run_keeps:
  assumes k1: "kept_by_job B tq c1 rnd j P R" and k2: "kept_by_job B tq c2 rnd j P R" and s: "separate tq j" and w: "P w"
  shows "R (snd (snd (run_accepted B tq q subcl before c1 c2 rnd err oc j wk w)))"
proof -
  let ?j2 = "(start_job c1 j)\<lparr>touched := now_ms c1\<rparr>" and ?w2 = "snd (update_job B tq c1 (start_job c1 j) w)"
  have w2: "P ?w2" using kept_finish[OF k1, of "start_job c1 j" w] s w by simp
  have "kept_by_job B tq c2 rnd ?j2 P R" by (rule kept_same_place[OF k2]) simp_all
  then have e2: "R (snd (snd (handle_exception B tq q subcl c2 rnd err e fo ?j2 wk' ?w2)))" for e fo wk'
    by (rule handlers_keep) (use s w2 in simp_all)
  show ?thesis
  proof (cases "before = None \<and> (\<exists>r. lookup_function q wk ?j2 = Inr r)")
    case True
    then obtain j3 f where l: "lookup_function q wk ?j2 = Inr (j3, f)" by auto
    have p3: "ident tq j3 = ident tq j" "job_postfix j3 = job_postfix j" "scheduled j3 = scheduled j"
      "retry_delay j3 = retry_delay j" "separate tq j3"
      using lookup_place[OF l] lookup_more[OF l] s by simp_all
    have k3: "kept_by_job B tq c2 rnd j3 P R" using kept_same_place[OF k2 p3(1-4)] .
    note h = handlers_keep[OF k3 p3(5) w2] and fin = kept_finish[OF k3 refl refl p3(5) refl refl w2]
    show ?thesis
      using True l h fin by (cases oc) (simp_all add: run_accepted_def Let_def case_prod_unfold)
  next
    case False
    then show ?thesis
      using e2 by (auto simp: run_accepted_def Let_def case_prod_unfold split: option.splits sum.splits)
  qed
qed

lemma pass_keeps_each:
  assumes "\<And>j w1. dequeue B tq None None w = (Inr (Some j), w1) \<Longrightarrow>
      kept_by_job B tq c1 rnd j (P j) R \<and> kept_by_job B tq c2 rnd j (P j) R \<and> separate tq j \<and> P j w1"
    and "R (snd (dequeue B tq None None w))"
  shows "R (snd (snd (process_queue B tq q subcl before c1 c2 rnd err oc False wk w)))"
proof -
  obtain r w1 where d: "dequeue B tq None None w = (r, w1)" by fastforce
  show ?thesis
  proof (cases "\<exists>j. r = Inr (Some j) \<and> \<not> rejected wk j")
    case True
    then obtain j where j: "r = Inr (Some j)" "\<not> rejected wk j" by blast
    have "R (snd (snd (run_accepted B tq q subcl before c1 c2 rnd err oc j wk w1)))"
      by (rule run_keeps[where P = "P j" and R = R]) (use assms(1)[of j w1] d j in simp_all)
    then show ?thesis using d j by (simp add: process_queue_def case_prod_unfold Let_def)
  next
    case False
    then show ?thesis using assms(2) d
      by (auto simp: process_queue_def case_prod_unfold Let_def split: sum.splits option.splits)
  qed
qed

section \<open>Workers and the invariant of the queue\<close>

lemma is_active_jobq: "jobq_of view tq p (wdb w) = Some s \<Longrightarrow> is_active view tq p w i \<longleftrightarrow> i \<in> set (running s)"
  by (simp add: is_active_def jobq_of_Some)

lemma reachable_update_active:
  assumes srv: "redis_queue (server B) view" and r: "reachable B view tq p w" "is_active view tq p w i"
    and k: "job_postfix k = p" "separate tq k"
  shows "reachable B view tq p (snd (update_job B tq c k w)) \<and> is_active view tq p (snd (update_job B tq c k w)) i"
proof -
  obtain s where s: "jobq_of view tq p (wdb w) = Some s"
    using redis_queue.reachable_inv[OF srv refl r(1)] by blast
  have "jobq_of view tq p (wdb (snd (update_job B tq c k w))) = Some s"
    using redis_queue.update_running[OF srv refl, of tq k w s c] s k by simp
  then show ?thesis
    using reachable.step[OF r(1) queue_step.update_step[OF k]] r(2) s by (simp add: is_active_jobq)
qed

lemma job_keeps_reachable:
  assumes srv: "redis_queue (server B) view" and j: "scheduled j = 0" "0 \<le> retry_delay j" and c: "0 < c" "0 \<le> rnd" "rnd \<le> 1"
  shows "kept_by_job B tq c rnd j (\<lambda>w. reachable B view tq (job_postfix j) w \<and> is_active view tq (job_postfix j) w (ident tq j))
     (reachable B view tq (job_postfix j))"
  unfolding kept_by_job_def
proof (intro allI impI conjI)
  fix k w st r e
  assume k: "ident tq k = ident tq j" "job_postfix k = job_postfix j" "separate tq k" "scheduled k = scheduled j"
    "retry_delay k = retry_delay j"
    and w: "reachable B view tq (job_postfix j) w \<and> is_active view tq (job_postfix j) w (ident tq j)"
  then show "reachable B view tq (job_postfix j) w" by simp
  show "reachable B view tq (job_postfix j) (snd (finish B tq c st r e k w))"
    using w k by (intro reachable.step[OF _ queue_step.finish_step]) auto
  show "reachable B view tq (job_postfix j) (snd (retry B tq c rnd e k w))"
    using w k retry_separates_unscheduled[of k c rnd e] j c
    by (intro reachable.step[OF _ queue_step.retry_step]) auto
  show "reachable B view tq (job_postfix j) (snd (update_job B tq c k w))"
    "is_active view tq (job_postfix j) (snd (update_job B tq c k w)) (ident tq j)"
    using reachable_update_active[OF srv, of tq "job_postfix j" w "ident tq j" k c] w k by simp_all
qed


lemma ex_queued_reachable: "reachable ex_backend mview ex_queue None ex_queued"
  unfolding ex_queued_def
  by (rule reachable.step[OF reachable.start[OF ex_jobq]], rule queue_step.enqueue_step[OF refl])
     (simp_all add: ex_before_place)

lemma ex_reads: "reads_its_jobs ex_backend mview ex_queue ex_queued"
  using ex_active_jobq ex_separate
  by (simp add: reads_its_jobs_def ex_dequeue is_active_jobq ex_id_def) (simp add: ex_job_def)


section \<open>Delayed jobs need a cron job\<close>

definition delayed :: "('db \<Rightarrow> string \<Rightarrow> robj option) \<Rightarrow> task_queue \<Rightarrow> string \<Rightarrow> rat \<Rightarrow> 'db world \<Rightarrow> bool" where
  "delayed view tq i x w \<longleftrightarrow>
     (\<exists>s. jobq_of view tq None (wdb w) = Some s \<and> pending s i = Some x \<and> i \<notin> set (waiting s @ running s))"

text \<open>The passes and the schedule runs of a worker with the cron jobs \<open>cs\<close>, in any order.\<close>

inductive worker_run ::
    "'db backend \<Rightarrow> ('db \<Rightarrow> string \<Rightarrow> robj option) \<Rightarrow> task_queue \<Rightarrow> (string \<times> task_queue \<times> queue_tasks) list \<Rightarrow> cron_task list \<Rightarrow>
     'db world \<Rightarrow> 'db world \<Rightarrow> bool"
  for B view tq queues cs w where
  stay: "worker_run B view tq queues cs w w"
| pass: "worker_run B view tq queues cs w w1 \<Longrightarrow> reads_its_jobs B view tq w1 \<Longrightarrow>
     worker_run B view tq queues cs w
       (snd (snd (process_queue B tq q subcl before c1 c2 rnd err oc False wk w1)))"
| upkeep: "worker_run B view tq queues cs w w1 \<Longrightarrow>
     worker_run B view tq queues cs w
       (snd (worker_schedule B queues build bf cronjob_prefix prefix due_at lock clock cs w1))"

inductive_cases worker_runE: "worker_run B view tq queues cs w w'"

lemma job_keeps_delayed:
  assumes srv: "redis_queue (server B) view" and j: "job_postfix j = None" "ident tq j \<noteq> i"
  shows "kept_by_job B tq c rnd j (delayed view tq i x) (delayed view tq i x)"
  unfolding kept_by_job_def
proof (intro allI impI conjI)
  fix k w st r e
  assume k: "ident tq k = ident tq j" "job_postfix k = job_postfix j" "separate tq k" and w: "delayed view tq i x w"
  then show "delayed view tq i x w" by simp
  obtain s where s: "jobq_of view tq (job_postfix k) (wdb w) = Some s" "pending s i = Some x"
    "i \<notin> set (waiting s)" "i \<notin> set (running s)"
    using w j(1) k(2) by (auto simp: delayed_def)
  have ne: "ident tq k \<noteq> i" using j k by simp
  show "delayed view tq i x (snd (finish B tq c st r e k w))"
    using redis_queue.finish_refines[OF srv refl s(1) k(3), of c st r e] s(2-) ne j(1) k(2) notin_set_remove1[OF s(4)]
    by (auto simp: delayed_def a_finish_def)
  show "delayed view tq i x (snd (retry B tq c rnd e k w))"
    using redis_queue.retry_refines[OF srv refl s(1) k(3), of c rnd e] s(2-) ne j(1) k(2)
      notin_set_remove1[OF s(3)] notin_set_remove1[OF s(4)]
    by (auto simp: delayed_def a_delay_def a_requeue_def Let_def)
  show "delayed view tq i x (snd (update_job B tq c k w))"
    using redis_queue.update_running[OF srv refl s(1) k(3), of c] s(2-) j(1) k(2) by (auto simp: delayed_def)
qed

lemma dequeue_keeps_delayed:
  assumes srv: "redis_queue (server B) view" and w: "delayed view tq i x w"
  shows "delayed view tq i x (snd (dequeue B tq None None w))"
proof -
  obtain s where s: "jobq_of view tq None (wdb w) = Some s" "pending s i = Some x" "i \<notin> set (waiting s @ running s)"
    using w by (auto simp: delayed_def)
  have "jobq_of view tq None (wdb (snd (dequeue B tq None None w))) = Some (a_dequeue s)"
    using redis_queue.dequeue_id_refines[OF srv refl _ s(1)] by (simp add: snd_dequeue)
  moreover have "i \<notin> set (waiting (a_dequeue s) @ running (a_dequeue s))" "pending (a_dequeue s) i = Some x"
    using s by (auto simp: a_dequeue_def dest: in_set_butlastD)
  ultimately show ?thesis by (auto simp: delayed_def)
qed


definition ex_later_job :: job where
  "ex_later_job = (ex_job ''a'')\<lparr>scheduled := 5\<rparr>"

definition ex_later :: "mdb world" where
  "ex_later = snd (enqueue ex_backend ex_queue [] 0 False ex_later_job ex_world)"

lemma ex_later_delayed: "delayed mview ex_queue ex_id 5 ex_later"
proof -
  let ?j = "before_enqueue [] 0 ex_later_job"
  have p: "job_postfix ?j = None" "separate ex_queue ?j" "ident ex_queue ?j = ex_id" "scheduled ?j = 5"
    using ex_separate
    by (simp_all add: ex_before ex_later_job_def separate_def ident_def job_abort_id_def job_postfix_def ex_job_def ex_id_def)
  have "jobq_of mview ex_queue None (wdb ex_later) = Some (a_enqueue ex_id 5 empty_jobq)"
    using mem.enqueue_refines[OF ex_backend_server refl, where before = "[]" and clock = 0 and j = ex_later_job
        and tq = ex_queue and w = ex_world and s = empty_jobq and ret = False] p
    by (simp add: ex_jobq ex_later_def Let_def case_prod_unfold ex_world_view)
       (simp add: empty_jobq_def)
  then show ?thesis by (simp add: delayed_def a_enqueue_def empty_jobq_def)
qed

lemma ex_later_reads: "reads_its_jobs ex_backend mview ex_queue ex_later"
proof -
  have "fst (dequeue ex_backend ex_queue None None ex_later) = Inr None" by code_simp
  then show ?thesis by (simp add: reads_its_jobs_def) (metis Inr_inject fst_conv option.distinct(1))
qed


end
