(* ===== verification/Worker_Registry.thy ===== *)
theory Worker_Registry
  imports Persistence_Laws
begin

text \<open>
  The workers of a queue (\<^verbatim>\<open>kvdb/tasks/queue.py\<close>): their heartbeats and attributes in the
  persistent dictionary of the queue, which keeps every entry in a key of its own.
\<close>

definition queue_data ::
    "string \<Rightarrow> string \<Rightarrow> int \<Rightarrow> bool \<Rightarrow> ((pyval \<Rightarrow> rval) \<times> (rval option \<Rightarrow> pyval result)) option \<Rightarrow>
     (pyval \<Rightarrow> rval) \<Rightarrow> (rval option \<Rightarrow> pyval) \<Rightarrow> pdict" where
  "queue_data prefix name job_max_stuck_duration session_ser ser tw fw =
     \<lparr>base_key = Some (prefix @ ''.'' @ name @ ''.persistence''), keyjoin = '':'',
      expiration = Some job_max_stuck_duration, hset_disabled = True, session_serialization_enabled = session_ser,
      serializer = ser, to_wire = tw, from_wire = fw\<rparr>"

definition heartbeat_key :: "string \<Rightarrow> string" where
  "heartbeat_key wid = ''heartbeats:'' @ wid"

definition add_heartbeat ::
    "'db executor \<Rightarrow> pdict \<Rightarrow> int \<Rightarrow> string \<Rightarrow> string \<Rightarrow> int option \<Rightarrow> int \<Rightarrow> 'db \<Rightarrow> 'db" where
  "add_heartbeat exec P now wid wname heartbeat_ttl interval d =
     aset_value exec P now (heartbeat_key wid) (PStr wname)
       (Some (case heartbeat_ttl of None \<Rightarrow> interval | Some t \<Rightarrow> if t = 0 then interval else t)) False d"

definition get_worker_ids ::
    "'db executor \<Rightarrow> (string \<Rightarrow> string \<Rightarrow> bool) \<Rightarrow> pdict \<Rightarrow> int \<Rightarrow> 'db \<Rightarrow> string list \<times> 'db" where
  "get_worker_ids exec re_match P now d =
     (let (ids, d1) = aget_keys exec re_match P now ''heartbeats:*'' True d in (map (rsplit_last (CHR '':'')) ids, d1))"

definition get_worker_names ::
    "'db executor \<Rightarrow> (string \<Rightarrow> string \<Rightarrow> bool) \<Rightarrow> pdict \<Rightarrow> int \<Rightarrow> 'db \<Rightarrow> pyval list \<times> 'db" where
  "get_worker_names exec re_match P now d =
     (let (ids, d1) = get_worker_ids exec re_match P now d in aget_values exec P now ids False d1)"

text \<open>The attributes of the workers, one dictionary for all of them under one key.\<close>

fun item_or_empty :: "pyval \<Rightarrow> string \<Rightarrow> pyval result" where
  "item_or_empty (PDict m) wid = Inr (case dict_get m wid of Some v \<Rightarrow> v | None \<Rightarrow> PDict [])"
| "item_or_empty _ wid = Inl AttributeError"

fun items_of :: "pyval \<Rightarrow> string list \<Rightarrow> pydict result" where
  "items_of v [] = Inr []"
| "items_of v (i # is) = bindR (item_or_empty v i) (\<lambda>x. bindR (items_of v is) (\<lambda>r. Inr ((i, x) # r)))"

definition get_worker_attributes ::
    "'db executor \<Rightarrow> (string \<Rightarrow> string \<Rightarrow> bool) \<Rightarrow> pdict \<Rightarrow> int \<Rightarrow> 'db \<Rightarrow> pydict result \<times> 'db" where
  "get_worker_attributes exec re_match P now d =
     (let (ids, d1) = get_worker_ids exec re_match P now d;
          (data, d2) = aget exec P now ''workers'' (PDict []) False d1 in
      (bindR (items_of data ids) (\<lambda>r. Inr (dict_update [] r)), d2))"

text \<open>Registering: what is stored under \<open>workers\<close> is replaced when it is no dictionary.\<close>

definition aregister_worker ::
    "'db executor \<Rightarrow> pdict \<Rightarrow> int \<Rightarrow> string \<Rightarrow> string \<Rightarrow> pyval \<Rightarrow> int \<Rightarrow> string list \<Rightarrow> 'db \<Rightarrow> string list \<times> 'db" where
  "aregister_worker exec P now wid wname attrs interval known d =
     (if wid \<in> set known then (known, d)
      else
        let (workers, d1) = aget exec P now ''workers'' (PDict []) False d;
            d2 = aset_value exec P now ''workers''
                   (case workers of PDict m \<Rightarrow> PDict (dict_set wid attrs m) | _ \<Rightarrow> PDict [(wid, attrs)]) None False d1 in
        (known @ [wid], aset_value exec P now (heartbeat_key wid) (PStr wname) (Some interval) False d2))"

definition register_worker ::
    "'db executor \<Rightarrow> pdict \<Rightarrow> int \<Rightarrow> string \<Rightarrow> string \<Rightarrow> pyval \<Rightarrow> int \<Rightarrow> string list \<Rightarrow> 'db \<Rightarrow> string list \<times> 'db" where
  "register_worker exec P now wid wname attrs interval known d =
     (if wid \<in> set known then (known, d)
      else
        let (workers, d1) = get exec P now ''workers'' (PDict []) False d;
            d2 = set_value exec P now ''workers''
                   (case workers of PDict m \<Rightarrow> PDict (dict_set wid attrs m) | _ \<Rightarrow> PDict [(wid, attrs)]) None False d1 in
        (known @ [wid], set_value exec P now (heartbeat_key wid) (PStr wname) (Some interval) False d2))"

section \<open>Strings\<close>

text \<open>The only colon of a heartbeat key stands before the id, and a base key contains a dot.\<close>

lemma base_not_in_heartbeat:
  assumes "CHR ''.'' \<in> set b" and "CHR '':'' \<notin> set wid"
  shows "\<not> str_in (b @ '':'') (heartbeat_key wid)"
proof
  assume "str_in (b @ '':'') (heartbeat_key wid)"
  then obtain u v where "''heartbeats:'' @ wid = u @ (b @ '':'') @ v" by (auto simp: str_in_iff heartbeat_key_def)
  then have e: "''heartbeats'' @ CHR '':'' # wid = (u @ b) @ CHR '':'' # v" by simp
  have n: "CHR '':'' \<notin> set ''heartbeats''" by simp
  have "CHR ''.'' \<notin> set ''heartbeats''" by simp
  moreover have "''heartbeats'' = u @ b"
    using e append_Cons_eq_iff[OF n assms(2)] by blast
  ultimately show False using assms(1) by (metis Un_iff set_append)
qed


section \<open>What the registry reports\<close>

definition plain_data :: "pdict \<Rightarrow> string \<Rightarrow> bool" where
  "plain_data P b \<longleftrightarrow> base_key P = Some b \<and> keyjoin P = '':'' \<and> hset_disabled P \<and> CHR ''.'' \<in> set b \<and> list_all plain_char b"

lemma plain_dataD:
  assumes "plain_data P b"
  shows "\<not> hset_enabled P" "base P = b" "get_key P k = (if str_in b k then k else b @ '':'' @ k)"
  using assms by (auto simp: plain_data_def hset_enabled_def base_def get_key_def)

lemma queue_data_plain:
  "list_all plain_char p \<Longrightarrow> list_all plain_char n \<Longrightarrow> plain_data (queue_data p n e ss ser tw fw) (p @ ''.'' @ n @ ''.persistence'')"
  by (simp add: plain_data_def queue_data_def plain_char_def)

text \<open>The id of a heartbeat key, however often the base key is cut out of it.\<close>

lemma worker_id_of_key:
  assumes "plain_data P b" "CHR '':'' \<notin> set wid"
  shows "rsplit_last (CHR '':'') (strip_base P (b @ '':'' @ heartbeat_key wid)) = wid"
proof -
  have "CHR ''.'' \<in> set b" using assms(1) by (simp add: plain_data_def)
  then have "strip_base P (b @ '':'' @ heartbeat_key wid) = heartbeat_key wid"
    using str_replace_prefix[OF _ base_not_in_heartbeat[OF _ assms(2)], of b] assms(1)
    by (simp add: strip_base_def plain_data_def base_def)
  moreover have "rsplit_last (CHR '':'') (heartbeat_key wid) = wid"
    using rsplit_last_append[OF assms(2), of "''heartbeats''"] by (simp add: heartbeat_key_def)
  ultimately show ?thesis by simp
qed

context redis_keys
begin

lemma worker_ids_set:
  assumes P: "plain_data P b"
  shows "set (fst (get_worker_ids exec rm P now d)) =
      (\<lambda>k. rsplit_last (CHR '':'') (strip_base P k)) ` {k. view d k \<noteq> None \<and> starts_with (b @ '':heartbeats:'') k} \<and>
    snd (get_worker_ids exec rm P now d) = d"
proof -
  have "list_all plain_char (b @ '':heartbeats:'')"
    using P by (simp add: plain_data_def plain_char_def)
  then obtain ks where ks: "reply_of exec (KEYS ((b @ '':heartbeats:'') @ ''*'')) d = Strs ks"
    "set ks = {k. view d k \<noteq> None \<and> starts_with (b @ '':heartbeats:'') k}"
    using keys_reply by blast
  have "aget_keys exec rm P now ''heartbeats:*'' True d = (map (strip_base P) ks, d)"
    using ks(1) plain_dataD(1,2)[OF P] P by (simp add: aget_keys_def names_of_def plain_data_def)
  then show ?thesis using ks(2) by (simp add: get_worker_ids_def image_image)
qed

lemma heartbeat_stored:
  assumes P: "plain_data P b" and t: "0 < (case ttl of None \<Rightarrow> interval | Some t \<Rightarrow> if t = 0 then interval else t)"
    and w: "\<not> str_in b (heartbeat_key wid)"
  shows "view (add_heartbeat exec P now wid nm ttl interval d) k =
    (if k = b @ '':'' @ heartbeat_key wid
     then Some (OStr (encode_value P False (PStr nm)) (Some (case ttl of None \<Rightarrow> interval | Some t \<Rightarrow> if t = 0 then interval else t)))
     else view d k)"
proof -
  let ?t = "case ttl of None \<Rightarrow> interval | Some t \<Rightarrow> if t = 0 then interval else t"
  have "add_heartbeat exec P now wid nm ttl interval d =
      after exec (SETEX (b @ '':'' @ heartbeat_key wid) ?t (encode_value P False (PStr nm))) d"
    using t plain_dataD[OF P] w by (auto simp: add_heartbeat_def aset_value_def set_cmd_def or_expiration_def Let_def)
  then show ?thesis using t by (simp add: setex_effect write_frame)
qed

lemma absent_values:
  assumes "\<forall>k\<in>set ks. view d (get_key P k) = None" "decode_value P False None = Inr PNone" "\<not> hset_enabled P"
  shows "fst (aget_values exec P now ks False d) = map (\<lambda>k. PNone) ks"
proof -
  have "map (\<lambda>k. the (as_str (view d k))) (map (get_key P) ks) = map (\<lambda>k. None) ks"
    using assms(1) by simp
  moreover have "reply_of exec (MGET (map (get_key P) ks)) d = Multi (map (\<lambda>k. the (as_str (view d k))) (map (get_key P) ks))"
    by (rule mget_reply) (use assms(1) in auto)
  ultimately have "reply_of exec (MGET (map (get_key P) ks)) d = Multi (map (\<lambda>k. None) ks)" by simp
  moreover have "fst (adecode_values exec P False (zip ks (map (\<lambda>k. None) ks)) d') = map (\<lambda>k. PNone) ks" for d'
    using assms(2) by (induction ks arbitrary: d') (simp_all add: case_prod_unfold Let_def)
  ultimately show ?thesis using assms(3) by (simp add: aget_values_def multi_of_def)
qed


end

text \<open>A worker that sends heartbeats is listed by its id, provided the id has no colon in it, and
  nothing else changes in the list. The names of the workers, however, cannot be read: they are
  looked up under the bare ids while they are stored under the heartbeat keys, so every worker is
  reported with the name None.\<close>

theorem workers_listed_without_names:
  assumes "redis_keys exec view" and "plain_data P b" and "CHR '':'' \<notin> set wid" and "\<not> str_in b (heartbeat_key wid)"
    and "0 < interval" and "decode_value P False None = Inr PNone"
    and "\<forall>i\<in>insert wid (set (fst (get_worker_ids exec rm P now d))). \<not> str_in b i \<and> view d (b @ '':'' @ i) = None"
  shows "let d1 = add_heartbeat exec P now wid nm None interval d; ids = fst (get_worker_ids exec rm P now d1) in
    set ids = insert wid (set (fst (get_worker_ids exec rm P now d))) \<and>
    fst (get_worker_names exec rm P now d1) = map (\<lambda>i. PNone) ids"
proof -
  let ?d1 = "add_heartbeat exec P now wid nm None interval d" and ?hk = "b @ '':'' @ heartbeat_key wid"
  have v: "view ?d1 k = (if k = ?hk then Some (OStr (encode_value P False (PStr nm)) (Some interval)) else view d k)" for k
    using redis_keys.heartbeat_stored[OF assms(1,2) _ assms(4), where ttl = None and interval = interval and now = now and nm = nm and d = d and k = k]
      assms(5) by simp
  have hb: "starts_with (b @ '':heartbeats:'') ?hk" by (simp add: starts_with_iff heartbeat_key_def)
  have "{k. view ?d1 k \<noteq> None \<and> starts_with (b @ '':heartbeats:'') k} =
      insert ?hk {k. view d k \<noteq> None \<and> starts_with (b @ '':heartbeats:'') k}"
    using hb by (auto simp: v)
  then have ids: "set (fst (get_worker_ids exec rm P now ?d1)) = insert wid (set (fst (get_worker_ids exec rm P now d)))"
    using redis_keys.worker_ids_set[OF assms(1,2), of rm now] worker_id_of_key[OF assms(2,3)] by simp
  have same: "snd (get_worker_ids exec rm P now ?d1) = ?d1"
    using redis_keys.worker_ids_set[OF assms(1,2), of rm now ?d1] by blast
  have absent: "view ?d1 (get_key P i) = None" if i: "i \<in> set (fst (get_worker_ids exec rm P now ?d1))" for i
  proof -
    have n: "\<not> str_in b i" "view d (b @ '':'' @ i) = None" using assms(7) i ids by auto
    have "CHR '':'' \<notin> set i"
      using i by (auto simp: get_worker_ids_def case_prod_unfold Let_def rsplit_last_no_sep)
    then have "i \<noteq> heartbeat_key wid" by (auto simp: heartbeat_key_def)
    then show ?thesis using n plain_dataD(3)[OF assms(2)] by (simp add: v)
  qed
  have "fst (get_worker_names exec rm P now ?d1) =
      fst (aget_values exec P now (fst (get_worker_ids exec rm P now ?d1)) False ?d1)"
    by (simp add: get_worker_names_def case_prod_unfold same)
  also have "\<dots> = map (\<lambda>i. PNone) (fst (get_worker_ids exec rm P now ?d1))"
    by (rule redis_keys.absent_values[OF assms(1)]) (use absent assms(6) plain_dataD(1)[OF assms(2)] in auto)
  finally show ?thesis using ids by (simp add: Let_def)
qed

lemma workers_listed_without_names_witness:
  "let P = queue_data ''p'' ''q'' 7200 False None (\<lambda>v. RStr ''x'') (\<lambda>v. PNone);
       d1 = add_heartbeat mem_exec P 0 ''w1'' ''worker'' None 30 []; ids = fst (get_worker_ids mem_exec (\<lambda>_ _. False) P 0 d1) in
    set ids = insert ''w1'' (set (fst (get_worker_ids mem_exec (\<lambda>_ _. False) P 0 []))) \<and>
    fst (get_worker_names mem_exec (\<lambda>_ _. False) P 0 d1) = map (\<lambda>i. PNone) ids"
proof -
  let ?P = "queue_data ''p'' ''q'' 7200 False None (\<lambda>v. RStr ''x'') (\<lambda>v. PNone)"
  have p: "plain_data ?P ''p.q.persistence''"
    using queue_data_plain[of "''p''" "''q''" 7200 False None "\<lambda>v. RStr ''x''" "\<lambda>v. PNone"] by (simp add: plain_char_def)
  have e: "fst (get_worker_ids mem_exec (\<lambda>_ _. False) ?P 0 []) = []" by code_simp
  have n: "\<not> str_in ''p.q.persistence'' (heartbeat_key ''w1'')" "\<not> str_in ''p.q.persistence'' ''w1''" by code_simp+
  have d: "decode_value ?P False None = Inr PNone" by (simp add: decode_value_def queue_data_def)
  show ?thesis
    using workers_listed_without_names[OF mem.redis_keys_axioms p _ n(1) _ d, where interval = 30 and rm = "\<lambda>_ _. False" and now = 0 and d = "[]" and nm = "''worker''"]
    by (simp add: e n(2) mview_def)
qed

end
