(* ===== verification/Worker_Life.thy ===== *)
theory Worker_Life
  imports Queue_Calls Worker
begin

text \<open>
  The life of a worker in \<^verbatim>\<open>kvdb/tasks/worker.py\<close>: its configuration, starting and stopping with what
  happens when a part of it raises, the tasks that process jobs and start each other, the polling of
  the upkeep, waiting for a connection to come back, and the calls a worker passes on to its queues.
  The functions of the caller and the client are arguments: what each of their calls raises.
\<close>

section \<open>Configuration\<close>

text \<open>The keyword arguments that are not fields of the configuration are passed on by name and once more
  as a whole, which is a TypeError for every one of those that \<open>configure\<close> looks for. Its fields are
  taken out first and are in effect already.\<close>

definition handed_twice :: "string list" where
  "handed_twice = [''queues'', ''functions'', ''startup'', ''shutdown'', ''before_process'', ''after_process'']"

definition worker_configure :: "string list \<Rightarrow> pydict \<Rightarrow> pydict \<Rightarrow> unit result \<times> pydict" where
  "worker_configure flds config kwargs =
     (let (cfg, rest) = extract_config_and_kwargs flds None False None None True kwargs;
          config1 = dict_update config cfg in
      if \<exists>k \<in> set handed_twice. dict_has k rest then (Inl TypeError, config1) else (Inr (), config1))"

section \<open>Starting and stopping\<close>

datatype life_event =
    Registered string
  | PoolReady string
  | StartupRan nat
  | HeartbeatSent
  | UpkeepStarted
  | TasksStarted nat
  | BroadcastsStarted nat
  | EventSet
  | JobsRescheduled
  | ShutdownRan nat
  | TasksCancelled
  | ConnectionClosed string

type_synonym life = "error option \<times> life_event list"

definition after_that :: "life \<Rightarrow> (life_event list \<Rightarrow> life) \<Rightarrow> life" where
  "after_that s f = (case s of (None, tr) \<Rightarrow> f tr | (Some e, tr) \<Rightarrow> (Some e, tr))"

definition event_of :: "error option \<Rightarrow> life_event \<Rightarrow> life_event list \<Rightarrow> life" where
  "event_of x ev tr = (case x of None \<Rightarrow> (None, tr @ [ev]) | Some e \<Rightarrow> (Some e, tr))"

text \<open>A loop over functions or queues ends with the first exception.\<close>

fun run_each :: "('a \<Rightarrow> error option) \<Rightarrow> ('a \<Rightarrow> life_event) \<Rightarrow> 'a list \<Rightarrow> life_event list \<Rightarrow> life" where
  "run_each raised ev [] tr = (None, tr)"
| "run_each raised ev (x # xs) tr = after_that (event_of (raised x) (ev x) tr) (run_each raised ev xs)"

record life_env =
  should_run :: bool
  queue_eager_init :: bool
  life_queues :: "string list"
  registering :: "string \<Rightarrow> error option"
  initializing :: "string \<Rightarrow> error option"
  startup_raises :: "error option list"
  heartbeat_raises :: "error option"
  upkeep_raises :: "error option"
  task_count :: nat
  broadcast_count :: nat
  waiting_raises :: "error option"
  rescheduling_raises :: "error option"
  shutdown_raises :: "error option list"
  closing :: "string \<Rightarrow> bool"

text \<open>\<open>stop\<close> cancels the main task too, the one it runs in when it is called by \<open>start\<close>: the next time
  that task has to wait, it is cancelled. \<open>closing\<close> says for a queue that closing its
  connections gets through without waiting; \<open>inside\<close> that the main task is the caller.\<close>

fun close_each :: "bool \<Rightarrow> (string \<Rightarrow> bool) \<Rightarrow> string list \<Rightarrow> life_event list \<Rightarrow> life" where
  "close_each inside through [] tr = (None, tr)"
| "close_each inside through (q # qs) tr =
     (if inside \<and> \<not> through q then (Some (OtherError ''CancelledError''), tr)
      else close_each inside through qs (tr @ [ConnectionClosed q]))"

definition stop_worker :: "bool \<Rightarrow> life_env \<Rightarrow> life_event list \<Rightarrow> life" where
  "stop_worker inside env tr = close_each inside (closing env) (life_queues env) (tr @ [TasksCancelled])"

text \<open>The body of the \<open>try\<close>: connections, startup functions, heartbeat, upkeep, tasks, then waiting for
  the event that ends the worker.\<close>

definition start_body :: "life_env \<Rightarrow> life_event list \<Rightarrow> life" where
  "start_body env tr =
     after_that (run_each (initializing env) PoolReady (life_queues env) tr) (\<lambda>tr.
     after_that (run_each (\<lambda>i. startup_raises env ! i) StartupRan [0..<length (startup_raises env)] tr) (\<lambda>tr.
     after_that (event_of (heartbeat_raises env) HeartbeatSent tr) (\<lambda>tr.
     after_that (event_of (upkeep_raises env) UpkeepStarted tr) (\<lambda>tr.
       (waiting_raises env, tr @ [TasksStarted (task_count env), BroadcastsStarted (broadcast_count env)])))))"

text \<open>The \<open>finally\<close>: an exception of its own takes the place of the one that led there.\<close>

definition start_finally :: "life_env \<Rightarrow> life_event list \<Rightarrow> life" where
  "start_finally env tr =
     after_that (event_of (rescheduling_raises env) JobsRescheduled (tr @ [EventSet])) (\<lambda>tr.
     after_that (run_each (\<lambda>i. shutdown_raises env ! i) ShutdownRan [0..<length (shutdown_raises env)] tr) (\<lambda>tr.
     stop_worker True env tr))"

definition start_worker :: "life_env \<Rightarrow> life" where
  "start_worker env =
     (if \<not> should_run env then (None, [])
      else after_that (if queue_eager_init env then (None, []) else run_each (registering env) Registered (life_queues env) [])
        (\<lambda>tr. let (e, tr1) = start_body env tr; (e', tr2) = start_finally env tr1 in
           (case e' of None \<Rightarrow> e | Some x \<Rightarrow> Some x, tr2)))"

text \<open>\<open>run\<close> hands the method \<open>stop\<close> itself, not a call of it, to the event loop, whatever \<open>start\<close> did.\<close>

definition run_worker :: "life_env \<Rightarrow> life" where
  "run_worker env = (Some TypeError, snd (start_worker env))"

definition async_run_worker :: "life_env \<Rightarrow> life" where
  "async_run_worker env = start_worker env"

lemma after_that_simps [simp]: "after_that (None, tr) f = f tr" "after_that (Some e, tr) f = (Some e, tr)"
  by (simp_all add: after_that_def)

lemma event_of_simps [simp]: "event_of None ev tr = (None, tr @ [ev])" "event_of (Some e) ev tr = (Some e, tr)"
  by (simp_all add: event_of_def)

lemma run_each_ok: "\<forall>x \<in> set xs. raised x = None \<Longrightarrow> run_each raised ev xs tr = (None, tr @ map ev xs)"
  by (induction xs arbitrary: tr) auto

lemma run_each_raises:
  "raised y = Some e \<Longrightarrow> \<forall>x \<in> set xs. raised x = None \<Longrightarrow>
   run_each raised ev (xs @ y # ys) tr = (Some e, tr @ map ev xs)"
  by (induction xs arbitrary: tr) auto

lemma close_each_through:
  "\<forall>q \<in> set qs. inside \<longrightarrow> through q \<Longrightarrow> close_each inside through qs tr = (None, tr @ map ConnectionClosed qs)"
  by (induction qs arbitrary: tr) auto

lemma close_each_cancelled:
  "\<not> through q \<Longrightarrow> \<forall>x \<in> set xs. through x \<Longrightarrow>
   close_each True through (xs @ q # ys) tr = (Some (OtherError ''CancelledError''), tr @ map ConnectionClosed xs)"
  by (induction xs arbitrary: tr) auto

definition registers :: "life_env \<Rightarrow> bool" where
  "registers env \<longleftrightarrow> queue_eager_init env \<or> (\<forall>q \<in> set (life_queues env). registering env q = None)"

definition registered_trace :: "life_env \<Rightarrow> life_event list" where
  "registered_trace env = (if queue_eager_init env then [] else map Registered (life_queues env))"

lemma start_registered:
  "should_run env \<Longrightarrow> registers env \<Longrightarrow>
   start_worker env = (let (e, tr1) = start_body env (registered_trace env); (e', tr2) = start_finally env tr1 in
     (case e' of None \<Rightarrow> e | Some x \<Rightarrow> Some x, tr2))"
  by (auto simp: start_worker_def registers_def registered_trace_def run_each_ok)

lemma finally_clean:
  "rescheduling_raises env = None \<Longrightarrow> \<forall>x \<in> set (shutdown_raises env). x = None \<Longrightarrow>
   \<forall>q \<in> set (life_queues env). closing env q \<Longrightarrow>
   start_finally env tr = (None, tr @ EventSet # JobsRescheduled # map ShutdownRan [0..<length (shutdown_raises env)] @
     TasksCancelled # map ConnectionClosed (life_queues env))"
  by (simp add: start_finally_def run_each_ok stop_worker_def close_each_through)

lemma finally_interrupted:
  assumes "rescheduling_raises env = None" "i < length (shutdown_raises env)" "shutdown_raises env ! i = Some e"
    "\<forall>k < i. shutdown_raises env ! k = None"
  shows "start_finally env tr = (Some e, tr @ EventSet # JobsRescheduled # map ShutdownRan [0..<i])"
proof -
  have "[0..<length (shutdown_raises env)] = [0..<i] @ i # [Suc i..<length (shutdown_raises env)]"
    using assms(2) by (metis less_imp_le_nat upt_add_eq_append upt_conv_Cons le_add_diff_inverse zero_le)
  then show ?thesis
    using assms by (simp add: start_finally_def run_each_raises)
qed


definition ex_life :: life_env where
  "ex_life = \<lparr>should_run = True, queue_eager_init = False, life_queues = [''a'', ''b''], registering = \<lambda>q. None,
     initializing = \<lambda>q. None, startup_raises = [None, Some ValueError], heartbeat_raises = None, upkeep_raises = None,
     task_count = 2, broadcast_count = 1, waiting_raises = None, rescheduling_raises = None,
     shutdown_raises = [None, Some KeyError, None], closing = \<lambda>q. True\<rparr>"


text \<open>The main task is cancelled by the \<open>stop\<close> it has called: when closing the connections of
  a queue has to wait, those of this queue and of all that follow stay open.\<close>

lemma stop_cancels_itself:
  assumes "life_queues env = xs @ q # ys" "\<forall>x \<in> set xs. closing env x" "\<not> closing env q"
  shows "stop_worker True env tr = (Some (OtherError ''CancelledError''), tr @ TasksCancelled # map ConnectionClosed xs)"
  using close_each_cancelled[of "closing env", OF assms(3,2)] assms(1) by (simp add: stop_worker_def)

lemma configure_refused:
  assumes "k \<in> set handed_twice" "k \<notin> set flds" "dict_has k kwargs"
  shows "fst (worker_configure flds config kwargs) = Inl TypeError"
proof -
  let ?r = "extract_config_and_kwargs flds None False None None True kwargs"
  have "k \<notin> fst ` set (fst ?r)"
    using assms(2) by (auto simp: extract_config_and_kwargs_def extract_kwargs_def opt_nonempty_def Let_def)
  then have "dict_has k (snd ?r)"
    using assms(3) by (auto simp: extract_config_and_kwargs_def dict_has_def opt_nonempty_def Let_def image_iff)
  then show ?thesis using assms(1) by (auto simp: worker_configure_def Let_def case_prod_unfold)
qed

section \<open>The tasks of a worker\<close>

text \<open>The tasks that process jobs, as their numbers, after \<open>k\<close> of them have ended: each one that ends
  calls \<open>process_task\<close>, which starts a task for every queue.\<close>

inductive pool_run :: "string list \<Rightarrow> nat \<Rightarrow> nat \<Rightarrow> nat list \<times> nat \<Rightarrow> bool"
  for queue_names :: "string list" and concurrency :: nat where
  started: "pool_run queue_names concurrency 0 (start_tasks queue_names concurrency ([], 0))"
| ended: "pool_run queue_names concurrency k (tasks, n) \<Longrightarrow> t \<in> set tasks \<Longrightarrow>
    pool_run queue_names concurrency (Suc k) (process_task queue_names False (Some t) (tasks, n))"

definition pool_ok :: "nat list \<times> nat \<Rightarrow> bool" where
  "pool_ok s \<longleftrightarrow> distinct (fst s) \<and> (\<forall>t \<in> set (fst s). t < snd s)"

lemma process_task_ok:
  assumes "pool_ok s"
  shows "pool_ok (process_task qs stopping p s)"
proof -
  obtain tasks n where s: "s = (tasks, n)" by fastforce
  define ts where "ts = (case p of Some t \<Rightarrow> removeAll t tasks | None \<Rightarrow> tasks)"
  have "distinct ts" "set ts \<subseteq> set tasks"
    using assms by (auto simp: ts_def s pool_ok_def distinct_removeAll split: option.splits)
  moreover have "\<forall>t \<in> set tasks. t < n" using assms by (simp add: s pool_ok_def)
  ultimately have "distinct ts" "\<forall>t \<in> set ts. t < n" by auto
  moreover have "process_task qs stopping p s = (if stopping then (ts, n) else (ts @ [n ..< n + length qs], n + length qs))"
    by (simp add: process_task_def s ts_def)
  ultimately show ?thesis by (auto simp: pool_ok_def)
qed

lemma length_removeAll_distinct: "distinct xs \<Longrightarrow> x \<in> set xs \<Longrightarrow> Suc (length (removeAll x xs)) = length xs"
  using length_pos_if_in_set[of x xs] by (simp add: distinct_remove1_removeAll[symmetric] length_remove1)

lemma start_tasks_pool:
  "pool_ok s \<Longrightarrow> pool_ok (start_tasks qs c s) \<and> length (fst (start_tasks qs c s)) = length (fst s) + c * length qs"
proof (induction c arbitrary: s)
  case (Suc c)
  have "length (fst (process_task qs False None s)) = length (fst s) + length qs"
    by (cases s) (simp add: process_task_def)
  then show ?case using Suc.IH[OF process_task_ok[OF Suc.prems, of qs False None]] by simp
qed simp

lemma pool_run_counts:
  "pool_run qs c k s \<Longrightarrow> pool_ok s \<and> length (fst s) + k = (c + k) * length qs"
proof (induction rule: pool_run.induct)
  case started
  then show ?case using start_tasks_pool[of "([], 0)" qs c] by (simp add: pool_ok_def)
next
  case (ended k tasks n t)
  have d: "Suc (length (removeAll t tasks)) = length tasks"
    using ended by (intro length_removeAll_distinct) (auto simp: pool_ok_def)
  have "length (fst (process_task qs False (Some t) (tasks, n))) = length (removeAll t tasks) + length qs"
    by (simp add: process_task_def)
  then show ?case using ended d process_task_ok[of "(tasks, n)" qs False "Some t"] by simp
qed

text \<open>C17. How many tasks process jobs. With one queue there are always as many as the
  concurrency says. With m queues the worker starts with m times as many, and every task that
  ends starts m new ones: after k of them there are c * m + k * (m - 1), beyond any bound.\<close>

theorem task_pool_grows:
  assumes "pool_run queue_names c k s"
  shows "distinct (fst s) \<and> length (fst s) + k = (c + k) * length queue_names \<and>
    (length queue_names = 1 \<longrightarrow> length (fst s) = c) \<and>
    (2 \<le> length queue_names \<longrightarrow> c + k \<le> length (fst s))"
proof -
  have p: "pool_ok s" "length (fst s) + k = (c + k) * length queue_names"
    using pool_run_counts[OF assms] by simp_all
  have "(c + k) * 2 \<le> (c + k) * length queue_names" if "2 \<le> length queue_names"
    using that by (rule mult_le_mono2)
  then show ?thesis using p by (auto simp: pool_ok_def)
qed

lemma ex_pool: "pool_run [''a'', ''b''] 1 1 ([1, 2, 3], 4)"
proof -
  have s: "start_tasks [''a'', ''b''] 1 ([], 0) = ([0, 1], 2)" by (simp add: process_task_def upt_rec)
  have "process_task [''a'', ''b''] False (Some 0) ([0, 1], 2) = ([1, 2, 3], 4)" by (simp add: process_task_def upt_rec)
  then show ?thesis
    using pool_run.ended[OF pool_run.started[of "[''a'', ''b'']" 1, unfolded s], of 0] by simp
qed

lemma task_pool_grows_witness: "\<exists>s. pool_run [''a'', ''b''] 1 1 s \<and> length (fst s) + 1 = (1 + 1) * 2 \<and> 1 + 1 \<le> length (fst s)"
  using task_pool_grows[OF ex_pool] ex_pool by auto

text \<open>Once the event is set, every task that ends is one less.\<close>

lemma stopping_pool_drains:
  assumes "pool_ok (tasks, n)" "t \<in> set tasks"
  shows "Suc (length (fst (process_task qs True (Some t) (tasks, n)))) = length tasks"
  using length_removeAll_distinct[of tasks t] assms by (simp add: pool_ok_def process_task_def)

section \<open>Polling and waiting for the connection\<close>

text \<open>The loop of the upkeep: before each round the event is looked at; an exception, a cancellation
  included, ends the loop only when the event is set by then. The list gives for each round whether
  the event is set before it, what the function raises, and whether the event is set after it;
  the result counts the calls and the sleeps.\<close>

fun poll :: "(bool \<times> error option \<times> bool) list \<Rightarrow> nat \<times> nat \<Rightarrow> (nat \<times> nat) option" where
  "poll [] cs = None"
| "poll ((set_before, raised, set_after) # rounds) (calls, sleeps) =
     (if set_before then Some (calls, sleeps)
      else if raised \<noteq> None \<and> set_after then Some (Suc calls, sleeps)
      else poll rounds (Suc calls, Suc sleeps))"

lemma poll_survives:
  "\<forall>(b, r, a) \<in> set rounds. \<not> b \<and> \<not> a \<Longrightarrow>
   poll (rounds @ (True, r, a) # rest) (calls, sleeps) = Some (calls + length rounds, sleeps + length rounds)"
  by (induction rounds arbitrary: calls sleeps) auto

text \<open>What a ping gives: an answer that counts as true, one that does not, or an exception, after
  which there is a pause of ten seconds. The queue tries five times, the worker for ever.\<close>

datatype ping = Pong | NoPong | PingRaises error

fun restored_within :: "nat \<Rightarrow> ping list \<Rightarrow> nat \<Rightarrow> (bool \<times> nat) option" where
  "restored_within 0 pings pauses = Some (False, pauses)"
| "restored_within (Suc n) [] pauses = None"
| "restored_within (Suc n) (p # ps) pauses =
     (case p of Pong \<Rightarrow> Some (True, pauses)
      | NoPong \<Rightarrow> restored_within n ps pauses
      | PingRaises e \<Rightarrow> restored_within n ps (Suc pauses))"

definition queue_wait_until_connection_restored :: "ping list \<Rightarrow> (bool \<times> nat) option" where
  "queue_wait_until_connection_restored pings = restored_within 5 pings 0"

fun worker_wait_until_connection_restored :: "ping list \<Rightarrow> nat \<Rightarrow> nat option" where
  "worker_wait_until_connection_restored [] pauses = None"
| "worker_wait_until_connection_restored (p # ps) pauses =
     (case p of Pong \<Rightarrow> Some pauses
      | NoPong \<Rightarrow> worker_wait_until_connection_restored ps pauses
      | PingRaises e \<Rightarrow> worker_wait_until_connection_restored ps (Suc pauses))"

lemma restored_iff:
  "n \<le> length pings \<Longrightarrow> \<exists>k. restored_within n pings pauses = Some (Pong \<in> set (take n pings), k) \<and> k \<le> pauses + n"
proof (induction n pings pauses rule: restored_within.induct)
  case (3 n p ps pauses)
  then show ?case by (cases p) (fastforce simp: le_Suc_eq intro: order_trans)+
qed auto

lemma worker_waits_for_pong:
  "worker_wait_until_connection_restored pings pauses = None \<longleftrightarrow> Pong \<notin> set pings"
  by (induction pings pauses rule: worker_wait_until_connection_restored.induct) (auto split: ping.splits)

section \<open>Calls passed on to a queue\<close>

text \<open>The queues of a worker with what their calls need, under their names; the functions of the
  worker decide about the queue of a call that names none.\<close>

record 'db worker_calls =
  call_queues :: "(string \<times> 'db call_env) list"
  call_functions :: "(string \<times> task_function) list"
  name_of :: "job_or_func \<Rightarrow> string"

definition queue_for :: "'db worker_calls \<Rightarrow> job_or_func \<Rightarrow> string option \<Rightarrow> 'db call_env result" where
  "queue_for W jf queue =
     bindR (wk_get_queue (map fst (call_queues W)) (call_functions W) (name_of W jf) queue)
       (\<lambda>n. case n of None \<Rightarrow> Inl ValueError
          | Some q \<Rightarrow> (case dict_get (call_queues W) q of None \<Rightarrow> Inl ValueError | Some env \<Rightarrow> Inr env))"

definition worker_enqueue ::
    "'db worker_calls \<Rightarrow> job_or_func \<Rightarrow> pyval list \<Rightarrow> string option \<Rightarrow> pydict \<Rightarrow> 'db world \<Rightarrow>
     (job option result \<times> 'db world) option" where
  "worker_enqueue W jf args queue kwargs w =
     (case queue_for W jf queue of Inl e \<Rightarrow> Some (Inl e, w) | Inr env \<Rightarrow> enqueue_func env jf args kwargs w)"

definition worker_apply ::
    "'db worker_calls \<Rightarrow> worker_choice \<Rightarrow> string list \<Rightarrow> bool \<Rightarrow> job_or_func \<Rightarrow> string option \<Rightarrow> pydict \<Rightarrow>
     (string \<times> job_status) list \<Rightarrow> ('db world \<Rightarrow> 'db world) \<Rightarrow> 'db world \<Rightarrow> (applied result \<times> 'db world) option" where
  "worker_apply W c ids return_all jf queue kwargs msgs meanwhile w =
     (case queue_for W jf queue of
        Inl e \<Rightarrow> Some (Inl e, w)
      | Inr env \<Rightarrow> apply_job env c ids return_all jf kwargs msgs meanwhile w)"

definition worker_broadcast ::
    "'db worker_calls \<Rightarrow> worker_choice \<Rightarrow> string list \<Rightarrow> job_or_func \<Rightarrow> string option \<Rightarrow> pydict \<Rightarrow> 'db world \<Rightarrow>
     (job option list result \<times> 'db world) option" where
  "worker_broadcast W c ids jf queue kwargs w =
     (case queue_for W jf queue of
        Inl e \<Rightarrow> Some (Inl e, w)
      | Inr env \<Rightarrow> broadcast_jobs env c ids jf kwargs w)"

text \<open>The broadcast is the one that enqueues and does not wait.
  Waiting asks the jobs for the name of their queue, the first one when there are several.\<close>

definition waiting_queue :: "'db worker_calls \<Rightarrow> job list \<Rightarrow> string option \<Rightarrow> 'db call_env result" where
  "waiting_queue W jobs queue =
     (if opt_truthy queue then (case dict_get (call_queues W) (the queue) of None \<Rightarrow> Inl KeyError | Some env \<Rightarrow> Inr env)
      else case jobs of [] \<Rightarrow> Inl IndexError
        | j # _ \<Rightarrow> (case job_queue_name j of None \<Rightarrow> Inl KeyError
            | Some q \<Rightarrow> (case dict_get (call_queues W) q of None \<Rightarrow> Inl KeyError | Some env \<Rightarrow> Inr env)))"

definition worker_wait_for_job ::
    "'db worker_calls \<Rightarrow> string option \<Rightarrow> bool \<Rightarrow> job result list \<Rightarrow> job \<Rightarrow> (job result \<times> nat) option" where
  "worker_wait_for_job W queue raise_exceptions rs j =
     (case waiting_queue W [j] queue of Inl e \<Rightarrow> Some (Inl e, 0) | Inr env \<Rightarrow> wait_for_job raise_exceptions rs j 0)"

definition worker_wait_for_jobs ::
    "'db worker_calls \<Rightarrow> string option \<Rightarrow> wait_env \<Rightarrow> nat \<Rightarrow> job list \<Rightarrow> (pyval list result \<times> job list) option" where
  "worker_wait_for_jobs W queue env fuel jobs =
     (case waiting_queue W jobs queue of Inl e \<Rightarrow> Some (Inl e, jobs) | Inr q \<Rightarrow> wait_for_jobs env fuel jobs)"

definition worker_as_jobs_complete ::
    "'db worker_calls \<Rightarrow> string option \<Rightarrow> wait_env \<Rightarrow> wait_limits \<Rightarrow> nat \<Rightarrow> job list \<Rightarrow> wait_outcome option result" where
  "worker_as_jobs_complete W queue env lts fuel jobs =
     bindR (waiting_queue W jobs queue) (\<lambda>q. Inr (as_jobs_complete env lts fuel jobs))"

text \<open>A job that enqueueing has just returned does not know its queue: only the record has the
  name. Waiting for it without naming the queue is a KeyError; waiting for no jobs an
  IndexError, where the queue itself returns at once.\<close>

lemma worker_waits_need_queue:
  "job_queue_name j = None \<Longrightarrow> worker_wait_for_jobs W None env fuel (j # js) = Some (Inl KeyError, j # js)"
  "worker_wait_for_jobs W None env fuel [] = Some (Inl IndexError, [])"
  "wait_for_jobs env fuel [] = Some (Inr [], [])"
  by (simp_all add: worker_wait_for_jobs_def waiting_queue_def wait_for_jobs_def start_waiting_def)

end
