(* ===== verification/Job_Methods.thy ===== *)
theory Job_Methods
  imports Queue_Calls
begin

text \<open>
  The methods of a job that work through its queue (\<^verbatim>\<open>kvdb/types/jobs.py\<close>): refreshing, enqueueing, aborting,
  finishing, retrying, rescheduling, updating, saving. The job object is a value that each method
  returns changed; its queue is the environment of the call, \<open>None\<close> for a job without one.
\<close>

section \<open>Refreshing\<close>

text \<open>\<open>replace\<close> copies every field except the queue.\<close>

definition replace_job :: "job \<Rightarrow> job \<Rightarrow> job" where
  "replace_job old new = new"

definition end_callback :: "job_status \<Rightarrow> bool" where
  "end_callback st \<longleftrightarrow> st \<in> TERMINAL_JOB_STATUSES"

text \<open>The statuses the listener hears, until one ends the job; a waiting time of 0 is none.\<close>

fun hears_end :: "job_status list \<Rightarrow> bool" where
  "hears_end [] = False"
| "hears_end (st # sts) = (if end_callback st then True else hears_end sts)"

text \<open>\<open>refresh(until_complete)\<close>: a job that has not ended is listened to and fetched again; \<open>None\<close> while the
  listener waits without a limit.\<close>

definition refresh_until ::
    "'db backend \<Rightarrow> task_queue \<Rightarrow> int option \<Rightarrow> job_status list \<Rightarrow> ('db world \<Rightarrow> 'db world) \<Rightarrow> job \<Rightarrow> 'db world \<Rightarrow>
     (job result \<times> 'db world) option" where
  "refresh_until B tq until_complete heard meanwhile j w =
     (case refresh B tq j w of
        Inl e \<Rightarrow> Some (Inl e, w)
      | Inr new \<Rightarrow>
          let j1 = replace_job j new in
          (case until_complete of
             None \<Rightarrow> Some (Inr j1, w)
           | Some t \<Rightarrow>
               if completed j1 \<noteq> 0 then Some (Inr j1, w)
               else let w1 = meanwhile w in
                 if hears_end heard
                 then (case refresh B tq j1 w1 of
                         Inl e \<Rightarrow> Some (Inl e, w1) | Inr new2 \<Rightarrow> Some (Inr (replace_job j1 new2), w1))
                 else if t = 0 then None else Some (Inl TimeoutError, w1)))"

section \<open>Enqueueing a job object\<close>

text \<open>Without a queue the assertion fails. A job that the queue does not take is refreshed.\<close>

definition job_enqueue :: "'db call_env option \<Rightarrow> 'db call_env option \<Rightarrow> job \<Rightarrow> 'db world \<Rightarrow> (job result \<times> 'db world) option" where
  "job_enqueue own given j w =
     (case (case given of Some q \<Rightarrow> Some q | None \<Rightarrow> own) of
        None \<Rightarrow> Some (Inl AssertionError, w)
      | Some env \<Rightarrow>
          (case enqueue_func env (JobInstance j) [] [] w of
             None \<Rightarrow> None
           | Some (Inl e, w1) \<Rightarrow> Some (Inl e, w1)
           | Some (Inr (Some j1), w1) \<Rightarrow> Some (Inr j1, w1)
           | Some (Inr None, w1) \<Rightarrow> Some (refresh (backend env) (tqueue env) j w1, w1)))"

section \<open>Passing on to the queue\<close>

definition or_text :: "pyval \<Rightarrow> string \<Rightarrow> pyval" where
  "or_text v s = (if truthy v then v else PStr s)"

definition job_abort :: "'db call_env \<Rightarrow> rat \<Rightarrow> string \<Rightarrow> int \<Rightarrow> job \<Rightarrow> 'db world \<Rightarrow> error option \<times> job \<times> 'db world" where
  "job_abort env clock err tt j w =
     abort_call (backend env) (tqueue env) (known_functions env) clock (if err = '''' then ''Aborted'' else err) tt j w"

definition job_finish ::
    "'db call_env \<Rightarrow> rat \<Rightarrow> job_status \<Rightarrow> pyval \<Rightarrow> pyval \<Rightarrow> job \<Rightarrow> 'db world \<Rightarrow> error option \<times> job \<times> 'db world" where
  "job_finish env clock st res err j w = finish_call (backend env) (tqueue env) (known_functions env) clock st res err j w"

definition job_retry :: "'db call_env \<Rightarrow> rat \<Rightarrow> rat \<Rightarrow> pyval \<Rightarrow> job \<Rightarrow> 'db world \<Rightarrow> error option \<times> job \<times> 'db world" where
  "job_retry env clock rnd err j w =
     retry_call (backend env) (tqueue env) (known_functions env) clock rnd (or_text err ''Retrying'') j w"

text \<open>\<open>reschedule\<close> of the queue only starts a task; what the job gets back is no result.\<close>

type_synonym background_reschedule = "job \<times> rat \<times> pyval"

definition job_reschedule :: "rat \<Rightarrow> pyval \<Rightarrow> job \<Rightarrow> background_reschedule list \<Rightarrow> background_reschedule list" where
  "job_reschedule wait_time err j tasks = tasks @ [(j, wait_time, err)]"

definition run_reschedule ::
    "'db call_env \<Rightarrow> rat \<Rightarrow> background_reschedule \<Rightarrow> 'db world \<Rightarrow> error option \<times> job \<times> 'db world" where
  "run_reschedule env clock task w =
     (case task of (j, wait_time, err) \<Rightarrow>
        reschedule_call (backend env) (tqueue env) (known_functions env) clock wait_time err j w)"

section \<open>Updating and saving\<close>

text \<open>The metadata is merged by a function of another package; a value that a field of the model cannot
  hold is \<open>None\<close>.\<close>

fun update_fields :: "(pydict \<Rightarrow> pydict \<Rightarrow> pydict) \<Rightarrow> pydict \<Rightarrow> job \<Rightarrow> job option" where
  "update_fields merge [] j = Some j"
| "update_fields merge ((k, v) # kws) j =
     (if k = ''metadata'' \<and> truthy v
      then (case v of PDict d \<Rightarrow> update_fields merge kws (j\<lparr>metadata := merge (metadata j) d\<rparr>) | _ \<Rightarrow> None)
      else if k = ''metadata'' then (case v of PDict d \<Rightarrow> update_fields merge kws (j\<lparr>metadata := d\<rparr>) | _ \<Rightarrow> None)
      else case job_setattr k v j of None \<Rightarrow> None | Some j' \<Rightarrow> update_fields merge kws j')"

text \<open>Whatever the queue raises while it writes the record is suppressed; here nothing is.\<close>

definition job_update ::
    "(pydict \<Rightarrow> pydict \<Rightarrow> pydict) \<Rightarrow> 'db call_env \<Rightarrow> rat \<Rightarrow> pydict \<Rightarrow> job \<Rightarrow> 'db world \<Rightarrow> (job \<times> 'db world) option" where
  "job_update merge env clock kws j w =
     map_option (\<lambda>j1. update_job (backend env) (tqueue env) clock j1 w) (update_fields merge kws j)"

text \<open>A block that raises is not saved.\<close>

definition do_save ::
    "'db call_env \<Rightarrow> rat \<Rightarrow> (job \<times> 'db world \<Rightarrow> error option \<times> job \<times> 'db world) \<Rightarrow> job \<Rightarrow> 'db world \<Rightarrow>
     error option \<times> job \<times> 'db world" where
  "do_save env clock block j w =
     (case block (j, w) of
        (Some e, j1, w1) \<Rightarrow> (Some e, j1, w1)
      | (None, j1, w1) \<Rightarrow> (None, update_job (backend env) (tqueue env) clock j1 w1))"

definition until_complete :: "bool \<Rightarrow> job result list \<Rightarrow> job \<Rightarrow> (job result \<times> nat) option" where
  "until_complete raise_exceptions rs j = wait_for_job raise_exceptions rs j 0"

section \<open>Properties\<close>

lemma own_empty [simp]: "own_kwargs p (dict_del r []) = []"
  by (auto simp: own_kwargs_def dict_del_def extract_kwargs_def split: option.splits)

lemma enqueue_instance:
  "enqueue_func env (JobInstance j) [] [] w =
   Some (enqueue_call (backend env) (tqueue env) (known_functions env) (map snd (enqueue_hooks env)) (call_time env) False
     (j\<lparr>jargs := [], jkwargs := []\<rparr>) w)"
  by (simp add: enqueue_func_def create_erases_arguments)

definition plain_env :: "'db call_env \<Rightarrow> job \<Rightarrow> bool" where
  "plain_env env j \<longleftrightarrow> enqueue_hooks env = [] \<and> dict_has (jfunction j) (tfunctions (known_functions env))"

lemma erased_same [simp]:
  "ident tq (j\<lparr>jargs := a, jkwargs := b\<rparr>) = ident tq j" "job_postfix (j\<lparr>jargs := a, jkwargs := b\<rparr>) = job_postfix j"
  "separate tq (j\<lparr>jargs := a, jkwargs := b\<rparr>) = separate tq j" "job_abort_id tq (j\<lparr>jargs := a, jkwargs := b\<rparr>) = job_abort_id tq j"
  by (simp_all add: ident_def job_postfix_def separate_def job_abort_id_def)

context redis_queue
begin

lemma update_stores:
  assumes B: "server B = exec"
  shows "view (wdb (notify B tq j' (do_cmd B (SET k v) w))) k = Some (OStr v None)"
  by (simp add: notify_def do_cmd_def Let_def B read_frame set_effect)

end

lemma refused_world:
  "fst (enqueue B tq before clock False j w) = Inr None \<Longrightarrow> snd (enqueue B tq before clock False j w) = w"
  by (cases w) (auto simp: enqueue_def enqueue_script_def Let_def split: if_splits prod.splits)

lemma plain_call:
  assumes "plain_env env j"
  shows "enqueue_func env (JobInstance j) [] [] w =
    Some (enqueue (backend env) (tqueue env) [] (call_time env) False (j\<lparr>jargs := [], jkwargs := []\<rparr>) w)"
proof -
  have "registered (known_functions env) (before_enqueue [] (call_time env) (j\<lparr>jargs := [], jkwargs := []\<rparr>))"
    using assms by (simp add: plain_env_def registered_def before_none)
  then show ?thesis using assms by (simp add: enqueue_instance plain_env_def enqueue_registered)
qed

text \<open>C20. Enqueueing a job object. A job that is not in the queue yet enters it without its
  arguments: they are erased before the record is written. A job that is in the queue already is
  replaced by the one that the record has, with the arguments that it was first enqueued with.\<close>

theorem enqueue_job_object:
  assumes srv: "redis_queue (server (backend env)) view" and pl: "plain_env env j"
    and Q: "jobq_of view (tqueue env) (job_postfix j) (wdb w) = Some s" and sep: "separate (tqueue env) j"
    and ab: "view (wdb w) (job_abort_id (tqueue env) j) = None"
    and dec: "decode_job (backend env) (encode_job (backend env) r) = Some r" "job_queue_name r = Some (queue_name (tqueue env))"
  shows "(pending s (ident (tqueue env) j) = None \<longrightarrow>
      (\<exists>j1 w1. job_enqueue (Some env) None j w = Some (Inr j1, w1) \<and> jargs j1 = [] \<and> jkwargs j1 = [] \<and> status j1 = QUEUED \<and>
         ident (tqueue env) j \<in> dom (pending (the (jobq_of view (tqueue env) (job_postfix j) (wdb w1)))))) \<and>
    (pending s (ident (tqueue env) j) \<noteq> None \<and> jkey r = jkey j \<and>
       view (wdb w) (ident (tqueue env) j) = Some (OStr (serialize (backend env) (tqueue env) r) t) \<longrightarrow>
      (\<exists>w1. job_enqueue (Some env) None j w = Some (Inr r, w1)))"
proof -
  let ?B = "backend env" and ?tq = "tqueue env" and ?j = "j\<lparr>jargs := [], jkwargs := []\<rparr>"
  let ?j2 = "before_enqueue [] (call_time env) ?j"
  let ?r = "enqueue ?B ?tq [] (call_time env) False ?j w"
  have j2: "ident ?tq ?j2 = ident ?tq j" "job_postfix ?j2 = job_postfix j" "separate ?tq ?j2" "job_abort_id ?tq ?j2 = job_abort_id ?tq j"
    using sep by (simp_all add: before_none)
  have Q2: "jobq_of view ?tq (job_postfix ?j2) (wdb w) = Some s" using Q j2 by simp
  note ref = redis_queue.enqueue_refines[OF srv refl refl Q2 j2(3), of False, unfolded Let_def case_prod_unfold j2]
  note call = plain_call[OF pl, of w]
  show ?thesis
  proof (intro conjI impI)
    assume free: "pending s (ident ?tq j) = None"
    then have "fst ?r = Inr (Some ?j2)"
      "jobq_of view ?tq (job_postfix j) (wdb (snd ?r)) = Some (a_enqueue (ident ?tq j) (scheduled ?j2) s)"
      using ref ab by simp_all
    then show "\<exists>j1 w1. job_enqueue (Some env) None j w = Some (Inr j1, w1) \<and> jargs j1 = [] \<and> jkwargs j1 = [] \<and> status j1 = QUEUED \<and>
         ident ?tq j \<in> dom (pending (the (jobq_of view ?tq (job_postfix j) (wdb w1))))"
      by (intro exI[of _ ?j2] exI[of _ "snd ?r"])
         (auto simp: job_enqueue_def call a_enqueue_def before_enqueue_def split: prod.splits)
  next
    assume h: "pending s (ident ?tq j) \<noteq> None \<and> jkey r = jkey j \<and>
      view (wdb w) (ident ?tq j) = Some (OStr (serialize ?B ?tq r) t)"
    then have "fst ?r = Inr None" using ref by simp
    then have r: "?r = (Inr None, w)" using refused_world by (metis prod.collapse)
    have same: "r\<lparr>job_queue_name := Some (queue_name ?tq)\<rparr> = r" using dec(2) by (cases r) simp
    have "refresh ?B ?tq j w = Inr r"
      using redis_queue.fetch_stored[OF srv refl, of w ?tq r t True] h dec(1) same by (simp add: refresh_def ident_def)
    then show "\<exists>w1. job_enqueue (Some env) None j w = Some (Inr r, w1)"
      by (simp add: job_enqueue_def call r)
  qed
qed

lemma enqueue_job_object_witness:
  "\<exists>j1 w1. job_enqueue (Some ex_apply) None (ex_job ''a'') ex_world = Some (Inr j1, w1) \<and> jargs j1 = []"
proof -
  have srv: "redis_queue (server (backend ex_apply)) mview" using ex_laws by (simp add: ex_apply_def ex_backend_def)
  have tq: "tqueue ex_apply = ex_queue" by (simp add: ex_apply_def ex_env_def)
  have pl: "plain_env ex_apply (ex_job ''a'')"
    by (simp add: plain_env_def ex_apply_def ex_env_def ex_tasks_def ex_job_def dict_has_def)
  have Q: "jobq_of mview (tqueue ex_apply) (job_postfix (ex_job ''a'')) (wdb ex_world) = Some empty_jobq"
    by (simp add: tq ex_jobq)
  have sep: "separate (tqueue ex_apply) (ex_job ''a'')" using ex_separate by (simp add: tq)
  have dec: "decode_job (backend ex_apply) (encode_job (backend ex_apply) ex_done) = Some ex_done"
    "job_queue_name ex_done = Some (queue_name (tqueue ex_apply))"
    by (simp_all add: ex_apply_def ex_env_def ex_done_def ex_job_def ex_queue_def)
  have "pending empty_jobq (ident (tqueue ex_apply) (ex_job ''a'')) = None" by (simp add: empty_jobq_def)
  then show ?thesis
    using enqueue_job_object[OF srv pl Q sep ex_world_view dec] by blast
qed

text \<open>C19. What \<open>update\<close> stores is what a refresh reads. The job with its merged metadata and its changed
  fields is written as the record; as long as nobody else writes the record, refreshing
  gives the job back as \<open>update\<close> left it, with the name of its queue.\<close>

theorem update_then_refresh:
  assumes srv: "redis_queue (server (backend env)) view"
    and up: "job_update merge env clock kws j w = Some (j1, w1)"
    and q: "job_queue_name j1 = Some (queue_name (tqueue env))"
    and dec: "decode_job (backend env) (encode_job (backend env) j1) = Some j1"
    and kept: "view (wdb (meanwhile w1)) (ident (tqueue env) j1) = view (wdb w1) (ident (tqueue env) j1)"
  shows "refresh (backend env) (tqueue env) j1 (meanwhile w1) = Inr j1 \<and> touched j1 = now_ms clock \<and>
    (\<exists>j0. update_fields merge kws j = Some j0 \<and> j1 = j0\<lparr>touched := now_ms clock\<rparr>)"
proof -
  let ?B = "backend env" and ?tq = "tqueue env"
  obtain j0 where j0: "update_fields merge kws j = Some j0" "update_job ?B ?tq clock j0 w = (j1, w1)"
    using up by (auto simp: job_update_def)
  then have j1: "j1 = j0\<lparr>touched := now_ms clock\<rparr>"
    and w1: "w1 = notify ?B ?tq j1 (do_cmd ?B (SET (ident ?tq j1) (serialize ?B ?tq j1)) w)"
    by (auto simp: update_job_def Let_def)
  have same: "j1\<lparr>job_queue_name := Some (queue_name ?tq)\<rparr> = j1" using q by (cases j1) simp
  have "view (wdb w1) (ident ?tq j1) = Some (OStr (serialize ?B ?tq j1) None)"
    using redis_queue.update_stores[OF srv refl] by (simp add: w1)
  then have "refresh ?B ?tq j1 (meanwhile w1) = Inr j1"
    using redis_queue.fetch_stored[OF srv refl, of "meanwhile w1" ?tq j1 None True] dec kept same by (simp add: refresh_def)
  then show ?thesis using j0(1) by (simp add: j1)
qed

definition ex_updated :: job where
  "ex_updated = (ex_job ''a'')\<lparr>result := PInt 3, touched := now_ms 5\<rparr>"

definition ex_update :: "mdb call_env" where
  "ex_update = (ex_env None)\<lparr>backend := ex_backend\<lparr>decode_job := \<lambda>s. Some ex_updated\<rparr>\<rparr>"

lemma update_then_refresh_witness:
  "\<exists>w1. job_update dict_update ex_update 5 [(''result'', PInt 3)] (ex_job ''a'') ex_world = Some (ex_updated, w1) \<and>
     refresh (backend ex_update) (tqueue ex_update) ex_updated w1 = Inr ex_updated"
proof -
  have srv: "redis_queue (server (backend ex_update)) mview" using ex_laws by (simp add: ex_update_def ex_backend_def)
  have f: "update_fields dict_update [(''result'', PInt 3)] (ex_job ''a'') = Some ((ex_job ''a'')\<lparr>result := PInt 3\<rparr>)"
    by (simp add: job_setattr_def)
  obtain w1 where up: "job_update dict_update ex_update 5 [(''result'', PInt 3)] (ex_job ''a'') ex_world = Some (ex_updated, w1)"
    by (simp add: job_update_def f update_job_def Let_def ex_updated_def del: update_fields.simps)
  have q: "job_queue_name ex_updated = Some (queue_name (tqueue ex_update))"
    by (simp add: ex_updated_def ex_job_def ex_update_def ex_env_def ex_queue_def)
  have dec: "decode_job (backend ex_update) (encode_job (backend ex_update) ex_updated) = Some ex_updated"
    by (simp add: ex_update_def)
  show ?thesis
    using update_then_refresh[OF srv up q dec, of "\<lambda>w. w"] up by auto
qed

text \<open>A block of \<open>do_save\<close> that raises leaves the record as it was.\<close>

lemma raising_block_not_saved:
  "block (j, w) = (Some e, j1, w1) \<Longrightarrow> do_save env clock block j w = (Some e, j1, w1)"
  by (simp add: do_save_def)

text \<open>Refreshing until the end: once the listener hears that the job has ended, the job is what
  its record says then.\<close>

lemma refresh_until_end:
  assumes "refresh B tq j w = Inr j1" "completed j1 = 0" "st \<in> set heard" "st \<in> TERMINAL_JOB_STATUSES"
    "refresh B tq j1 (meanwhile w) = Inr j2"
  shows "refresh_until B tq (Some t) heard meanwhile j w = Some (Inr j2, meanwhile w)"
proof -
  have "hears_end heard" using assms(3,4) by (induction heard) (auto simp: end_callback_def)
  then show ?thesis using assms by (simp add: refresh_until_def replace_job_def Let_def)
qed

end
