(* ===== verification/Task_Registration.thy ===== *)
theory Task_Registration
  imports Task_Function
begin

text \<open>
  Registering functions with a queue (\<^verbatim>\<open>kvdb/tasks/tasks.py\<close>, \<^verbatim>\<open>kvdb/tasks/types.py\<close>,
  \<^verbatim>\<open>kvdb/tasks/wraps.py\<close>, \<^verbatim>\<open>kvdb/tasks/utils.py\<close>): signatures, what a registration makes
  of a function, the phases of a worker, the functions that replace the registered ones.
\<close>

section \<open>Functions and signatures\<close>

datatype param_kind = PositionalOnly | PositionalOrKeyword | VarPositional | KeywordOnly | VarKeyword

record param =
  p_name :: string
  p_kind :: param_kind
  p_default :: "pyval option"

record pyfunction =
  fn_name :: string
  fn_qualname :: string
  fn_module :: string
  fn_plain :: bool
  fn_params :: "param list"

definition has_param :: "string \<Rightarrow> param list \<Rightarrow> bool" where
  "has_param n ps \<longleftrightarrow> n \<in> set (map p_name ps)"

text \<open>Whether Python can bind \<open>n\<close> positional and the named arguments; otherwise a TypeError.\<close>

fun bind_positional :: "nat \<Rightarrow> param list \<Rightarrow> string list option" where
  "bind_positional 0 ps = Some []"
| "bind_positional (Suc n) [] = None"
| "bind_positional (Suc n) (p # ps) =
     (case p_kind p of
        VarPositional \<Rightarrow> Some []
      | PositionalOnly \<Rightarrow> map_option (\<lambda>ns. p_name p # ns) (bind_positional n ps)
      | PositionalOrKeyword \<Rightarrow> map_option (\<lambda>ns. p_name p # ns) (bind_positional n ps)
      | _ \<Rightarrow> None)"

definition takes_keyword :: "param list \<Rightarrow> string list \<Rightarrow> string \<Rightarrow> bool" where
  "takes_keyword ps bound k \<longleftrightarrow>
     list_ex (\<lambda>p. p_name p = k \<and> p_kind p \<in> {PositionalOrKeyword, KeywordOnly} \<and> k \<notin> set bound) ps \<or>
     (list_ex (\<lambda>p. p_kind p = VarKeyword) ps \<and>
      \<not> list_ex (\<lambda>p. p_name p = k \<and> p_kind p \<in> {PositionalOrKeyword, KeywordOnly}) ps)"

definition accepts :: "param list \<Rightarrow> nat \<Rightarrow> string list \<Rightarrow> bool" where
  "accepts ps n kws =
     (case bind_positional n ps of
        None \<Rightarrow> False
      | Some bound \<Rightarrow>
          list_all (takes_keyword ps bound) kws \<and>
          list_all (\<lambda>p. p_kind p \<in> {VarPositional, VarKeyword} \<or> p_default p \<noteq> None \<or> p_name p \<in> set bound \<or>
                        p_kind p \<noteq> PositionalOnly \<and> p_name p \<in> set kws) ps)"

text \<open>What \<open>get_func_name\<close> is given: a name, something to call, or an object with a name.\<close>

datatype named = NamedStr string | NamedFunction pyfunction | NamedObject string

definition get_func_name :: "named \<Rightarrow> string option \<Rightarrow> string" where
  "get_func_name f prefix =
     (if opt_truthy prefix then the prefix @ '':'' else []) @
     (case f of NamedStr s \<Rightarrow> s | NamedFunction g \<Rightarrow> fn_qualname g | NamedObject n \<Rightarrow> n)"

definition is_cls_or_self_method :: "pyfunction \<Rightarrow> bool" where
  "is_cls_or_self_method f \<longleftrightarrow> has_param ''self'' (fn_params f) \<or> has_param ''cls'' (fn_params f)"

definition is_uninit_method :: "pyfunction \<Rightarrow> bool" where
  "is_uninit_method f \<longleftrightarrow> fn_plain f \<and> is_cls_or_self_method f"

section \<open>Task functions\<close>

datatype cron_arg = CronUnset | CronText string | CronFlag bool

record registration =
  rg_name :: "string option"
  rg_phase :: "string option"
  rg_silenced :: "bool option"
  rg_silenced_stages :: "string list option"
  rg_default_kwargs :: "pydict option"
  rg_cronjob :: cron_arg
  rg_disable_patch :: "bool option"
  rg_disable_ctx :: pyval
  rg_worker_attributes :: pydict
  rg_match :: match_type
  rg_fallback :: bool
  rg_on_failure :: bool
  rg_retry :: retry_rule
  rg_kwargs :: pydict

datatype parent_kind = ParentInstance | ParentClass

record registered = task_function +
  rf_function :: pyfunction
  rf_parent :: "parent_kind option"
  rf_disable_patch :: bool
  rf_disable_ctx :: bool
  rf_fallback :: bool

definition pv_bool :: "pyval option \<Rightarrow> bool" where
  "pv_bool v = (case v of None \<Rightarrow> False | Some x \<Rightarrow> truthy x)"

fun strings_of :: "pyval \<Rightarrow> string list" where
  "strings_of (PList xs) = List.map_filter (\<lambda>x. case x of PStr s \<Rightarrow> Some s | _ \<Rightarrow> None) xs"
| "strings_of v = []"

definition dict_of :: "pyval \<Rightarrow> pydict option" where
  "dict_of v = (case v of PDict d \<Rightarrow> Some d | _ \<Rightarrow> None)"

text \<open>The model validator. The keyword arguments of the function's defaults are read off the
  signature before \<open>default_kwargs\<close> may be replaced by the one among the keyword arguments.\<close>

definition validate_function :: "string option \<Rightarrow> pyfunction \<Rightarrow> registration \<Rightarrow> pydict \<Rightarrow> registered" where
  "validate_function queue_name f rg kws =
     (let ps = fn_params f;
          name = (if opt_truthy (rg_name rg) then the (rg_name rg) else get_func_name (NamedFunction f) None);
          sil = (case dict_get kws ''silenced'' of Some v \<Rightarrow> truthy v | None \<Rightarrow> rg_silenced rg = Some True);
          stages = (case dict_get kws ''silenced_stages'' of
              Some v \<Rightarrow> strings_of v
            | None \<Rightarrow> (case rg_silenced_stages rg of None \<Rightarrow> [] | Some s \<Rightarrow> s));
          defaults = (case dict_get kws ''default_kwargs'' of Some v \<Rightarrow> dict_of v | None \<Rightarrow> rg_default_kwargs rg) in
      \<lparr>tf_name = name, tf_phase = rg_phase rg, silenced = sil, silenced_stages = stages,
       tf_kwargs = dict_del ''silenced'' (dict_del ''silenced_stages'' (dict_del ''default_kwargs'' kws)),
       default_kwargs = defaults,
       function_default_kwargs = map_option
         (\<lambda>dk. map (\<lambda>p. (p_name p, case p_default p of Some v \<Rightarrow> v | None \<Rightarrow> PObj ''empty''))
                 (filter (\<lambda>p. dict_has (p_name p) dk) ps))
         (rg_default_kwargs rg),
       cron_expr = (case rg_cronjob rg of
           CronUnset \<Rightarrow> None
         | CronText s \<Rightarrow> if s = [] then None else Some s
         | CronFlag b \<Rightarrow> if b then Some [] else None),
       tf_queue_name = queue_name,
       worker_attributes = rg_worker_attributes rg, attribute_match_type = rg_match rg,
       inject_ctx = has_param ''ctx'' ps,
       inject_args = (has_param ''args'' ps \<or>
         list_ex (\<lambda>p. p_kind p \<in> {VarPositional, PositionalOnly, PositionalOrKeyword}) ps),
       inject_kwargs = (has_param ''kwargs'' ps \<or>
         list_ex (\<lambda>p. p_kind p \<in> {VarKeyword, KeywordOnly, PositionalOrKeyword}) ps),
       exclude_retry_exceptions = rg_retry rg, on_failure = rg_on_failure rg,
       rf_function = f,
       rf_parent = (if has_param ''self'' ps then Some ParentInstance
                    else if has_param ''cls'' ps then Some ParentClass else None),
       rf_disable_patch = (rg_disable_patch rg = Some True),
       rf_disable_ctx = False, rf_fallback = rg_fallback rg\<rparr>)"

text \<open>The arguments of the cron job of a function: those of its keyword arguments, of the call and of
  its defaults that are fields of the class of cron jobs, and the expression.\<close>

definition cronjob_fields :: "string list" where
  "cronjob_fields = [''timeout'', ''retries'', ''ttl'', ''retry_delay'', ''retry_backoff'', ''max_stuck_duration'',
     ''function'', ''cron'', ''unique'', ''cron_name'', ''default_kwargs'', ''callback'', ''callback_kwargs'',
     ''bypass_lock'', ''queue_name'']"

definition configure_cronjob ::
    "pydict \<Rightarrow> (string \<times> string) list \<Rightarrow> 'a task_function_scheme \<Rightarrow> pyval option \<times> pydict option \<times> pydict" where
  "configure_cronjob kwargs cron_schedules f =
     (let in_fields = (\<lambda>(k, v). k \<in> set cronjob_fields);
          kws = filter in_fields (dict_update (tf_kwargs f) kwargs);
          kws1 = (case default_kwargs f of None \<Rightarrow> kws | Some dk \<Rightarrow> dict_update kws (filter in_fields dk));
          defaults = map_option (filter (\<lambda>p. \<not> in_fields p)) (default_kwargs f);
          cron = (case dict_get kws1 ''cron'' of
              Some c \<Rightarrow> Some c
            | None \<Rightarrow> (case dict_get cron_schedules (tf_name f) of
                Some s \<Rightarrow> Some (PStr s) | None \<Rightarrow> map_option PStr (cron_expr f))) in
      (cron, defaults, dict_del ''cron'' kws1))"

section \<open>The functions of a queue\<close>

record func_registry =
  fr_queue_name :: string
  fr_functions :: "(string \<times> registered) list"
  fr_objects :: "(string \<times> (string \<times> pydict) list) list"
  fr_last :: "string option"

definition qualname_head :: "string \<Rightarrow> string" where
  "qualname_head s = takeWhile (\<lambda>c. c \<noteq> CHR ''.'') s"

text \<open>\<open>add_function\<close> has no parameter \<open>disable_ctx_in_patch\<close>, so it arrives among the keyword
  arguments of the function.\<close>

definition add_task_function :: "pyfunction \<Rightarrow> registration \<Rightarrow> func_registry \<Rightarrow> registered \<times> func_registry" where
  "add_task_function f rg Q =
     (let t = validate_function (Some (fr_queue_name Q)) f rg (dict_update [(''disable_ctx_in_patch'', rg_disable_ctx rg)] (rg_kwargs rg));
          fs = (if dict_has (tf_name t) (fr_functions Q) then fr_functions Q else fr_functions Q @ [(tf_name t, t)]) in
      (the (dict_get fs (tf_name t)), Q\<lparr>fr_functions := fs, fr_last := Some (tf_name t)\<rparr>))"

definition register_object_method :: "pydict \<Rightarrow> pyfunction \<Rightarrow> func_registry \<Rightarrow> func_registry" where
  "register_object_method partial_kws f Q =
     (let obj_id = fn_module f @ ''.'' @ qualname_head (fn_qualname f);
          methods = (case dict_get (fr_objects Q) obj_id of None \<Rightarrow> [] | Some m \<Rightarrow> m) in
      Q\<lparr>fr_objects := dict_set obj_id
          (if dict_has (fn_name f) methods then methods else methods @ [(fn_name f, partial_kws)]) (fr_objects Q)\<rparr>)"

text \<open>A registration gives the function back as it is, or the one that replaces it.\<close>

datatype registered_as = Unchanged | Patched registered "string option"

definition register_function ::
    "pyfunction \<Rightarrow> registration \<Rightarrow> pydict \<Rightarrow> string option \<Rightarrow> func_registry \<Rightarrow> registered_as \<times> func_registry" where
  "register_function f rg partial_kws subclass_name Q =
     (if is_uninit_method f then (Unchanged, register_object_method partial_kws f Q)
      else let (t, Q1) = add_task_function f rg Q in
        (if rf_disable_patch t then Unchanged else Patched t subclass_name, Q1))"

text \<open>As a decorator \<open>register\<close> passes neither the callback for failures nor the name of a subclass on.\<close>

definition register_decorator ::
    "pyfunction \<Rightarrow> registration \<Rightarrow> pydict \<Rightarrow> string option \<Rightarrow> func_registry \<Rightarrow> registered_as \<times> func_registry" where
  "register_decorator f rg partial_kws subclass_name Q =
     (if is_uninit_method f then (Unchanged, register_object_method partial_kws f Q)
      else let (t, Q1) = add_task_function f (rg\<lparr>rg_on_failure := False\<rparr>) Q in
        (if rf_disable_patch t then Unchanged else Patched t None, Q1))"

section \<open>Phases\<close>

text \<open>A context is a dictionary. What stands in the context of the queue is put there, the result
  of it when it can be called; \<open>call\<close> runs a function on arguments it accepts.\<close>

datatype context_item = Item pyval | Factory "pydict \<Rightarrow> pyval result"

fun prepare_ctx :: "(string \<times> context_item) list \<Rightarrow> pydict \<Rightarrow> pydict result" where
  "prepare_ctx [] ctx = Inr ctx"
| "prepare_ctx ((name, ob) # items) ctx =
     (if dict_has name ctx then prepare_ctx items ctx
      else case ob of
        Item v \<Rightarrow> prepare_ctx items (dict_set name v ctx)
      | Factory f \<Rightarrow> bindR (f ctx) (\<lambda>v. prepare_ctx items (if v = PNone then ctx else dict_set name v ctx)))"

type_synonym caller = "pyfunction \<Rightarrow> pyval list \<Rightarrow> pydict \<Rightarrow> pyval result"

definition call_checked :: "caller \<Rightarrow> caller" where
  "call_checked call f args kws =
     (if accepts (fn_params f) (length args) (dict_keys kws) then call f args kws else Inl TypeError)"

text \<open>The new context must be a dictionary for the phases to go on.\<close>

definition run_phase :: "caller \<Rightarrow> registered \<Rightarrow> pydict \<Rightarrow> pydict result" where
  "run_phase call f ctx =
     (if flag ''set_ctx'' (tf_kwargs f) then
        bindR (call_checked call (rf_function f) [PDict ctx] (tf_kwargs f))
          (\<lambda>v. case v of PDict c \<Rightarrow> Inr c | _ \<Rightarrow> Inl TypeError)
      else bindR (call_checked call (rf_function f) [] (tf_kwargs f))
          (\<lambda>v. Inr (if v = PNone then ctx else dict_set (tf_name f) v ctx)))"

fun run_phase_list :: "caller \<Rightarrow> string \<Rightarrow> registered list \<Rightarrow> pydict \<Rightarrow> pydict result" where
  "run_phase_list call phase [] ctx = Inr ctx"
| "run_phase_list call phase (f # fs) ctx =
     (if opt_truthy (tf_phase f) \<and> tf_phase f = Some phase
      then bindR (run_phase call f ctx) (run_phase_list call phase fs)
      else run_phase_list call phase fs ctx)"

definition run_queue_phase :: "caller \<Rightarrow> string \<Rightarrow> func_registry \<Rightarrow> pydict \<Rightarrow> pydict result" where
  "run_queue_phase call phase Q ctx = run_phase_list call phase (map snd (fr_functions Q)) ctx"

definition get_worker_context ::
    "caller \<Rightarrow> (string \<times> context_item) list \<Rightarrow> func_registry \<Rightarrow> pydict \<Rightarrow> pydict result" where
  "get_worker_context call items Q ctx =
     bindR (prepare_ctx items ctx) (\<lambda>c. bindR (run_queue_phase call ''dependency'' Q c) (\<lambda>c.
       bindR (run_queue_phase call ''context'' Q c) (run_queue_phase call ''startup'' Q)))"

section \<open>The function that replaces a registered one\<close>

datatype patched_call =
    RunHere pydict
  | RunBackground pydict
  | CallDefer string pydict
  | CallApply string pydict
  | CallEnqueue string pydict

definition patched_function ::
    "(pyval \<Rightarrow> pyval \<Rightarrow> pyval) \<Rightarrow> (pyval \<Rightarrow> pyval \<Rightarrow> pyval) \<Rightarrow> registered \<Rightarrow> bool \<Rightarrow> bool \<Rightarrow> pyval option \<Rightarrow> pydict \<Rightarrow>
     patched_call result" where
  "patched_function mm ml t active_workers blocking defer_duration kwargs =
     (if rf_fallback t \<and> \<not> active_workers
      then Inr (if blocking then RunHere kwargs else RunBackground kwargs)
      else bindR (update_function_kwargs mm ml kwargs (task_function.truncate t)) (\<lambda>kw. Inr
        (case defer_duration of
           Some d \<Rightarrow> CallDefer (tf_name t) (dict_set ''wait_time'' d kw)
         | None \<Rightarrow> if blocking then CallApply (tf_name t) kw else CallEnqueue (tf_name t) kw)))"

text \<open>The signature of the replacement. Python refuses a signature whose kinds are out of order, in which
  a positional parameter without default follows one with a default, or with a name twice.\<close>

fun kind_rank :: "param_kind \<Rightarrow> nat" where
  "kind_rank PositionalOnly = 0"
| "kind_rank PositionalOrKeyword = 1"
| "kind_rank VarPositional = 2"
| "kind_rank KeywordOnly = 3"
| "kind_rank VarKeyword = 4"

fun defaults_last :: "bool \<Rightarrow> param list \<Rightarrow> bool" where
  "defaults_last seen [] = True"
| "defaults_last seen (p # ps) =
     (if kind_rank (p_kind p) \<le> 1
      then (p_default p \<noteq> None \<or> \<not> seen) \<and> defaults_last (seen \<or> p_default p \<noteq> None) ps
      else defaults_last seen ps)"

definition valid_signature :: "param list \<Rightarrow> bool" where
  "valid_signature ps \<longleftrightarrow>
     sorted (map (\<lambda>p. kind_rank (p_kind p)) ps) \<and> defaults_last False ps \<and> distinct (map p_name ps)"

definition new_signature :: "param list \<Rightarrow> param list result" where
  "new_signature ps = (if valid_signature ps then Inr ps else Inl ValueError)"

fun insert_args :: "nat \<Rightarrow> string list \<Rightarrow> param list \<Rightarrow> param list \<Rightarrow> param list" where
  "insert_args pos [] old ps = ps"
| "insert_args pos (a # as) old ps =
     (if has_param a old then insert_args pos as old ps
      else insert_args pos as old
        (take pos ps @ \<lparr>p_name = a, p_kind = PositionalOrKeyword, p_default = None\<rparr> # drop pos ps))"

fun insert_kwargs :: "pydict \<Rightarrow> param list \<Rightarrow> param list \<Rightarrow> param list" where
  "insert_kwargs [] old ps = ps"
| "insert_kwargs ((k, v) # kvs) old ps =
     (if has_param k old then insert_kwargs kvs old ps
      else let p = \<lparr>p_name = k, p_kind = KeywordOnly, p_default = Some v\<rparr>;
               n = (if ps \<noteq> [] \<and> str_in ''kwargs'' (p_name (last ps)) then length ps - 1 else length ps) in
        insert_kwargs kvs old (take n ps @ p # drop n ps))"

definition modify_function_signature ::
    "string list \<Rightarrow> pydict \<Rightarrow> string list \<Rightarrow> string list \<Rightarrow> bool \<Rightarrow> param list \<Rightarrow> param list result" where
  "modify_function_signature args kwargs remove_args remove_kwargs remove_self_or_cls old =
     (if args \<noteq> [] \<and> old = [] then Inl IndexError
      else
        let ps1 = (if args = [] then old
                   else insert_args (if str_in ''self'' (p_name (hd old)) then 1 else 0) args old old);
            ps2 = filter (\<lambda>p. p_name p \<notin> set remove_args \<or> \<not> has_param (p_name p) old) ps1;
            ps3 = insert_kwargs kwargs old ps2;
            ps4 = filter (\<lambda>p. p_name p \<notin> set remove_kwargs \<or> \<not> has_param (p_name p) old) ps3 in
        if remove_self_or_cls then
          (if ps4 = [] then Inl IndexError
           else new_signature (if str_in ''self'' (p_name (hd ps4)) \<or> str_in ''cls'' (p_name (hd ps4)) then tl ps4 else ps4))
        else new_signature ps4)"

section \<open>Properties\<close>

text \<open>The keyword that every registration adds to the arguments of the function.\<close>

lemma dict_get_update_present: "dict_get d k \<noteq> None \<Longrightarrow> \<exists>v. dict_get (dict_update d e) k = Some v"
  by (induction d e rule: dict_update.induct) auto

definition registered_name :: "pyfunction \<Rightarrow> registration \<Rightarrow> string" where
  "registered_name f rg = (if opt_truthy (rg_name rg) then the (rg_name rg) else fn_qualname f)"

lemma validated:
  "tf_name (validate_function qn f rg kws) = registered_name f rg"
  "rf_function (validate_function qn f rg kws) = f"
  "tf_phase (validate_function qn f rg kws) = rg_phase rg"
  "dict_get (tf_kwargs (validate_function qn f rg kws)) k =
     (if k \<in> {''silenced'', ''silenced_stages'', ''default_kwargs''} then None else dict_get kws k)"
  by (auto simp: validate_function_def registered_name_def get_func_name_def Let_def)

lemma added_function:
  assumes "\<not> is_uninit_method f" "\<not> dict_has (registered_name f rg) (fr_functions Q)"
  shows "\<exists>t Q1. register_function f rg pk sc Q = ((if rf_disable_patch t then Unchanged else Patched t sc), Q1) \<and>
    fr_functions Q1 = fr_functions Q @ [(registered_name f rg, t)] \<and> rf_function t = f \<and> tf_phase t = rg_phase rg \<and>
    dict_has ''disable_ctx_in_patch'' (tf_kwargs t)"
proof -
  define t where "t = validate_function (Some (fr_queue_name Q)) f rg
      (dict_update [(''disable_ctx_in_patch'', rg_disable_ctx rg)] (rg_kwargs rg))"
  have new: "dict_get (fr_functions Q @ [(registered_name f rg, t)]) (registered_name f rg) = Some t"
    using assms(2) by (simp add: dict_has_iff dict_get_def map_add_def)
  have "dict_has ''disable_ctx_in_patch'' (tf_kwargs t)"
    using dict_get_update_present[of "[(''disable_ctx_in_patch'', rg_disable_ctx rg)]" "''disable_ctx_in_patch''" "rg_kwargs rg"]
    by (auto simp: dict_has_iff t_def validated dict_get_def[of "[(''disable_ctx_in_patch'', rg_disable_ctx rg)]"])
  then show ?thesis
    using assms new by (auto simp: register_function_def add_task_function_def t_def[symmetric] validated Let_def)
      (simp_all add: t_def validated)
qed

lemma takes_keyword_absent: "\<not> takes_keyword ps b k \<Longrightarrow> k \<in> set kws \<Longrightarrow> \<not> list_all (takes_keyword ps b) kws"
  by (auto simp: list_all_iff)

lemma option_refused:
  assumes "dict_has k kws" "\<not> has_param k ps" "\<not> list_ex (\<lambda>p. p_kind p = VarKeyword) ps"
  shows "\<not> accepts ps n (dict_keys kws)"
proof -
  have "\<not> takes_keyword ps b k" for b
    using assms(2,3) by (auto simp: takes_keyword_def has_param_def list_ex_iff)
  moreover have "k \<in> set (dict_keys kws)" using assms(1) by (simp add: dict_has_def dict_keys_def)
  ultimately show ?thesis using takes_keyword_absent by (fastforce simp: accepts_def split: option.splits)
qed

lemma phase_list_stops:
  assumes "f \<in> set fs" "opt_truthy (tf_phase f)" "tf_phase f = Some phase" "\<forall>ctx. run_phase call f ctx = Inl TypeError"
  shows "run_phase_list call phase fs ctx \<noteq> Inr c"
  using assms(1)
proof (induction fs arbitrary: ctx)
  case (Cons g fs)
  show ?case
  proof (cases "g = f")
    case True then show ?thesis using assms by simp
  next
    case False
    then have "run_phase_list call phase fs x \<noteq> Inr c" for x using Cons by auto
    then show ?thesis by (auto simp: bindR_Inr_iff)
  qed
qed simp

text \<open>A function for a phase of the worker that does not take arbitrary keyword arguments cannot run.
  Registering it adds \<open>disable_ctx_in_patch\<close> to its keyword arguments, whatever it was registered
  with, and the phase passes them all on: the call raises a TypeError, so the phase never
  ends with a context, and a worker whose queue has such a start-up function gets none.\<close>

theorem phase_function_refused:
  assumes "\<not> is_uninit_method f" and "\<not> dict_has (registered_name f rg) (fr_functions Q)"
    and "rg_phase rg = Some phase" and "phase \<noteq> []"
    and "\<not> has_param ''disable_ctx_in_patch'' (fn_params f)"
    and "\<not> list_ex (\<lambda>p. p_kind p = VarKeyword) (fn_params f)"
  shows "\<exists>t Q1. snd (register_function f rg pk sc Q) = Q1 \<and> (registered_name f rg, t) \<in> set (fr_functions Q1) \<and>
    run_phase call t ctx = Inl TypeError \<and> run_queue_phase call phase Q1 ctx \<noteq> Inr c \<and>
    (phase = ''startup'' \<longrightarrow> get_worker_context call items Q1 ctx \<noteq> Inr c)"
proof -
  obtain t Q1 where t: "register_function f rg pk sc Q = ((if rf_disable_patch t then Unchanged else Patched t sc), Q1)"
    "fr_functions Q1 = fr_functions Q @ [(registered_name f rg, t)]" "rf_function t = f" "tf_phase t = rg_phase rg"
    "dict_has ''disable_ctx_in_patch'' (tf_kwargs t)"
    using added_function[OF assms(1,2)] by blast
  have refused: "run_phase call t x = Inl TypeError" for x
    using option_refused[OF t(5) assms(5,6)] t(3) by (simp add: run_phase_def call_checked_def)
  have stops: "run_queue_phase call phase Q1 x \<noteq> Inr c" for x
    unfolding run_queue_phase_def
    by (rule phase_list_stops[of t]) (use refused t(2,4) assms(3,4) in auto)
  then have "phase = ''startup'' \<longrightarrow> get_worker_context call items Q1 ctx \<noteq> Inr c"
    by (auto simp: get_worker_context_def bindR_Inr_iff)
  then show ?thesis using t(1,2) refused stops by auto
qed

definition ex_startup :: pyfunction where
  "ex_startup = \<lparr>fn_name = ''warm'', fn_qualname = ''warm'', fn_module = ''m'', fn_plain = True, fn_params = []\<rparr>"

definition ex_registration :: registration where
  "ex_registration = \<lparr>rg_name = None, rg_phase = Some ''startup'', rg_silenced = None, rg_silenced_stages = None,
     rg_default_kwargs = None, rg_cronjob = CronUnset, rg_disable_patch = None, rg_disable_ctx = PNone,
     rg_worker_attributes = [], rg_match = MatchUnset, rg_fallback = False, rg_on_failure = True, rg_retry = RetryUnset,
     rg_kwargs = []\<rparr>"

definition ex_registry :: func_registry where
  "ex_registry = \<lparr>fr_queue_name = ''q'', fr_functions = [], fr_objects = [], fr_last = None\<rparr>"

lemma phase_function_refused_witness:
  "\<exists>t Q1. snd (register_function ex_startup ex_registration [] None ex_registry) = Q1 \<and>
    (registered_name ex_startup ex_registration, t) \<in> set (fr_functions Q1) \<and>
    run_phase (\<lambda>f as kws. Inr PNone) t [] = Inl TypeError \<and>
    run_queue_phase (\<lambda>f as kws. Inr PNone) ''startup'' Q1 [] \<noteq> Inr [] \<and>
    get_worker_context (\<lambda>f as kws. Inr PNone) [] Q1 [] \<noteq> Inr []"
proof -
  have "\<not> is_uninit_method ex_startup" "\<not> dict_has (registered_name ex_startup ex_registration) (fr_functions ex_registry)"
    "rg_phase ex_registration = Some ''startup''" "\<not> has_param ''disable_ctx_in_patch'' (fn_params ex_startup)"
    "\<not> list_ex (\<lambda>p. p_kind p = VarKeyword) (fn_params ex_startup)"
    by (simp_all add: is_uninit_method_def is_cls_or_self_method_def has_param_def ex_startup_def ex_registration_def
        ex_registry_def dict_has_def)
  from phase_function_refused[OF this(1,2,3) _ this(4,5), where pk = "[]" and sc = None
      and call = "\<lambda>f as kws. Inr PNone" and ctx = "[]" and c = "[]" and items = "[]"]
  show ?thesis by simp
qed

definition patch_options :: pydict where
  "patch_options = [(''blocking'', PBool True), (''defer_duration'', PNone)]"

definition option_params :: "param list" where
  "option_params = [\<lparr>p_name = ''blocking'', p_kind = KeywordOnly, p_default = Some (PBool True)\<rparr>,
     \<lparr>p_name = ''defer_duration'', p_kind = KeywordOnly, p_default = Some PNone\<rparr>]"

lemma defaults_last_append:
  "defaults_last seen (ps @ qs) \<longleftrightarrow> defaults_last seen ps \<and>
     defaults_last (seen \<or> list_ex (\<lambda>p. kind_rank (p_kind p) \<le> 1 \<and> p_default p \<noteq> None) ps) qs"
  by (induction ps arbitrary: seen) (auto simp: disj_assoc)

lemma kind_rank_bounds: "kind_rank k \<le> 4" "kind_rank k \<le> 3 \<longleftrightarrow> k \<noteq> VarKeyword" "3 \<le> kind_rank k \<longleftrightarrow> k \<in> {KeywordOnly, VarKeyword}"
  by (cases k; simp)+

text \<open>The signature of the function that replaces a registered one. The options \<open>blocking\<close> and
  \<open>defer_duration\<close> are put before the last parameter when its name contains \<open>kwargs\<close> and else at the
  end. So registering fails with a ValueError when the function takes keyword arguments under
  another name, such as \<open>**options\<close>, or when its last positional parameter is called
  \<open>kwargs\<close>; otherwise the signature has its parameters and the two options.\<close>

theorem patched_signature:
  assumes "valid_signature (ps @ [l])" and "\<not> has_param ''blocking'' (ps @ [l])" and "\<not> has_param ''defer_duration'' (ps @ [l])"
    and "\<forall>p\<in>set ps. p_kind p \<noteq> VarKeyword"
  shows "modify_function_signature [] patch_options [] [] False (ps @ [l]) =
    (if str_in ''kwargs'' (p_name l)
     then if p_kind l \<in> {KeywordOnly, VarKeyword} then Inr (ps @ option_params @ [l]) else Inl ValueError
     else if p_kind l \<noteq> VarKeyword then Inr (ps @ [l] @ option_params) else Inl ValueError)"
proof -
  have nb: "\<not> str_in ''kwargs'' ''blocking''" by code_simp
  have ins: "insert_kwargs patch_options (ps @ [l]) (ps @ [l]) =
      (if str_in ''kwargs'' (p_name l) then ps @ option_params @ [l] else ps @ [l] @ option_params)"
    using assms(2,3) nb by (simp add: patch_options_def option_params_def Let_def)
  have rank: "\<forall>p\<in>set ps. kind_rank (p_kind p) \<le> kind_rank (p_kind l)" and srt: "sorted (map (\<lambda>p. kind_rank (p_kind p)) ps)"
    using assms(1) by (auto simp: valid_signature_def sorted_append)
  have names: "''blocking'' \<notin> set (map p_name (ps @ [l]))" "''defer_duration'' \<notin> set (map p_name (ps @ [l]))"
    using assms(2,3) by (auto simp: has_param_def)
  have d: "defaults_last False ps" "distinct (map p_name (ps @ [l]))"
    using assms(1) by (auto simp: valid_signature_def defaults_last_append)
  have before: "valid_signature (ps @ option_params @ [l]) \<longleftrightarrow> p_kind l \<in> {KeywordOnly, VarKeyword}"
  proof
    assume "valid_signature (ps @ option_params @ [l])"
    then show "p_kind l \<in> {KeywordOnly, VarKeyword}"
      using kind_rank_bounds(3)[of "p_kind l"] by (auto simp: valid_signature_def sorted_append option_params_def)
  next
    assume k: "p_kind l \<in> {KeywordOnly, VarKeyword}"
    have r: "kind_rank (p_kind p) \<le> 3" if "p \<in> set ps" for p
      using assms(4) kind_rank_bounds(2) that by blast
    then show "valid_signature (ps @ option_params @ [l])"
      using k srt rank names d
      by (auto simp: valid_signature_def sorted_append option_params_def defaults_last_append)
  qed
  have after: "valid_signature (ps @ [l] @ option_params) \<longleftrightarrow> p_kind l \<noteq> VarKeyword"
    using rank srt names d assms(1) kind_rank_bounds(2)[of "p_kind l"] order_trans
    by (fastforce simp: valid_signature_def sorted_append option_params_def defaults_last_append)
  show ?thesis
    using after by (simp add: modify_function_signature_def ins new_signature_def before Let_def)
qed

lemma patched_signature_witness:
  "modify_function_signature [] patch_options [] [] False
     [\<lparr>p_name = ''a'', p_kind = PositionalOrKeyword, p_default = None\<rparr>, \<lparr>p_name = ''options'', p_kind = VarKeyword, p_default = None\<rparr>] =
   Inl ValueError"
  using patched_signature[of "[\<lparr>p_name = ''a'', p_kind = PositionalOrKeyword, p_default = None\<rparr>]"
      "\<lparr>p_name = ''options'', p_kind = VarKeyword, p_default = None\<rparr>"]
  by (simp add: valid_signature_def has_param_def)

text \<open>As a decorator, \<open>register\<close> registers the same function but loses the callback for failures.\<close>

lemma decorator_drops_callback:
  assumes "\<not> is_uninit_method f" "\<not> dict_has (registered_name f rg) (fr_functions Q)"
    and "rg_disable_patch rg \<noteq> Some True"
  shows "\<exists>t u Q1 Q2. register_function f rg pk None Q = (Patched t None, Q1) \<and>
    register_decorator f rg pk sc Q = (Patched u None, Q2) \<and> on_failure t = rg_on_failure rg \<and>
    \<not> on_failure u \<and> u\<lparr>on_failure := on_failure t\<rparr> = t"
proof -
  have n: "registered_name f (rg\<lparr>rg_on_failure := False\<rparr>) = registered_name f rg" by (simp add: registered_name_def)
  have get: "dict_get (fr_functions Q @ [(registered_name f rg, x)]) (registered_name f rg) = Some x" for x
    using assms(2) by (simp add: dict_has_iff dict_get_def map_add_def)
  show ?thesis
    using assms get
    by (simp add: register_function_def register_decorator_def add_task_function_def validated n Let_def)
       (simp add: validate_function_def Let_def cong: option.case_cong)
qed

end
