(* ===== verification/Task_Manager.thy ===== *)
theory Task_Manager
  imports Task_Registration
begin

text \<open>
  The manager of queues, functions and workers (\<^verbatim>\<open>kvdb/tasks/main.py\<close>, class \<open>QueueTaskManager\<close>).
  A task queue or worker is known by its name, its class and the settings it was
  constructed and configured with. The lock is a \<open>threading.Lock\<close>, which the thread that holds it
  cannot take again: an operation that tries never returns, which is the result \<open>None\<close>.
\<close>

record queue_object =
  qo_name :: string
  qo_class :: string
  qo_configs :: "pydict list"

record worker_object =
  wo_name :: string
  wo_class :: string
  wo_setups :: "(queue_object list \<times> pydict) list"

datatype mlock = LockOff | LockFree | LockHeld

record manager =
  mg_default :: string
  mg_queues :: "(string \<times> func_registry) list"
  mg_attached :: "(string \<times> string) list"
  mg_task_queues :: "(string \<times> queue_object) list"
  mg_queue_hashes :: "(string \<times> string) list"
  mg_task_workers :: "(string \<times> worker_object) list"
  mg_worker_hashes :: "(string \<times> string) list"
  mg_queue_class :: "string option"
  mg_worker_class :: "string option"
  mg_lock :: mlock

definition or_default :: "string option \<Rightarrow> manager \<Rightarrow> string" where
  "or_default n M = (if opt_truthy n then the n else mg_default M)"

definition configure_classes :: "string option \<Rightarrow> string option \<Rightarrow> manager \<Rightarrow> manager" where
  "configure_classes worker_class queue_class M =
     M\<lparr>mg_worker_class := (case worker_class of Some c \<Rightarrow> Some c
          | None \<Rightarrow> if mg_worker_class M = None then Some ''TaskWorker'' else mg_worker_class M),
       mg_queue_class := (case queue_class of Some c \<Rightarrow> Some c
          | None \<Rightarrow> if mg_queue_class M = None then Some ''TaskQueue'' else mg_queue_class M)\<rparr>"

section \<open>The functions of the queues\<close>

definition new_registry :: "string \<Rightarrow> func_registry" where
  "new_registry n = \<lparr>fr_queue_name = n, fr_functions = [], fr_objects = [], fr_last = None\<rparr>"

definition create_queue :: "string option \<Rightarrow> manager \<Rightarrow> func_registry \<times> manager" where
  "create_queue n M =
     (let k = or_default n M;
          M1 = (if dict_has k (mg_queues M) then M else M\<lparr>mg_queues := mg_queues M @ [(k, new_registry k)]\<rparr>) in
      (the (dict_get (mg_queues M1) k), M1))"

definition get_queue :: "string option \<Rightarrow> manager \<Rightarrow> func_registry \<times> manager" where
  "get_queue n M =
     (let k = or_default n M in
      if dict_has k (mg_queues M) then (the (dict_get (mg_queues M) k), M) else create_queue (Some k) M)"

text \<open>Names are given as nothing, one name or a list.\<close>

datatype name_arg = NoName | OneName string | Names "string list"

fun get_queue_list :: "string list \<Rightarrow> manager \<Rightarrow> func_registry list \<times> manager" where
  "get_queue_list [] M = ([], M)"
| "get_queue_list (n # ns) M =
     (let (q, M1) = get_queue (Some n) M; (qs, M2) = get_queue_list ns M1 in (q # qs, M2))"

definition get_queues :: "name_arg \<Rightarrow> manager \<Rightarrow> func_registry list \<times> manager" where
  "get_queues ns M =
     get_queue_list (case ns of NoName \<Rightarrow> [mg_default M] | OneName n \<Rightarrow> [n] | Names l \<Rightarrow> l) M"

definition register_task_queue :: "queue_object \<Rightarrow> manager \<Rightarrow> manager" where
  "register_task_queue q M =
     (let M1 = (if dict_has (qo_name q) (mg_queues M) then M
                else M\<lparr>mg_queues := mg_queues M @ [(qo_name q, new_registry (qo_name q))]\<rparr>) in
      M1\<lparr>mg_attached := dict_set (qo_name q) (qo_name q) (mg_attached M1)\<rparr>)"

definition manager_register ::
    "string option \<Rightarrow> pyfunction \<Rightarrow> registration \<Rightarrow> pydict \<Rightarrow> string option \<Rightarrow> manager \<Rightarrow> registered_as \<times> manager" where
  "manager_register n f rg partial_kws subclass_name M =
     (let k = or_default n M; (q, M1) = get_queue (Some k) M;
          (r, q1) = register_function f rg partial_kws subclass_name q in
      (r, M1\<lparr>mg_queues := dict_set k q1 (mg_queues M1)\<rparr>))"

definition get_queue_names :: "name_arg \<Rightarrow> manager \<Rightarrow> string list" where
  "get_queue_names ns M =
     (let all_names = dict_keys (mg_queues M) in
      case ns of
        NoName \<Rightarrow> if mg_default M = ''all'' then all_names else [mg_default M]
      | OneName n \<Rightarrow> if n = ''all'' then all_names else [n]
      | Names l \<Rightarrow> if ''all'' \<in> set l then all_names else l)"

text \<open>What \<open>get_functions\<close> and \<open>get_cronjobs\<close> of a queue decide for a function.\<close>

definition queue_functions :: "pydict \<Rightarrow> match_type \<Rightarrow> func_registry \<Rightarrow> registered list result" where
  "queue_functions wattrs mt q =
     filter_result (\<lambda>f. if cron_expr f \<noteq> None then Inr False
         else is_enabled wattrs mt (Some (fr_queue_name q)) (task_function.truncate f)) (map snd (fr_functions q))"

definition queue_cronjobs :: "pydict \<Rightarrow> match_type \<Rightarrow> func_registry \<Rightarrow> registered list result" where
  "queue_cronjobs wattrs mt q =
     filter_result (\<lambda>f. if cron_expr f = None then Inr False
         else is_enabled wattrs mt None (task_function.truncate f)) (map snd (fr_functions q))"

fun concat_results :: "'a list result list \<Rightarrow> 'a list result" where
  "concat_results [] = Inr []"
| "concat_results (r # rs) = bindR r (\<lambda>xs. bindR (concat_results rs) (\<lambda>ys. Inr (xs @ ys)))"

definition manager_functions :: "name_arg \<Rightarrow> pydict \<Rightarrow> match_type \<Rightarrow> manager \<Rightarrow> registered list result \<times> manager" where
  "manager_functions ns wattrs mt M =
     (let (qs, M1) = get_queue_list (get_queue_names ns M) M in
      (concat_results (map (queue_functions wattrs mt) qs), M1))"

definition manager_cronjobs :: "name_arg \<Rightarrow> pydict \<Rightarrow> match_type \<Rightarrow> manager \<Rightarrow> registered list result \<times> manager" where
  "manager_cronjobs ns wattrs mt M =
     (let (qs, M1) = get_queue_list (get_queue_names ns M) M in
      (concat_results (map (queue_cronjobs wattrs mt) qs), M1))"

fun fold_ctx :: "(func_registry \<Rightarrow> pydict \<Rightarrow> pydict result) \<Rightarrow> func_registry list \<Rightarrow> pydict \<Rightarrow> pydict result" where
  "fold_ctx g [] ctx = Inr ctx"
| "fold_ctx g (q # qs) ctx = bindR (g q ctx) (fold_ctx g qs)"

definition manager_worker_context ::
    "caller \<Rightarrow> (string \<Rightarrow> (string \<times> context_item) list) \<Rightarrow> pydict \<Rightarrow> name_arg \<Rightarrow> manager \<Rightarrow> pydict result \<times> manager" where
  "manager_worker_context call items ctx ns M =
     (let (qs, M1) = get_queue_list (get_queue_names ns M) M in
      (fold_ctx (\<lambda>q. get_worker_context call (items (fr_queue_name q)) q) qs ctx, M1))"

definition manager_run_phase :: "caller \<Rightarrow> pydict \<Rightarrow> string \<Rightarrow> name_arg \<Rightarrow> manager \<Rightarrow> pydict result \<times> manager" where
  "manager_run_phase call ctx phase ns M =
     (let (qs, M1) = get_queue_list (get_queue_names ns M) M in (fold_ctx (run_queue_phase call phase) qs ctx, M1))"

definition manager_prepare_ctx ::
    "(string \<Rightarrow> (string \<times> context_item) list) \<Rightarrow> pydict \<Rightarrow> name_arg \<Rightarrow> manager \<Rightarrow> pydict result \<times> manager" where
  "manager_prepare_ctx items ctx ns M =
     (let (qs, M1) = get_queue_list (get_queue_names ns M) M in
      (fold_ctx (\<lambda>q. prepare_ctx (items (fr_queue_name q))) qs ctx, M1))"

section \<open>Task queues and workers\<close>

definition with_lock :: "bool \<Rightarrow> (manager \<Rightarrow> ('a \<times> manager) option) \<Rightarrow> manager \<Rightarrow> ('a \<times> manager) option" where
  "with_lock disabled body M =
     (if disabled \<or> mg_lock M = LockOff then body M
      else if mg_lock M = LockHeld then None
      else case body (M\<lparr>mg_lock := LockHeld\<rparr>) of
        None \<Rightarrow> None | Some (x, M1) \<Rightarrow> Some (x, M1\<lparr>mg_lock := LockFree\<rparr>))"

definition remove_locks :: "manager \<Rightarrow> manager" where
  "remove_locks M = M\<lparr>mg_lock := LockOff\<rparr>"

definition new_task_queue :: "string \<Rightarrow> string option \<Rightarrow> string \<Rightarrow> pydict \<Rightarrow> manager \<Rightarrow> manager" where
  "new_task_queue k queue_class h kwargs M =
     (let c = (case queue_class of Some c \<Rightarrow> c | None \<Rightarrow> the (mg_queue_class M)) in
      M\<lparr>mg_task_queues := dict_set k \<lparr>qo_name = k, qo_class = c, qo_configs = [kwargs]\<rparr> (mg_task_queues M),
        mg_queue_hashes := dict_set k h (mg_queue_hashes M)\<rparr>)"

definition configure_task_queue :: "string \<Rightarrow> string \<Rightarrow> pydict \<Rightarrow> manager \<Rightarrow> manager" where
  "configure_task_queue k h kwargs M =
     (let q = the (dict_get (mg_task_queues M) k) in
      M\<lparr>mg_task_queues := dict_set k (q\<lparr>qo_configs := qo_configs q @ [kwargs]\<rparr>) (mg_task_queues M),
        mg_queue_hashes := dict_set k h (mg_queue_hashes M)\<rparr>)"

text \<open>\<open>hash\<close> is the cache key of the settings.\<close>

definition get_task_queue ::
    "(string \<Rightarrow> pydict \<Rightarrow> string) \<Rightarrow> string option \<Rightarrow> string option \<Rightarrow> bool \<Rightarrow> pydict \<Rightarrow> manager \<Rightarrow>
     (queue_object \<times> manager) option" where
  "get_task_queue hash n queue_class disable_lock kwargs M =
     (let k = or_default n M; h = hash ''task_queue'' kwargs in
      map_option (\<lambda>(u, M1). (the (dict_get (mg_task_queues M1) k), M1))
        (if \<not> dict_has k (mg_task_queues M)
         then with_lock disable_lock (\<lambda>M1. Some ((), new_task_queue k queue_class h kwargs M1))
                (configure_classes None queue_class M)
         else if dict_get (mg_queue_hashes M) k \<noteq> Some h
         then with_lock disable_lock (\<lambda>M1. Some ((), configure_task_queue k h kwargs M1)) M
         else Some ((), M)))"

text \<open>The asynchronous version waits for a lock of its own, which nothing else takes; once the locks are removed
  there is none to enter.\<close>

definition with_alock :: "(manager \<Rightarrow> 'a result \<times> manager) \<Rightarrow> manager \<Rightarrow> 'a result \<times> manager" where
  "with_alock body M = (if mg_lock M = LockOff then (Inl TypeError, M) else body M)"

definition aget_task_queue ::
    "(string \<Rightarrow> pydict \<Rightarrow> string) \<Rightarrow> string option \<Rightarrow> string option \<Rightarrow> pydict \<Rightarrow> manager \<Rightarrow> queue_object result \<times> manager" where
  "aget_task_queue hash n queue_class kwargs M =
     (let k = or_default n M; h = hash ''task_queue'' kwargs;
          found = (\<lambda>M1. (Inr (the (dict_get (mg_task_queues M1) k)), M1)) in
      if \<not> dict_has k (mg_task_queues M)
      then with_alock (\<lambda>M1. found (new_task_queue k queue_class h kwargs M1)) (configure_classes None queue_class M)
      else if dict_get (mg_queue_hashes M) k \<noteq> Some h then with_alock (\<lambda>M1. found (configure_task_queue k h kwargs M1)) M
      else found M)"

datatype queue_item = ByName string | ByObject queue_object

datatype queue_arg = NoQueue | OneQueue queue_item | Queues "queue_item list"

definition queue_items :: "queue_arg \<Rightarrow> manager \<Rightarrow> queue_item list" where
  "queue_items a M =
     (case a of
        NoQueue \<Rightarrow> [ByName (mg_default M)]
      | OneQueue q \<Rightarrow> if q = ByName ''all'' then map ByName (dict_keys (mg_task_queues M)) else [q]
      | Queues l \<Rightarrow> l)"

fun collect_queues ::
    "(string \<Rightarrow> pydict \<Rightarrow> string) \<Rightarrow> bool \<Rightarrow> pydict \<Rightarrow> queue_item list \<Rightarrow> manager \<Rightarrow> (queue_object list \<times> manager) option" where
  "collect_queues hash disable_lock kwargs [] M = Some ([], M)"
| "collect_queues hash disable_lock kwargs (q # qs) M =
     (case (case q of ByName n \<Rightarrow> get_task_queue hash (Some n) None disable_lock kwargs M | ByObject ob \<Rightarrow> Some (ob, M)) of
        None \<Rightarrow> None
      | Some (ob, M1) \<Rightarrow> map_option (\<lambda>(obs, M2). (ob # obs, M2)) (collect_queues hash disable_lock kwargs qs M1))"

definition get_worker_queues ::
    "(string \<Rightarrow> pydict \<Rightarrow> string) \<Rightarrow> queue_arg \<Rightarrow> string option \<Rightarrow> bool \<Rightarrow> pydict \<Rightarrow> manager \<Rightarrow>
     (queue_object list \<times> manager) option" where
  "get_worker_queues hash queues queue_class disable_lock kwargs M =
     collect_queues hash disable_lock kwargs (queue_items queues M) (configure_classes None queue_class M)"

fun acollect_queues ::
    "(string \<Rightarrow> pydict \<Rightarrow> string) \<Rightarrow> pydict \<Rightarrow> queue_item list \<Rightarrow> manager \<Rightarrow> queue_object list result \<times> manager" where
  "acollect_queues hash kwargs [] M = (Inr [], M)"
| "acollect_queues hash kwargs (q # qs) M =
     (case (case q of ByName n \<Rightarrow> aget_task_queue hash (Some n) None kwargs M | ByObject ob \<Rightarrow> (Inr ob, M)) of
        (Inl e, M1) \<Rightarrow> (Inl e, M1)
      | (Inr ob, M1) \<Rightarrow> (let (r, M2) = acollect_queues hash kwargs qs M1 in (bindR r (\<lambda>obs. Inr (ob # obs)), M2)))"

definition aget_worker_queues ::
    "(string \<Rightarrow> pydict \<Rightarrow> string) \<Rightarrow> queue_arg \<Rightarrow> string option \<Rightarrow> pydict \<Rightarrow> manager \<Rightarrow> queue_object list result \<times> manager" where
  "aget_worker_queues hash queues queue_class kwargs M =
     acollect_queues hash kwargs (queue_items queues M) (configure_classes None queue_class M)"

definition put_worker :: "string \<Rightarrow> string option \<Rightarrow> string \<Rightarrow> queue_object list \<Rightarrow> pydict \<Rightarrow> manager \<Rightarrow> manager" where
  "put_worker k worker_class h qs kwargs M =
     (let w = (case dict_get (mg_task_workers M) k of
           None \<Rightarrow> \<lparr>wo_name = k, wo_class = (case worker_class of Some c \<Rightarrow> c | None \<Rightarrow> the (mg_worker_class M)),
                    wo_setups = [(qs, kwargs)]\<rparr>
         | Some w \<Rightarrow> w\<lparr>wo_setups := wo_setups w @ [(qs, kwargs)]\<rparr>) in
      M\<lparr>mg_task_workers := dict_set k w (mg_task_workers M), mg_worker_hashes := dict_set k h (mg_worker_hashes M)\<rparr>)"

text \<open>The class of the queues is among the settings of the queues or else of the worker.\<close>

definition queue_class_of :: "pydict \<Rightarrow> pydict \<Rightarrow> string option" where
  "queue_class_of queue_config kwargs =
     (case (case dict_get queue_config ''task_queue_class'' of Some v \<Rightarrow> Some v
            | None \<Rightarrow> dict_get kwargs ''task_queue_class'') of
        Some (PStr c) \<Rightarrow> Some c | _ \<Rightarrow> None)"

definition get_task_worker ::
    "(string \<Rightarrow> pydict \<Rightarrow> string) \<Rightarrow> string option \<Rightarrow> queue_arg \<Rightarrow> string option \<Rightarrow> bool \<Rightarrow> pydict \<Rightarrow> pydict \<Rightarrow> manager \<Rightarrow>
     (worker_object \<times> manager) option" where
  "get_task_worker hash n queues worker_class disable_lock queue_config kwargs M =
     (let k = or_default n M; h = hash ''task_worker'' kwargs;
          qc = queue_class_of queue_config kwargs;
          qconf = dict_del ''task_queue_class'' queue_config;
          kws = (if dict_has ''task_queue_class'' queue_config then kwargs else dict_del ''task_queue_class'' kwargs);
          setup = (\<lambda>M1. case get_worker_queues hash queues qc disable_lock qconf M1 of
                     None \<Rightarrow> None | Some (qs, M2) \<Rightarrow> Some ((), put_worker k worker_class h qs kws M2)) in
      map_option (\<lambda>(u, M1). (the (dict_get (mg_task_workers M1) k), M1))
        (if \<not> dict_has k (mg_task_workers M)
         then with_lock disable_lock setup (configure_classes worker_class None M)
         else if dict_get (mg_worker_hashes M) k \<noteq> Some h then with_lock disable_lock setup M
         else Some ((), M)))"

text \<open>The asynchronous version hands the settings of the worker to the queues; the class of the queues
  cannot be among them, as it would be passed twice.\<close>

definition aget_task_worker ::
    "(string \<Rightarrow> pydict \<Rightarrow> string) \<Rightarrow> string option \<Rightarrow> queue_arg \<Rightarrow> string option \<Rightarrow> pydict \<Rightarrow> manager \<Rightarrow>
     worker_object result \<times> manager" where
  "aget_task_worker hash n queues worker_class kwargs M =
     (let k = or_default n M; h = hash ''task_worker'' kwargs;
          fresh = (\<not> dict_has k (mg_task_workers M));
          M1 = (if fresh then configure_classes worker_class None M else M);
          setup = (\<lambda>M1. if dict_has ''task_queue_class'' kwargs then (Inl TypeError, M1)
                   else let (r, M2) = aget_worker_queues hash queues None kwargs M1 in
                        case r of
                          Inl e \<Rightarrow> (Inl e, M2)
                        | Inr qs \<Rightarrow> let M3 = put_worker k worker_class h qs kwargs M2 in
                            (Inr (the (dict_get (mg_task_workers M3) k)), M3)) in
      if fresh \<or> dict_get (mg_worker_hashes M) k \<noteq> Some h then with_alock setup M1
      else (Inr (the (dict_get (mg_task_workers M) k)), M))"

definition register_task_worker :: "worker_object \<Rightarrow> manager \<Rightarrow> manager" where
  "register_task_worker w M =
     (if dict_has (wo_name w) (mg_task_workers M) then M
      else M\<lparr>mg_task_workers := mg_task_workers M @ [(wo_name w, w)]\<rparr>)"

section \<open>Properties\<close>

lemma configure_classes_keeps [simp]:
  "mg_lock (configure_classes w c M) = mg_lock M" "mg_task_queues (configure_classes w c M) = mg_task_queues M"
  "mg_queue_hashes (configure_classes w c M) = mg_queue_hashes M" "mg_default (configure_classes w c M) = mg_default M"
  "mg_task_workers (configure_classes w c M) = mg_task_workers M" "or_default n (configure_classes w c M) = or_default n M"
  by (simp_all add: configure_classes_def or_default_def)

lemma dict_has_simps [simp]: "dict_has k (dict_set k' v d) \<longleftrightarrow> k = k' \<or> dict_has k d"
  by (auto simp: dict_has_iff)

lemma task_queue_fields [simp]:
  "mg_lock (new_task_queue k c h kw M) = mg_lock M" "mg_lock (configure_task_queue k h kw M) = mg_lock M"
  "mg_default (new_task_queue k c h kw M) = mg_default M" "mg_default (configure_task_queue k h kw M) = mg_default M"
  "dict_get (mg_queue_hashes (new_task_queue k c h kw M)) k = Some h"
  "dict_get (mg_queue_hashes (configure_task_queue k h kw M)) k = Some h"
  "dict_has k (mg_task_queues (new_task_queue k c h kw M))"
  "dict_has k (mg_task_queues (configure_task_queue k h kw M))"
  by (simp_all add: new_task_queue_def configure_task_queue_def Let_def)

lemma get_task_queue_some:
  assumes "disable_lock \<or> mg_lock M \<noteq> LockHeld"
  shows "\<exists>ob M1. get_task_queue hash n c disable_lock kw M = Some (ob, M1) \<and> mg_lock M1 = mg_lock M \<and>
    mg_default M1 = mg_default M \<and>
    dict_get (mg_queue_hashes M1) (or_default n M) = Some (hash ''task_queue'' kw) \<and>
    dict_get (mg_task_queues M1) (or_default n M) = Some ob"
proof -
  let ?k = "or_default n M" and ?h = "hash ''task_queue'' kw"
  show ?thesis
  proof (cases "dict_has ?k (mg_task_queues M)")
    case False
    then show ?thesis using assms
      by (cases "mg_lock M") (auto simp: get_task_queue_def with_lock_def new_task_queue_def Let_def)
  next
    case True
    then show ?thesis using assms
      by (cases "mg_lock M"; cases "dict_get (mg_queue_hashes M) ?k = Some ?h")
         (auto simp: get_task_queue_def with_lock_def configure_task_queue_def Let_def dict_has_iff)
  qed
qed

text \<open>A task queue is made once per name. Unless another caller holds the lock, \<open>get_task_queue\<close>
  returns a queue and leaves the lock as it was, and asking again with the same settings, whatever the
  class, gives the same queue and changes nothing. Asking with settings of another hash configures
  that queue once more and keeps its class and its earlier settings.\<close>

theorem task_queue_once:
  assumes "disable_lock \<or> mg_lock M \<noteq> LockHeld"
  shows "\<exists>ob M1 ob2 M2. get_task_queue hash n c disable_lock kw M = Some (ob, M1) \<and> mg_lock M1 = mg_lock M \<and>
    get_task_queue hash n c' disable_lock kw M1 = Some (ob, M1) \<and>
    (hash ''task_queue'' kw2 \<noteq> hash ''task_queue'' kw \<longrightarrow>
      get_task_queue hash n c' disable_lock kw2 M1 = Some (ob2, M2) \<and>
      ob2 = ob\<lparr>qo_configs := qo_configs ob @ [kw2]\<rparr>)"
proof -
  obtain ob M1 where 1: "get_task_queue hash n c disable_lock kw M = Some (ob, M1)" "mg_lock M1 = mg_lock M"
    "mg_default M1 = mg_default M" "dict_get (mg_queue_hashes M1) (or_default n M) = Some (hash ''task_queue'' kw)"
    "dict_get (mg_task_queues M1) (or_default n M) = Some ob"
    using get_task_queue_some[OF assms] by blast
  have k: "or_default n M1 = or_default n M" using 1(3) by (simp add: or_default_def)
  have same: "get_task_queue hash n c' disable_lock kw M1 = Some (ob, M1)"
    using 1(4,5) by (simp add: get_task_queue_def k dict_has_iff Let_def)
  have "\<exists>ob2 M2. hash ''task_queue'' kw2 \<noteq> hash ''task_queue'' kw \<longrightarrow>
      get_task_queue hash n c' disable_lock kw2 M1 = Some (ob2, M2) \<and>
      ob2 = ob\<lparr>qo_configs := qo_configs ob @ [kw2]\<rparr>"
    using 1(2,4,5) assms
    by (cases "mg_lock M1") (auto simp: get_task_queue_def k dict_has_iff with_lock_def configure_task_queue_def Let_def)
  then show ?thesis using 1(1,2) same by blast
qed

definition ex_manager :: manager where
  "ex_manager = \<lparr>mg_default = ''global'', mg_queues = [], mg_attached = [], mg_task_queues = [], mg_queue_hashes = [],
     mg_task_workers = [], mg_worker_hashes = [], mg_queue_class = None, mg_worker_class = None, mg_lock = LockFree\<rparr>"

definition ex_hash :: "string \<Rightarrow> pydict \<Rightarrow> string" where
  "ex_hash b kw = b @ concat (map fst kw)"

lemma task_queue_once_witness:
  "\<exists>ob M1 ob2 M2. get_task_queue ex_hash (Some ''q'') None False [] ex_manager = Some (ob, M1) \<and> mg_lock M1 = mg_lock ex_manager \<and>
    get_task_queue ex_hash (Some ''q'') None False [] M1 = Some (ob, M1) \<and>
    get_task_queue ex_hash (Some ''q'') None False [(''ttl'', PInt 1)] M1 = Some (ob2, M2) \<and>
    ob2 = ob\<lparr>qo_configs := qo_configs ob @ [[(''ttl'', PInt 1)]]\<rparr>"
  using task_queue_once[of False ex_manager ex_hash "Some ''q''" None "[]" None "[(''ttl'', PInt 1)]"]
  by (simp add: ex_manager_def ex_hash_def)

text \<open>With the lock held a queue is found or the call never returns.\<close>

lemma held_get_task_queue:
  assumes "mg_lock M = LockHeld"
  shows "get_task_queue hash n c False kw M = None \<or> (\<exists>ob. get_task_queue hash n c False kw M = Some (ob, M))"
    and "\<not> dict_has (or_default n M) (mg_task_queues M) \<Longrightarrow> get_task_queue hash n c False kw M = None"
  using assms by (auto simp: get_task_queue_def with_lock_def Let_def)

lemma held_collect:
  assumes "mg_lock M = LockHeld" "ByName q \<in> set items" "\<not> dict_has (or_default (Some q) M) (mg_task_queues M)"
  shows "collect_queues hash False kw items M = None"
  using assms(2)
proof (induction items)
  case (Cons i items)
  show ?case
  proof (cases "i = ByName q")
    case True
    then show ?thesis using held_get_task_queue(2)[OF assms(1), of "Some q"] assms(3) by simp
  next
    case False
    then have "collect_queues hash False kw items M = None" using Cons by simp
    moreover have "\<And>n. get_task_queue hash (Some n) None False kw M = None \<or> (\<exists>ob. get_task_queue hash (Some n) None False kw M = Some (ob, M))"
      by (rule held_get_task_queue(1)[OF assms(1)])
    ultimately show ?thesis by (cases i) (auto split: option.splits, metis option.distinct(1) option.inject prod.inject)
  qed
qed simp

lemma free_collect: "collect_queues hash True kw items M \<noteq> None"
proof (induction items arbitrary: M)
  case (Cons i items)
  obtain ob M1 where "(case i of ByName n \<Rightarrow> get_task_queue hash (Some n) None True kw M | ByObject ob \<Rightarrow> Some (ob, M)) = Some (ob, M1)"
  proof (cases i)
    case (ByName n)
    then show ?thesis using get_task_queue_some[of True M hash "Some n" None kw] that by auto
  qed (use that in auto)
  then show ?case using Cons[of M1] by auto
qed simp

text \<open>C23. Asking for a worker can hang for ever. \<open>get_task_worker\<close> takes the lock of the manager and, holding it,
  asks for the queues of the worker; a queue that does not exist yet needs the same lock. So a call for a
  new worker that names a new queue never returns, whatever the settings are, unless the lock is
  disabled, and then it always returns.\<close>

theorem worker_lock_blocks:
  assumes "mg_lock M = LockFree" and "\<not> dict_has (or_default n M) (mg_task_workers M)"
    and "ByName q \<in> set (queue_items queues M)" and "\<not> dict_has (or_default (Some q) M) (mg_task_queues M)"
  shows "get_task_worker hash n queues wc False qconf kw M = None \<and>
    get_task_worker hash n queues wc True qconf kw M \<noteq> None"
proof -
  have i: "queue_items queues ((configure_classes wc None M)\<lparr>mg_lock := LockHeld\<rparr>) = queue_items queues M"
    "or_default m ((configure_classes wc None M)\<lparr>mg_lock := LockHeld\<rparr>) = or_default m M" for m
    by (auto simp: queue_items_def or_default_def configure_classes_def split: queue_arg.split)
  have "get_worker_queues hash queues qc False d ((configure_classes wc None M)\<lparr>mg_lock := LockHeld\<rparr>) = None" for qc d
    unfolding get_worker_queues_def
    by (rule held_collect[of _ q]) (use assms(3,4) in \<open>simp_all add: i\<close>)
  moreover have "get_worker_queues hash queues qc True d M' \<noteq> None" for qc d M'
    by (simp add: get_worker_queues_def free_collect)
  ultimately show ?thesis
    using assms(1,2) by (auto simp: get_task_worker_def with_lock_def Let_def split: option.splits)
qed

lemma worker_lock_blocks_witness:
  "get_task_worker ex_hash None (OneQueue (ByName ''jobs'')) None False [] [] ex_manager = None \<and>
   get_task_worker ex_hash None (OneQueue (ByName ''jobs'')) None True [] [] ex_manager \<noteq> None"
  by (rule worker_lock_blocks[where q = "''jobs''"]) (simp_all add: ex_manager_def dict_has_def queue_items_def)

end
