(* ===== verification/Task_Calls.thy ===== *)
theory Task_Calls
  imports Worker_Life Task_Manager
begin

text \<open>
  The same calls on the registry of a queue's functions (\<^verbatim>\<open>kvdb/tasks/tasks.py\<close>) and on the manager
  (\<^verbatim>\<open>kvdb/tasks/main.py\<close>): the registry passes them on to its queue, if it has one by then, the manager
  gets the queue by its name first, which may make or reconfigure it. \<open>env_of\<close> gives for
  a queue object what its calls need. \<open>None\<close> stands for a call that never returns, is still waiting
  or leaves the model.
\<close>

section \<open>The registry of a queue\<close>

definition of_queue ::
    "'db call_env option \<Rightarrow> ('db call_env \<Rightarrow> ('a result \<times> 'db world) option) \<Rightarrow> 'db world \<Rightarrow> ('a result \<times> 'db world) option" where
  "of_queue q f w = (case q of None \<Rightarrow> Some (Inl AttributeError, w) | Some env \<Rightarrow> f env)"

definition tasks_enqueue ::
    "'db call_env option \<Rightarrow> job_or_func \<Rightarrow> pyval list \<Rightarrow> pydict \<Rightarrow> 'db world \<Rightarrow> (job option result \<times> 'db world) option" where
  "tasks_enqueue q jf args kwargs w = of_queue q (\<lambda>env. enqueue_func env jf args kwargs w) w"

definition tasks_apply ::
    "'db call_env option \<Rightarrow> worker_choice \<Rightarrow> string list \<Rightarrow> bool \<Rightarrow> job_or_func \<Rightarrow> pydict \<Rightarrow>
     (string \<times> job_status) list \<Rightarrow> ('db world \<Rightarrow> 'db world) \<Rightarrow> 'db world \<Rightarrow> (applied result \<times> 'db world) option" where
  "tasks_apply q c ids return_all jf kwargs msgs meanwhile w =
     of_queue q (\<lambda>env. apply_job env c ids return_all jf kwargs msgs meanwhile w) w"

definition tasks_broadcast ::
    "'db call_env option \<Rightarrow> worker_choice \<Rightarrow> string list \<Rightarrow> job_or_func \<Rightarrow> pydict \<Rightarrow> 'db world \<Rightarrow>
     (job option list result \<times> 'db world) option" where
  "tasks_broadcast q c ids jf kwargs w = of_queue q (\<lambda>env. broadcast_jobs env c ids jf kwargs w) w"

definition tasks_map ::
    "'db call_env option \<Rightarrow> worker_choice \<Rightarrow> string list \<Rightarrow> bool \<Rightarrow> job_or_func \<Rightarrow> pydict list \<Rightarrow> pydict \<Rightarrow>
     (string \<times> job_status) list \<Rightarrow> ('db world \<Rightarrow> 'db world) \<Rightarrow> 'db world \<Rightarrow> (job_outcome list result \<times> 'db world) option" where
  "tasks_map q c ids return_exceptions jf iter_kwargs kwargs msgs meanwhile w =
     of_queue q (\<lambda>env. map_jobs env c ids return_exceptions jf iter_kwargs kwargs msgs meanwhile w) w"

definition tasks_call ::
    "'db call_env option \<Rightarrow> worker_choice \<Rightarrow> string list \<Rightarrow> bool \<Rightarrow> bool \<Rightarrow> job_or_func \<Rightarrow> pyval list \<Rightarrow> pydict \<Rightarrow>
     (string \<times> job_status) list \<Rightarrow> ('db world \<Rightarrow> 'db world) \<Rightarrow> 'db world \<Rightarrow> (call_result result \<times> 'db world) option" where
  "tasks_call q c ids blocking return_existing_job jf args kwargs msgs meanwhile w =
     of_queue q (\<lambda>env. queue_call env c ids blocking return_existing_job jf args kwargs msgs meanwhile w) w"

definition tasks_wait_for_job ::
    "'db call_env option \<Rightarrow> bool \<Rightarrow> job result list \<Rightarrow> job \<Rightarrow> (job result \<times> nat) option" where
  "tasks_wait_for_job q raise_exceptions rs j =
     (case q of None \<Rightarrow> Some (Inl AttributeError, 0) | Some env \<Rightarrow> wait_for_job raise_exceptions rs j 0)"

definition tasks_wait_for_jobs ::
    "'db call_env option \<Rightarrow> wait_env \<Rightarrow> nat \<Rightarrow> job list \<Rightarrow> (pyval list result \<times> job list) option" where
  "tasks_wait_for_jobs q env fuel jobs =
     (case q of None \<Rightarrow> Some (Inl AttributeError, jobs) | Some _ \<Rightarrow> wait_for_jobs env fuel jobs)"

definition tasks_as_jobs_complete ::
    "'db call_env option \<Rightarrow> wait_env \<Rightarrow> wait_limits \<Rightarrow> nat \<Rightarrow> job list \<Rightarrow> wait_outcome option result" where
  "tasks_as_jobs_complete q env lts fuel jobs =
     (case q of None \<Rightarrow> Inl AttributeError | Some _ \<Rightarrow> Inr (as_jobs_complete env lts fuel jobs))"

section \<open>The manager\<close>

text \<open>Every call gets its queue without settings for it: \<open>h\<close> is the hash of settings.\<close>

type_synonym settings_hash = "string \<Rightarrow> pydict \<Rightarrow> string"

definition with_queue ::
    "settings_hash \<Rightarrow> (queue_object \<Rightarrow> 'db call_env) \<Rightarrow> string option \<Rightarrow> ('db call_env \<Rightarrow> 'r option) \<Rightarrow> manager \<Rightarrow>
     ('r \<times> manager) option" where
  "with_queue h env_of n f M =
     (case get_task_queue h n None False [] M of
        None \<Rightarrow> None
      | Some (ob, M1) \<Rightarrow> map_option (\<lambda>r. (r, M1)) (f (env_of ob)))"

definition manager_enqueue ::
    "settings_hash \<Rightarrow> (queue_object \<Rightarrow> 'db call_env) \<Rightarrow> string option \<Rightarrow> job_or_func \<Rightarrow> pyval list \<Rightarrow> pydict \<Rightarrow> 'db world \<Rightarrow> manager \<Rightarrow>
     ((job option result \<times> 'db world) \<times> manager) option" where
  "manager_enqueue h env_of n jf args kwargs w M = with_queue h env_of n (\<lambda>env. enqueue_func env jf args kwargs w) M"

definition manager_apply ::
    "settings_hash \<Rightarrow> (queue_object \<Rightarrow> 'db call_env) \<Rightarrow> string option \<Rightarrow> worker_choice \<Rightarrow> string list \<Rightarrow> bool \<Rightarrow> job_or_func \<Rightarrow> pydict \<Rightarrow>
     (string \<times> job_status) list \<Rightarrow> ('db world \<Rightarrow> 'db world) \<Rightarrow> 'db world \<Rightarrow> manager \<Rightarrow> ((applied result \<times> 'db world) \<times> manager) option" where
  "manager_apply h env_of n c ids return_all jf kwargs msgs meanwhile w M =
     with_queue h env_of n (\<lambda>env. apply_job env c ids return_all jf kwargs msgs meanwhile w) M"

definition manager_broadcast ::
    "settings_hash \<Rightarrow> (queue_object \<Rightarrow> 'db call_env) \<Rightarrow> string option \<Rightarrow> worker_choice \<Rightarrow> string list \<Rightarrow> job_or_func \<Rightarrow> pydict \<Rightarrow>
     'db world \<Rightarrow> manager \<Rightarrow> ((job option list result \<times> 'db world) \<times> manager) option" where
  "manager_broadcast h env_of n c ids jf kwargs w M = with_queue h env_of n (\<lambda>env. broadcast_jobs env c ids jf kwargs w) M"

definition manager_map ::
    "settings_hash \<Rightarrow> (queue_object \<Rightarrow> 'db call_env) \<Rightarrow> string option \<Rightarrow> worker_choice \<Rightarrow> string list \<Rightarrow> bool \<Rightarrow> job_or_func \<Rightarrow>
     pydict list \<Rightarrow> pydict \<Rightarrow> (string \<times> job_status) list \<Rightarrow> ('db world \<Rightarrow> 'db world) \<Rightarrow> 'db world \<Rightarrow> manager \<Rightarrow>
     ((job_outcome list result \<times> 'db world) \<times> manager) option" where
  "manager_map h env_of n c ids return_exceptions jf iter_kwargs kwargs msgs meanwhile w M =
     with_queue h env_of n (\<lambda>env. map_jobs env c ids return_exceptions jf iter_kwargs kwargs msgs meanwhile w) M"

definition manager_call ::
    "settings_hash \<Rightarrow> (queue_object \<Rightarrow> 'db call_env) \<Rightarrow> string option \<Rightarrow> worker_choice \<Rightarrow> string list \<Rightarrow> bool \<Rightarrow> bool \<Rightarrow> job_or_func \<Rightarrow>
     pyval list \<Rightarrow> pydict \<Rightarrow> (string \<times> job_status) list \<Rightarrow> ('db world \<Rightarrow> 'db world) \<Rightarrow> 'db world \<Rightarrow> manager \<Rightarrow>
     ((call_result result \<times> 'db world) \<times> manager) option" where
  "manager_call h env_of n c ids blocking return_existing_job jf args kwargs msgs meanwhile w M =
     with_queue h env_of n (\<lambda>env. queue_call env c ids blocking return_existing_job jf args kwargs msgs meanwhile w) M"

definition manager_wait_for_job ::
    "settings_hash \<Rightarrow> (queue_object \<Rightarrow> 'db call_env) \<Rightarrow> string option \<Rightarrow> bool \<Rightarrow> job result list \<Rightarrow> job \<Rightarrow> manager \<Rightarrow>
     ((job result \<times> nat) \<times> manager) option" where
  "manager_wait_for_job h env_of n raise_exceptions rs j M = with_queue h env_of n (\<lambda>env. wait_for_job raise_exceptions rs j 0) M"

definition manager_wait_for_jobs ::
    "settings_hash \<Rightarrow> (queue_object \<Rightarrow> 'db call_env) \<Rightarrow> string option \<Rightarrow> wait_env \<Rightarrow> nat \<Rightarrow> job list \<Rightarrow> manager \<Rightarrow>
     ((pyval list result \<times> job list) \<times> manager) option" where
  "manager_wait_for_jobs h env_of n wenv fuel jobs M = with_queue h env_of n (\<lambda>env. wait_for_jobs wenv fuel jobs) M"

definition manager_as_jobs_complete ::
    "settings_hash \<Rightarrow> (queue_object \<Rightarrow> 'db call_env) \<Rightarrow> string option \<Rightarrow> wait_env \<Rightarrow> wait_limits \<Rightarrow> nat \<Rightarrow> job list \<Rightarrow> manager \<Rightarrow>
     (wait_outcome \<times> manager) option" where
  "manager_as_jobs_complete h env_of n wenv lts fuel jobs M =
     with_queue h env_of n (\<lambda>env. as_jobs_complete wenv lts fuel jobs) M"

section \<open>Calls reconfigure their queue\<close>

definition lock_free :: "manager \<Rightarrow> bool" where
  "lock_free M \<longleftrightarrow> mg_lock M \<noteq> LockHeld"

lemma found_queue:
  assumes "dict_get (mg_task_queues M) (or_default n M) = Some ob"
    "dict_get (mg_queue_hashes M) (or_default n M) = Some (h ''task_queue'' [])"
  shows "get_task_queue h n None False [] M = Some (ob, M)"
  using assms by (simp add: get_task_queue_def Let_def dict_has_iff)

lemma reconfigured_queue:
  assumes "dict_get (mg_task_queues M) (or_default n M) = Some ob" "lock_free M"
    "dict_get (mg_queue_hashes M) (or_default n M) \<noteq> Some (h ''task_queue'' [])"
  shows "\<exists>M1. get_task_queue h n None False [] M = Some (ob\<lparr>qo_configs := qo_configs ob @ [[]]\<rparr>, M1) \<and>
    dict_get (mg_task_queues M1) (or_default n M1) = Some (ob\<lparr>qo_configs := qo_configs ob @ [[]]\<rparr>) \<and>
    dict_get (mg_queue_hashes M1) (or_default n M1) = Some (h ''task_queue'' [])"
  using assms
  by (cases "mg_lock M")
     (auto simp: get_task_queue_def Let_def dict_has_iff with_lock_def configure_task_queue_def lock_free_def or_default_def)

text \<open>C21. A call through the manager reconfigures a queue that was made with settings of its own. The
  manager asks for the queue without settings, sees another hash than at the last time, and
  configures it again with nothing, which closes its connections, before the call is passed
  on; the next call finds the hash unchanged. A queue without settings is passed the call at once.\<close>

theorem manager_call_reconfigures:
  assumes "dict_get (mg_task_queues M) (or_default n M) = Some ob" and "lock_free M"
    and "dict_get (mg_queue_hashes M) (or_default n M) = Some (h ''task_queue'' settings)"
  shows "if h ''task_queue'' settings = h ''task_queue'' []
    then manager_enqueue h env_of n jf args kwargs w M = map_option (\<lambda>r. (r, M)) (enqueue_func (env_of ob) jf args kwargs w)
    else let ob1 = ob\<lparr>qo_configs := qo_configs ob @ [[]]\<rparr> in
      \<exists>M1. manager_enqueue h env_of n jf args kwargs w M = map_option (\<lambda>r. (r, M1)) (enqueue_func (env_of ob1) jf args kwargs w) \<and>
        manager_enqueue h env_of n jf' args' kwargs' w' M1 =
          map_option (\<lambda>r. (r, M1)) (enqueue_func (env_of ob1) jf' args' kwargs' w')"
proof (cases "h ''task_queue'' settings = h ''task_queue'' []")
  case True
  then have "get_task_queue h n None False [] M = Some (ob, M)" using assms by (intro found_queue) simp_all
  then show ?thesis using True by (simp add: manager_enqueue_def with_queue_def)
next
  case False
  let ?ob = "ob\<lparr>qo_configs := qo_configs ob @ [[]]\<rparr>"
  obtain M1 where M1: "get_task_queue h n None False [] M = Some (?ob, M1)"
    "dict_get (mg_task_queues M1) (or_default n M1) = Some ?ob"
    "dict_get (mg_queue_hashes M1) (or_default n M1) = Some (h ''task_queue'' [])"
    using reconfigured_queue[OF assms(1,2), of h] assms(3) False by auto
  have "get_task_queue h n None False [] M1 = Some (?ob, M1)" using M1(2,3) by (rule found_queue)
  then show ?thesis
    using False M1(1) by (auto simp: manager_enqueue_def with_queue_def Let_def)
qed

definition ex_made :: manager where
  "ex_made = ex_manager\<lparr>mg_task_queues := [(''q'', \<lparr>qo_name = ''q'', qo_class = ''TaskQueue'', qo_configs = [[(''ttl'', PInt 1)]]\<rparr>)],
     mg_queue_hashes := [(''q'', ''task_queue1'')]\<rparr>"

definition ex_settings_hash :: settings_hash where
  "ex_settings_hash s d = s @ nat_digits (length d)"

lemma manager_call_reconfigures_witness:
  "\<exists>M1. manager_enqueue ex_settings_hash (\<lambda>ob. ex_env None) (Some ''q'') (FuncName ''f'') [] [] ex_world ex_made =
     map_option (\<lambda>r. (r, M1)) (enqueue_func (ex_env None) (FuncName ''f'') [] [] ex_world)"
proof -
  let ?ob = "\<lparr>qo_name = ''q'', qo_class = ''TaskQueue'', qo_configs = [[(''ttl'', PInt 1)]]\<rparr>"
  have n: "or_default (Some ''q'') ex_made = ''q''" by (simp add: or_default_def)
  have q: "dict_get (mg_task_queues ex_made) (or_default (Some ''q'') ex_made) = Some ?ob"
    by (simp add: or_default_def ex_made_def dict_get_def)
  have l: "lock_free ex_made" by (simp add: lock_free_def ex_made_def ex_manager_def)
  have d: "nat_digits 1 = ''1''" "nat_digits 0 = ''0''" by code_simp+
  have h: "dict_get (mg_queue_hashes ex_made) (or_default (Some ''q'') ex_made) =
      Some (ex_settings_hash ''task_queue'' [(''ttl'', PInt 1)])"
    by (simp add: or_default_def ex_made_def dict_get_def ex_settings_hash_def d[simplified])
  have ne: "ex_settings_hash ''task_queue'' [(''ttl'', PInt 1)] \<noteq> ex_settings_hash ''task_queue'' []"
    by (simp add: ex_settings_hash_def d[simplified])
  show ?thesis
    using manager_call_reconfigures[of ex_made "Some ''q''" ?ob ex_settings_hash "[(''ttl'', PInt 1)]", OF q l h, where env_of = "\<lambda>ob. ex_env None" and jf = "FuncName ''f''" and args = "[]"
        and kwargs = "[]" and w = ex_world and jf' = "FuncName ''f''" and args' = "[]" and kwargs' = "[]"
        and w' = ex_world] ne unfolding if_not_P[OF ne] Let_def by blast
qed

text \<open>A registry that no queue belongs to yet raises an AttributeError for every call.\<close>

lemma tasks_without_queue:
  "tasks_enqueue None jf args kwargs w = Some (Inl AttributeError, w)"
  "tasks_call None c ids b r jf args kwargs msgs meanwhile w = Some (Inl AttributeError, w)"
  by (simp_all add: tasks_enqueue_def tasks_call_def of_queue_def)

end
