(* ===== verification/Serialize_Object.thy ===== *)
theory Serialize_Object
  imports Prelude
begin

text \<open>
  Turning objects into JSON values and back (\<^verbatim>\<open>kvdb/io/serializers/utils.py\<close>). \<open>pyobj\<close> has one
  constructor for each kind of object the branches of \<open>serialize_object\<close> tell apart. Dates are
  without time zone. What other packages do is in \<open>class_env\<close>: importing and constructing
  classes, dumping models, pickling, arrays.
\<close>

section \<open>Objects\<close>

datatype pyobj =
    ONone
  | OBool bool
  | OInt int
  | OFloat rat
  | OStr string
  | OBytes string
  | OByteArray string
  | OList "pyobj list"
  | OTuple "pyobj list"
  | ODict "(string \<times> pyobj) list"
  | OSet "pyobj list"
  | OFrozenSet "pyobj list"
  | ODate nat nat nat
  | OTime nat nat nat nat
  | ODateTime nat nat nat nat nat nat nat
  | OTimedelta int
  | OUUID string
  | OEnum string pyobj
  | OEnumPrim string pyobj
  | OModel string "(string \<times> pyobj) list"
  | ODataclass string "(string \<times> pyobj) list"
  | OPath string string
  | ONumpyInt string int
  | ONumpyFloat string rat
  | ONdarray "string option" pyobj
  | OTensor "pyobj list"
  | OAbc string
  | OOther string

record class_env =
  importable :: "string \<Rightarrow> bool"
  construct :: "string \<Rightarrow> (string \<times> pyobj) list \<Rightarrow> pyobj result"
  call_class :: "string \<Rightarrow> pyobj \<Rightarrow> pyobj result"
  dump_model :: "string \<Rightarrow> (string \<times> pyobj) list \<Rightarrow> pyobj result"
  pickle_dumps :: "pyobj \<Rightarrow> string option"
  pickle_loads :: "string \<Rightarrow> pyobj option"
  np_array :: "(pyobj \<Rightarrow> string option \<Rightarrow> pyobj result) option"

section \<open>The standard library\<close>

text \<open>\<open>bytes.hex\<close> and \<open>bytes.fromhex\<close>, which skips white space between the bytes.\<close>

definition hex_digit :: "nat \<Rightarrow> char" where
  "hex_digit n = (if n < 10 then char_of (48 + n) else char_of (87 + n))"

definition hex_value :: "char \<Rightarrow> nat option" where
  "hex_value c =
     (let n = of_char c :: nat in
      if 48 \<le> n \<and> n \<le> 57 then Some (n - 48)
      else if 97 \<le> n \<and> n \<le> 102 then Some (n - 87)
      else if 65 \<le> n \<and> n \<le> 70 then Some (n - 55) else None)"

fun bytes_hex :: "string \<Rightarrow> string" where
  "bytes_hex [] = []"
| "bytes_hex (c # cs) = hex_digit (of_char c div 16) # hex_digit (of_char c mod 16) # bytes_hex cs"

fun bytes_fromhex :: "string \<Rightarrow> string result" where
  "bytes_fromhex [] = Inr []"
| "bytes_fromhex [a] = (if is_space a then Inr [] else Inl ValueError)"
| "bytes_fromhex (a # b # cs) =
     (if is_space a then bytes_fromhex (b # cs)
      else case (hex_value a, hex_value b) of
        (Some m, Some n) \<Rightarrow> bindR (bytes_fromhex cs) (\<lambda>r. Inr (char_of (16 * m + n) # r))
      | _ \<Rightarrow> Inl ValueError)"

text \<open>\<open>isoformat\<close> and \<open>datetime.fromisoformat\<close> on the forms the former prints.\<close>

fun fixed_digits :: "nat \<Rightarrow> nat \<Rightarrow> string" where
  "fixed_digits 0 n = []"
| "fixed_digits (Suc k) n = fixed_digits k (n div 10) @ [char_of (48 + n mod 10)]"

definition digits_nat :: "string \<Rightarrow> nat option" where
  "digits_nat s =
     (if s \<noteq> [] \<and> list_all is_digit s then Some (foldl (\<lambda>n c. 10 * n + (of_char c - 48)) 0 s) else None)"

definition iso_date :: "nat \<Rightarrow> nat \<Rightarrow> nat \<Rightarrow> string" where
  "iso_date y m d = fixed_digits 4 y @ ''-'' @ fixed_digits 2 m @ ''-'' @ fixed_digits 2 d"

definition iso_time :: "nat \<Rightarrow> nat \<Rightarrow> nat \<Rightarrow> nat \<Rightarrow> string" where
  "iso_time h mi s us =
     fixed_digits 2 h @ '':'' @ fixed_digits 2 mi @ '':'' @ fixed_digits 2 s @
     (if us = 0 then [] else ''.'' @ fixed_digits 6 us)"

fun isoformat :: "pyobj \<Rightarrow> string" where
  "isoformat (ODate y m d) = iso_date y m d"
| "isoformat (OTime h mi s us) = iso_time h mi s us"
| "isoformat (ODateTime y m d h mi s us) = iso_date y m d @ ''T'' @ iso_time h mi s us"
| "isoformat _ = []"

definition leap_year :: "nat \<Rightarrow> bool" where
  "leap_year y \<longleftrightarrow> y mod 4 = 0 \<and> (y mod 100 \<noteq> 0 \<or> y mod 400 = 0)"

definition valid_date :: "nat \<Rightarrow> nat \<Rightarrow> nat \<Rightarrow> bool" where
  "valid_date y m d \<longleftrightarrow> 1 \<le> y \<and> y \<le> 9999 \<and> 1 \<le> m \<and> m \<le> 12 \<and> 1 \<le> d \<and>
     d \<le> (if m = 2 then if leap_year y then 29 else 28 else if m \<in> {4, 6, 9, 11} then 30 else 31)"

definition valid_time :: "nat \<Rightarrow> nat \<Rightarrow> nat \<Rightarrow> nat \<Rightarrow> bool" where
  "valid_time h mi s us \<longleftrightarrow> h < 24 \<and> mi < 60 \<and> s < 60 \<and> us < 1000000"

definition parse_date :: "string \<Rightarrow> (nat \<times> nat \<times> nat) option" where
  "parse_date s =
     (if length s = 10 \<and> s ! 4 = CHR ''-'' \<and> s ! 7 = CHR ''-''
      then case (digits_nat (take 4 s), digits_nat (take 2 (drop 5 s)), digits_nat (drop 8 s)) of
             (Some y, Some m, Some d) \<Rightarrow> if valid_date y m d then Some (y, m, d) else None
           | _ \<Rightarrow> None
      else None)"

definition parse_time :: "string \<Rightarrow> (nat \<times> nat \<times> nat \<times> nat) option" where
  "parse_time s =
     (if (length s = 8 \<or> length s = 15 \<and> s ! 8 = CHR ''.'') \<and> s ! 2 = CHR '':'' \<and> s ! 5 = CHR '':''
      then case (digits_nat (take 2 s), digits_nat (take 2 (drop 3 s)), digits_nat (take 2 (drop 6 s)),
                 if length s = 8 then Some 0 else digits_nat (drop 9 s)) of
             (Some h, Some mi, Some sec, Some us) \<Rightarrow> if valid_time h mi sec us then Some (h, mi, sec, us) else None
           | _ \<Rightarrow> None
      else None)"

definition datetime_fromisoformat :: "pyobj \<Rightarrow> pyobj result" where
  "datetime_fromisoformat v =
     (case v of
        OStr s \<Rightarrow>
          (case (parse_date (take 10 s), if length s = 10 then Some (0, 0, 0, 0) else parse_time (drop 11 s)) of
             (Some (y, m, d), Some (h, mi, sec, us)) \<Rightarrow> Inr (ODateTime y m d h mi sec us)
           | _ \<Rightarrow> Inl ValueError)
      | _ \<Rightarrow> Inl TypeError)"

text \<open>A time difference in microseconds; the constructor rounds half to even.\<close>

definition total_seconds :: "int \<Rightarrow> rat" where
  "total_seconds us = of_int us / 1000000"

definition round_half_even :: "rat \<Rightarrow> int" where
  "round_half_even x =
     (let f = \<lfloor>x\<rfloor>; r = x - of_int f in
      if r < 1/2 then f else if 1/2 < r then f + 1 else if even f then f else f + 1)"

fun timedelta_seconds :: "pyobj \<Rightarrow> pyobj result" where
  "timedelta_seconds (OInt i) = Inr (OTimedelta (i * 1000000))"
| "timedelta_seconds (OBool b) = Inr (OTimedelta (if b then 1000000 else 0))"
| "timedelta_seconds (OFloat r) = Inr (OTimedelta (round_half_even (r * 1000000)))"
| "timedelta_seconds _ = Inl TypeError"

text \<open>A UUID by its 32 lower-case hexadecimal digits.\<close>

definition uuid_str :: "string \<Rightarrow> string" where
  "uuid_str h = take 8 h @ ''-'' @ take 4 (drop 8 h) @ ''-'' @ take 4 (drop 12 h) @ ''-'' @
     take 4 (drop 16 h) @ ''-'' @ drop 20 h"

definition valid_uuid :: "string \<Rightarrow> bool" where
  "valid_uuid h \<longleftrightarrow> length h = 32 \<and> list_all (\<lambda>c. hex_value c \<noteq> None \<and> lower_char c = c) h"

definition strip_chars :: "char list \<Rightarrow> string \<Rightarrow> string" where
  "strip_chars cs s = rev (dropWhile (\<lambda>c. c \<in> set cs) (rev (dropWhile (\<lambda>c. c \<in> set cs) s)))"

definition parse_uuid :: "pyobj \<Rightarrow> pyobj result" where
  "parse_uuid v =
     (case v of
        OStr s \<Rightarrow>
          (let h = filter (\<lambda>c. c \<noteq> CHR ''-'')
                     (strip_chars ''{}'' (str_replace (str_replace s ''urn:'' []) ''uuid:'' [])) in
           if length h = 32 \<and> list_all (\<lambda>c. hex_value c \<noteq> None) h then Inr (OUUID (str_lower h))
           else Inl ValueError)
      | _ \<Rightarrow> Inl AttributeError)"

text \<open>\<open>dataclasses.asdict\<close> turns nested dataclasses into dictionaries, also inside containers.\<close>

fun asdict_value :: "pyobj \<Rightarrow> pyobj" and asdict_list :: "pyobj list \<Rightarrow> pyobj list"
    and asdict_items :: "(string \<times> pyobj) list \<Rightarrow> (string \<times> pyobj) list" where
  "asdict_value (ODataclass c fs) = ODict (asdict_items fs)"
| "asdict_value (OList xs) = OList (asdict_list xs)"
| "asdict_value (OTuple xs) = OTuple (asdict_list xs)"
| "asdict_value (ODict ps) = ODict (asdict_items ps)"
| "asdict_value v = v"
| "asdict_list [] = []"
| "asdict_list (x # xs) = asdict_value x # asdict_list xs"
| "asdict_items [] = []"
| "asdict_items (p # ps) = (fst p, asdict_value (snd p)) # asdict_items ps"

text \<open>\<open>set(xs)\<close>: the elements must be hashable and numbers are equal when their values are.\<close>

fun hashable :: "pyobj \<Rightarrow> bool" where
  "hashable (OList xs) = False"
| "hashable (ODict ps) = False"
| "hashable (OSet xs) = False"
| "hashable (OByteArray s) = False"
| "hashable (ONdarray t v) = False"
| "hashable (OTuple xs) = list_all hashable xs"
| "hashable v = True"

fun number_of :: "pyobj \<Rightarrow> rat option" where
  "number_of (OBool b) = Some (if b then 1 else 0)"
| "number_of (OInt i) = Some (of_int i)"
| "number_of (OFloat r) = Some r"
| "number_of v = None"

definition same_key :: "pyobj \<Rightarrow> pyobj \<Rightarrow> bool" where
  "same_key a b \<longleftrightarrow> a = b \<or> number_of a \<noteq> None \<and> number_of a = number_of b"

fun dedup :: "pyobj list \<Rightarrow> pyobj list \<Rightarrow> pyobj list" where
  "dedup seen [] = []"
| "dedup seen (x # xs) =
     (if list_ex (same_key x) seen then dedup seen xs else x # dedup (x # seen) xs)"

fun mk_set :: "pyobj \<Rightarrow> pyobj result" where
  "mk_set (OList xs) = (if list_all hashable xs then Inr (OSet (dedup [] xs)) else Inl TypeError)"
| "mk_set (OStr s) = Inr (OSet (dedup [] (map (\<lambda>c. OStr [c]) s)))"
| "mk_set (ODict ps) = Inr (OSet (dedup [] (map (\<lambda>p. OStr (fst p)) ps)))"
| "mk_set v = Inl TypeError"

section \<open>The registry of classes\<close>

text \<open>The classes met so far, by name; a name that is not among them is imported.\<close>

definition register_object_class :: "string \<Rightarrow> string set \<Rightarrow> string set" where
  "register_object_class c R = insert c R"

definition get_object_class :: "class_env \<Rightarrow> string \<Rightarrow> string set \<Rightarrow> string result \<times> string set" where
  "get_object_class E c R =
     (if c \<in> R then (Inr c, R)
      else if importable E c then (Inr c, insert c R) else (Inl (OtherError ''ImportError''), R))"

section \<open>Serializing\<close>

definition bindS :: "'a result \<times> 's \<Rightarrow> ('a \<Rightarrow> 's \<Rightarrow> 'b result \<times> 's) \<Rightarrow> 'b result \<times> 's" where
  "bindS r f = (case r of (Inl e, s) \<Rightarrow> (Inl e, s) | (Inr x, s) \<Rightarrow> f x s)"

lemma bindS_simps [simp]: "bindS (Inl e, s) f = (Inl e, s)" "bindS (Inr x, s) f = f x s"
  by (simp_all add: bindS_def)

definition tagged :: "string \<Rightarrow> pyobj \<Rightarrow> pyobj" where
  "tagged t v = ODict [(''__type__'', OStr t), (''value'', v)]"

definition tagged_class :: "string \<Rightarrow> string \<Rightarrow> pyobj \<Rightarrow> pyobj" where
  "tagged_class t c v = ODict [(''__type__'', OStr t), (''__class__'', OStr c), (''value'', v)]"

definition pickled :: "class_env \<Rightarrow> error \<Rightarrow> pyobj \<Rightarrow> pyobj result" where
  "pickled E e v = (case pickle_dumps E v of None \<Rightarrow> Inl e | Some b \<Rightarrow> Inr (tagged ''pickle'' (OStr (bytes_hex b))))"

fun serialize_object :: "class_env \<Rightarrow> pyobj \<Rightarrow> string set \<Rightarrow> pyobj result \<times> string set"
  and serialize_list :: "class_env \<Rightarrow> pyobj list \<Rightarrow> string set \<Rightarrow> pyobj list result \<times> string set"
  and serialize_items :: "class_env \<Rightarrow> (string \<times> pyobj) list \<Rightarrow> string set \<Rightarrow> (string \<times> pyobj) list result \<times> string set" where
  "serialize_object E ONone R = (Inr ONone, R)"
| "serialize_object E (OModel c fs) R =
     bindS (dump_model E c fs, register_object_class c R) (\<lambda>v R. (Inr (tagged_class ''pydantic'' c v), R))"
| "serialize_object E (ONumpyInt c i) R = (Inr (tagged_class ''numpy'' c (OInt i)), register_object_class c R)"
| "serialize_object E (ONumpyFloat c r) R = (Inr (tagged_class ''numpy'' c (OFloat r)), register_object_class c R)"
| "serialize_object E (OBool b) R = (Inr (OBool b), R)"
| "serialize_object E (OInt i) R = (Inr (OInt i), R)"
| "serialize_object E (OFloat r) R = (Inr (OFloat r), R)"
| "serialize_object E (OStr s) R = (Inr (OStr s), R)"
| "serialize_object E (OEnumPrim c v) R = (Inr (OEnumPrim c v), R)"
| "serialize_object E (OList xs) R = bindS (serialize_list E xs R) (\<lambda>ys R. (Inr (OList ys), R))"
| "serialize_object E (OTuple xs) R = bindS (serialize_list E xs R) (\<lambda>ys R. (Inr (OList ys), R))"
| "serialize_object E (ODict ps) R =
     (if dict_has ''__type__'' ps then (Inr (ODict ps), R)
      else bindS (serialize_items E ps R) (\<lambda>qs R. (Inr (ODict qs), R)))"
| "serialize_object E (ODateTime y m d h mi s us) R =
     (Inr (tagged ''datetime'' (OStr (isoformat (ODateTime y m d h mi s us)))), R)"
| "serialize_object E (ODate y m d) R = (Inr (tagged ''datetime'' (OStr (isoformat (ODate y m d)))), R)"
| "serialize_object E (OTime h mi s us) R = (Inr (tagged ''datetime'' (OStr (isoformat (OTime h mi s us)))), R)"
| "serialize_object E (OTimedelta us) R = (Inr (tagged ''timedelta'' (OFloat (total_seconds us))), R)"
| "serialize_object E (ODataclass c fs) R =
     (Inr (tagged_class ''dataclass'' c (asdict_value (ODataclass c fs))), register_object_class c R)"
| "serialize_object E (OPath c p) R = (Inr (tagged_class ''path'' c (OStr p)), register_object_class c R)"
| "serialize_object E (OBytes s) R = (Inr (tagged ''bytes'' (OStr (bytes_hex s))), R)"
| "serialize_object E (OByteArray s) R = (Inr (tagged ''bytes'' (OStr (bytes_hex s))), R)"
| "serialize_object E (OSet xs) R = (Inr (tagged ''set'' (OList xs)), R)"
| "serialize_object E (OFrozenSet xs) R = (Inr (tagged ''set'' (OList xs)), R)"
| "serialize_object E (OEnum c v) R = (Inr (tagged_class ''enum'' c v), register_object_class c R)"
| "serialize_object E (OUUID h) R = (Inr (tagged ''uuid'' (OStr (uuid_str h))), R)"
| "serialize_object E (OAbc n) R = (pickled E (OtherError ''PicklingError'') (OAbc n), R)"
| "serialize_object E (OTensor xs) R = (Inr (tagged ''tensor'' (OList xs)), R)"
| "serialize_object E (ONdarray t v) R = (Inr (tagged ''tensor'' v), R)"
| "serialize_object E (OOther n) R = (pickled E TypeError (OOther n), R)"
| "serialize_list E [] R = (Inr [], R)"
| "serialize_list E (x # xs) R =
     bindS (serialize_object E x R) (\<lambda>y R. bindS (serialize_list E xs R) (\<lambda>ys R. (Inr (y # ys), R)))"
| "serialize_items E [] R = (Inr [], R)"
| "serialize_items E (p # ps) R =
     bindS (serialize_object E (snd p) R) (\<lambda>y R. bindS (serialize_items E ps R) (\<lambda>qs R. (Inr ((fst p, y) # qs), R)))"

section \<open>Deserializing\<close>

definition class_name :: "(string \<times> string) list option \<Rightarrow> (string \<times> pyobj) list \<Rightarrow> string result" where
  "class_name schema_map d =
     (case dict_get d ''__class__'' of
        None \<Rightarrow> Inl KeyError
      | Some (OStr c) \<Rightarrow>
          Inr (case schema_map of None \<Rightarrow> c | Some m \<Rightarrow> (case dict_get m c of None \<Rightarrow> c | Some c' \<Rightarrow> c'))
      | Some _ \<Rightarrow> Inl AttributeError)"

definition call_with :: "class_env \<Rightarrow> string \<Rightarrow> pyobj \<Rightarrow> pyobj result" where
  "call_with E c v = (case v of ODict d \<Rightarrow> construct E c d | _ \<Rightarrow> Inl TypeError)"

definition np_restore ::
    "class_env \<Rightarrow> (string \<times> string) list option \<Rightarrow> (string \<times> pyobj) list \<Rightarrow> pyobj \<Rightarrow>
     (pyobj \<Rightarrow> string option \<Rightarrow> pyobj result) \<Rightarrow> pyobj result" where
  "np_restore E schema_map d v arr =
     (if dict_has ''__class__'' d
      then bindR (class_name schema_map d) (\<lambda>c. arr v (Some (str_replace c ''numpy.'' [])))
      else arr v None)"

definition unpickle :: "class_env \<Rightarrow> pyobj \<Rightarrow> pyobj result" where
  "unpickle E v =
     (case v of
        OStr s \<Rightarrow> (case bytes_fromhex s of
                    Inl e \<Rightarrow> Inl TypeError
                  | Inr b \<Rightarrow> (case pickle_loads E b of None \<Rightarrow> Inl TypeError | Some ob \<Rightarrow> Inr ob))
      | _ \<Rightarrow> Inl TypeError)"

definition bytes_of_hex :: "pyobj \<Rightarrow> pyobj result" where
  "bytes_of_hex v = (case v of OStr s \<Rightarrow> bindR (bytes_fromhex s) (\<lambda>b. Inr (OBytes b)) | _ \<Rightarrow> Inl TypeError)"

text \<open>Every kind but \<open>pydantic\<close>.\<close>

definition restore_tagged ::
    "class_env \<Rightarrow> (string \<times> string) list option \<Rightarrow> pyobj \<Rightarrow> (string \<times> pyobj) list \<Rightarrow> pyobj \<Rightarrow> string set \<Rightarrow>
     pyobj result \<times> string set" where
  "restore_tagged E schema_map t d v R =
     (let by_class = (\<lambda>f. bindS (class_name schema_map d, R)
                           (\<lambda>c R. bindS (get_object_class E c R) (\<lambda>c R. (f c, R)))) in
      if t = OStr ''numpy'' \<and> np_array E \<noteq> None then (np_restore E schema_map d v (the (np_array E)), R)
      else if t = OStr ''pickle'' then (unpickle E v, R)
      else if t = OStr ''datetime'' then (datetime_fromisoformat v, R)
      else if t = OStr ''timedelta'' then (timedelta_seconds v, R)
      else if t = OStr ''dataclass'' then by_class (\<lambda>c. call_with E c v)
      else if t = OStr ''path'' then by_class (\<lambda>c. call_class E c v)
      else if t = OStr ''enum'' then by_class (\<lambda>c. call_class E c v)
      else if t = OStr ''uuid'' then (parse_uuid v, R)
      else if t = OStr ''bytes'' then (bytes_of_hex v, R)
      else if t = OStr ''set'' then (mk_set v, R)
      else (Inl TypeError, R))"

text \<open>Only the fall-back after a failed import passes the schema map on.\<close>

function (sequential) deserialize_object ::
    "class_env \<Rightarrow> pyobj \<Rightarrow> (string \<times> string) list option \<Rightarrow> bool \<Rightarrow> string set \<Rightarrow> pyobj result \<times> string set"
  and deserialize_list :: "class_env \<Rightarrow> pyobj list \<Rightarrow> string set \<Rightarrow> pyobj list result \<times> string set"
  and deserialize_items :: "class_env \<Rightarrow> (string \<times> pyobj) list \<Rightarrow> string set \<Rightarrow> (string \<times> pyobj) list result \<times> string set"
  and deserialize_value ::
    "class_env \<Rightarrow> (string \<times> pyobj) list \<Rightarrow> (string \<times> string) list option \<Rightarrow> bool \<Rightarrow> string set \<Rightarrow> pyobj result \<times> string set" where
  "deserialize_object E v sm af R =
     (case v of
        OList xs \<Rightarrow> bindS (deserialize_list E xs R) (\<lambda>ys R. (Inr (OList ys), R))
      | OTuple xs \<Rightarrow> bindS (deserialize_list E xs R) (\<lambda>ys R. (Inr (OList ys), R))
      | ODict d \<Rightarrow>
          (if \<not> dict_has ''__type__'' d then bindS (deserialize_items E d R) (\<lambda>qs R. (Inr (ODict qs), R))
           else case dict_get d ''value'' of
             None \<Rightarrow> (Inl KeyError, R)
           | Some x \<Rightarrow>
               (if dict_get d ''__type__'' = Some (OStr ''pydantic'') then
                  bindS (class_name sm d, R) (\<lambda>c R.
                    case get_object_class E c R of
                      (Inl e, R) \<Rightarrow> if af then deserialize_value E d sm af R else (Inl e, R)
                    | (Inr c, R) \<Rightarrow> (call_with E c x, R))
                else restore_tagged E sm (the (dict_get d ''__type__'')) d x R))
      | _ \<Rightarrow> (Inr v, R))"
| "deserialize_list E [] R = (Inr [], R)"
| "deserialize_list E (x # xs) R =
     bindS (deserialize_object E x None False R) (\<lambda>y R. bindS (deserialize_list E xs R) (\<lambda>ys R. (Inr (y # ys), R)))"
| "deserialize_items E [] R = (Inr [], R)"
| "deserialize_items E (p # ps) R =
     bindS (deserialize_object E (snd p) None False R)
       (\<lambda>y R. bindS (deserialize_items E ps R) (\<lambda>qs R. (Inr ((fst p, y) # qs), R)))"
| "deserialize_value E [] sm af R = (Inl KeyError, R)"
| "deserialize_value E (p # ps) sm af R =
     (if fst p = ''value'' then deserialize_object E (snd p) sm af R else deserialize_value E ps sm af R)"
  by pat_completeness auto

termination
proof (relation "measure (\<lambda>x. case x of
    Inl (Inl (E, v, sm, af, R)) \<Rightarrow> 2 * size v
  | Inl (Inr (E, xs, R)) \<Rightarrow> 2 * size_list size xs
  | Inr (Inl (E, ps, R)) \<Rightarrow> 2 * size_list (size_prod (\<lambda>_. 0) size) ps
  | Inr (Inr (E, ps, sm, af, R)) \<Rightarrow> 2 * size_list (size_prod (\<lambda>_. 0) size) ps)", goal_cases)
qed (auto simp: prod.size_gen split_beta)

declare deserialize_object.simps [simp del]

lemma deserialize_simps [simp]:
  "deserialize_object E ONone sm af R = (Inr ONone, R)"
  "deserialize_object E (OBool b) sm af R = (Inr (OBool b), R)"
  "deserialize_object E (OInt i) sm af R = (Inr (OInt i), R)"
  "deserialize_object E (OFloat r) sm af R = (Inr (OFloat r), R)"
  "deserialize_object E (OStr s) sm af R = (Inr (OStr s), R)"
  "deserialize_object E (OList xs) sm af R = bindS (deserialize_list E xs R) (\<lambda>ys R. (Inr (OList ys), R))"
  "\<not> dict_has ''__type__'' d \<Longrightarrow>
   deserialize_object E (ODict d) sm af R = bindS (deserialize_items E d R) (\<lambda>qs R. (Inr (ODict qs), R))"
  by (simp_all add: deserialize_object.simps)

lemma deserialize_tagged:
  "t \<noteq> ''pydantic'' \<Longrightarrow>
   deserialize_object E (tagged t v) sm af R =
     restore_tagged E sm (OStr t) [(''__type__'', OStr t), (''value'', v)] v R"
  by (simp add: deserialize_object.simps tagged_def dict_has_def dict_get_def)

lemma deserialize_tagged_class:
  "t \<noteq> ''pydantic'' \<Longrightarrow>
   deserialize_object E (tagged_class t c v) sm af R =
     restore_tagged E sm (OStr t) [(''__type__'', OStr t), (''__class__'', OStr c), (''value'', v)] v R"
  by (simp add: deserialize_object.simps tagged_class_def dict_has_def dict_get_def)

end
