(* ===== verification/Serialize_Laws.thy ===== *)
theory Serialize_Laws
  imports Serialize_Object
begin

text \<open>
  What comes back when an object is serialized, written as JSON, read and deserialized.
\<close>

section \<open>The printed forms are read back\<close>

lemma hex_digit_value [simp]: "n < 16 \<Longrightarrow> hex_value (hex_digit n) = Some n"
  by (auto simp: hex_value_def hex_digit_def Let_def)

lemma hex_digit_not_space: "n < 16 \<Longrightarrow> \<not> is_space (hex_digit n)"
proof -
  assume "n < 16"
  then have "(of_char (hex_digit n) :: nat) \<noteq> 32 \<and> 48 \<le> (of_char (hex_digit n) :: nat)"
    by (auto simp: hex_digit_def)
  then show ?thesis by (auto simp: is_space_def)
qed

lemma fromhex_hex [simp]: "bytes_fromhex (bytes_hex s) = Inr s"
proof (induction s)
  case (Cons c s)
  have "(of_char c :: nat) < 256" by simp
  then have "(of_char c :: nat) div 16 < 16" by linarith
  then show ?case using Cons hex_digit_not_space by (simp add: hex_digit_not_space)
qed simp

lemma length_fixed_digits [simp]: "length (fixed_digits k n) = k"
  by (induction k arbitrary: n) auto

lemma fixed_digits_are_digits: "list_all is_digit (fixed_digits k n)"
  by (induction k arbitrary: n) (auto simp: is_digit_def)

lemma fixed_digits_value: "foldl (\<lambda>n c. 10 * n + (of_char c - 48)) 0 (fixed_digits k n) = n mod 10 ^ k"
proof (induction k arbitrary: n)
  case (Suc k)
  have "10 * (n div 10 mod 10 ^ k) + n mod 10 = n mod 10 ^ Suc k"
    by (metis add.commute mod_mult2_eq mult.commute power_Suc)
  then show ?case using Suc by simp
qed simp

lemma digits_nat_fixed [simp]: "0 < k \<Longrightarrow> n < 10 ^ k \<Longrightarrow> digits_nat (fixed_digits k n) = Some n"
  using length_fixed_digits[of k n] fixed_digits_value[of k n] fixed_digits_are_digits[of k n]
  by (auto simp: digits_nat_def simp del: length_fixed_digits)

lemma valid_date_bounds: "valid_date y m d \<Longrightarrow> y < 10000 \<and> m < 100 \<and> d < 100"
  by (auto simp: valid_date_def split: if_splits)

lemma parse_iso_date [simp]: "valid_date y m d \<Longrightarrow> parse_date (iso_date y m d) = Some (y, m, d)"
  using valid_date_bounds[of y m d] by (simp add: parse_date_def iso_date_def nth_append)

lemma length_iso_date [simp]: "length (iso_date y m d) = 10"
  by (simp add: iso_date_def)

lemma parse_iso_time [simp]: "valid_time h mi s us \<Longrightarrow> parse_time (iso_time h mi s us) = Some (h, mi, s, us)"
  by (cases "us = 0") (simp_all add: valid_time_def parse_time_def iso_time_def nth_append)

lemma round_half_even_int [simp]: "round_half_even (of_int i) = i"
  by (simp add: round_half_even_def Let_def)

lemma timedelta_total [simp]: "round_half_even (total_seconds us * 1000000) = us"
  by (simp add: total_seconds_def)

lemma str_in_chars: "str_in p s \<Longrightarrow> set p \<subseteq> set s"
  by (auto simp: str_in_iff)

lemma str_replace_id: "c \<in> set p \<Longrightarrow> c \<notin> set s \<Longrightarrow> str_replace s p q = s"
  using str_in_chars[of p s] replace_from_absent[of p s q] by (auto simp: str_replace_def)

lemma strip_chars_id: "set s \<inter> set cs = {} \<Longrightarrow> strip_chars cs s = s"
proof -
  assume a: "set s \<inter> set cs = {}"
  have "dropWhile (\<lambda>c. c \<in> set cs) t = t" if "set t = set s" for t
    using a that by (cases t) auto
  then have "dropWhile (\<lambda>c. c \<in> set cs) s = s" "dropWhile (\<lambda>c. c \<in> set cs) (rev s) = rev s" by simp_all
  then show ?thesis by (simp add: strip_chars_def)
qed

lemma set_uuid_str: "set (uuid_str h) \<subseteq> insert (CHR ''-'') (set h)"
  by (auto simp: uuid_str_def dest: in_set_takeD in_set_dropD)

lemma uuid_parts: "filter (\<lambda>c. c \<noteq> CHR ''-'') (uuid_str h) = filter (\<lambda>c. c \<noteq> CHR ''-'') h"
proof -
  have "h = take 8 h @ take 4 (drop 8 h) @ take 4 (drop 12 h) @ take 4 (drop 16 h) @ drop 20 h"
    using append_take_drop_id[of 8 h] append_take_drop_id[of 4 "drop 8 h"]
      append_take_drop_id[of 4 "drop 12 h"] append_take_drop_id[of 4 "drop 16 h"] by simp
  then have "filter (\<lambda>c. c \<noteq> CHR ''-'') h =
      filter (\<lambda>c. c \<noteq> CHR ''-'') (take 8 h @ take 4 (drop 8 h) @ take 4 (drop 12 h) @ take 4 (drop 16 h) @ drop 20 h)"
    by (rule arg_cong)
  then show ?thesis by (simp only: uuid_str_def filter_append) simp
qed

lemma parse_uuid_str [simp]: "valid_uuid h \<Longrightarrow> parse_uuid (OStr (uuid_str h)) = Inr (OUUID h)"
proof -
  assume h: "valid_uuid h"
  have hv: "hex_value c \<noteq> None \<and> lower_char c = c" if "c \<in> set h" for c
    using h that by (auto simp: valid_uuid_def list_all_iff)
  have no: "c \<notin> set (uuid_str h)" if "hex_value c = None" "c \<noteq> CHR ''-''" for c
    using set_uuid_str[of h] hv[of c] that by auto
  have n: "CHR ''u'' \<notin> set (uuid_str h)" "CHR ''{'' \<notin> set (uuid_str h)" "CHR ''}'' \<notin> set (uuid_str h)"
    by (rule no; code_simp)+
  have f: "filter (\<lambda>c. c \<noteq> CHR ''-'') h = h"
  proof (rule filter_True, rule ballI)
    fix c assume "c \<in> set h"
    then have "hex_value c \<noteq> None" using hv by blast
    moreover have "hex_value (CHR ''-'') = None" by code_simp
    ultimately show "c \<noteq> CHR ''-''" by auto
  qed
  have r: "str_replace (uuid_str h) ''urn:'' [] = uuid_str h" "str_replace (uuid_str h) ''uuid:'' [] = uuid_str h"
    using n by (simp_all add: str_replace_id[of "CHR ''u''"])
  have "strip_chars ''{}'' (uuid_str h) = uuid_str h" using n by (intro strip_chars_id) auto
  moreover have "str_lower h = h" using hv by (auto simp: str_lower_def intro: map_idI)
  ultimately show ?thesis
    using h by (simp add: parse_uuid_def r uuid_parts f valid_uuid_def Let_def list_all_iff)
qed

section \<open>JSON\<close>

text \<open>What a JSON library makes of a value: \<open>None\<close> when it refuses it, otherwise what it reads back.\<close>

fun json_norm :: "pyobj \<Rightarrow> pyobj option" and json_norm_list :: "pyobj list \<Rightarrow> pyobj list option"
  and json_norm_items :: "(string \<times> pyobj) list \<Rightarrow> (string \<times> pyobj) list option" where
  "json_norm ONone = Some ONone"
| "json_norm (OBool b) = Some (OBool b)"
| "json_norm (OInt i) = Some (OInt i)"
| "json_norm (OFloat r) = Some (OFloat r)"
| "json_norm (OStr s) = Some (OStr s)"
| "json_norm (OEnumPrim c v) = json_norm v"
| "json_norm (OList xs) = map_option OList (json_norm_list xs)"
| "json_norm (OTuple xs) = map_option OList (json_norm_list xs)"
| "json_norm (ODict ps) = map_option ODict (json_norm_items ps)"
| "json_norm v = None"
| "json_norm_list [] = Some []"
| "json_norm_list (x # xs) =
     (case (json_norm x, json_norm_list xs) of (Some y, Some ys) \<Rightarrow> Some (y # ys) | _ \<Rightarrow> None)"
| "json_norm_items [] = Some []"
| "json_norm_items (p # ps) =
     (case (json_norm (snd p), json_norm_items ps) of (Some y, Some qs) \<Rightarrow> Some ((fst p, y) # qs) | _ \<Rightarrow> None)"

definition json_trip :: "class_env \<Rightarrow> bool \<Rightarrow> string set \<Rightarrow> string set \<Rightarrow> pyobj \<Rightarrow> pyobj result" where
  "json_trip E af R R' x =
     bindR (fst (serialize_object E x R)) (\<lambda>v. case json_norm v of
       None \<Rightarrow> Inl TypeError
     | Some w \<Rightarrow> fst (deserialize_object E w None af R'))"

section \<open>What can be stored\<close>

fun primitive :: "pyobj \<Rightarrow> bool" where
  "primitive ONone = True"
| "primitive (OBool b) = True"
| "primitive (OInt i) = True"
| "primitive (OFloat r) = True"
| "primitive (OStr s) = True"
| "primitive v = False"

text \<open>Classes must be importable and give an equal object back; sets hold primitive values only,
  dataclasses primitive values and lists and dictionaries of them.\<close>

fun storable :: "class_env \<Rightarrow> pyobj \<Rightarrow> bool" and storable_list :: "class_env \<Rightarrow> pyobj list \<Rightarrow> bool"
  and storable_items :: "class_env \<Rightarrow> (string \<times> pyobj) list \<Rightarrow> bool" where
  "storable E (OList xs) = storable_list E xs"
| "storable E (OTuple xs) = storable_list E xs"
| "storable E (ODict ps) = (\<not> dict_has ''__type__'' ps \<and> storable_items E ps)"
| "storable E (OSet xs) = (list_all primitive xs \<and> dedup [] xs = xs)"
| "storable E (OFrozenSet xs) = (list_all primitive xs \<and> dedup [] xs = xs)"
| "storable E (ODate y m d) = valid_date y m d"
| "storable E (ODateTime y m d h mi s us) = (valid_date y m d \<and> valid_time h mi s us)"
| "storable E (OTime h mi s us) = False"
| "storable E (OUUID h) = valid_uuid h"
| "storable E (OEnum c v) = (importable E c \<and> primitive v \<and> call_class E c v = Inr (OEnum c v))"
| "storable E (OEnumPrim c v) = primitive v"
| "storable E (OModel c fs) =
     (importable E c \<and>
      (case dump_model E c fs of
         Inr (ODict d) \<Rightarrow> json_norm (ODict d) = Some (ODict d) \<and> construct E c d = Inr (OModel c fs)
       | _ \<Rightarrow> False))"
| "storable E (ODataclass c fs) =
     (importable E c \<and> json_norm_items (asdict_items fs) = Some fs \<and> construct E c fs = Inr (ODataclass c fs))"
| "storable E (OPath c p) = (importable E c \<and> call_class E c (OStr p) = Inr (OPath c p))"
| "storable E (ONumpyInt c i) =
     (case np_array E of None \<Rightarrow> False
      | Some arr \<Rightarrow> (let t = Some (str_replace c ''numpy.'' []) in arr (OInt i) t = Inr (ONdarray t (OInt i))))"
| "storable E (ONumpyFloat c r) =
     (case np_array E of None \<Rightarrow> False
      | Some arr \<Rightarrow> (let t = Some (str_replace c ''numpy.'' []) in arr (OFloat r) t = Inr (ONdarray t (OFloat r))))"
| "storable E (ONdarray t v) = False"
| "storable E (OTensor xs) = False"
| "storable E (OAbc n) =
     (case pickle_dumps E (OAbc n) of None \<Rightarrow> False | Some b \<Rightarrow> pickle_loads E b = Some (OAbc n))"
| "storable E (OOther n) =
     (case pickle_dumps E (OOther n) of None \<Rightarrow> False | Some b \<Rightarrow> pickle_loads E b = Some (OOther n))"
| "storable E v = True"
| "storable_list E [] = True"
| "storable_list E (x # xs) = (storable E x \<and> storable_list E xs)"
| "storable_items E [] = True"
| "storable_items E (p # ps) = (storable E (snd p) \<and> storable_items E ps)"

text \<open>Tuples come back as lists, frozen sets as sets, byte arrays as bytes, dates as midnight,
  members of string and integer enumerations as their value, numpy scalars as arrays.\<close>

fun restored :: "pyobj \<Rightarrow> pyobj" and restored_list :: "pyobj list \<Rightarrow> pyobj list"
  and restored_items :: "(string \<times> pyobj) list \<Rightarrow> (string \<times> pyobj) list" where
  "restored (OList xs) = OList (restored_list xs)"
| "restored (OTuple xs) = OList (restored_list xs)"
| "restored (ODict ps) = ODict (restored_items ps)"
| "restored (OFrozenSet xs) = OSet xs"
| "restored (OByteArray s) = OBytes s"
| "restored (ODate y m d) = ODateTime y m d 0 0 0 0"
| "restored (OEnumPrim c v) = v"
| "restored (ONumpyInt c i) = ONdarray (Some (str_replace c ''numpy.'' [])) (OInt i)"
| "restored (ONumpyFloat c r) = ONdarray (Some (str_replace c ''numpy.'' [])) (OFloat r)"
| "restored v = v"
| "restored_list [] = []"
| "restored_list (x # xs) = restored x # restored_list xs"
| "restored_items [] = []"
| "restored_items (p # ps) = (fst p, restored (snd p)) # restored_items ps"

section \<open>The round trip\<close>

definition comes_back :: "class_env \<Rightarrow> pyobj \<Rightarrow> bool" where
  "comes_back E x \<longleftrightarrow> (\<forall>R. \<exists>v R1 w. serialize_object E x R = (Inr v, R1) \<and> json_norm v = Some w \<and>
     (\<forall>af R2. fst (deserialize_object E w None af R2) = Inr (restored x)))"

lemma comes_backI:
  assumes "\<And>R. fst (serialize_object E x R) = Inr v" "json_norm v = Some w"
    and "\<And>af R2. fst (deserialize_object E w None af R2) = Inr (restored x)"
  shows "comes_back E x"
  unfolding comes_back_def using assms by (metis prod.collapse)

lemma primitive_simps:
  assumes "primitive v"
  shows "json_norm v = Some v" "deserialize_object E v sm af R = (Inr v, R)" "hashable v"
  using assms by (cases v; simp)+

lemma primitives_norm: "list_all primitive xs \<Longrightarrow> json_norm_list xs = Some xs"
  by (induction xs) (auto simp: primitive_simps)

lemma primitives_hashable: "list_all primitive xs \<Longrightarrow> list_all hashable xs"
  by (induction xs) (auto simp: primitive_simps)

lemma imported_class [simp]:
  "importable E c \<Longrightarrow> get_object_class E c R = (Inr c, insert c R)"
  by (auto simp: get_object_class_def insert_absorb)

lemma class_name_simp [simp]:
  "class_name None [(''__type__'', t), (''__class__'', OStr c), (''value'', v)] = Inr c"
  by (simp add: class_name_def dict_get_def)

lemma list_comes_back:
  assumes "\<forall>x\<in>set xs. comes_back E x"
  shows "\<exists>vs R1 ws. serialize_list E xs R = (Inr vs, R1) \<and> json_norm_list vs = Some ws \<and>
    (\<forall>R2. fst (deserialize_list E ws R2) = Inr (restored_list xs))"
  using assms
proof (induction xs arbitrary: R)
  case (Cons x xs)
  obtain v R1 w where v: "serialize_object E x R = (Inr v, R1)" "json_norm v = Some w"
    "\<And>af R2. fst (deserialize_object E w None af R2) = Inr (restored x)"
    using Cons.prems unfolding comes_back_def by (metis list.set_intros(1))
  obtain vs R3 ws where vs: "serialize_list E xs R1 = (Inr vs, R3)" "json_norm_list vs = Some ws"
    "\<And>R2. fst (deserialize_list E ws R2) = Inr (restored_list xs)"
    using Cons.IH[of R1] Cons.prems by auto
  have "fst (deserialize_list E (w # ws) R2) = Inr (restored x # restored_list xs)" for R2
    using v(3)[of False R2] vs(3)
    by (cases "deserialize_object E w None False R2") (simp add: bindS_def split: prod.splits sum.splits, metis fst_conv sum.distinct(1) sum.inject(2))
  then show ?case using v(1,2) vs(1,2) by simp
qed simp

lemma items_come_back:
  assumes "\<forall>p\<in>set ps. comes_back E (snd p)"
  shows "\<exists>qs R1 ws. serialize_items E ps R = (Inr qs, R1) \<and> json_norm_items qs = Some ws \<and>
    map fst ws = map fst ps \<and> (\<forall>R2. fst (deserialize_items E ws R2) = Inr (restored_items ps))"
  using assms
proof (induction ps arbitrary: R)
  case (Cons p ps)
  obtain v R1 w where v: "serialize_object E (snd p) R = (Inr v, R1)" "json_norm v = Some w"
    "\<And>af R2. fst (deserialize_object E w None af R2) = Inr (restored (snd p))"
    using Cons.prems unfolding comes_back_def by (metis list.set_intros(1))
  obtain qs R3 ws where qs: "serialize_items E ps R1 = (Inr qs, R3)" "json_norm_items qs = Some ws"
    "map fst ws = map fst ps" "\<And>R2. fst (deserialize_items E ws R2) = Inr (restored_items ps)"
    using Cons.IH[of R1] Cons.prems by auto
  have "fst (deserialize_items E ((fst p, w) # ws) R2) = Inr ((fst p, restored (snd p)) # restored_items ps)" for R2
    using v(3)[of False R2] qs(4)
    by (cases "deserialize_object E w None False R2") (simp add: bindS_def split: prod.splits sum.splits, metis fst_conv sum.distinct(1) sum.inject(2))
  then show ?case using v(1,2) qs(1,2,3) by simp
qed simp

lemma storable_list_iff: "storable_list E xs \<longleftrightarrow> (\<forall>x\<in>set xs. storable E x)"
  by (induction xs) auto

lemma storable_items_iff: "storable_items E ps \<longleftrightarrow> (\<forall>p\<in>set ps. storable E (snd p))"
  by (induction ps) auto

lemma list_back:
  assumes "\<forall>x\<in>set xs. comes_back E x"
  shows "comes_back E (OList xs) \<and> comes_back E (OTuple xs)"
proof -
  have "\<exists>v R1 w. bindS (serialize_list E xs R) (\<lambda>ys R. (Inr (OList ys), R)) = (Inr v, R1) \<and> json_norm v = Some w \<and>
     (\<forall>af R2. fst (deserialize_object E w None af R2) = Inr (OList (restored_list xs)))" for R
  proof -
    obtain vs R1 ws where vs: "serialize_list E xs R = (Inr vs, R1)" "json_norm_list vs = Some ws"
      "\<And>R2. fst (deserialize_list E ws R2) = Inr (restored_list xs)"
      using list_comes_back[OF assms] by blast
    have "fst (deserialize_object E (OList ws) None af R2) = Inr (OList (restored_list xs))" for af R2
      using vs(3)[of R2] by (cases "deserialize_list E ws R2") simp
    then show ?thesis using vs(1,2) by simp
  qed
  then show ?thesis by (simp add: comes_back_def)
qed

lemma dict_back:
  assumes "\<forall>p\<in>set ps. comes_back E (snd p)" "\<not> dict_has ''__type__'' ps"
  shows "comes_back E (ODict ps)"
  unfolding comes_back_def
proof
  fix R
  obtain qs R1 ws where qs: "serialize_items E ps R = (Inr qs, R1)" "json_norm_items qs = Some ws"
    "map fst ws = map fst ps" "\<And>R2. fst (deserialize_items E ws R2) = Inr (restored_items ps)"
    using items_come_back[OF assms(1)] by blast
  have t: "\<not> dict_has ''__type__'' ws" using assms(2) qs(3) by (simp only: dict_has_def not_False_eq_True)
  have "fst (deserialize_object E (ODict ws) None af R2) = Inr (ODict (restored_items ps))" for af R2
    using qs(4)[of R2] t by (cases "deserialize_items E ws R2") simp
  then show "\<exists>v R1 w. serialize_object E (ODict ps) R = (Inr v, R1) \<and> json_norm v = Some w \<and>
     (\<forall>af R2. fst (deserialize_object E w None af R2) = Inr (restored (ODict ps)))"
    using qs(1,2) assms(2) by simp
qed

lemma tagged_back:
  assumes "\<And>R. fst (serialize_object E x R) = Inr (tagged t v)" "json_norm v = Some w" "t \<noteq> ''pydantic''"
    and "\<And>R. fst (restore_tagged E None (OStr t) [(''__type__'', OStr t), (''value'', w)] w R) = Inr (restored x)"
  shows "comes_back E x"
proof (rule comes_backI[OF assms(1)])
  show "json_norm (tagged t v) = Some (tagged t w)" using assms(2) by (simp add: tagged_def)
qed (use assms(3,4) in \<open>simp add: deserialize_tagged\<close>)

lemma tagged_class_back:
  assumes "\<And>R. fst (serialize_object E x R) = Inr (tagged_class t c v)" "json_norm v = Some w" "t \<noteq> ''pydantic''"
    and "\<And>R. fst (restore_tagged E None (OStr t) [(''__type__'', OStr t), (''__class__'', OStr c), (''value'', w)] w R) =
      Inr (restored x)"
  shows "comes_back E x"
proof (rule comes_backI[OF assms(1)])
  show "json_norm (tagged_class t c v) = Some (tagged_class t c w)" using assms(2) by (simp add: tagged_class_def)
qed (use assms(3,4) in \<open>simp add: deserialize_tagged_class\<close>)

lemmas restore_simps = restore_tagged_def Let_def bytes_of_hex_def datetime_fromisoformat_def
  unpickle_def call_with_def np_restore_def dict_has_def

lemma model_back:
  assumes "storable E (OModel c fs)"
  shows "comes_back E (OModel c fs)"
proof -
  obtain d where d: "importable E c" "dump_model E c fs = Inr (ODict d)" "json_norm (ODict d) = Some (ODict d)"
    "construct E c d = Inr (OModel c fs)"
    using assms by (auto split: sum.splits pyobj.splits)
  have "fst (deserialize_object E (tagged_class ''pydantic'' c (ODict d)) None af R) = Inr (OModel c fs)" for af R
    using d(1,4) by (simp add: deserialize_object.simps tagged_class_def dict_has_def dict_get_def call_with_def)
  moreover have "json_norm (tagged_class ''pydantic'' c (ODict d)) = Some (tagged_class ''pydantic'' c (ODict d))"
    using d(3) by (simp add: tagged_class_def)
  ultimately show ?thesis using d(2) by (intro comes_backI) simp_all
qed

lemma storable_comes_back: "storable E x \<Longrightarrow> comes_back E x"
proof (induction x)
  case (OList xs) then show ?case using list_back by (simp add: storable_list_iff)
next
  case (OTuple xs) then show ?case using list_back by (simp add: storable_list_iff)
next
  case (ODict ps)
  then show ?case by (intro dict_back) (force simp: storable_items_iff)+
next
  case (OModel c fs) then show ?case by (intro model_back)
next
  case (OSet xs)
  then show ?case
    by (intro tagged_back[where t = "''set''"]) (auto simp: primitives_norm primitives_hashable restore_simps)
next
  case (OFrozenSet xs)
  then show ?case
    by (intro tagged_back[where t = "''set''"]) (auto simp: primitives_norm primitives_hashable restore_simps)
next
  case (OBytes s)
  then show ?case by (intro tagged_back[where t = "''bytes''"]) (auto simp: restore_simps)
next
  case (OByteArray s)
  then show ?case by (intro tagged_back[where t = "''bytes''"]) (auto simp: restore_simps)
next
  case (ODate y m d)
  then show ?case by (intro tagged_back[where t = "''datetime''"]) (auto simp: restore_simps)
next
  case (ODateTime y m d h mi s us)
  then show ?case by (intro tagged_back[where t = "''datetime''"]) (auto simp: restore_simps)
next
  case (OTimedelta us)
  then show ?case by (intro tagged_back[where t = "''timedelta''"]) (auto simp: restore_simps)
next
  case (OUUID h)
  then show ?case by (intro tagged_back[where t = "''uuid''"]) (auto simp: restore_simps)
next
  case (OEnum c v)
  then show ?case by (intro tagged_class_back[where t = "''enum''" and c = c and v = v and w = v])
    (auto simp: restore_simps primitive_simps)
next
  case (OEnumPrim c v)
  then show ?case by (intro comes_backI[where v = "OEnumPrim c v" and w = v]) (auto simp: primitive_simps)
next
  case (ODataclass c fs)
  then show ?case by (intro tagged_class_back[where t = "''dataclass''" and c = c and v = "ODict (asdict_items fs)" and w = "ODict fs"])
    (auto simp: restore_simps)
next
  case (OPath c p)
  then show ?case by (intro tagged_class_back[where t = "''path''" and c = c and v = "OStr p" and w = "OStr p"])
    (auto simp: restore_simps)
next
  case (ONumpyInt c i)
  then show ?case by (intro tagged_class_back[where t = "''numpy''" and c = c and v = "OInt i" and w = "OInt i"])
    (auto simp: restore_simps split: option.splits)
next
  case (ONumpyFloat c r)
  then show ?case by (intro tagged_class_back[where t = "''numpy''" and c = c and v = "OFloat r" and w = "OFloat r"])
    (auto simp: restore_simps split: option.splits)
next
  case (OAbc n)
  then obtain b where "pickle_dumps E (OAbc n) = Some b" "pickle_loads E b = Some (OAbc n)" by (auto split: option.splits)
  then show ?case by (intro tagged_back[where t = "''pickle''" and v = "OStr (bytes_hex b)" and w = "OStr (bytes_hex b)"])
    (auto simp: restore_simps pickled_def)
next
  case (OOther n)
  then obtain b where "pickle_dumps E (OOther n) = Some b" "pickle_loads E b = Some (OOther n)" by (auto split: option.splits)
  then show ?case by (intro tagged_back[where t = "''pickle''" and v = "OStr (bytes_hex b)" and w = "OStr (bytes_hex b)"])
    (auto simp: restore_simps pickled_def)
next
  case ONone then show ?case by (intro comes_backI[where v = ONone and w = ONone]) auto
next
  case (OBool b) then show ?case by (intro comes_backI[where v = "OBool b" and w = "OBool b"]) auto
next
  case (OInt b) then show ?case by (intro comes_backI[where v = "OInt b" and w = "OInt b"]) auto
next
  case (OFloat b) then show ?case by (intro comes_backI[where v = "OFloat b" and w = "OFloat b"]) auto
next
  case (OStr b) then show ?case by (intro comes_backI[where v = "OStr b" and w = "OStr b"]) auto
qed auto

lemma json_trip_restored: "storable E x \<Longrightarrow> json_trip E af R R' x = Inr (restored x)"
  using storable_comes_back[of E x] unfolding comes_back_def json_trip_def
  by (metis bindR.simps(2) fst_conv option.simps(5))

section \<open>Properties\<close>

text \<open>C28. What is stored comes back. Serializing an object, writing it as JSON, reading it and
  deserializing it gives the object with tuples as lists, frozen sets as sets, byte arrays
  as bytes, dates as midnight, members of string or integer enumerations as plain values
  and numpy scalars as arrays, at any depth; for objects whose classes can be imported and
  rebuilt, with sets of primitive values and without the key \<open>__type__\<close>.\<close>

theorem stored_object_comes_back:
  "storable E x \<Longrightarrow> json_trip E af R R' x = Inr (restored x)"
  by (rule json_trip_restored)

definition ex_env :: class_env where
  "ex_env = \<lparr>importable = (\<lambda>c. c = ''m.Point''), construct = (\<lambda>c fs. Inr (ODataclass c fs)),
     call_class = (\<lambda>c v. Inr (OEnum c v)), dump_model = (\<lambda>c fs. Inr (ODict fs)),
     pickle_dumps = (\<lambda>v. None), pickle_loads = (\<lambda>b. None), np_array = None\<rparr>"

definition ex_object :: pyobj where
  "ex_object = ODict [(''when'', OTuple [ODate 2024 2 29, ODateTime 2024 1 2 3 4 5 6]),
     (''who'', OUUID ''0123456789abcdef0123456789abcdef''), (''raw'', OByteArray [CHR 0x00, CHR 0xFF]),
     (''tags'', OFrozenSet [OStr ''a'', OInt 2]), (''at'', ODataclass ''m.Point'' [(''x'', OInt 1)])]"

lemma ex_object_storable: "storable ex_env ex_object"
proof -
  have "valid_uuid ''0123456789abcdef0123456789abcdef''" by code_simp
  moreover have "valid_date 2024 2 29 \<and> valid_date 2024 1 2 \<and> valid_time 3 4 5 6" by (simp add: valid_date_def valid_time_def leap_year_def)
  ultimately show ?thesis by (simp add: ex_object_def ex_env_def dict_has_def same_key_def)
qed

lemma stored_object_comes_back_witness:
  "json_trip ex_env False {} {} ex_object = Inr (restored ex_object)"
  by (rule stored_object_comes_back[OF ex_object_storable])

fun survives :: "pyobj \<Rightarrow> bool" and survives_list :: "pyobj list \<Rightarrow> bool"
  and survives_items :: "(string \<times> pyobj) list \<Rightarrow> bool" where
  "survives (OList xs) = survives_list xs"
| "survives (ODict ps) = survives_items ps"
| "survives (OTuple xs) = False"
| "survives (OFrozenSet xs) = False"
| "survives (OByteArray s) = False"
| "survives (ODate y m d) = False"
| "survives (OEnumPrim c v) = False"
| "survives (ONumpyInt c i) = False"
| "survives (ONumpyFloat c r) = False"
| "survives v = True"
| "survives_list [] = True"
| "survives_list (x # xs) = (survives x \<and> survives_list xs)"
| "survives_items [] = True"
| "survives_items (p # ps) = (survives (snd p) \<and> survives_items ps)"

lemma restored_list_survives:
  "\<forall>x\<in>set xs. survives (restored x) \<and> (restored x = x \<longleftrightarrow> survives x) \<Longrightarrow>
   survives_list (restored_list xs) \<and> (restored_list xs = xs \<longleftrightarrow> survives_list xs)"
  by (induction xs) auto

lemma restored_items_survives:
  "\<forall>p\<in>set ps. survives (restored (snd p)) \<and> (restored (snd p) = snd p \<longleftrightarrow> survives (snd p)) \<Longrightarrow>
   survives_items (restored_items ps) \<and> (restored_items ps = ps \<longleftrightarrow> survives_items ps)"
  by (induction ps) auto

lemma restored_survives: "storable E x \<Longrightarrow> survives (restored x) \<and> (restored x = x \<longleftrightarrow> survives x)"
proof (induction x)
  case (ODict ps)
  then have "\<forall>p\<in>set ps. survives (restored (snd p)) \<and> (restored (snd p) = snd p \<longleftrightarrow> survives (snd p))"
    by (force simp: storable_items_iff)
  then show ?case using restored_items_survives by simp
next
  case (OEnumPrim c v)
  then show ?case by (cases v) auto
qed (auto simp: storable_list_iff restored_list_survives)



lemma time_is_no_date: "parse_date (take 10 (iso_time h mi s us)) = None"
proof -
  have n: "char_of (48 + mi mod 10) \<noteq> CHR ''-''"
  proof
    assume "char_of (48 + mi mod 10) = CHR ''-''"
    then have "(of_char (char_of (48 + mi mod 10) :: char) :: nat) = of_char (CHR ''-'')" by simp
    then show False by simp
  qed
  show ?thesis
    by (cases "us = 0") (use n in \<open>simp_all add: parse_date_def iso_time_def nth_append numeral_2_eq_2\<close>)
qed

text \<open>What is accepted for storing and cannot be read. A time of day is written and then refused,
  so are an array (which is what a stored numpy scalar comes back as), a set that contains a tuple,
  and a dictionary that uses the key \<open>__type__\<close> for a purpose of its own; a set or a dataclass with a
  value that is not a JSON value is refused when it is written.\<close>

theorem stored_but_unreadable:
  assumes "dict_get d ''__type__'' = Some (OStr t)" and "dict_get d ''value'' = Some v"
    and "t \<notin> {''pydantic'', ''numpy'', ''pickle'', ''datetime'', ''timedelta'', ''dataclass'', ''path'', ''enum'', ''uuid'', ''bytes'', ''set''}"
    and "json_norm (ODict d) = Some (ODict d)"
  shows "json_trip E af R R' (OTime h mi s us) = Inl ValueError \<and>
    json_trip E af R R' (ONdarray (Some dt) (OInt i)) = Inl TypeError \<and>
    json_trip E af R R' (OSet [OTuple [OInt i]]) = Inl TypeError \<and>
    json_trip E af R R' (ODict d) = Inl TypeError \<and>
    json_trip E af R R' (OSet [OBytes b]) = Inl TypeError \<and>
    json_trip E af R R' (ODataclass c [(f, ODateTime y m dd h mi s us)]) = Inl TypeError"
proof -
  have "json_trip E af R R' (OTime h mi s us) = Inl ValueError"
    using time_is_no_date by (simp add: json_trip_def tagged_def deserialize_object.simps dict_has_def dict_get_def restore_simps)
  moreover have "json_trip E af R R' (ONdarray (Some dt) (OInt i)) = Inl TypeError"
    by (simp add: json_trip_def tagged_def deserialize_object.simps dict_has_def dict_get_def restore_simps)
  moreover have "json_trip E af R R' (OSet [OTuple [OInt i]]) = Inl TypeError"
    by (simp add: json_trip_def tagged_def deserialize_object.simps dict_has_def dict_get_def restore_simps)
  moreover have "json_trip E af R R' (ODict d) = Inl TypeError"
  proof -
    have "dict_has ''__type__'' d" using assms(1) by (simp add: dict_has_iff)
    then have "fst (deserialize_object E (ODict d) None af R') = Inl TypeError"
      using assms(1,2,3) by (simp add: deserialize_object.simps restore_tagged_def)
    then show ?thesis using assms(4) \<open>dict_has _ d\<close> by (simp add: json_trip_def)
  qed
  moreover have "json_trip E af R R' (OSet [OBytes b]) = Inl TypeError"
    by (simp add: json_trip_def tagged_def)
  moreover have "json_trip E af R R' (ODataclass c [(f, ODateTime y m dd h mi s us)]) = Inl TypeError"
    by (simp add: json_trip_def tagged_class_def)
  ultimately show ?thesis by blast
qed

lemma stored_but_unreadable_witness:
  "let d = [(''__type__'', OStr ''note''), (''value'', OInt 1)] in
    json_trip ex_env False {} {} (OTime 12 30 0 0) = Inl ValueError \<and>
    json_trip ex_env False {} {} (ONdarray (Some ''int64'') (OInt 1)) = Inl TypeError \<and>
    json_trip ex_env False {} {} (OSet [OTuple [OInt 1]]) = Inl TypeError \<and>
    json_trip ex_env False {} {} (ODict d) = Inl TypeError \<and>
    json_trip ex_env False {} {} (OSet [OBytes ''b'']) = Inl TypeError \<and>
    json_trip ex_env False {} {} (ODataclass ''c'' [(''f'', ODateTime 2024 1 1 12 30 0 0)]) = Inl TypeError"
  unfolding Let_def
  by (rule stored_but_unreadable[where t = "''note''" and v = "OInt 1"]) (simp_all add: dict_get_def)

text \<open>The schema map that renames classes, and the permission to go on without a class, reach
  only the outermost object: an object of a renamed class that stands in a list cannot be read.\<close>

theorem schema_map_top_only:
  assumes "dict_get m c = Some c'" and "importable E c'" and "\<not> importable E c" and "c \<notin> R"
  shows "fst (deserialize_object E (tagged_class ''pydantic'' c (ODict d)) (Some m) af R) = construct E c' d \<and>
    fst (deserialize_object E (OList [tagged_class ''pydantic'' c (ODict d)]) (Some m) af R) =
      Inl (OtherError ''ImportError'')"
  using assms
  by (simp add: deserialize_object.simps tagged_class_def dict_has_def dict_get_def class_name_def call_with_def
      get_object_class_def bindS_def)

lemma schema_map_top_only_witness:
  "let m = [(''m.Old'', ''m.Point'')] in
    fst (deserialize_object ex_env (tagged_class ''pydantic'' ''m.Old'' (ODict [(''x'', OInt 1)])) (Some m) True {}) =
      construct ex_env ''m.Point'' [(''x'', OInt 1)] \<and>
    fst (deserialize_object ex_env (OList [tagged_class ''pydantic'' ''m.Old'' (ODict [(''x'', OInt 1)])]) (Some m) True {}) =
      Inl (OtherError ''ImportError'')"
  unfolding Let_def by (rule schema_map_top_only) (simp_all add: dict_get_def ex_env_def)

end
