(* ===== verification/Serializers.thy ===== *)
theory Serializers
  imports Serialize_Laws
begin

text \<open>
  Serializers (\<^verbatim>\<open>kvdb/io/serializers/base.py\<close>, \<^verbatim>\<open>_json.py\<close>, \<^verbatim>\<open>_pickle.py\<close>, \<^verbatim>\<open>__init__.py\<close>) and
  the encoder of the connections (\<^verbatim>\<open>kvdb/io/encoder.py\<close>). The JSON library, the text encoding,
  \<^verbatim>\<open>repr\<close> and zlib are in \<open>codec\<close>, the compressor is part of the serializer.
\<close>

datatype wire = WStr string | WBytes string

record codec =
  str_encode :: "string \<Rightarrow> string result"
  str_decode :: "string \<Rightarrow> string result"
  json_dumps :: "pyobj \<Rightarrow> wire option"
  json_loads :: "wire \<Rightarrow> pyobj option"
  zlib_decompress :: "string \<Rightarrow> string option"
  repr_of :: "pyobj \<Rightarrow> string"

record json_serializer =
  js_compressor :: "((string \<Rightarrow> string option) \<times> (string \<Rightarrow> string option)) option"
  js_previous :: "(string \<Rightarrow> string option) option"
  js_raise_errors :: bool
  js_deprecation_support :: bool
  js_binary :: bool
  js_ensure_string :: bool
  js_allow_failed_import :: bool

section \<open>Compression\<close>

definition compress_value :: "codec \<Rightarrow> json_serializer \<Rightarrow> wire option \<Rightarrow> wire option result" where
  "compress_value C S v =
     (case js_compressor S of
        None \<Rightarrow> Inr v
      | Some (compress, decompress) \<Rightarrow>
          bindR (case v of None \<Rightarrow> Inl TypeError | Some (WStr s) \<Rightarrow> str_encode C s | Some (WBytes b) \<Rightarrow> Inr b)
            (\<lambda>b. case compress b of None \<Rightarrow> Inl (OtherError ''CompressionError'') | Some z \<Rightarrow> Inr (Some (WBytes z))))"

text \<open>A compressor works on bytes and refuses a string.\<close>

definition try_decompress :: "(string \<Rightarrow> string option) \<Rightarrow> wire \<Rightarrow> string option" where
  "try_decompress f v = (case v of WBytes b \<Rightarrow> f b | WStr s \<Rightarrow> None)"

definition deprecated_decompress_value :: "codec \<Rightarrow> json_serializer \<Rightarrow> wire \<Rightarrow> wire option result" where
  "deprecated_decompress_value C S v =
     (case (case js_previous S of None \<Rightarrow> None | Some p \<Rightarrow> try_decompress p v) of
        Some b \<Rightarrow> Inr (Some (WBytes b))
      | None \<Rightarrow> (case try_decompress (zlib_decompress C) v of
                   Some b \<Rightarrow> Inr (Some (WBytes b))
                 | None \<Rightarrow> if js_raise_errors S then Inl DataError else Inr None))"

definition decompress_value :: "codec \<Rightarrow> json_serializer \<Rightarrow> wire \<Rightarrow> wire option result" where
  "decompress_value C S v =
     (case js_compressor S of
        None \<Rightarrow> Inr (Some v)
      | Some (compress, decompress) \<Rightarrow>
          bindR (case try_decompress decompress v of
                   Some b \<Rightarrow> Inr (Some (WBytes b))
                 | None \<Rightarrow> if js_deprecation_support S \<or> js_previous S \<noteq> None
                          then deprecated_decompress_value C S v else Inr (Some v))
            (\<lambda>r. case r of
                Some (WBytes b) \<Rightarrow> if js_binary S then Inr r else bindR (str_decode C b) (\<lambda>s. Inr (Some (WStr s)))
              | Some (WStr s) \<Rightarrow> if js_binary S then Inr r else Inl AttributeError
              | None \<Rightarrow> Inr None))"

section \<open>The JSON serializer\<close>

definition json_text :: "codec \<Rightarrow> json_serializer \<Rightarrow> pyobj \<Rightarrow> wire result" where
  "json_text C S v =
     (case json_dumps C v of
        None \<Rightarrow> Inl TypeError
      | Some (WBytes b) \<Rightarrow> if js_ensure_string S then bindR (str_decode C b) (\<lambda>s. Inr (WStr s)) else Inr (WBytes b)
      | Some (WStr s) \<Rightarrow> Inr (WStr s))"

text \<open>When the object cannot be serialized the library gets the object itself.\<close>

definition json_encode_value ::
    "codec \<Rightarrow> json_serializer \<Rightarrow> class_env \<Rightarrow> pyobj \<Rightarrow> string set \<Rightarrow> wire option result \<times> string set" where
  "json_encode_value C S E x R =
     (let (r, R1) = serialize_object E x R in
      (case bindR r (json_text C S) of
         Inr t \<Rightarrow> Inr (Some t)
       | Inl _ \<Rightarrow> (case json_text C S x of
                    Inr t \<Rightarrow> Inr (Some t)
                  | Inl e \<Rightarrow> if js_raise_errors S then Inl e else Inr None), R1))"

definition json_encode ::
    "codec \<Rightarrow> json_serializer \<Rightarrow> class_env \<Rightarrow> pyobj \<Rightarrow> string set \<Rightarrow> wire option result \<times> string set" where
  "json_encode C S E x R =
     (let (r, R1) = json_encode_value C S E x R in (bindR r (compress_value C S), R1))"

definition serializer_dumps ::
    "codec \<Rightarrow> json_serializer \<Rightarrow> class_env \<Rightarrow> pyobj \<Rightarrow> string set \<Rightarrow> wire option result \<times> string set" where
  "serializer_dumps C S E x R =
     (let (r, R1) = json_encode C S E x R in
      (case r of Inr t \<Rightarrow> Inr t | Inl e \<Rightarrow> if js_raise_errors S then Inl DataError else Inr None, R1))"

definition wire_obj :: "wire \<Rightarrow> pyobj" where
  "wire_obj v = (case v of WStr s \<Rightarrow> OStr s | WBytes b \<Rightarrow> OBytes b)"

text \<open>A text that is no JSON is taken as it is. The test for the text of an exception applies
  the operator \<open>in\<close> to bytes as well, which raises.\<close>

definition json_decode_value ::
    "codec \<Rightarrow> json_serializer \<Rightarrow> class_env \<Rightarrow> (string \<times> string) list option \<Rightarrow> bool \<Rightarrow> wire \<Rightarrow> string set \<Rightarrow>
     pyobj result \<times> string set" where
  "json_decode_value C S E schema_map raise_arg v R =
     (let raises = raise_arg \<or> js_raise_errors S;
          continue = (\<lambda>x. let (r, R1) = deserialize_object E x schema_map (js_allow_failed_import S) R in
            (case r of Inr y \<Rightarrow> Inr y | Inl e \<Rightarrow> if raises then Inl e else Inr ONone, R1)) in
      case json_loads C v of
        Some x \<Rightarrow> continue x
      | None \<Rightarrow>
          (case v of
             WStr s \<Rightarrow>
               if str_in ''Exception'' s \<or> str_in ''Traceback (most recent call last):'' s then (Inr (OStr s), R)
               else if raises then (Inl ValueError, R) else continue (OStr s)
           | WBytes b \<Rightarrow> (Inl TypeError, R)))"

definition json_decode ::
    "codec \<Rightarrow> json_serializer \<Rightarrow> class_env \<Rightarrow> (string \<times> string) list option \<Rightarrow> bool \<Rightarrow> wire \<Rightarrow> string set \<Rightarrow>
     pyobj result \<times> string set" where
  "json_decode C S E schema_map raise_arg v R =
     (case decompress_value C S v of
        Inr (Some w) \<Rightarrow> json_decode_value C S E schema_map raise_arg w R
      | Inr None \<Rightarrow> json_decode_value C S E schema_map raise_arg v R
      | Inl e \<Rightarrow> if raise_arg \<or> js_raise_errors S then (Inl DataError, R)
                else json_decode_value C S E schema_map raise_arg v R)"

definition serializer_loads ::
    "codec \<Rightarrow> json_serializer \<Rightarrow> class_env \<Rightarrow> wire \<Rightarrow> string set \<Rightarrow> pyobj result \<times> string set" where
  "serializer_loads C S E v R =
     (let (r, R1) = json_decode C S E None False v R in
      (case r of Inr y \<Rightarrow> Inr y | Inl e \<Rightarrow> if js_raise_errors S then Inl DataError else Inr ONone, R1))"

section \<open>The pickle serializer\<close>

definition pickle_encode_value :: "class_env \<Rightarrow> json_serializer \<Rightarrow> pyobj \<Rightarrow> string option result" where
  "pickle_encode_value E S x =
     (case pickle_dumps E x of
        Some b \<Rightarrow> Inr (Some b)
      | None \<Rightarrow> if js_raise_errors S then Inl (OtherError ''PicklingError'') else Inr None)"

definition pickle_decode_value :: "class_env \<Rightarrow> json_serializer \<Rightarrow> string \<Rightarrow> pyobj result" where
  "pickle_decode_value E S b =
     (case pickle_loads E b of
        Some x \<Rightarrow> Inr x
      | None \<Rightarrow> if js_raise_errors S then Inl (OtherError ''UnpicklingError'') else Inr ONone)"

section \<open>Choosing a serializer\<close>

text \<open>The registered classes and the libraries of each, by name.\<close>

record serializer_registry =
  sr_classes :: "(string \<times> string) list"
  sr_libs :: "(string \<times> string list) list"
  sr_default :: string
  sr_class_libs :: "(string \<times> string) list"

definition initial_registry :: serializer_registry where
  "initial_registry =
     \<lparr>sr_classes = [(''json'', ''JsonSerializer''), (''pickle'', ''PickleSerializer''), (''msgpack'', ''MsgPackSerializer'')],
      sr_libs = [(''json'', [''orjson'', ''ujson'', ''simdjson'']), (''pickle'', [''dill'', ''cloudpickle''])],
      sr_default = ''json'', sr_class_libs = []\<rparr>"

definition register_serializer ::
    "string \<Rightarrow> string \<Rightarrow> bool \<Rightarrow> bool \<Rightarrow> serializer_registry \<Rightarrow> serializer_registry result" where
  "register_serializer name cls override set_as_default G =
     (if dict_has name (sr_classes G) \<and> \<not> override then Inl ValueError
      else let G1 = G\<lparr>sr_classes := dict_set name cls (sr_classes G)\<rparr> in
           Inr (if set_as_default then G1\<lparr>sr_default := name\<rparr> else G1))"

definition set_default_serializer_lib ::
    "string \<Rightarrow> string \<Rightarrow> serializer_registry \<Rightarrow> serializer_registry result" where
  "set_default_serializer_lib name lib G =
     (case dict_get (sr_classes G) name of
        None \<Rightarrow> Inl ValueError
      | Some cls \<Rightarrow> Inr (G\<lparr>sr_class_libs := dict_set cls lib (sr_class_libs G)\<rparr>))"

definition register_serializer_lib ::
    "string \<Rightarrow> string \<Rightarrow> bool \<Rightarrow> serializer_registry \<Rightarrow> serializer_registry result" where
  "register_serializer_lib name lib set_as_default G =
     (if \<not> dict_has name (sr_classes G) then Inl ValueError
      else let libs = (case dict_get (sr_libs G) name of None \<Rightarrow> [] | Some l \<Rightarrow> l);
               G1 = G\<lparr>sr_libs := dict_set name (if lib \<in> set libs then libs else libs @ [lib]) (sr_libs G)\<rparr> in
           if set_as_default then set_default_serializer_lib name lib G1 else Inr G1)"

text \<open>The class to construct and the library to pass to it; \<open>kws\<close> are the names of the keyword
  arguments that are given already.\<close>

fun find_kind :: "string \<Rightarrow> (string \<times> string list) list \<Rightarrow> string option" where
  "find_kind s [] = None"
| "find_kind s (p # ps) = (if s \<in> set (snd p) then Some (fst p) else find_kind s ps)"

definition get_serializer ::
    "string option \<Rightarrow> string set \<Rightarrow> serializer_registry \<Rightarrow> (string \<times> (string \<times> string) option) result" where
  "get_serializer name kws G =
     (let s0 = (if name = Some ''auto'' then None else name);
          s = (if opt_truthy s0 then the s0 else sr_default G) in
      case dict_get (sr_classes G) s of
        Some cls \<Rightarrow> Inr (cls, None)
      | None \<Rightarrow>
          (case find_kind s (sr_libs G) of
             None \<Rightarrow> Inl ValueError
           | Some kind \<Rightarrow>
               (case dict_get (sr_classes G) kind of
                  None \<Rightarrow> Inl KeyError
                | Some cls \<Rightarrow> Inr (cls, if kind @ ''lib'' \<in> kws then None else Some (kind @ ''lib'', s)))))"

section \<open>The encoder\<close>

type_synonym obj_codec = "(pyobj \<Rightarrow> wire option result) \<times> (wire \<Rightarrow> pyobj result)"

record encoder =
  en_serializer :: "obj_codec option"
  en_decode_responses :: "bool option"
  en_kw_serializer :: "obj_codec option"
  en_kw_decode :: "bool option"

definition serializer_prefix :: string where
  "serializer_prefix = ''_kvdbenc_''"

definition null_value :: string where
  "null_value = ''null''"

definition encoder_init :: "obj_codec option \<Rightarrow> bool option \<Rightarrow> encoder" where
  "encoder_init ser decode_responses =
     \<lparr>en_serializer = ser,
      en_decode_responses = (case decode_responses of Some b \<Rightarrow> Some b | None \<Rightarrow> Some (ser \<noteq> None)),
      en_kw_serializer = ser, en_kw_decode = decode_responses\<rparr>"

definition enable_serialization :: "obj_codec option \<Rightarrow> bool option \<Rightarrow> encoder \<Rightarrow> encoder" where
  "enable_serialization ser decode_responses N =
     N\<lparr>en_serializer := (case ser of Some s \<Rightarrow> Some s | None \<Rightarrow> en_kw_serializer N),
       en_decode_responses := (case decode_responses of
          Some b \<Rightarrow> Some b
        | None \<Rightarrow> (case en_kw_decode N of Some b \<Rightarrow> Some b | None \<Rightarrow> Some True))\<rparr>"

definition disable_serialization :: "bool option \<Rightarrow> encoder \<Rightarrow> encoder" where
  "disable_serialization decode_responses N =
     N\<lparr>en_serializer := None,
       en_decode_responses := (case decode_responses of Some b \<Rightarrow> Some b | None \<Rightarrow> en_kw_decode N)\<rparr>"

definition serialization_enabled :: "encoder \<Rightarrow> bool" where
  "serialization_enabled N \<longleftrightarrow> en_serializer N \<noteq> None \<and> en_decode_responses N = Some True"

definition encode_with_serializer :: "codec \<Rightarrow> encoder \<Rightarrow> pyobj \<Rightarrow> string result" where
  "encode_with_serializer C N x =
     (if \<not> serialization_enabled N then Inl DataError
      else bindR (fst (the (en_serializer N)) x) (\<lambda>v. case v of
             None \<Rightarrow> Inl TypeError
           | Some (WStr s) \<Rightarrow> bindR (str_encode C s) (\<lambda>b. Inr (serializer_prefix @ b))
           | Some (WBytes b) \<Rightarrow> Inr (serializer_prefix @ b)))"

fun encoder_encode :: "codec \<Rightarrow> encoder \<Rightarrow> pyobj \<Rightarrow> string result" where
  "encoder_encode C N (OBytes b) = Inr b"
| "encoder_encode C N (OBool b) = str_encode C (repr_of C (OBool b))"
| "encoder_encode C N (OInt i) = str_encode C (repr_of C (OInt i))"
| "encoder_encode C N (OFloat r) = str_encode C (repr_of C (OFloat r))"
| "encoder_encode C N ONone = Inr null_value"
| "encoder_encode C N (OStr s) = str_encode C s"
| "encoder_encode C N (OEnumPrim c v) =
     (case v of OStr s \<Rightarrow> str_encode C s | _ \<Rightarrow> str_encode C (repr_of C (OEnumPrim c v)))"
| "encoder_encode C N x = encode_with_serializer C N x"

definition encoder_decode :: "codec \<Rightarrow> encoder \<Rightarrow> bool \<Rightarrow> wire \<Rightarrow> pyobj result" where
  "encoder_decode C N force v =
     (if en_decode_responses N = Some True \<or> force \<or> serialization_enabled N then
        (case v of
           WBytes b \<Rightarrow>
             if b = null_value then Inr ONone
             else if en_serializer N \<noteq> None \<and> starts_with serializer_prefix b then
               (case snd (the (en_serializer N)) (WBytes (drop (length serializer_prefix) b)) of
                  Inr y \<Rightarrow> Inr y
                | Inl e \<Rightarrow> bindR (str_decode C (drop (length serializer_prefix) b)) (\<lambda>s. Inr (OStr s)))
             else bindR (str_decode C b) (\<lambda>s. Inr (OStr s))
         | WStr s \<Rightarrow>
             if en_serializer N \<noteq> None \<and> starts_with serializer_prefix s
             then snd (the (en_serializer N)) (WStr (drop (length serializer_prefix) s))
             else Inr (OStr s))
      else Inr (wire_obj v))"

section \<open>Properties\<close>

definition wire_bytes :: "codec \<Rightarrow> wire \<Rightarrow> string result" where
  "wire_bytes C v = (case v of WStr s \<Rightarrow> str_encode C s | WBytes b \<Rightarrow> Inr b)"

text \<open>What the libraries have to do for one value \<open>v\<close>: the JSON library writes it as a text whose
  bytes it reads back as \<open>w\<close>, the encoding and the compressor give these bytes back.\<close>

definition codec_reads :: "codec \<Rightarrow> json_serializer \<Rightarrow> pyobj \<Rightarrow> pyobj \<Rightarrow> bool" where
  "codec_reads C S v w \<longleftrightarrow>
     (\<exists>t b s. json_dumps C v = Some t \<and> wire_bytes C t = Inr b \<and> str_decode C b = Inr s \<and> str_encode C s = Inr b \<and>
        (\<forall>t'. wire_bytes C t' = Inr b \<longrightarrow> json_loads C t' = Some w) \<and>
        (\<forall>f g. js_compressor S = Some (f, g) \<longrightarrow> (\<exists>z. f b = Some z \<and> g z = Some b)))"

lemma json_text_bytes:
  assumes "json_dumps C v = Some t" "wire_bytes C t = Inr b" "str_decode C b = Inr s" "str_encode C s = Inr b"
  shows "\<exists>t'. json_text C S v = Inr t' \<and> wire_bytes C t' = Inr b"
  using assms by (cases t) (auto simp: json_text_def wire_bytes_def)

lemma compressed_text:
  assumes "wire_bytes C t = Inr b" "str_decode C b = Inr s" "str_encode C s = Inr b" "\<not> js_binary S"
    and "\<forall>f g. js_compressor S = Some (f, g) \<longrightarrow> (\<exists>z. f b = Some z \<and> g z = Some b)"
  shows "\<exists>u t'. compress_value C S (Some t) = Inr (Some u) \<and> decompress_value C S u = Inr (Some t') \<and> wire_bytes C t' = Inr b"
proof (cases "js_compressor S")
  case None
  then show ?thesis using assms(1) by (simp add: compress_value_def decompress_value_def)
next
  case (Some fg)
  obtain f g where fg: "fg = (f, g)" by (cases fg)
  then obtain z where z: "f b = Some z" "g z = Some b" using assms(5) Some by blast
  have "(case t of WStr s \<Rightarrow> str_encode C s | WBytes b \<Rightarrow> Inr b) = Inr b" using assms(1) by (simp add: wire_bytes_def)
  then have "compress_value C S (Some t) = Inr (Some (WBytes z))"
    using Some fg z(1) by (cases t) (simp_all add: compress_value_def)
  moreover have "decompress_value C S (WBytes z) = Inr (Some (WStr s))"
    using Some fg z(2) assms(2,4) by (simp add: decompress_value_def try_decompress_def)
  ultimately show ?thesis using assms(3) by (auto simp: wire_bytes_def)
qed

text \<open>C30. The serializer as a whole, with or without compression: what \<open>dumps\<close> gives for a storable
  object, \<open>loads\<close> reads as \<open>restored\<close> says.\<close>

theorem serializer_round_trip:
  assumes "storable E x" and "\<not> js_binary S"
    and "\<forall>v w. fst (serialize_object E x R) = Inr v \<longrightarrow> json_norm v = Some w \<longrightarrow> codec_reads C S v w"
  shows "\<exists>u R1. serializer_dumps C S E x R = (Inr (Some u), R1) \<and>
    fst (serializer_loads C S E u R') = Inr (restored x)"
proof -
  obtain v R1 w where v: "serialize_object E x R = (Inr v, R1)" "json_norm v = Some w"
    "\<And>af R2. fst (deserialize_object E w None af R2) = Inr (restored x)"
    using storable_comes_back[OF assms(1)] unfolding comes_back_def by blast
  then have "codec_reads C S v w" using assms(3) by simp
  then obtain t b s where c: "json_dumps C v = Some t" "wire_bytes C t = Inr b" "str_decode C b = Inr s"
    "str_encode C s = Inr b" "\<forall>t'. wire_bytes C t' = Inr b \<longrightarrow> json_loads C t' = Some w"
    "\<forall>f g. js_compressor S = Some (f, g) \<longrightarrow> (\<exists>z. f b = Some z \<and> g z = Some b)"
    unfolding codec_reads_def by blast
  obtain t1 where t1: "json_text C S v = Inr t1" "wire_bytes C t1 = Inr b"
    using json_text_bytes[OF c(1,2,3,4)] by blast
  obtain u t2 where u: "compress_value C S (Some t1) = Inr (Some u)" "decompress_value C S u = Inr (Some t2)"
    "wire_bytes C t2 = Inr b"
    using compressed_text[OF t1(2) c(3,4) assms(2) c(6)] by blast
  have "serializer_dumps C S E x R = (Inr (Some u), R1)"
    using v(1) t1(1) u(1) by (simp add: serializer_dumps_def json_encode_def json_encode_value_def)
  moreover have "fst (serializer_loads C S E u R') = Inr (restored x)"
    using v(3)[of "js_allow_failed_import S" R'] u(2) c(5)[rule_format, OF u(3)]
    by (cases "deserialize_object E w None (js_allow_failed_import S) R'")
       (simp add: serializer_loads_def json_decode_def json_decode_value_def)
  ultimately show ?thesis by blast
qed

definition ex_wire :: wire where
  "ex_wire = WBytes ''[1]''"

definition ex_codec :: codec where
  "ex_codec = \<lparr>str_encode = Inr, str_decode = Inr, json_dumps = (\<lambda>v. if v = OList [OInt 1] then Some ex_wire else None),
     json_loads = (\<lambda>t. case t of WStr s \<Rightarrow> if s = ''[1]'' then Some (OList [OInt 1]) else None
                     | WBytes s \<Rightarrow> if s = ''[1]'' then Some (OList [OInt 1]) else None),
     zlib_decompress = (\<lambda>b. None), repr_of = (\<lambda>v. ''1'')\<rparr>"

definition ex_serializer :: json_serializer where
  "ex_serializer = \<lparr>js_compressor = Some (Some \<circ> rev, Some \<circ> rev), js_previous = None, js_raise_errors = False,
     js_deprecation_support = True, js_binary = False, js_ensure_string = True, js_allow_failed_import = False\<rparr>"

lemma ex_codec_reads: "codec_reads ex_codec ex_serializer (OList [OInt 1]) (OList [OInt 1])"
  by (auto simp: codec_reads_def ex_codec_def ex_serializer_def ex_wire_def wire_bytes_def split: wire.splits)

lemma serializer_round_trip_witness:
  "\<exists>u R1. serializer_dumps ex_codec ex_serializer ex_env (OTuple [OInt 1]) {} = (Inr (Some u), R1) \<and>
    fst (serializer_loads ex_codec ex_serializer ex_env u {}) = Inr (restored (OTuple [OInt 1]))"
  by (rule serializer_round_trip) (use ex_codec_reads in \<open>auto simp: ex_serializer_def\<close>)

text \<open>What fails silently. Without \<open>raise_errors\<close> and compression, an object the library refuses in
  both forms is dumped as None. A text that is no JSON is loaded as itself, bytes
  that are no JSON as None, and \<open>decode\<close> raises a TypeError for them although errors are not
  to be raised.\<close>

theorem serializer_fails_silently:
  assumes "\<not> js_raise_errors S" and "js_compressor S = None"
    and "json_loads C v = None"
    and "\<forall>y. fst (serialize_object E x R) = Inr y \<longrightarrow> json_dumps C y = None" and "json_dumps C x = None"
  shows "fst (serializer_dumps C S E x R) = Inr None \<and>
    fst (serializer_loads C S E v R) = (case v of WStr s \<Rightarrow> Inr (OStr s) | WBytes b \<Rightarrow> Inr ONone) \<and>
    (\<forall>b. v = WBytes b \<longrightarrow> fst (json_decode C S E None False v R) = Inl TypeError)"
proof -
  obtain r R1 where r: "serialize_object E x R = (r, R1)" by fastforce
  have "bindR r (json_text C S) = Inl e \<or> (\<exists>e. bindR r (json_text C S) = Inl e)" for e
    using r assms(4) by (cases r) (auto simp: json_text_def)
  then obtain e where "bindR r (json_text C S) = Inl e" by blast
  then have "fst (serializer_dumps C S E x R) = Inr None"
    using r assms(1,2,5)
    by (simp add: serializer_dumps_def json_encode_def json_encode_value_def json_text_def compress_value_def)
  moreover have "json_decode C S E None False v R = json_decode_value C S E None False v R"
    using assms(2) by (simp add: json_decode_def decompress_value_def)
  ultimately show ?thesis
    using assms(1,3) by (auto simp: serializer_loads_def json_decode_value_def Let_def split: wire.splits)
qed

lemma serializer_fails_silently_witness:
  "let S = ex_serializer\<lparr>js_compressor := None\<rparr> in
    fst (serializer_dumps ex_codec S ex_env (OSet [OBytes ''b'']) {}) = Inr None \<and>
    fst (serializer_loads ex_codec S ex_env (WBytes ''junk'') {}) =
      (case WBytes ''junk'' of WStr s \<Rightarrow> Inr (OStr s) | WBytes b \<Rightarrow> Inr ONone) \<and>
    (\<forall>b. WBytes ''junk'' = WBytes b \<longrightarrow> fst (json_decode ex_codec S ex_env None False (WBytes ''junk'') {}) = Inl TypeError)"
  unfolding Let_def
  by (rule serializer_fails_silently) (simp_all add: ex_serializer_def ex_codec_def tagged_def)

definition encoder_trip :: "codec \<Rightarrow> encoder \<Rightarrow> bool \<Rightarrow> pyobj \<Rightarrow> pyobj result" where
  "encoder_trip C N force x = bindR (encoder_encode C N x) (\<lambda>b. encoder_decode C N force (WBytes b))"

fun needs_serializer :: "pyobj \<Rightarrow> bool" where
  "needs_serializer (OBytes b) = False"
| "needs_serializer (OBool b) = False"
| "needs_serializer (OInt i) = False"
| "needs_serializer (OFloat r) = False"
| "needs_serializer ONone = False"
| "needs_serializer (OStr s) = False"
| "needs_serializer (OEnumPrim c v) = False"
| "needs_serializer x = True"

lemma prefix_not_null: "serializer_prefix @ b \<noteq> null_value" "null_value \<noteq> serializer_prefix @ b"
  by (simp_all add: serializer_prefix_def null_value_def)


definition ex_encoder :: encoder where
  "ex_encoder = encoder_init (Some (\<lambda>x. Inr (Some (WBytes ''{}'')), \<lambda>v. Inr (ODict []))) None"


text \<open>A library is found under the kind it is registered for and a name nobody registered is refused.\<close>

lemma get_serializer_lib:
  assumes "register_serializer_lib name lib False G = Inr G'" "dict_get (sr_classes G) lib = None"
    "lib \<noteq> []" "lib \<noteq> ''auto''" "find_kind lib (sr_libs G) = None"
  shows "get_serializer (Some lib) {} G' = Inr (the (dict_get (sr_classes G) name), Some (name @ ''lib'', lib))"
proof -
  have find: "find_kind lib (dict_set name (l @ [lib]) ps) = Some name" if "find_kind lib ps = None" for l ps
    using that by (induction ps) (auto simp: dict_set_def split: if_splits)
  have absent: "lib \<notin> set (snd p)" if "find_kind lib ps = None" "p \<in> set ps" for p ps
    using that by (induction ps) (auto split: if_splits)
  have none: "lib \<notin> set l" if "dict_get (sr_libs G) name = Some l" for l
    using absent[OF assms(5), of "(name, l)"] that by (auto simp: dict_get_def dest: map_of_SomeD)
  define l where "l = (case dict_get (sr_libs G) name of None \<Rightarrow> [] | Some l \<Rightarrow> l)"
  have "lib \<notin> set l" using none by (auto simp: l_def split: option.splits)
  then have "dict_has name (sr_classes G)" "G' = G\<lparr>sr_libs := dict_set name (l @ [lib]) (sr_libs G)\<rparr>"
    using assms(1) by (simp_all add: register_serializer_lib_def l_def[symmetric] Let_def split: if_splits)
  then show ?thesis
    using assms(2-4) find[OF assms(5), of l] by (auto simp: get_serializer_def dict_has_iff)
qed

end
