(* ===== verification/Task_Abstract.thy ===== *)
theory Task_Abstract
  imports Task_Manager
begin

text \<open>
  Classes of tasks (\<^verbatim>\<open>kvdb/tasks/abstract.py\<close>, class \<open>TaskABC\<close>, and the abstract registration of
  \<^verbatim>\<open>kvdb/tasks/main.py\<close>): the tables of methods that wait for a class, and what the first
  object of a class registers. A class is known by its id; its methods by their names.
\<close>

record abc_tables =
  abc_classes :: "string list"
  abc_waiting :: "(string \<times> string list) list"
  abc_registered :: "(string \<times> string list) list"
  abc_partials :: "(string \<times> (string \<times> pydict) list) list"
  abc_initialized :: "(string \<times> string list) list"

definition insert_once :: "'a \<Rightarrow> 'a list \<Rightarrow> 'a list" where
  "insert_once x xs = (if x \<in> set xs then xs else xs @ [x])"

definition get_list :: "(string \<times> 'a list) list \<Rightarrow> string \<Rightarrow> 'a list" where
  "get_list d k = (case dict_get d k of None \<Rightarrow> [] | Some l \<Rightarrow> l)"

definition add_partial :: "string \<Rightarrow> pydict \<Rightarrow> (string \<times> pydict) list \<Rightarrow> (string \<times> pydict) list" where
  "add_partial f kws d = dict_set f (dict_update (get_list d f) kws) d"

definition register_abc_method :: "string \<Rightarrow> string \<Rightarrow> pydict \<Rightarrow> abc_tables \<Rightarrow> abc_tables" where
  "register_abc_method obj_id func_id kws T =
     (let T1 = (if dict_has obj_id (abc_waiting T) then T
                else T\<lparr>abc_waiting := abc_waiting T @ [(obj_id, [])],
                       abc_registered := dict_set obj_id [] (abc_registered T),
                       abc_partials := dict_set obj_id [] (abc_partials T)\<rparr>);
          T2 = T1\<lparr>abc_waiting := dict_set obj_id (insert_once func_id (get_list (abc_waiting T1) obj_id)) (abc_waiting T1)\<rparr> in
      if kws = [] then T2
      else T2\<lparr>abc_partials := dict_set obj_id (add_partial func_id kws (get_list (abc_partials T2) obj_id)) (abc_partials T2)\<rparr>)"

text \<open>Registering a class moves its waiting methods, and those it and its registered parents have, to its
  direct subclasses that have waiting methods themselves; \<open>subs\<close> gives the direct subclasses.\<close>

definition add_registered :: "string \<Rightarrow> string list \<Rightarrow> abc_tables \<Rightarrow> abc_tables" where
  "add_registered c fs T =
     T\<lparr>abc_registered := dict_set c (fold insert_once fs (get_list (abc_registered T) c)) (abc_registered T)\<rparr>"

definition register_abc_subclass :: "string \<Rightarrow> string \<Rightarrow> abc_tables \<Rightarrow> abc_tables" where
  "register_abc_subclass c sub T =
     (if \<not> dict_has sub (abc_waiting T) then T
      else
        let T1 = add_registered sub (get_list (abc_waiting T) sub) T;
            T2 = add_registered sub (get_list (abc_waiting T1) c) T1 in
        fold (\<lambda>other T. if other = c then T else add_registered sub (get_list (abc_registered T) other) T)
          (abc_classes T2) T2)"

definition register_abc_class :: "(string \<Rightarrow> string list) \<Rightarrow> string \<Rightarrow> pydict \<Rightarrow> abc_tables \<Rightarrow> abc_tables" where
  "register_abc_class subs c kws T =
     (if c \<in> set (abc_classes T) then
        (if kws = [] then T
         else T\<lparr>abc_partials := dict_set c (add_partial ''cls'' kws (get_list (abc_partials T) c)) (abc_partials T)\<rparr>)
      else
        let T1 = T\<lparr>abc_classes := abc_classes T @ [c]\<rparr> in
        if dict_has c (abc_waiting T1)
        then fold (register_abc_subclass c) (subs c) (add_registered c (get_list (abc_waiting T1) c) T1)
        else T1)"

section \<open>The settings of a method\<close>

text \<open>\<open>__get_task_function_partials__\<close> takes the settings of the class and updates them in place with those
  of the method: what it returns is the dictionary the class keeps, when the class has settings.\<close>

definition get_partials :: "string \<Rightarrow> (string \<times> pydict) list \<Rightarrow> pydict" where
  "get_partials func P = dict_update (get_list P ''cls'') (get_list P func)"

definition keep_partials :: "pydict \<Rightarrow> (string \<times> pydict) list \<Rightarrow> (string \<times> pydict) list" where
  "keep_partials d P = (if dict_has ''cls'' P then dict_set ''cls'' d P else P)"

definition add_task_function_partials :: "string \<Rightarrow> pydict \<Rightarrow> (string \<times> pydict) list \<Rightarrow> (string \<times> pydict) list" where
  "add_task_function_partials func kws P = add_partial func kws P"

text \<open>What a subclass may override.\<close>

record abc_hooks =
  hk_class_name :: string
  hk_worker_attributes :: "string \<Rightarrow> pydict"
  hk_validate_function :: "string \<Rightarrow> pydict \<Rightarrow> pydict option"
  hk_validate_cronjob :: "string \<Rightarrow> pydict \<Rightarrow> pydict option"
  hk_function_name :: "pyfunction \<Rightarrow> string option"
  hk_cronjob_name :: "pyfunction \<Rightarrow> string option"
  hk_method :: "string \<Rightarrow> pyfunction"

definition method_settings :: "abc_hooks \<Rightarrow> string \<Rightarrow> (string \<times> pydict) list \<Rightarrow> pydict \<times> (string \<times> pydict) list" where
  "method_settings K func P =
     (let d = get_partials func P; w = hk_worker_attributes K func;
          d1 = (if w = [] then d else dict_set ''worker_attributes'' (PDict w) d) in
      (d1, keep_partials d1 P))"

definition method_registration :: "abc_hooks \<Rightarrow> string \<Rightarrow> pydict \<Rightarrow> pydict option" where
  "method_registration K func d =
     (let f = hk_method K func; cron = (dict_has ''cron'' d \<or> dict_has ''cronjob'' d) in
      case (if cron then hk_validate_cronjob K func d else hk_validate_function K func d) of
        None \<Rightarrow> None
      | Some kws \<Rightarrow>
          (let nm = (if cron \<and> opt_truthy (hk_cronjob_name K f) then hk_cronjob_name K f else hk_function_name K f);
               kws1 = (if opt_truthy nm then dict_set ''name'' (PStr (the nm)) kws else kws) in
           Some (if dict_has ''name'' kws1 then kws1
                 else dict_set ''name'' (PStr (hk_class_name K @ ''.'' @ func)) kws1)))"

text \<open>How \<open>register\<close> takes a dictionary of settings: its own parameters, the rest for the function.\<close>

definition pv_option :: "(pyval \<Rightarrow> 'a option) \<Rightarrow> string \<Rightarrow> pydict \<Rightarrow> 'a option" where
  "pv_option f k d = (case dict_get d k of None \<Rightarrow> None | Some v \<Rightarrow> f v)"

definition str_of :: "pyval \<Rightarrow> string option" where
  "str_of v = (case v of PStr s \<Rightarrow> Some s | _ \<Rightarrow> None)"

definition bool_of :: "pyval \<Rightarrow> bool option" where
  "bool_of v = (case v of PBool b \<Rightarrow> Some b | _ \<Rightarrow> None)"

definition register_names :: "string list" where
  "register_names = [''name'', ''phase'', ''silenced'', ''silenced_stages'', ''default_kwargs'', ''cronjob'',
     ''disable_patch'', ''disable_ctx_in_patch'', ''worker_attributes'', ''attribute_match_type'',
     ''fallback_enabled'', ''on_failure_callback'', ''exclude_retry_exceptions'']"

definition registration_of :: "pydict \<Rightarrow> registration" where
  "registration_of d =
     \<lparr>rg_name = pv_option str_of ''name'' d, rg_phase = pv_option str_of ''phase'' d,
      rg_silenced = pv_option bool_of ''silenced'' d,
      rg_silenced_stages = map_option strings_of (dict_get d ''silenced_stages''),
      rg_default_kwargs = pv_option dict_of ''default_kwargs'' d,
      rg_cronjob = (case dict_get d ''cronjob'' of
          Some (PStr s) \<Rightarrow> CronText s | Some (PBool b) \<Rightarrow> CronFlag b | _ \<Rightarrow> CronUnset),
      rg_disable_patch = pv_option bool_of ''disable_patch'' d,
      rg_disable_ctx = (case dict_get d ''disable_ctx_in_patch'' of None \<Rightarrow> PNone | Some v \<Rightarrow> v),
      rg_worker_attributes = (case pv_option dict_of ''worker_attributes'' d of None \<Rightarrow> [] | Some w \<Rightarrow> w),
      rg_match = (case dict_get d ''attribute_match_type'' of
          Some (PStr s) \<Rightarrow> MatchWord s | Some (PInt n) \<Rightarrow> MatchCount n | _ \<Rightarrow> MatchUnset),
      rg_fallback = (pv_option bool_of ''fallback_enabled'' d = Some True),
      rg_on_failure = (case dict_get d ''on_failure_callback'' of None \<Rightarrow> False | Some v \<Rightarrow> v \<noteq> PNone),
      rg_retry = (case dict_get d ''exclude_retry_exceptions'' of
          Some (PBool b) \<Rightarrow> RetryExcluded b | Some (PList xs) \<Rightarrow> ExcludeList (strings_of (PList xs))
        | Some (PSet xs) \<Rightarrow> ExcludeSet (strings_of (PList xs)) | _ \<Rightarrow> RetryUnset),
      rg_kwargs = filter (\<lambda>(k, v). k \<notin> set register_names) d\<rparr>"

section \<open>The first object of a class\<close>

fun register_methods ::
    "abc_hooks \<Rightarrow> string list \<Rightarrow> (string \<times> pydict) list \<Rightarrow> func_registry \<Rightarrow> (string \<times> pydict) list \<times> func_registry" where
  "register_methods K [] P Q = (P, Q)"
| "register_methods K (func # fs) P Q =
     (let (d, P1) = method_settings K func P;
          Q1 = (case method_registration K func d of
                  None \<Rightarrow> Q
                | Some kws \<Rightarrow> snd (register_function (hk_method K func) (registration_of kws)
                                    (filter (\<lambda>(k, v). v \<noteq> PNone) kws) (Some (hk_class_name K)) Q)) in
      register_methods K fs P1 Q1)"

text \<open>The methods of a class without registered ones are those of its first parent; \<open>set_order\<close> is the order in
  which Python runs through a set of names.\<close>

definition init_methods :: "abc_tables \<Rightarrow> string \<Rightarrow> string list \<Rightarrow> string list" where
  "init_methods T c parents =
     (case get_list (abc_registered T) c of
        [] \<Rightarrow> (case parents of _ # p # _ \<Rightarrow> get_list (abc_registered T) p | _ \<Rightarrow> [])
      | fs \<Rightarrow> fs)"

definition inherited_partials :: "abc_tables \<Rightarrow> string \<Rightarrow> string list \<Rightarrow> string list \<Rightarrow> (string \<times> pydict) list \<Rightarrow> (string \<times> pydict) list" where
  "inherited_partials T c parents fs P =
     (if get_list (abc_registered T) c \<noteq> [] then P
      else case parents of
        _ # p # _ \<Rightarrow>
          fold (\<lambda>f P. if \<not> dict_has f P \<and> dict_has f (get_list (abc_partials T) p)
                      then dict_set f (get_list (get_list (abc_partials T) p) f) P else P) fs P
      | _ \<Rightarrow> P)"

definition abc_task_init ::
    "abc_hooks \<Rightarrow> (string list \<Rightarrow> string list) \<Rightarrow> string \<Rightarrow> string list \<Rightarrow> abc_tables \<Rightarrow> (string \<times> pydict) list \<Rightarrow> func_registry \<Rightarrow>
     abc_tables \<times> (string \<times> pydict) list \<times> func_registry" where
  "abc_task_init K set_order c parents T P Q =
     (let q = fr_queue_name Q; fs = init_methods T c parents in
      if c \<in> set (get_list (abc_initialized T) q) \<or> fs = [] then (T, P, Q)
      else
        let (P1, Q1) = register_methods K (set_order fs) (inherited_partials T c parents fs P) Q in
        (T\<lparr>abc_initialized := dict_set q (insert_once c (get_list (abc_initialized T) q)) (abc_initialized T)\<rparr>, P1, Q1))"

section \<open>Properties\<close>

text \<open>The settings every method is registered with, in order.\<close>

fun settings_trace :: "abc_hooks \<Rightarrow> string list \<Rightarrow> (string \<times> pydict) list \<Rightarrow> pydict list" where
  "settings_trace K [] P = []"
| "settings_trace K (f # fs) P =
     (let (d, P1) = method_settings K f P in d # settings_trace K fs P1)"

definition wf_partials :: "(string \<times> pydict) list \<Rightarrow> bool" where
  "wf_partials P \<longleftrightarrow> (\<forall>f d. dict_get P f = Some d \<longrightarrow> wf_dict d)"

fun last_setting :: "(string \<times> pydict) list \<Rightarrow> string list \<Rightarrow> string \<Rightarrow> pyval option \<Rightarrow> pyval option" where
  "last_setting P [] k v = v"
| "last_setting P (f # fs) k v =
     last_setting P fs k (case dict_get (get_list P f) k of Some w \<Rightarrow> Some w | None \<Rightarrow> v)"

lemma wf_get_list: "wf_partials P \<Longrightarrow> wf_dict (get_list P f)"
  by (auto simp: wf_partials_def get_list_def wf_dict_def split: option.splits)

lemma settings_leak:
  assumes "wf_partials P" "dict_has ''cls'' P" "''cls'' \<notin> set fs" "\<forall>f. hk_worker_attributes K f = []" "i < length fs"
  shows "dict_get (settings_trace K fs P ! i) k =
    last_setting P (take (Suc i) fs) k (dict_get (get_list P ''cls'') k)"
  using assms
proof (induction fs arbitrary: P i)
  case (Cons f fs)
  define d where "d = get_partials f P"
  have ms: "method_settings K f P = (d, dict_set ''cls'' d P)"
    using Cons.prems(2,4) by (simp add: method_settings_def keep_partials_def d_def Let_def)
  have dk: "dict_get d k = (case dict_get (get_list P f) k of Some w \<Rightarrow> Some w | None \<Rightarrow> dict_get (get_list P ''cls'') k)"
    using dict_get_update[OF wf_get_list[OF Cons.prems(1), of f]] by (simp add: d_def get_partials_def)
  have wd: "wf_dict d" using wf_get_list[OF Cons.prems(1)] by (simp add: d_def get_partials_def)
  show ?case
  proof (cases i)
    case 0 then show ?thesis using ms dk by simp
  next
    case (Suc j)
    have wf: "wf_partials (dict_set ''cls'' d P)" using Cons.prems(1) wd by (auto simp: wf_partials_def)
    have same: "last_setting (dict_set ''cls'' d P) gs k v = last_setting P gs k v" if "set gs \<subseteq> set fs" for gs v
      using that Cons.prems(3) by (induction gs arbitrary: v) (auto simp: get_list_def)
    have "dict_get (settings_trace K fs (dict_set ''cls'' d P) ! j) k =
        last_setting (dict_set ''cls'' d P) (take (Suc j) fs) k (dict_get (get_list (dict_set ''cls'' d P) ''cls'') k)"
      using Cons.prems Suc by (intro Cons.IH[OF wf]) auto
    moreover have "get_list (dict_set ''cls'' d P) ''cls'' = d" by (simp add: get_list_def)
    ultimately show ?thesis using ms dk Suc same[OF set_take_subset] by simp
  qed
qed simp

lemma settings_separate:
  assumes "\<not> dict_has ''cls'' P" "\<forall>f. hk_worker_attributes K f = []" "i < length fs"
  shows "settings_trace K fs P ! i = dict_update [] (get_list P (fs ! i))"
  using assms
proof (induction fs arbitrary: i)
  case (Cons f fs)
  have ms: "method_settings K f P = (dict_update [] (get_list P f), P)"
    using Cons.prems(1,2) by (simp add: method_settings_def keep_partials_def get_partials_def get_list_def dict_has_iff Let_def)
  then show ?case using Cons by (cases i) auto
qed simp

text \<open>The settings of one method of a class reach the methods after it. When the class has settings of its own,
  a method is registered with every setting of any method that came before it in the run through the
  set, unless a later one set it too: a method that follows one for the start-up phase becomes a start-up
  function. Without settings of the class each method has its own settings only.\<close>

theorem method_settings_leak:
  assumes "wf_partials P" and "''cls'' \<notin> set fs" and "\<forall>f. hk_worker_attributes K f = []" and "i < length fs"
  shows "dict_get (settings_trace K fs P ! i) k =
    (if dict_has ''cls'' P then last_setting P (take (Suc i) fs) k (dict_get (get_list P ''cls'') k)
     else dict_get (get_list P (fs ! i)) k)"
proof (cases "dict_has ''cls'' P")
  case True then show ?thesis using settings_leak assms by simp
next
  case False
  then show ?thesis using settings_separate[OF False assms(3,4)] dict_get_update[OF wf_get_list[OF assms(1)], of "[]" "fs ! i" k]
    by (simp add: dict_get_def[of "[]"] split: option.splits)
qed

definition ex_hooks :: abc_hooks where
  "ex_hooks = \<lparr>hk_class_name = ''Pipeline'', hk_worker_attributes = (\<lambda>f. []), hk_validate_function = (\<lambda>f d. Some d),
     hk_validate_cronjob = (\<lambda>f d. Some d), hk_function_name = (\<lambda>f. None), hk_cronjob_name = (\<lambda>f. None),
     hk_method = (\<lambda>n. \<lparr>fn_name = n, fn_qualname = ''Pipeline.'' @ n, fn_module = ''m'', fn_plain = False, fn_params = []\<rparr>)\<rparr>"

definition ex_partials :: "(string \<times> pydict) list" where
  "ex_partials = [(''cls'', [(''silenced'', PBool True)]), (''warm'', [(''phase'', PStr ''startup'')])]"

lemma method_settings_leak_witness:
  "dict_get (settings_trace ex_hooks [''warm'', ''work''] ex_partials ! 1) ''phase'' = Some (PStr ''startup'')"
proof -
  have wf: "wf_partials ex_partials" by (auto simp: wf_partials_def ex_partials_def dict_get_def wf_dict_def split: if_splits)
  from method_settings_leak[OF this, of "[''warm'', ''work'']" ex_hooks 1 "''phase''"]
  show ?thesis by (simp add: ex_hooks_def ex_partials_def dict_has_def get_list_def dict_get_def)
qed

end
