(* ===== verification/Persistence_Copy.thy ===== *)
theory Persistence_Copy
  imports Persistence_Laws Serialize_Object
begin

text \<open>
  Copies of persistent dictionaries (\<^verbatim>\<open>components/persistence.py\<close>): raw dumps and loading them, replication
  from another session, migration of a schema, cloning between servers. Two sessions are two executors
  on one world, so that they may share a server. The session has no serialization of its own here;
  \<open>decoded\<close> tells whether it returns text instead of bytes.
\<close>

section \<open>Bytes and text\<close>

text \<open>\<open>bytes.decode()\<close> succeeds on valid UTF-8; \<open>str\<close> of bytes is their literal.\<close>

definition utf8_cont :: "char \<Rightarrow> bool" where
  "utf8_cont c \<longleftrightarrow> 128 \<le> (of_char c :: nat) \<and> (of_char c :: nat) \<le> 191"

definition utf8_second :: "nat \<Rightarrow> char \<Rightarrow> bool" where
  "utf8_second n c \<longleftrightarrow> utf8_cont c \<and>
     (n = 224 \<longrightarrow> 160 \<le> (of_char c :: nat)) \<and> (n = 237 \<longrightarrow> (of_char c :: nat) \<le> 159) \<and>
     (n = 240 \<longrightarrow> 144 \<le> (of_char c :: nat)) \<and> (n = 244 \<longrightarrow> (of_char c :: nat) \<le> 143)"

fun utf8_valid :: "string \<Rightarrow> bool" where
  "utf8_valid [] = True"
| "utf8_valid (a # s) =
     (let n = of_char a :: nat in
      if n < 128 then utf8_valid s
      else if 194 \<le> n \<and> n \<le> 223 then (case s of b # t \<Rightarrow> utf8_cont b \<and> utf8_valid t | _ \<Rightarrow> False)
      else if 224 \<le> n \<and> n \<le> 239 then (case s of b # c # t \<Rightarrow> utf8_second n b \<and> utf8_cont c \<and> utf8_valid t | _ \<Rightarrow> False)
      else if 240 \<le> n \<and> n \<le> 244
      then (case s of b # c # e # t \<Rightarrow> utf8_second n b \<and> utf8_cont c \<and> utf8_cont e \<and> utf8_valid t | _ \<Rightarrow> False)
      else False)"

definition repr_quote :: "string \<Rightarrow> char" where
  "repr_quote s = (if CHR 0x27 \<in> set s \<and> CHR 0x22 \<notin> set s then CHR 0x22 else CHR 0x27)"

definition repr_byte :: "char \<Rightarrow> char \<Rightarrow> string" where
  "repr_byte q c =
     (let n = of_char c :: nat in
      if c = q \<or> c = CHR 0x5C then [CHR 0x5C, c]
      else if n = 9 then [CHR 0x5C, CHR ''t''] else if n = 10 then [CHR 0x5C, CHR ''n'']
      else if n = 13 then [CHR 0x5C, CHR ''r'']
      else if 32 \<le> n \<and> n < 127 then [c]
      else [CHR 0x5C, CHR ''x'', hex_digit (n div 16), hex_digit (n mod 16)])"

definition bytes_repr :: "string \<Rightarrow> string" where
  "bytes_repr s = (let q = repr_quote s in CHR ''b'' # q # concat (map (repr_byte q) s) @ [q])"

fun unhexlify :: "string \<Rightarrow> string option" where
  "unhexlify [] = Some []"
| "unhexlify [a] = None"
| "unhexlify (a # b # s) =
     (case (hex_value a, hex_value b) of
        (Some m, Some n) \<Rightarrow> map_option (Cons (char_of (16 * m + n))) (unhexlify s)
      | _ \<Rightarrow> None)"

section \<open>Raw dumps\<close>

text \<open>A dump is a dictionary of values, of the expiration index under \<open>_exp_\<close> and of the names whose values
  were written in hexadecimal under \<open>_hexed_\<close>.\<close>

datatype raw_item = Raw rval | RawIndex "(string \<times> int) list" | RawNames "string list"

type_synonym raw_data = "(string \<times> raw_item) list"

definition valid_text :: "rval \<Rightarrow> bool" where
  "valid_text v = (case v of RStr s \<Rightarrow> utf8_valid s | RInt n \<Rightarrow> True)"

definition text_of :: "rval \<Rightarrow> string" where
  "text_of v = (case v of RStr s \<Rightarrow> s | RInt n \<Rightarrow> str_of_int n)"

fun index_items :: "bool \<Rightarrow> (string \<times> rval) list \<Rightarrow> (string \<times> int) list result" where
  "index_items decoded [] = Inr []"
| "index_items decoded ((k, v) # kvs) =
     (if decoded \<and> \<not> utf8_valid k then Inl ValueError
      else case v of
        RInt n \<Rightarrow> bindR (index_items decoded kvs) (\<lambda>r. Inr ((if decoded then k else bytes_repr k, n) # r))
      | RStr s \<Rightarrow> Inl ValueError)"

definition raw_name :: "pdict \<Rightarrow> bool \<Rightarrow> string \<Rightarrow> string" where
  "raw_name P exclude_base_key k = (if exclude_base_key then strip_base P k else get_key P k)"

definition add_hexed :: "string \<Rightarrow> raw_data \<Rightarrow> raw_data result" where
  "add_hexed k R =
     (case dict_get R ''_hexed_'' of
        None \<Rightarrow> Inr (dict_set ''_hexed_'' (RawNames [k]) R)
      | Some (RawNames ks) \<Rightarrow> Inr (dict_set ''_hexed_'' (RawNames (ks @ [k])) R)
      | Some _ \<Rightarrow> Inl AttributeError)"

fun dump_items :: "pdict \<Rightarrow> bool \<Rightarrow> bool \<Rightarrow> (string \<times> rval) list \<Rightarrow> raw_data \<Rightarrow> raw_data result" where
  "dump_items P decoded excl [] R = Inr R"
| "dump_items P decoded excl ((k, v) # kvs) R =
     (if \<not> utf8_valid k then Inl ValueError
      else let name = raw_name P excl k in
        if valid_text v then dump_items P decoded excl kvs (dict_set name (Raw v) R)
        else if decoded then Inl ValueError
        else bindR (add_hexed name R) (\<lambda>R1.
          dump_items P decoded excl kvs (dict_set name (Raw (RStr (bytes_hex (text_of v)))) R1)))"

text \<open>Without a hash, \<open>mget\<close> returns a list, which has no items.\<close>

definition get_all_data_raw :: "'db executor \<Rightarrow> pdict \<Rightarrow> bool \<Rightarrow> int \<Rightarrow> bool \<Rightarrow> 'db \<Rightarrow> raw_data result \<times> 'db" where
  "get_all_data_raw exec P decoded now exclude_base_key d =
     (if hset_enabled P then
        let d1 = run_expiration_check exec P now [] d;
            data = pairs_of (reply_of exec (HGETALL (base P)) d1);
            exp_index = pairs_of (reply_of exec (HGETALL (exp_index_key P)) d1) in
        ((if exp_index = [] then dump_items P decoded exclude_base_key data []
          else bindR (index_items decoded exp_index) (\<lambda>ix.
            dump_items P decoded exclude_base_key data [(''_exp_'', RawIndex (dict_update [] ix))])), d1)
      else (Inl AttributeError, d))"

definition aget_all_data_raw :: "'db executor \<Rightarrow> pdict \<Rightarrow> bool \<Rightarrow> int \<Rightarrow> bool \<Rightarrow> 'db \<Rightarrow> raw_data result \<times> 'db" where
  "aget_all_data_raw exec P decoded now exclude_base_key d =
     (if hset_enabled P then
        let d1 = run_expiration_check exec P now [] d;
            data = pairs_of (reply_of exec (HGETALL (base P)) d1);
            exp_index = pairs_of (reply_of exec (HGETALL (exp_index_key P)) d1) in
        ((if exp_index = [] then dump_items P decoded exclude_base_key data []
          else bindR (index_items decoded exp_index) (\<lambda>ix.
            dump_items P decoded exclude_base_key data [(''_exp_'', RawIndex (dict_update [] ix))])), d1)
      else (Inl AttributeError, d))"

definition dump_data_raw :: "'db executor \<Rightarrow> pdict \<Rightarrow> bool \<Rightarrow> int \<Rightarrow> bool \<Rightarrow> 'db \<Rightarrow> raw_data result \<times> 'db" where
  "dump_data_raw exec P decoded now include_base_key d = get_all_data_raw exec P decoded now (\<not> include_base_key) d"

definition adump_data_raw :: "'db executor \<Rightarrow> pdict \<Rightarrow> bool \<Rightarrow> int \<Rightarrow> bool \<Rightarrow> 'db \<Rightarrow> raw_data result \<times> 'db" where
  "adump_data_raw exec P decoded now include_base_key d = aget_all_data_raw exec P decoded now (\<not> include_base_key) d"

section \<open>Loading\<close>

definition hexed_names :: "raw_item option \<Rightarrow> string list" where
  "hexed_names it =
     (case it of None \<Rightarrow> [] | Some (RawNames ks) \<Rightarrow> ks | Some (RawIndex ps) \<Rightarrow> map fst ps
      | Some (Raw v) \<Rightarrow> map (\<lambda>c. [c]) (text_of v))"

text \<open>A name that is missing or not hexadecimal is logged and left alone.\<close>

definition unhex_item :: "string \<Rightarrow> raw_data \<Rightarrow> raw_data" where
  "unhex_item k R =
     (case dict_get R k of
        Some (Raw v) \<Rightarrow> (case unhexlify (text_of v) of Some b \<Rightarrow> dict_set k (Raw (RStr b)) R | None \<Rightarrow> R)
      | _ \<Rightarrow> R)"

fun wire_items :: "raw_data \<Rightarrow> (string \<times> rval) list result" where
  "wire_items [] = Inr []"
| "wire_items ((k, Raw v) # R) = bindR (wire_items R) (\<lambda>r. Inr ((k, v) # r))"
| "wire_items ((k, _) # R) = Inl DataError"

text \<open>The client library refuses an empty mapping before anything is sent; the server an empty \<open>MSET\<close>.\<close>

definition client_hset :: "'db executor \<Rightarrow> string \<Rightarrow> (string \<times> rval) list \<Rightarrow> 'db \<Rightarrow> unit result \<times> 'db" where
  "client_hset exec k ps d = (if ps = [] then (Inl DataError, d) else (Inr (), after exec (HSET k ps) d))"

definition load_index :: "'db executor \<Rightarrow> pdict \<Rightarrow> raw_item option \<Rightarrow> int option \<Rightarrow> 'db \<Rightarrow> unit result \<times> 'db" where
  "load_index exec P ix ex d =
     (case ix of
        Some (RawIndex (p # ps)) \<Rightarrow> (Inr (), after exec (HSET (exp_index_key P) (map (\<lambda>(k, n). (k, RInt n)) (p # ps))) d)
      | Some (RawNames (n # ns)) \<Rightarrow> (Inl AttributeError, d)
      | Some (Raw v) \<Rightarrow> if text_of v \<noteq> [] then (Inl AttributeError, d)
          else (Inr (), case ex of None \<Rightarrow> d | Some e \<Rightarrow> after exec (EXPIRE (base P) e) d)
      | _ \<Rightarrow> (Inr (), case ex of None \<Rightarrow> d | Some e \<Rightarrow> after exec (EXPIRE (base P) e) d))"

definition load_data_raw ::
    "'db executor \<Rightarrow> pdict \<Rightarrow> bool \<Rightarrow> int option option \<Rightarrow> raw_data \<Rightarrow> 'db \<Rightarrow> unit result \<times> 'db" where
  "load_data_raw exec P includes_base_key ex_arg data d =
     (let ex = (case ex_arg of Some e \<Rightarrow> e | None \<Rightarrow> expiration P);
          hexed = hexed_names (dict_get data ''_hexed_'');
          exp_index = dict_get (dict_del ''_hexed_'' data) ''_exp_'';
          R = fold unhex_item hexed (dict_del ''_exp_'' (dict_del ''_hexed_'' data)) in
      if hset_enabled P then
        (case wire_items (if includes_base_key then dict_update [] (map (\<lambda>(k, v). (strip_base P k, v)) R) else R) of
           Inl e \<Rightarrow> (Inl e, d)
         | Inr ps \<Rightarrow> (case client_hset exec (base P) ps d of
               (Inl e, d1) \<Rightarrow> (Inl e, d1)
             | (Inr u, d1) \<Rightarrow> load_index exec P exp_index ex d1))
      else
        (case wire_items (if includes_base_key then R else dict_update [] (map (\<lambda>(k, v). (get_key P k, v)) R)) of
           Inl e \<Rightarrow> (Inl e, d)
         | Inr ps \<Rightarrow> if ps = [] then (Inl (OtherError ''ResponseError''), d) else (Inr (), after exec (MSET ps) d)))"

definition aload_data_raw ::
    "'db executor \<Rightarrow> pdict \<Rightarrow> bool \<Rightarrow> int option option \<Rightarrow> raw_data \<Rightarrow> 'db \<Rightarrow> unit result \<times> 'db" where
  "aload_data_raw exec P includes_base_key ex_arg data d =
     (let ex = (case ex_arg of Some e \<Rightarrow> e | None \<Rightarrow> expiration P);
          hexed = hexed_names (dict_get data ''_hexed_'');
          exp_index = dict_get (dict_del ''_hexed_'' data) ''_exp_'';
          R = fold unhex_item hexed (dict_del ''_exp_'' (dict_del ''_hexed_'' data)) in
      if hset_enabled P then
        (case wire_items (if includes_base_key then dict_update [] (map (\<lambda>(k, v). (strip_base P k, v)) R) else R) of
           Inl e \<Rightarrow> (Inl e, d)
         | Inr ps \<Rightarrow> (case client_hset exec (base P) ps d of
               (Inl e, d1) \<Rightarrow> (Inl e, d1)
             | (Inr u, d1) \<Rightarrow> load_index exec P exp_index ex d1))
      else
        (case wire_items (if includes_base_key then R else dict_update [] (map (\<lambda>(k, v). (get_key P k, v)) R)) of
           Inl e \<Rightarrow> (Inl e, d)
         | Inr ps \<Rightarrow> if ps = [] then (Inl (OtherError ''ResponseError''), d) else (Inr (), after exec (MSET ps) d)))"

section \<open>Replication and migration\<close>

text \<open>\<open>sx\<close> runs the commands of the other session, \<open>tx\<close> those of the dictionary.\<close>

definition replicate_from :: "'w executor \<Rightarrow> 'w executor \<Rightarrow> pdict \<Rightarrow> 'w \<Rightarrow> unit result \<times> 'w" where
  "replicate_from sx tx P w =
     (if hset_enabled P then
        let data = pairs_of (reply_of sx (HGETALL (base P)) w);
            exp_index = pairs_of (reply_of sx (HGETALL (exp_index_key P)) w) in
        if data = [] then (Inr (), w)
        else let w1 = after tx (HSET (base P) data) w in
          (Inr (), if exp_index = [] then w1 else after tx (HSET (exp_index_key P) exp_index) w1)
      else
        let keys = names_of (reply_of sx (KEYS (key_pattern P)) w);
            data = multi_of (reply_of sx (MGET keys) w) in
        if data = [] then (Inr (), w) else (Inl AttributeError, w))"

definition areplicate_from :: "'w executor \<Rightarrow> 'w executor \<Rightarrow> pdict \<Rightarrow> 'w \<Rightarrow> unit result \<times> 'w" where
  "areplicate_from sx tx P w =
     (if hset_enabled P then
        let data = pairs_of (reply_of sx (HGETALL (base P)) w);
            exp_index = pairs_of (reply_of sx (HGETALL (exp_index_key P)) w) in
        if data = [] then (Inr (), w)
        else let w1 = after tx (HSET (base P) data) w in
          (Inr (), if exp_index = [] then w1 else after tx (HSET (exp_index_key P) exp_index) w1)
      else
        let keys = names_of (reply_of sx (KEYS (key_pattern P)) w);
            data = multi_of (reply_of sx (MGET keys) w) in
        if data = [] then (Inr (), w) else (Inl AttributeError, w))"

text \<open>The serializer by its name, if there is one; \<open>dec\<close> decodes with the map of the schema and raises, \<open>enc\<close> encodes.\<close>

fun migrate_items :: "(rval \<Rightarrow> pyval result) \<Rightarrow> (pyval \<Rightarrow> rval) \<Rightarrow> (string \<times> rval) list \<Rightarrow> (string \<times> rval) list result" where
  "migrate_items dec enc [] = Inr []"
| "migrate_items dec enc ((k, v) # kvs) =
     bindR (dec v) (\<lambda>x. bindR (migrate_items dec enc kvs) (\<lambda>r. Inr ((k, enc x) # r)))"

definition migrate_schema ::
    "'db executor \<Rightarrow> pdict \<Rightarrow> string option \<Rightarrow> (rval \<Rightarrow> pyval result) \<Rightarrow> (pyval \<Rightarrow> rval) \<Rightarrow> int \<Rightarrow> 'db \<Rightarrow>
     (string \<times> rval) list result \<times> 'db" where
  "migrate_schema exec P serializer_name dec enc now d =
     (case serializer_name of
        None \<Rightarrow> (Inl AttributeError, d)
      | Some s \<Rightarrow>
          if s \<noteq> ''json'' then (Inl ValueError, d)
          else if \<not> hset_enabled P then (Inl AttributeError, d)
          else let d1 = run_expiration_check exec P now [] d in
            (case migrate_items dec enc (pairs_of (reply_of exec (HGETALL (base P)) d1)) of
               Inl e \<Rightarrow> (Inl e, d1)
             | Inr results \<Rightarrow> (case client_hset exec (base P) results d1 of
                   (Inl e, d2) \<Rightarrow> (Inl e, d2) | (Inr u, d2) \<Rightarrow> (Inr results, d2))))"

definition amigrate_schema ::
    "'db executor \<Rightarrow> pdict \<Rightarrow> string option \<Rightarrow> (rval \<Rightarrow> pyval result) \<Rightarrow> (pyval \<Rightarrow> rval) \<Rightarrow> int \<Rightarrow> 'db \<Rightarrow>
     (string \<times> rval) list result \<times> 'db" where
  "amigrate_schema exec P serializer_name dec enc now d =
     (case serializer_name of
        None \<Rightarrow> (Inl AttributeError, d)
      | Some s \<Rightarrow>
          if s \<noteq> ''json'' then (Inl ValueError, d)
          else if \<not> hset_enabled P then (Inl AttributeError, d)
          else let d1 = run_expiration_check exec P now [] d in
            (case migrate_items dec enc (pairs_of (reply_of exec (HGETALL (base P)) d1)) of
               Inl e \<Rightarrow> (Inl e, d1)
             | Inr results \<Rightarrow> (case client_hset exec (base P) results d1 of
                   (Inl e, d2) \<Rightarrow> (Inl e, d2) | (Inr u, d2) \<Rightarrow> (Inr results, d2))))"

section \<open>Cloning\<close>

record clone_opts =
  co_overwrite :: "bool option"
  co_excluded :: "string list"
  co_filter :: "(string \<Rightarrow> string \<Rightarrow> bool) option"
  co_hset_key :: "(string \<Rightarrow> string) option"
  co_raise_errors :: bool

record clone_stats =
  cs_completed :: nat
  cs_errors :: nat
  cs_skipped :: nat
  cs_keys :: "string list"
  cs_hkeys :: "string list"
  cs_skipped_hkeys :: "string list"

definition no_stats :: clone_stats where
  "no_stats = \<lparr>cs_completed = 0, cs_errors = 0, cs_skipped = 0, cs_keys = [], cs_hkeys = [], cs_skipped_hkeys = []\<rparr>"

definition left_out :: "clone_opts \<Rightarrow> string \<Rightarrow> string \<Rightarrow> bool" where
  "left_out Q k t \<longleftrightarrow> k \<in> set (co_excluded Q) \<or> (case co_filter Q of None \<Rightarrow> False | Some f \<Rightarrow> f k t)"

text \<open>The fields of a hash one by one. A field that is there already is recognised before it gets its new name.\<close>

fun copy_fields ::
    "clone_opts \<Rightarrow> (rval \<Rightarrow> rval result) \<Rightarrow> string \<Rightarrow> string list \<Rightarrow> (string \<times> rval) list \<Rightarrow> (string \<times> rval) list \<Rightarrow> clone_stats \<Rightarrow>
     ((string \<times> rval) list \<times> clone_stats) result" where
  "copy_fields Q conv to_key old [] results S = Inr (results, S)"
| "copy_fields Q conv to_key old ((k, v) # kvs) results S =
     (if left_out Q k ''hash_item'' \<or> k \<in> set old
      then copy_fields Q conv to_key old kvs results (S\<lparr>cs_skipped_hkeys := cs_skipped_hkeys S @ [to_key @ '':'' @ k]\<rparr>)
      else let k' = (case co_hset_key Q of None \<Rightarrow> k | Some f \<Rightarrow> f k) in
        case conv v of
          Inl e \<Rightarrow> if co_raise_errors Q then Inl e
                   else copy_fields Q conv to_key old kvs results (S\<lparr>cs_errors := cs_errors S + 1\<rparr>)
        | Inr w \<Rightarrow> copy_fields Q conv to_key old kvs (dict_set k' w results)
                     (S\<lparr>cs_hkeys := cs_hkeys S @ [to_key @ '':'' @ k']\<rparr>))"

text \<open>\<open>migrate\<close>: decoding with the schema and encoding, when the schema can be migrated. A hash is copied field by field
  when it must be migrated, when the target has fields or when there is something to apply to them; else as a
  whole, and then the excluded names do not count.\<close>

definition clone_hash ::
    "'w executor \<Rightarrow> 'w executor \<Rightarrow> clone_opts \<Rightarrow> (rval \<Rightarrow> rval result) option \<Rightarrow> string \<Rightarrow> string \<Rightarrow> clone_stats \<Rightarrow> 'w \<Rightarrow>
     clone_stats result \<times> 'w" where
  "clone_hash sx tx Q migrate key to_key S w =
     (let old = (if co_overwrite Q = Some True then [] else names_of (reply_of tx (HKEYS to_key) w));
          data = pairs_of (reply_of sx (HGETALL key) w);
          conv = (case migrate of Some f \<Rightarrow> if str_in ''_exp_:'' key then Inr else f | None \<Rightarrow> Inr) in
      if (migrate \<noteq> None \<and> \<not> str_in ''_exp_:'' key) \<or> old \<noteq> [] \<or> co_filter Q \<noteq> None \<or> co_hset_key Q \<noteq> None
      then (case copy_fields Q conv to_key old data [] S of
              Inl e \<Rightarrow> (Inl e, w)
            | Inr (results, S1) \<Rightarrow> (Inr S1, if results = [] then w else after tx (HSET to_key results) w))
      else (case client_hset tx to_key data w of
              (Inl e, w1) \<Rightarrow> (Inl e, w1)
            | (Inr u, w1) \<Rightarrow> (Inr (S\<lparr>cs_hkeys := cs_hkeys S @ map (\<lambda>(k, v). to_key @ '':'' @ k) data\<rparr>), w1)))"

text \<open>What a key of the source comes to: it is skipped, fails before it is complete, raises or is complete.\<close>

datatype copied = Skipped | Failed | Raised error | Copied clone_stats

definition clone_string ::
    "'w executor \<Rightarrow> 'w executor \<Rightarrow> clone_opts \<Rightarrow> (rval \<Rightarrow> rval result) option \<Rightarrow> string list \<Rightarrow> string \<Rightarrow> string \<Rightarrow>
     clone_stats \<Rightarrow> 'w \<Rightarrow> copied \<times> 'w" where
  "clone_string sx tx Q migrate existing key to_key S w =
     (if to_key \<in> set existing then (Skipped, w)
      else case bulk_of (reply_of sx (GET key) w) of
        None \<Rightarrow> (Raised DataError, w)
      | Some v \<Rightarrow>
          if migrate \<noteq> None \<and> \<not> str_in ''_exp_:'' key
          then (case (the migrate) v of
                  Inl e \<Rightarrow> (if co_raise_errors Q then Raised e else Failed, w)
                | Inr x \<Rightarrow> (Copied S, after tx (SET to_key x) w))
          else (Copied S, after tx (SET to_key v) w))"

text \<open>Members of sets and lists are passed as one argument, which the client refuses; those of sorted sets, which have at least
  one, with the member where a mapping is expected.\<close>

definition clone_typed ::
    "'w executor \<Rightarrow> 'w executor \<Rightarrow> clone_opts \<Rightarrow> (rval \<Rightarrow> rval result) option \<Rightarrow> string list \<Rightarrow> string \<Rightarrow> string \<Rightarrow> string \<Rightarrow>
     clone_stats \<Rightarrow> 'w \<Rightarrow> copied \<times> 'w" where
  "clone_typed sx tx Q migrate existing key_type key to_key S w =
     (if key_type = ''string'' then clone_string sx tx Q migrate existing key to_key S w
      else if key_type = ''hash'' then
        (case clone_hash sx tx Q migrate key to_key S w of
           (Inl e, w1) \<Rightarrow> (Raised e, w1) | (Inr S1, w1) \<Rightarrow> (Copied S1, w1))
      else if key_type \<in> {''set'', ''list'', ''zset''} then
        (if key \<in> set existing then (Skipped, w)
         else (Raised (if key_type = ''zset'' then AttributeError else DataError), w))
      else (Copied S, w))"

definition clone_key ::
    "'w executor \<Rightarrow> 'w executor \<Rightarrow> clone_opts \<Rightarrow> (rval \<Rightarrow> rval result) option \<Rightarrow> string \<Rightarrow> string \<Rightarrow> string list \<Rightarrow> string \<Rightarrow>
     clone_stats \<Rightarrow> 'w \<Rightarrow> clone_stats result \<times> 'w" where
  "clone_key sx tx Q migrate from_base to_base existing key S w =
     (let key_type = (case bulk_of (reply_of sx (KEYTYPE key) w) of Some (RStr t) \<Rightarrow> t | _ \<Rightarrow> ''none'');
          to_key = (if from_base \<noteq> to_base then str_replace key from_base to_base else key);
          skip = S\<lparr>cs_skipped := cs_skipped S + 1\<rparr>;
          fail = S\<lparr>cs_errors := cs_errors S + 1\<rparr> in
      if left_out Q key key_type \<or> left_out Q to_key key_type then (Inr skip, w)
      else case clone_typed sx tx Q migrate existing key_type key to_key S w of
        (Skipped, w1) \<Rightarrow> (Inr skip, w1)
      | (Failed, w1) \<Rightarrow> (Inr fail, w1)
      | (Raised e, w1) \<Rightarrow> (if co_raise_errors Q then Inl e else Inr fail, w1)
      | (Copied S1, w1) \<Rightarrow> (Inr (S1\<lparr>cs_completed := cs_completed S1 + 1, cs_keys := cs_keys S1 @ [key]\<rparr>), w1))"

fun clone_keys ::
    "'w executor \<Rightarrow> 'w executor \<Rightarrow> clone_opts \<Rightarrow> (rval \<Rightarrow> rval result) option \<Rightarrow> string \<Rightarrow> string \<Rightarrow> string list \<Rightarrow> string list \<Rightarrow>
     clone_stats \<Rightarrow> 'w \<Rightarrow> clone_stats result \<times> 'w" where
  "clone_keys sx tx Q migrate from_base to_base existing [] S w = (Inr S, w)"
| "clone_keys sx tx Q migrate from_base to_base existing (k # ks) S w =
     (case clone_key sx tx Q migrate from_base to_base existing k S w of
        (Inl e, w1) \<Rightarrow> (Inl e, w1)
      | (Inr S1, w1) \<Rightarrow> clone_keys sx tx Q migrate from_base to_base existing ks S1 w1)"

definition star_keys :: "'w executor \<Rightarrow> string \<Rightarrow> 'w \<Rightarrow> string list" where
  "star_keys ex p w = names_of (reply_of ex (KEYS (p @ ''*'')) w)"

definition clone_run ::
    "'w executor \<Rightarrow> 'w executor \<Rightarrow> clone_opts \<Rightarrow> string option \<Rightarrow> (rval \<Rightarrow> rval result) option \<Rightarrow> string \<Rightarrow> string \<Rightarrow>
     string list \<Rightarrow> 'w \<Rightarrow> clone_stats result \<times> 'w" where
  "clone_run sx tx Q serializer_name schema from_base to_base from_keys w =
     (let existing = (if co_overwrite Q = Some False
                      then star_keys tx to_base w @ star_keys tx (''_exp_:'' @ to_base) w else []) in
      if schema \<noteq> None \<and> serializer_name = None then (Inl AttributeError, w)
      else clone_keys sx tx Q (if serializer_name = Some ''json'' then schema else None) from_base to_base existing from_keys no_stats w)"

definition aclone ::
    "'w executor \<Rightarrow> 'w executor \<Rightarrow> clone_opts \<Rightarrow> string option \<Rightarrow> (rval \<Rightarrow> rval result) option \<Rightarrow> string \<Rightarrow> string \<Rightarrow> 'w \<Rightarrow>
     clone_stats option result \<times> 'w" where
  "aclone source target Q serializer_name schema source_base target_base w =
     (let keys = star_keys source source_base w in
      if keys = [] then (Inr None, w)
      else let (r, w1) = clone_run source target Q serializer_name schema source_base target_base
             (keys @ star_keys source (''_exp_:'' @ source_base) w) w in
        (bindR r (\<lambda>S. Inr (Some S)), w1))"

definition aclone_from ::
    "'w executor \<Rightarrow> 'w executor \<Rightarrow> clone_opts \<Rightarrow> string option \<Rightarrow> (rval \<Rightarrow> rval result) option \<Rightarrow> string \<Rightarrow> string \<Rightarrow> 'w \<Rightarrow>
     clone_stats option result \<times> 'w" where
  "aclone_from source target Q serializer_name schema source_base target_base w =
     (let keys = star_keys target target_base w in
      if keys = [] then (Inr None, w)
      else let (r, w1) = clone_run target source Q serializer_name schema target_base source_base
             (keys @ star_keys target (''_exp_:'' @ target_base) w) w in
        (bindR r (\<lambda>S. Inr (Some S)), w1))"

end
