(* ===== verification/Copy_Laws.thy ===== *)
theory Copy_Laws
  imports Persistence_Copy
begin

text \<open>
  What the copies of persistent dictionaries give back: a dump that is loaded again, and a clone.
\<close>

section \<open>Hexadecimal\<close>

lemma hex_digit_val [simp]: "n < 16 \<Longrightarrow> hex_value (hex_digit n) = Some n"
  by (auto simp: hex_value_def hex_digit_def Let_def)

lemma unhexlify_hex [simp]: "unhexlify (bytes_hex s) = Some s"
proof (induction s)
  case (Cons c s)
  have "(of_char c :: nat) < 256" by simp
  then have "(of_char c :: nat) div 16 < 16" by linarith
  then show ?case using Cons by simp
qed simp

section \<open>Dumps\<close>

text \<open>What a dump holds of an entry, and which names it lists as hexadecimal.\<close>

definition dumped :: "rval \<Rightarrow> rval" where
  "dumped v = (if valid_text v then v else RStr (bytes_hex (text_of v)))"

definition hexed_of :: "pdict \<Rightarrow> bool \<Rightarrow> (string \<times> rval) list \<Rightarrow> string list" where
  "hexed_of P excl kvs = map (\<lambda>(k, v). raw_name P excl k) (filter (\<lambda>(k, v). \<not> valid_text v) kvs)"

definition names_entry :: "string list \<Rightarrow> string list \<Rightarrow> raw_item option" where
  "names_entry old new = (if old @ new = [] then None else Some (RawNames (old @ new)))"

definition old_names :: "raw_data \<Rightarrow> string list option" where
  "old_names R = (case dict_get R ''_hexed_'' of None \<Rightarrow> Some [] | Some (RawNames (k # ks)) \<Rightarrow> Some (k # ks) | _ \<Rightarrow> None)"

lemma add_hexed_old:
  assumes "old_names R = Some ks"
  shows "\<exists>R1. add_hexed k R = Inr R1 \<and> (\<forall>n. n \<noteq> ''_hexed_'' \<longrightarrow> dict_get R1 n = dict_get R n) \<and>
    old_names R1 = Some (ks @ [k]) \<and> (wf_dict R \<longrightarrow> wf_dict R1)"
proof -
  have "add_hexed k R = Inr (dict_set ''_hexed_'' (RawNames (ks @ [k])) R)"
    using assms by (auto simp: old_names_def add_hexed_def split: option.splits raw_item.splits list.splits)
  moreover have "old_names (dict_set ''_hexed_'' (RawNames (ks @ [k])) R) = Some (ks @ [k])"
    by (cases ks) (simp_all add: old_names_def)
  ultimately show ?thesis by simp
qed

lemma old_names_get: "old_names R = Some ks \<Longrightarrow> dict_get R ''_hexed_'' = names_entry ks []"
  by (auto simp: old_names_def names_entry_def split: option.splits raw_item.splits list.splits)

lemma old_names_set: "n \<noteq> ''_hexed_'' \<Longrightarrow> old_names (dict_set n v R) = old_names R"
  by (simp add: old_names_def)

lemma dump_items_spec:
  assumes "\<forall>(k, v)\<in>set kvs. utf8_valid k \<and> raw_name P excl k \<noteq> ''_hexed_'' \<and> (decoded \<longrightarrow> valid_text v)"
    and "old_names R = Some ks" and "wf_dict R"
  shows "\<exists>R1. dump_items P decoded excl kvs R = Inr R1 \<and> wf_dict R1 \<and> old_names R1 = Some (ks @ hexed_of P excl kvs) \<and>
    (\<forall>n. n \<noteq> ''_hexed_'' \<longrightarrow> dict_get R1 n =
      dict_get (dict_update R (map (\<lambda>(k, v). (raw_name P excl k, Raw (dumped v))) kvs)) n)"
  using assms
proof (induction kvs arbitrary: R ks)
  case Nil
  then show ?case by (auto simp: hexed_of_def)
next
  case (Cons kv kvs)
  obtain k v where kv: "kv = (k, v)" by force
  let ?n = "raw_name P excl k"
  have n: "?n \<noteq> ''_hexed_''" "utf8_valid k" "decoded \<longrightarrow> valid_text v" using Cons.prems(1) kv by auto
  have rest: "\<forall>(k, v)\<in>set kvs. utf8_valid k \<and> raw_name P excl k \<noteq> ''_hexed_'' \<and> (decoded \<longrightarrow> valid_text v)"
    using Cons.prems(1) by simp
  have upd: "(\<forall>n. n \<noteq> ''_hexed_'' \<longrightarrow> dict_get A n = dict_get B n) \<Longrightarrow>
      (\<forall>n. n \<noteq> ''_hexed_'' \<longrightarrow> dict_get (dict_update A e) n = dict_get (dict_update B e) n)" for A B and e :: raw_data
    by (induction e arbitrary: A B) (auto split: if_splits)
  show ?case
  proof (cases "valid_text v")
    case True
    obtain R1 where R1: "dump_items P decoded excl kvs (dict_set ?n (Raw v) R) = Inr R1" "wf_dict R1"
      "old_names R1 = Some (ks @ hexed_of P excl kvs)"
      "\<forall>n. n \<noteq> ''_hexed_'' \<longrightarrow> dict_get R1 n =
        dict_get (dict_update (dict_set ?n (Raw v) R) (map (\<lambda>(k, v). (raw_name P excl k, Raw (dumped v))) kvs)) n"
      using Cons.IH[OF rest, of "dict_set ?n (Raw v) R" ks] Cons.prems(2,3) n(1) by (auto simp: old_names_set)
    then show ?thesis using True n kv by (simp add: dumped_def hexed_of_def)
  next
    case False
    obtain R0 where R0: "add_hexed ?n R = Inr R0" "\<forall>n. n \<noteq> ''_hexed_'' \<longrightarrow> dict_get R0 n = dict_get R n"
      "old_names R0 = Some (ks @ [?n])" "wf_dict R0"
      using add_hexed_old[OF Cons.prems(2), of ?n] Cons.prems(3) by auto
    let ?x = "Raw (RStr (bytes_hex (text_of v)))"
    obtain R1 where R1: "dump_items P decoded excl kvs (dict_set ?n ?x R0) = Inr R1" "wf_dict R1"
      "old_names R1 = Some ((ks @ [?n]) @ hexed_of P excl kvs)"
      "\<forall>n. n \<noteq> ''_hexed_'' \<longrightarrow> dict_get R1 n =
        dict_get (dict_update (dict_set ?n ?x R0) (map (\<lambda>(k, v). (raw_name P excl k, Raw (dumped v))) kvs)) n"
      using Cons.IH[OF rest, of "dict_set ?n ?x R0" "ks @ [?n]"] R0 n(1) by (auto simp: old_names_set)
    have "\<forall>n. n \<noteq> ''_hexed_'' \<longrightarrow> dict_get (dict_set ?n ?x R0) n = dict_get (dict_set ?n ?x R) n"
      using R0(2) by simp
    from upd[OF this] show ?thesis using False n kv R0 R1 by (simp add: dumped_def hexed_of_def)
  qed
qed

section \<open>Loading\<close>

lemma unhex_wf [simp]: "wf_dict R \<Longrightarrow> wf_dict (fold unhex_item ns R)"
  by (induction ns arbitrary: R) (auto simp: unhex_item_def split: option.splits raw_item.splits)

lemma unhex_all:
  assumes "distinct ns" "\<forall>n\<in>set ns. dict_get R n = Some (Raw (RStr (bytes_hex (f n))))"
  shows "dict_get (fold unhex_item ns R) m = (if m \<in> set ns then Some (Raw (RStr (f m))) else dict_get R m)"
  using assms
proof (induction ns arbitrary: R)
  case (Cons n ns)
  have u: "unhex_item n R = dict_set n (Raw (RStr (f n))) R"
    using Cons.prems(2) by (simp add: unhex_item_def text_of_def)
  have "dict_get (fold unhex_item ns (unhex_item n R)) m =
      (if m \<in> set ns then Some (Raw (RStr (f m))) else dict_get (unhex_item n R) m)"
    by (rule Cons.IH) (use Cons.prems u in auto)
  then show ?case using u by auto
qed simp

lemma wire_items_spec:
  assumes "\<forall>(k, it)\<in>set R. \<exists>v. it = Raw v"
  shows "\<exists>ps. wire_items R = Inr ps \<and> map (\<lambda>(k, v). (k, Raw v)) ps = R"
  using assms by (induction R rule: wire_items.induct) auto

lemma map_of_wf: "wf_dict d \<Longrightarrow> dict_get d k = Some v \<longleftrightarrow> (k, v) \<in> set d"
  by (simp add: wf_dict_def dict_get_def)

lemma dict_get_renamed:
  assumes "wf_dict U" "inj_on g (fst ` set U)"
  shows "dict_get (dict_update [] (map (\<lambda>(k, v). (g k, v)) U)) m = Some v \<longleftrightarrow> (\<exists>n. g n = m \<and> dict_get U n = Some v)"
proof -
  have "distinct (map fst (map (\<lambda>(k, v). (g k, v)) U))"
    using assms by (simp add: wf_dict_def distinct_map comp_inj_on case_prod_unfold o_def inj_on_def)
  then have wf: "wf_dict (map (\<lambda>(k, v). (g k, v)) U)" by (simp only: wf_dict_def)
  have "dict_get (dict_update [] (map (\<lambda>(k, v). (g k, v)) U)) m = dict_get (map (\<lambda>(k, v). (g k, v)) U) m"
    by (simp add: dict_get_update[OF wf] dict_get_def[of "[]"] split: option.splits)
  then show ?thesis by (auto simp: map_of_wf[OF wf] map_of_wf[OF assms(1)])
qed

text \<open>The name an entry has in a dump gives its key back.\<close>

definition raw_back :: "pdict \<Rightarrow> bool \<Rightarrow> string \<Rightarrow> string" where
  "raw_back P excl n = (if excl then n else strip_base P n)"

lemma raw_back_name:
  assumes "opt_truthy (base_key P)" "\<not> str_in (base P) k"
  shows "raw_back P excl (raw_name P excl k) = k"
proof -
  have b: "base P \<noteq> []" using assms(1) by (auto simp: base_def split: option.splits)
  have no: "\<not> str_in (base P @ keyjoin P) k" using assms(2) by (metis append.assoc str_in_iff)
  show ?thesis
    using b no assms str_replace_prefix[of "base P @ keyjoin P" k] replace_from_absent[OF no]
    by (simp add: raw_back_def raw_name_def strip_base_def get_key_def str_replace_def)
qed

section \<open>A dump that is loaded\<close>

definition index_name :: "bool \<Rightarrow> string \<Rightarrow> string" where
  "index_name decoded k = (if decoded then k else bytes_repr k)"

lemma index_items_spec:
  assumes "\<forall>(k, v)\<in>set kvs. (\<exists>n. v = RInt n) \<and> (decoded \<longrightarrow> utf8_valid k)"
  shows "\<exists>ix. index_items decoded kvs = Inr ix \<and>
    map (\<lambda>(k, n). (k, RInt n)) ix = map (\<lambda>(k, v). (index_name decoded k, v)) kvs"
  using assms by (induction decoded kvs rule: index_items.induct) (auto simp: index_name_def)

text \<open>An entry of a dump.\<close>

definition dumpable :: "pdict \<Rightarrow> bool \<Rightarrow> bool \<Rightarrow> (string \<Rightarrow> rval option) \<Rightarrow> bool" where
  "dumpable P decoded excl h \<longleftrightarrow>
     (\<forall>k v. h k = Some v \<longrightarrow> utf8_valid k \<and> \<not> str_in (base P) k \<and>
        raw_name P excl k \<notin> {''_hexed_'', ''_exp_''} \<and> (decoded \<longrightarrow> valid_text v))"

text \<open>What a dictionary of dumped values holds, one item for each entry.\<close>

definition has_items :: "raw_data \<Rightarrow> (string \<times> rval) list \<Rightarrow> (string \<Rightarrow> string) \<Rightarrow> (rval \<Rightarrow> rval) \<Rightarrow> bool" where
  "has_items R kvs nm f \<longleftrightarrow> (\<forall>n x. dict_get R n = Some x \<longleftrightarrow> (\<exists>k v. (k, v) \<in> set kvs \<and> n = nm k \<and> x = Raw (f v)))"

lemma inj_names:
  assumes "\<And>k v. (k, v) \<in> set kvs \<Longrightarrow> bk (nm k) = k"
  shows "inj_on nm (fst ` set kvs)"
  by (rule inj_on_inverseI[of _ bk]) (auto simp: assms)

lemma names_avoid:
  assumes "\<And>k v. (k, v) \<in> set kvs \<Longrightarrow> nm k \<noteq> s"
  shows "dict_get (map (\<lambda>(k, v). (nm k, f v)) kvs) s = None"
proof -
  have "s \<notin> nm ` fst ` set kvs"
  proof
    assume "s \<in> nm ` fst ` set kvs"
    then obtain kv where kv: "kv \<in> set kvs" "s = nm (fst kv)" unfolding image_image by (rule imageE)
    have "(fst kv, snd kv) \<in> set kvs" using kv(1) by simp
    from assms[OF this] kv(2) show False by metis
  qed
  then show ?thesis by (simp add: dict_get_def map_of_eq_None_iff image_image case_prod_unfold)
qed

lemma dumped_items:
  assumes d: "distinct (map fst kvs)" and bk: "\<And>k v. (k, v) \<in> set kvs \<Longrightarrow> bk (nm k) = k"
    and avoid: "\<And>k v. (k, v) \<in> set kvs \<Longrightarrow> nm k \<noteq> ''_exp_''" "\<And>k v. (k, v) \<in> set kvs \<Longrightarrow> nm k \<noteq> ''_hexed_''"
    and R0: "R0 = [] \<or> (\<exists>ix. R0 = [(''_exp_'', ix)])"
    and R: "\<And>n. n \<noteq> ''_hexed_'' \<Longrightarrow> dict_get R n = dict_get (dict_update R0 (map (\<lambda>(k, v). (nm k, Raw (dumped v))) kvs)) n"
  shows "has_items (dict_del ''_exp_'' (dict_del ''_hexed_'' R)) kvs nm dumped"
    and "dict_get (dict_del ''_hexed_'' R) ''_exp_'' = dict_get R0 ''_exp_''"
proof -
  let ?M = "map (\<lambda>(k, v). (nm k, Raw (dumped v))) kvs" and ?D = "dict_del ''_exp_'' (dict_del ''_hexed_'' R)"
  have "distinct (map fst ?M)"
    using d inj_names[of kvs bk nm, OF bk] by (simp add: distinct_map o_def case_prod_unfold inj_on_def)
  then have wfM: "wf_dict ?M" by (simp only: wf_dict_def)
  have none: "dict_get ?M ''_exp_'' = None" "dict_get ?M ''_hexed_'' = None"
    by (rule names_avoid[of kvs nm], rule avoid, assumption)+
  show "dict_get (dict_del ''_hexed_'' R) ''_exp_'' = dict_get R0 ''_exp_''"
    using R[of "''_exp_''"] none by (simp add: dict_get_update[OF wfM])
  have "dict_get ?D n = dict_get ?M n" for n
  proof (cases "n = ''_exp_'' \<or> n = ''_hexed_''")
    case True
    then have "dict_get ?D n = None" by auto
    moreover have "dict_get ?M n = None" using True none by blast
    ultimately show ?thesis by simp
  next
    case False
    then have "dict_get R0 n = None" using R0 by (auto simp: dict_get_def)
    then show ?thesis using False R[of n] by (simp add: dict_get_update[OF wfM] split: option.splits)
  qed
  then show "has_items ?D kvs nm dumped" by (auto simp: has_items_def map_of_wf[OF wfM])
qed

lemma unhexed_items:
  assumes d: "distinct (map fst kvs)" and bk: "\<And>k v. (k, v) \<in> set kvs \<Longrightarrow> bk (nm k) = k"
    and D: "has_items D kvs nm dumped" and hx: "hx = map (\<lambda>(k, v). nm k) (filter (\<lambda>(k, v). \<not> valid_text v) kvs)"
  shows "has_items (fold unhex_item hx D) kvs nm (\<lambda>v. v)"
proof -
  let ?f = "\<lambda>n. text_of (the (map_of kvs (bk n)))"
  have mem: "(k, v) \<in> set kvs \<longleftrightarrow> map_of kvs k = Some v" for k v using d by simp
  have hexed: "n \<in> set hx \<longleftrightarrow> (\<exists>k v. (k, v) \<in> set kvs \<and> n = nm k \<and> \<not> valid_text v)" for n
    by (auto simp: hx image_iff split: prod.splits)
  have f: "?f (nm k) = text_of v" if "(k, v) \<in> set kvs" for k v using bk[OF that] that mem by force
  have "distinct hx" using d inj_names[of kvs bk nm, OF bk] by (auto simp: hx distinct_map inj_on_def case_prod_unfold)
  moreover have "\<forall>n\<in>set hx. dict_get D n = Some (Raw (RStr (bytes_hex (?f n))))"
  proof
    fix n assume "n \<in> set hx"
    then obtain k v where "(k, v) \<in> set kvs" "n = nm k" "\<not> valid_text v" using hexed by blast
    then show "dict_get D n = Some (Raw (RStr (bytes_hex (?f n))))" using D f by (auto simp: has_items_def dumped_def)
  qed
  ultimately have g: "dict_get (fold unhex_item hx D) n = (if n \<in> set hx then Some (Raw (RStr (?f n))) else dict_get D n)" for n
    by (rule unhex_all)
  have str: "\<not> valid_text v \<Longrightarrow> RStr (text_of v) = v" for v by (cases v) (auto simp: valid_text_def text_of_def)
  have one: "k = k'" if "(k, v) \<in> set kvs" "(k', v') \<in> set kvs" "nm k = nm k'" for k v k' v'
    using bk[OF that(1)] bk[OF that(2)] that(3) by metis
  have "dict_get (fold unhex_item hx D) n = Some x \<longleftrightarrow> (\<exists>k v. (k, v) \<in> set kvs \<and> n = nm k \<and> x = Raw v)" for n x
  proof (cases "n \<in> set hx")
    case True
    then obtain k v where kv: "(k, v) \<in> set kvs" "n = nm k" "\<not> valid_text v" using hexed by blast
    have v: "v' = v" if "(k', v') \<in> set kvs" "n = nm k'" for k' v' using one[OF kv(1) that(1)] kv that mem by force
    have gv: "dict_get (fold unhex_item hx D) n = Some (Raw v)" using g True f[OF kv(1)] str[OF kv(3)] kv(2) by simp
    show ?thesis unfolding gv option.inject using kv(1,2) v by blast
  next
    case False
    have "dumped v = v" if "(k, v) \<in> set kvs" "n = nm k" for k v using False hexed that by (auto simp: dumped_def)
    moreover have "dict_get (fold unhex_item hx D) n = Some x \<longleftrightarrow> (\<exists>k v. (k, v) \<in> set kvs \<and> n = nm k \<and> x = Raw (dumped v))"
      using False g D by (simp add: has_items_def)
    ultimately show ?thesis by (metis (no_types, lifting))
  qed
  then show ?thesis by (simp add: has_items_def)
qed

lemma renamed_items:
  assumes bk: "\<And>k v. (k, v) \<in> set kvs \<Longrightarrow> bk (nm k) = k" and U: "wf_dict U" "has_items U kvs nm f"
  shows "has_items (dict_update [] (map (\<lambda>(n, v). (bk n, v)) U)) kvs (\<lambda>k. k) f"
proof -
  have key: "\<exists>k v. (k, v) \<in> set kvs \<and> n = nm k" if "n \<in> fst ` set U" for n
  proof -
    from that obtain y where "(n, y) \<in> set U" by auto
    then have "dict_get U n = Some y" using map_of_wf[OF U(1)] by blast
    then show ?thesis using U(2) unfolding has_items_def by blast
  qed
  have "inj_on bk (fst ` set U)"
  proof (rule inj_onI)
    fix m n assume a: "m \<in> fst ` set U" "n \<in> fst ` set U" "bk m = bk n"
    obtain k v k' v' where kv: "(k, v) \<in> set kvs" "m = nm k" "(k', v') \<in> set kvs" "n = nm k'"
      using key[OF a(1)] key[OF a(2)] by blast
    have "k = k'" using a(3) bk[OF kv(1)] bk[OF kv(3)] by (simp add: kv(2,4))
    then show "m = n" using kv(2,4) by simp
  qed
  note eq = dict_get_renamed[OF U(1) this]
  have "(\<exists>n. bk n = m \<and> dict_get U n = Some x) \<longleftrightarrow> (\<exists>k v. (k, v) \<in> set kvs \<and> m = k \<and> x = Raw (f v))" for m x
    using U(2) bk unfolding has_items_def by metis
  then show ?thesis unfolding has_items_def eq by blast
qed

lemma wire_back:
  assumes "wf_dict E" "has_items E kvs (\<lambda>k. k) (\<lambda>v. v)" "distinct (map fst kvs)"
  shows "\<exists>ps. wire_items E = Inr ps \<and> distinct (map fst ps) \<and> map_of ps = map_of kvs"
proof -
  have in_E: "(k, x) \<in> set E \<longleftrightarrow> (\<exists>v. (k, v) \<in> set kvs \<and> x = Raw v)" for k x
    using assms(2) map_of_wf[OF assms(1)] unfolding has_items_def by metis
  then have "\<forall>(k, it)\<in>set E. \<exists>v. it = Raw v" by blast
  then obtain ps where ps: "wire_items E = Inr ps" "map (\<lambda>(k, v). (k, Raw v)) ps = E" using wire_items_spec by blast
  have "map fst ps = map fst E" by (simp add: o_def case_prod_unfold flip: ps(2))
  then have d: "distinct (map fst ps)" using assms(1) by (simp add: wf_dict_def)
  have "(k, v) \<in> set ps \<longleftrightarrow> (k, v) \<in> set kvs" for k v
  proof -
    have "(k, v) \<in> set ps \<longleftrightarrow> (k, Raw v) \<in> set E" by (subst ps(2)[symmetric]) force
    then show ?thesis using in_E by simp
  qed
  then have "map_of ps k = Some v \<longleftrightarrow> map_of kvs k = Some v" for k v using d assms(3) by simp
  then show ?thesis using ps(1) d by (metis ext not_Some_eq)
qed

lemma dump_and_restore:
  assumes kvs: "distinct (map fst kvs)" "map_of kvs = h" and ok: "dumpable P decoded excl h" "opt_truthy (base_key P)"
    and R0: "R0 = [] \<or> (\<exists>ix. R0 = [(''_exp_'', ix)])"
  shows "\<exists>R. dump_items P decoded excl kvs R0 = Inr R \<and>
    dict_get (dict_del ''_hexed_'' R) ''_exp_'' = dict_get R0 ''_exp_'' \<and>
    (let U = fold unhex_item (hexed_names (dict_get R ''_hexed_'')) (dict_del ''_exp_'' (dict_del ''_hexed_'' R));
         E = (if excl then U else dict_update [] (map (\<lambda>(k, v). (strip_base P k, v)) U)) in
     \<exists>ps. wire_items E = Inr ps \<and> distinct (map fst ps) \<and> map_of ps = h)"
proof -
  let ?raw = "raw_name P excl"
  have mem: "(k, v) \<in> set kvs \<longleftrightarrow> h k = Some v" for k v using kvs by (metis map_of_eq_Some_iff)
  have ent: "utf8_valid k" "\<not> str_in (base P) k" "?raw k \<noteq> ''_hexed_''" "?raw k \<noteq> ''_exp_''" "decoded \<longrightarrow> valid_text v"
    if "(k, v) \<in> set kvs" for k v using ok(1) that by (auto simp: dumpable_def mem)
  have bk: "raw_back P excl (?raw k) = k" if "(k, v) \<in> set kvs" for k v
    by (rule raw_back_name[OF ok(2) ent(2)[OF that]])
  have old: "old_names R0 = Some []" "wf_dict R0" using R0 by (auto simp: old_names_def wf_dict_def dict_get_def)
  have "\<forall>(k, v)\<in>set kvs. utf8_valid k \<and> ?raw k \<noteq> ''_hexed_'' \<and> (decoded \<longrightarrow> valid_text v)" using ent by blast
  from dump_items_spec[OF this old] obtain R where R: "dump_items P decoded excl kvs R0 = Inr R" "wf_dict R"
    "old_names R = Some (hexed_of P excl kvs)"
    "\<And>n. n \<noteq> ''_hexed_'' \<Longrightarrow> dict_get R n = dict_get (dict_update R0 (map (\<lambda>(k, v). (?raw k, Raw (dumped v))) kvs)) n" by auto
  note D = dumped_items[OF kvs(1) bk ent(4) ent(3) R0 R(4)]
  define U where "U = fold unhex_item (hexed_of P excl kvs) (dict_del ''_exp_'' (dict_del ''_hexed_'' R))"
  have U: "wf_dict U" "has_items U kvs ?raw (\<lambda>v. v)"
    using R(2) unhexed_items[OF kvs(1) bk D(1) hexed_of_def] by (simp_all add: U_def)
  define E where "E = (if excl then U else dict_update [] (map (\<lambda>(k, v). (strip_base P k, v)) U))"
  have E: "has_items E kvs (\<lambda>k. k) (\<lambda>v. v)"
  proof (cases excl)
    case True
    then have "?raw k = k" if "(k, v) \<in> set kvs" for k v using bk[OF that] by (simp add: raw_back_def)
    then have "(\<exists>k v. (k, v) \<in> set kvs \<and> n = ?raw k \<and> x = Raw v) \<longleftrightarrow> (\<exists>k v. (k, v) \<in> set kvs \<and> n = k \<and> x = Raw v)" for n x
      by metis
    moreover have "E = U" using True by (simp add: E_def)
    ultimately show ?thesis using U(2) by (simp add: has_items_def)
  next
    case False
    have sb: "raw_back P excl = strip_base P" using False by (simp add: raw_back_def fun_eq_iff)
    show ?thesis using False renamed_items[OF bk U, unfolded sb] by (simp add: E_def)
  qed
  have "wf_dict E" using U(1) wf_dict_update[of "[]"] by (simp add: E_def wf_dict_def[of "[]"])
  from wire_back[OF this E kvs(1)] kvs(2)
  obtain ps where "wire_items E = Inr ps" "distinct (map fst ps)" "map_of ps = h" by blast
  moreover have "hexed_names (dict_get R ''_hexed_'') = hexed_of P excl kvs"
    using old_names_get[OF R(3)] by (auto simp: hexed_names_def names_entry_def)
  ultimately show ?thesis using R(1) D(2) by (auto simp: Let_def U_def E_def)
qed

context redis_hashes
begin

lemma holds_expire: "holds view P d h x \<Longrightarrow> 0 < e \<Longrightarrow> holds view P (after exec (EXPIRE (base P) e) d) h x"
  by (cases "view d (base P)" rule: as_hash.cases) (simp_all add: holds_def expire_effect write_frame)

lemma hgetall_pairs:
  assumes "as_hash (view d k) = Some h"
  shows "distinct (map fst (pairs_of (reply_of exec (HGETALL k) d)))" "map_of (pairs_of (reply_of exec (HGETALL k) d)) = h"
  using hgetall_reply[OF assms] by (auto simp: pairs_of_def)

lemma load_index_spec:
  assumes h: "holds view P d h x" and ex: "\<And>e. ex = Some e \<Longrightarrow> 0 < e"
  shows "\<exists>d2. load_index exec P (if ix = [] then None else Some (RawIndex ix)) ex d = (Inr (), d2) \<and>
    holds view P d2 h (hset_all (map (\<lambda>(k, n). (k, RInt n)) ix) x)"
proof (cases ix)
  case Nil
  then show ?thesis using h holds_expire[OF h ex] by (auto simp: load_index_def split: option.splits)
next
  case (Cons p ps)
  then show ?thesis using holds_hset_index[OF h, of "map (\<lambda>(k, n). (k, RInt n)) (p # ps)"] by (simp add: load_index_def)
qed

lemma dump_then_load:
  assumes P: "hset_enabled P" "opt_truthy (base_key P)" and d: "holds view P d h x" and d': "holds view P d' h' x'"
    and ok: "dumpable P decoded excl (live now h x)" "live now h x \<noteq> Map.empty"
    and ix: "\<forall>k v. x k = Some v \<longrightarrow> (\<exists>n. v = RInt n) \<and> (decoded \<longrightarrow> utf8_valid k)"
    and ex: "\<forall>e. (case ex_arg of Some e \<Rightarrow> e | None \<Rightarrow> expiration P) = Some e \<longrightarrow> 0 < e"
  shows "\<exists>R d1 d2 y. get_all_data_raw exec P decoded now excl d = (Inr R, d1) \<and>
    load_data_raw exec P (\<not> excl) ex_arg R d' = (Inr (), d2) \<and>
    distinct (map fst y) \<and> map_of y = (\<lambda>k. if expired (x k) now then None else x k) \<and>
    holds view P d2 (h' ++ live now h x) (hset_all (dict_update [] (map (\<lambda>(k, v). (index_name decoded k, v)) y)) x')"
proof -
  define d1 where "d1 = run_expiration_check exec P now [] d"
  define xs where "xs = (\<lambda>k. if expired (x k) now then None else x k)"
  have "holds view P d1 (live now h x) xs" unfolding d1_def xs_def by (rule run_expiration_spec[OF d])
  then have hs: "as_hash (view d1 (base P)) = Some (live now h x)" "as_hash (view d1 (exp_index_key P)) = Some xs"
    by (simp_all add: holds_def)
  define kvs where "kvs = pairs_of (reply_of exec (HGETALL (base P)) d1)"
  define y where "y = pairs_of (reply_of exec (HGETALL (exp_index_key P)) d1)"
  note kvs = hgetall_pairs[OF hs(1), folded kvs_def] and y = hgetall_pairs[OF hs(2), folded y_def]
  have "\<forall>(k, v)\<in>set y. (\<exists>n. v = RInt n) \<and> (decoded \<longrightarrow> utf8_valid k)"
  proof (clarify)
    fix k v assume "(k, v) \<in> set y"
    then have "xs k = Some v" using y by (metis map_of_eq_Some_iff)
    then show "(\<exists>n. v = RInt n) \<and> (decoded \<longrightarrow> utf8_valid k)" using ix by (auto simp: xs_def split: if_splits)
  qed
  then obtain ix where ixs: "index_items decoded y = Inr ix" 
    "map (\<lambda>(k, n). (k, RInt n)) ix = map (\<lambda>(k, v). (index_name decoded k, v)) y" using index_items_spec by blast
  define R0 where "R0 = (if y = [] then [] else [(''_exp_'', RawIndex (dict_update [] ix))])"
  have "R0 = [] \<or> (\<exists>ix. R0 = [(''_exp_'', ix)])" by (simp add: R0_def)
  from dump_and_restore[OF kvs ok(1) P(2) this] obtain R ps where R: "dump_items P decoded excl kvs R0 = Inr R"
    "dict_get (dict_del ''_hexed_'' R) ''_exp_'' = dict_get R0 ''_exp_''"
    "wire_items (let U = fold unhex_item (hexed_names (dict_get R ''_hexed_'')) (dict_del ''_exp_'' (dict_del ''_hexed_'' R)) in
       if excl then U else dict_update [] (map (\<lambda>(k, v). (strip_base P k, v)) U)) = Inr ps"
    "distinct (map fst ps)" "map_of ps = live now h x" by (auto simp: Let_def)
  have g: "get_all_data_raw exec P decoded now excl d = (Inr R, d1)"
    using P(1) R(1) ixs(1) by (simp add: get_all_data_raw_def Let_def R0_def kvs_def y_def d1_def split: if_splits)
  have "ps \<noteq> []" using R(5) ok(2) by auto
  moreover have "holds view P (after exec (HSET (base P) ps) d') (h' ++ live now h x) x'"
    using holds_hset_base[OF d', of ps] hset_all_distinct[OF R(4), of h'] R(5) by simp
  ultimately have c: "client_hset exec (base P) ps d' = (Inr (), after exec (HSET (base P) ps) d')"
    "holds view P (after exec (HSET (base P) ps) d') (h' ++ live now h x) x'" by (simp_all add: client_hset_def)
  let ?ix = "dict_update [] ix"
  have e: "dict_get R0 ''_exp_'' = (if ?ix = [] then None else Some (RawIndex ?ix))"
  proof -
    have "fst ` set ?ix = fst ` set ix" by simp
    then have "?ix = [] \<longleftrightarrow> ix = []" by (metis image_is_empty set_empty)
    moreover have "ix = [] \<longleftrightarrow> y = []" using ixs(2) by auto
    ultimately show ?thesis by (simp add: R0_def dict_get_def)
  qed
  obtain d2 where d2: "load_index exec P (dict_get R0 ''_exp_'') (case ex_arg of Some e \<Rightarrow> e | None \<Rightarrow> expiration P)
       (after exec (HSET (base P) ps) d') = (Inr (), d2)"
    "holds view P d2 (h' ++ live now h x) (hset_all (map (\<lambda>(k, n). (k, RInt n)) ?ix) x')"
    using load_index_spec[OF c(2), of "case ex_arg of Some e \<Rightarrow> e | None \<Rightarrow> expiration P" ?ix] ex e by auto
  have upd: "map (\<lambda>(k, n). (k, RInt n)) (dict_update a b) = dict_update (map (\<lambda>(k, n). (k, RInt n)) a) (map (\<lambda>(k, n). (k, RInt n)) b)" for a b
  proof (induction a b rule: dict_update.induct)
    case (2 a k v b)
    have "map (\<lambda>(k, n). (k, RInt n)) (dict_set k v a) = dict_set k (RInt v) (map (\<lambda>(k, n). (k, RInt n)) a)"
      unfolding dict_set_def by (induction a) auto
    then show ?case using 2 by simp
  qed simp
  have "load_data_raw exec P (\<not> excl) ex_arg R d' = (Inr (), d2)"
    using P(1) R(2,3) c(1) d2(1) by (auto simp: load_data_raw_def Let_def split: if_splits)
  then show ?thesis using g y d2(2) upd[of "[]" ix] ixs(2) by (auto simp: xs_def)
qed

end

section \<open>Properties of dumps\<close>

lemma hset_all_update:
  assumes "distinct (map fst y)"
  shows "hset_all (dict_update [] y) x = x ++ map_of y"
proof -
  have "wf_dict (dict_update [] y)" by (rule wf_dict_update) (simp add: wf_dict_def)
  moreover have "map_of (dict_update [] y) = map_of y"
    using dict_get_update[of y "[]"] assms by (auto simp: fun_eq_iff wf_dict_def dict_get_def split: option.splits)
  ultimately show ?thesis by (simp add: hset_all_distinct wf_dict_def)
qed


definition ex_dumped :: mdb where
  "ex_dumped = [(''app'', MHash [(''k'', RStr ''v''), (''n'', RInt 3)]), (''_exp_:app'', MHash [(''k'', RInt 50)])]"


end
