(* ===== verification/Clone_Laws.thy ===== *)
theory Clone_Laws
  imports Persistence_Copy
begin

text \<open>
  What cloning a persistent dictionary does to the target: two databases of any two servers that obey the laws,
  as the two components of the world.
\<close>

definition left_exec :: "'db executor \<Rightarrow> ('db \<times> 'c) executor" where
  "left_exec exec c w = (reply_of exec c (fst w), after exec c (fst w), snd w)"

definition right_exec :: "'db executor \<Rightarrow> ('c \<times> 'db) executor" where
  "right_exec exec c w = (reply_of exec c (snd w), fst w, after exec c (snd w))"

lemma sided_exec [simp]:
  "reply_of (left_exec exec) c w = reply_of exec c (fst w)" "reply_of (right_exec exec) c w = reply_of exec c (snd w)"
  "after (right_exec exec) c w = (fst w, after exec c (snd w))"
  by (simp_all add: reply_of_def after_def left_exec_def right_exec_def)

definition plain_opts :: "clone_opts \<Rightarrow> bool" where
  "plain_opts Q \<longleftrightarrow> co_excluded Q = [] \<and> co_filter Q = None \<and> co_hset_key Q = None"

lemma plain_opts_keep [simp]: "plain_opts Q \<Longrightarrow> \<not> left_out Q k t"
  by (simp add: plain_opts_def left_out_def)

text \<open>Two hashes into one: what is in the target already wins unless it is to be overwritten.\<close>

definition merged :: "clone_opts \<Rightarrow> (string \<Rightarrow> rval option) \<Rightarrow> (string \<Rightarrow> rval option) \<Rightarrow> (string \<Rightarrow> rval option)" where
  "merged Q old new = (if co_overwrite Q = Some True then old ++ new else new ++ old)"

definition same_counts :: "clone_stats \<Rightarrow> clone_stats \<Rightarrow> bool" where
  "same_counts S T \<longleftrightarrow> cs_completed T = cs_completed S \<and> cs_errors T = cs_errors S \<and> cs_skipped T = cs_skipped S"

lemma copy_fields_plain:
  assumes "plain_opts Q" "distinct (map fst kvs)" "fst ` set results \<inter> fst ` set kvs = {}"
  shows "\<exists>T. copy_fields Q Inr to_key old kvs results S = Inr (results @ filter (\<lambda>(k, v). k \<notin> set old) kvs, T) \<and> same_counts S T"
  using assms
proof (induction kvs arbitrary: results S)
  case (Cons kv kvs)
  obtain k v where kv: "kv = (k, v)" by force
  have d: "distinct (map fst kvs)" using Cons.prems(2) by simp
  show ?case
  proof (cases "k \<in> set old")
    case True
    have "fst ` set results \<inter> fst ` set kvs = {}" using Cons.prems(3) by auto
    from Cons.IH[OF Cons.prems(1) d this, of "S\<lparr>cs_skipped_hkeys := cs_skipped_hkeys S @ [to_key @ '':'' @ k]\<rparr>"]
    show ?thesis using True kv by (auto simp: same_counts_def)
  next
    case False
    have new: "dict_set k v results = results @ [(k, v)]" using Cons.prems(3) kv by (intro dict_set_new) auto
    have "fst ` set (results @ [(k, v)]) \<inter> fst ` set kvs = {}" using Cons.prems(2,3) kv by auto
    from Cons.IH[OF Cons.prems(1) d this, of "S\<lparr>cs_hkeys := cs_hkeys S @ [to_key @ '':'' @ k]\<rparr>"]
    show ?thesis using False kv new Cons.prems(1) by (auto simp: same_counts_def plain_opts_def left_out_def)
  qed
qed (simp add: same_counts_def)

context redis_types
begin

lemma clone_hash_merges:
  assumes Q: "plain_opts Q" and s: "view s key = Some (Redis_Server.OHash hs)" "hs \<noteq> Map.empty"
    and t: "as_hash (view t to_key) = Some ht"
  shows "\<exists>T u. clone_hash (left_exec exec) (right_exec exec) Q None key to_key S (s, t) = (Inr T, (s, u)) \<and> same_counts S T \<and>
    as_hash (view u to_key) = Some (merged Q ht hs) \<and> (\<forall>k. k \<noteq> to_key \<longrightarrow> view u k = view t k)"
proof -
  obtain data where data: "reply_of exec (HGETALL key) s = Pairs data" "distinct (map fst data)" "map_of data = hs"
    using hgetall_reply[of s key hs] s(1) by auto
  obtain fs where fs: "reply_of exec (HKEYS to_key) t = Strs fs" "set fs = dom ht" using hkeys_reply[OF t] by blast
  define old where "old = (if co_overwrite Q = Some True then [] else fs)"
  have ne: "data \<noteq> []" using data(3) s(2) by auto
  have wr: "as_hash (view (after exec (HSET to_key ps) t) to_key) = Some (ht ++ map_of ps)"
    "\<forall>k. k \<noteq> to_key \<longrightarrow> view (after exec (HSET to_key ps) t) k = view t k" if "distinct (map fst ps)" for ps
    using hset_effect[OF t] hset_all_distinct[OF that] by (simp_all add: write_frame)
  show ?thesis
  proof (cases "old = []")
    case True
    have "fs = [] \<Longrightarrow> ht = Map.empty" using fs(2) by (metis dom_eq_empty_conv list.set(1))
    then have "merged Q ht hs = ht ++ hs" using True by (auto simp: merged_def old_def split: if_splits)
    then show ?thesis using True Q data fs(1) ne wr[OF data(2)]
      by (auto simp: clone_hash_def plain_opts_def Let_def pairs_of_def names_of_def client_hset_def same_counts_def old_def split: if_splits)
  next
    case False
    then have ov: "co_overwrite Q \<noteq> Some True" and old: "old = fs" by (auto simp: old_def split: if_splits)
    let ?new = "filter (\<lambda>(k, v). k \<notin> set old) data"
    have dn: "distinct (map fst ?new)" using data(2) by (simp add: distinct_map_filter)
    have "map_of ?new k = (if k \<in> dom ht then None else hs k)" for k
      using data(2,3) fs(2) old by (auto simp: map_of_filter_in dict_get_filter_key[unfolded dict_get_def] simp flip: data(3)
        intro!: map_of_filter_in)
    then have m: "ht ++ map_of ?new = merged Q ht hs"
      using ov by (auto simp: merged_def fun_eq_iff map_add_def split: option.splits)
    obtain T where T: "copy_fields Q Inr to_key old data [] S = Inr (?new, T)" "same_counts S T"
      using copy_fields_plain[OF Q data(2), of "[]" to_key old S] by auto
    show ?thesis
    proof (cases "?new = []")
      case True
      then have "merged Q ht hs = ht" using m by simp
      then show ?thesis using True False Q T data fs(1) t ov old
        by (auto simp: clone_hash_def Let_def pairs_of_def names_of_def)
    next
      case new: False
      then show ?thesis using False Q T data fs(1) ov old wr[OF dn] m
        by (auto simp: clone_hash_def Let_def pairs_of_def names_of_def)
    qed
  qed
qed

end

text \<open>The key a key of the source is copied to, and the keys that are copied.\<close>

definition to_key :: "string \<Rightarrow> string \<Rightarrow> string \<Rightarrow> string" where
  "to_key from_base to_base key = (if from_base \<noteq> to_base then str_replace key from_base to_base else key)"

definition cloned_keys :: "('db \<Rightarrow> string \<Rightarrow> robj option) \<Rightarrow> string \<Rightarrow> 'db \<Rightarrow> string set" where
  "cloned_keys view b s = {k. view s k \<noteq> None \<and> (starts_with b k \<or> starts_with (''_exp_:'' @ b) k)}"

definition hash_at :: "('db \<Rightarrow> string \<Rightarrow> robj option) \<Rightarrow> 'db \<Rightarrow> string \<Rightarrow> string \<Rightarrow> rval option" where
  "hash_at view d k = the (as_hash (view d k))"

context redis_types
begin

lemma clone_key_merges:
  assumes Q: "plain_opts Q" and s: "view s key = Some (Redis_Server.OHash hs)" "hs \<noteq> Map.empty"
    and t: "as_hash (view t (to_key fb tb key)) = Some ht"
  shows "\<exists>T u. clone_key (left_exec exec) (right_exec exec) Q None fb tb existing key S (s, t) = (Inr T, (s, u)) \<and>
    cs_completed T = cs_completed S + 1 \<and> cs_errors T = cs_errors S \<and> cs_skipped T = cs_skipped S \<and>
    as_hash (view u (to_key fb tb key)) = Some (merged Q ht hs) \<and> (\<forall>k. k \<noteq> to_key fb tb key \<longrightarrow> view u k = view t k)"
proof -
  obtain T u where T: "clone_hash (left_exec exec) (right_exec exec) Q None key (to_key fb tb key) S (s, t) = (Inr T, (s, u))"
    "same_counts S T" "as_hash (view u (to_key fb tb key)) = Some (merged Q ht hs)"
    "\<forall>k. k \<noteq> to_key fb tb key \<longrightarrow> view u k = view t k"
    using clone_hash_merges[OF assms] by blast
  have ty: "bulk_of (reply_of exec (KEYTYPE key) s) = Some (RStr ''hash'')" by (simp add: type_reply s(1) bulk_of_def)
  show ?thesis
    using T Q ty by (simp add: clone_key_def clone_typed_def Let_def same_counts_def flip: to_key_def)
qed

lemma clone_keys_merge:
  assumes Q: "plain_opts Q" and ks: "distinct ks" "inj_on (to_key fb tb) (set ks)"
    and s: "\<forall>k\<in>set ks. \<exists>h. view s k = Some (Redis_Server.OHash h) \<and> h \<noteq> Map.empty"
    and t: "\<forall>k\<in>set ks. as_hash (view t (to_key fb tb k)) \<noteq> None"
  shows "\<exists>T u. clone_keys (left_exec exec) (right_exec exec) Q None fb tb existing ks S (s, t) = (Inr T, (s, u)) \<and>
    cs_completed T = cs_completed S + length ks \<and> cs_errors T = cs_errors S \<and> cs_skipped T = cs_skipped S \<and>
    (\<forall>k\<in>set ks. as_hash (view u (to_key fb tb k)) = Some (merged Q (hash_at view t (to_key fb tb k)) (hash_at view s k))) \<and>
    (\<forall>k. k \<notin> to_key fb tb ` set ks \<longrightarrow> view u k = view t k)"
  using ks s t
proof (induction ks arbitrary: S t)
  case (Cons key ks)
  let ?to = "to_key fb tb"
  obtain hs ht where h: "view s key = Some (Redis_Server.OHash hs)" "hs \<noteq> Map.empty" "as_hash (view t (?to key)) = Some ht"
    using Cons.prems(3,4) by force
  obtain T u where T: "clone_key (left_exec exec) (right_exec exec) Q None fb tb existing key S (s, t) = (Inr T, (s, u))"
    "cs_completed T = cs_completed S + 1" "cs_errors T = cs_errors S" "cs_skipped T = cs_skipped S"
    "as_hash (view u (?to key)) = Some (merged Q ht hs)" "\<forall>k. k \<noteq> ?to key \<longrightarrow> view u k = view t k"
    using clone_key_merges[OF Q h] by blast
  have other: "?to k \<noteq> ?to key" if "k \<in> set ks" for k using Cons.prems(1,2) that by (auto simp: inj_on_def)
  have pre: "distinct ks" "inj_on ?to (set ks)" "\<forall>k\<in>set ks. \<exists>h. view s k = Some (Redis_Server.OHash h) \<and> h \<noteq> Map.empty"
    "\<forall>k\<in>set ks. as_hash (view u (?to k)) \<noteq> None"
    using Cons.prems other T(6) by (auto simp: inj_on_def)
  obtain T2 u2 where T2: "clone_keys (left_exec exec) (right_exec exec) Q None fb tb existing ks T (s, u) = (Inr T2, (s, u2))"
    "cs_completed T2 = cs_completed T + length ks" "cs_errors T2 = cs_errors T" "cs_skipped T2 = cs_skipped T"
    "\<forall>k\<in>set ks. as_hash (view u2 (?to k)) = Some (merged Q (hash_at view u (?to k)) (hash_at view s k))"
    "\<forall>k. k \<notin> ?to ` set ks \<longrightarrow> view u2 k = view u k"
    using Cons.IH[OF pre] by blast
  have "\<forall>k\<in>set (key # ks). as_hash (view u2 (?to k)) = Some (merged Q (hash_at view t (?to k)) (hash_at view s k))"
  proof
    fix k assume k: "k \<in> set (key # ks)"
    show "as_hash (view u2 (?to k)) = Some (merged Q (hash_at view t (?to k)) (hash_at view s k))"
    proof (cases "k \<in> set ks")
      case True
      then show ?thesis using T2(5) T(6) other by (simp add: hash_at_def)
    next
      case False
      then have "k = key" "?to key \<notin> ?to ` set ks" using k other by force+
      then show ?thesis using T2(6) T(5) h by (simp add: hash_at_def)
    qed
  qed
  moreover have "\<forall>k. k \<notin> ?to ` set (key # ks) \<longrightarrow> view u2 k = view t k" using T2(6) T(6) by auto
  ultimately show ?case using T T2 by simp
qed simp

lemma star_keys_spec:
  assumes "list_all plain_char p"
  shows "distinct (names_of (reply_of exec (KEYS (p @ ''*'')) d))"
    and "set (names_of (reply_of exec (KEYS (p @ ''*'')) d)) = {k. view d k \<noteq> None \<and> starts_with p k}"
  using keys_reply[OF assms, of d] by (auto simp: names_of_def)

lemma aclone_merges:
  assumes Q: "plain_opts Q" and b: "list_all plain_char fb" "\<not> starts_with fb (''_exp_:'' @ fb)"
    and s: "\<forall>k\<in>cloned_keys view fb s. \<exists>h. view s k = Some (Redis_Server.OHash h) \<and> h \<noteq> Map.empty"
    and t: "\<forall>k\<in>cloned_keys view fb s. as_hash (view t (to_key fb tb k)) \<noteq> None"
    and inj: "inj_on (to_key fb tb) (cloned_keys view fb s)"
    and some: "k0 \<in> cloned_keys view fb s" "starts_with fb k0"
  shows "\<exists>T u. aclone (left_exec exec) (right_exec exec) Q serializer_name None fb tb (s, t) = (Inr (Some T), (s, u)) \<and>
    cs_completed T = card (cloned_keys view fb s) \<and> cs_errors T = 0 \<and> cs_skipped T = 0 \<and>
    (\<forall>k\<in>cloned_keys view fb s.
       as_hash (view u (to_key fb tb k)) = Some (merged Q (hash_at view t (to_key fb tb k)) (hash_at view s k))) \<and>
    (\<forall>k. k \<notin> to_key fb tb ` cloned_keys view fb s \<longrightarrow> view u k = view t k)"
proof -
  let ?e = "''_exp_:'' @ fb"
  have be: "list_all plain_char ?e" using b(1) by (simp add: plain_char_def)
  let ?k1 = "names_of (reply_of exec (KEYS (fb @ ''*'')) s)" and ?k2 = "names_of (reply_of exec (KEYS (?e @ ''*'')) s)"
  note k1 = star_keys_spec[OF b(1), of s] and k2 = star_keys_spec[OF be, of s]
  have keys: "set (?k1 @ ?k2) = cloned_keys view fb s" using k1(2) k2(2) by (auto simp: cloned_keys_def)
  have "False" if "starts_with fb k" "starts_with ?e k" for k
  proof -
    from that(1) obtain u where "k = fb @ u" unfolding starts_with_iff by blast
    moreover from that(2) obtain v where "k = ?e @ v" unfolding starts_with_iff by blast
    ultimately have "fb @ u = ?e @ v" by simp
    then obtain w where "?e = fb @ w \<or> fb = ?e @ w" unfolding append_eq_append_conv2 by metis
    moreover have "fb \<noteq> ?e @ w" by (auto dest: arg_cong[of _ _ length])
    ultimately show False using b(2) by (simp only: starts_with_append) simp
  qed
  then have dist: "distinct (?k1 @ ?k2)" using k1 k2 by auto
  have ne: "?k1 \<noteq> []" using k1(2) some by (auto simp: cloned_keys_def)
  have inj': "inj_on (to_key fb tb) (set (?k1 @ ?k2))" using inj keys by simp
  have st: "\<forall>k\<in>set (?k1 @ ?k2). \<exists>h. view s k = Some (Redis_Server.OHash h) \<and> h \<noteq> Map.empty"
    "\<forall>k\<in>set (?k1 @ ?k2). as_hash (view t (to_key fb tb k)) \<noteq> None" using s t keys by simp_all
  define ex where "ex = (if co_overwrite Q = Some False then star_keys (right_exec exec) tb (s, t) @
      star_keys (right_exec exec) (''_exp_:'' @ tb) (s, t) else [])"
  from clone_keys_merge[OF Q dist inj' st, of ex no_stats] obtain T u where T:
    "clone_keys (left_exec exec) (right_exec exec) Q None fb tb ex (?k1 @ ?k2) no_stats (s, t) = (Inr T, (s, u))"
    "cs_completed T = length (?k1 @ ?k2)" "cs_errors T = 0" "cs_skipped T = 0"
    "\<forall>k\<in>cloned_keys view fb s.
       as_hash (view u (to_key fb tb k)) = Some (merged Q (hash_at view t (to_key fb tb k)) (hash_at view s k))"
    "\<forall>k. k \<notin> to_key fb tb ` cloned_keys view fb s \<longrightarrow> view u k = view t k"
    unfolding keys by (auto simp: no_stats_def)
  have "length (?k1 @ ?k2) = card (cloned_keys view fb s)" using distinct_card[OF dist] keys by simp
  then show ?thesis
    using T ne by (auto simp: aclone_def clone_run_def star_keys_def Let_def ex_def split: if_splits)
qed

end

section \<open>Cloning a dictionary\<close>

text \<open>C26. Cloning copies whole dictionaries. When every key below the base key of the source, and below its
  expiration index, is a hash and no two of them get the same name, the clone completes for each without an
  error: in the target each hash has the fields of both, where those of the target win unless they are
  to be overwritten; nothing else changes in the target and nothing in the source. So a clone
  of a dictionary in hash mode has its entries together with their expiry times.\<close>

theorem clone_merges_hashes:
  assumes "redis_types exec view" and "plain_opts Q" and "list_all plain_char fb" and "\<not> starts_with fb (''_exp_:'' @ fb)"
    and "\<forall>k\<in>cloned_keys view fb s. \<exists>h. view s k = Some (Redis_Server.OHash h) \<and> h \<noteq> Map.empty"
    and "\<forall>k\<in>cloned_keys view fb s. as_hash (view t (to_key fb tb k)) \<noteq> None"
    and "inj_on (to_key fb tb) (cloned_keys view fb s)"
    and "k0 \<in> cloned_keys view fb s" and "starts_with fb k0"
  shows "\<exists>T u. aclone (left_exec exec) (right_exec exec) Q serializer_name None fb tb (s, t) = (Inr (Some T), (s, u)) \<and>
    cs_completed T = card (cloned_keys view fb s) \<and> cs_errors T = 0 \<and> cs_skipped T = 0 \<and>
    (\<forall>k\<in>cloned_keys view fb s.
       as_hash (view u (to_key fb tb k)) = Some (merged Q (hash_at view t (to_key fb tb k)) (hash_at view s k))) \<and>
    (\<forall>k. k \<notin> to_key fb tb ` cloned_keys view fb s \<longrightarrow> view u k = view t k)"
  using redis_types.aclone_merges[OF assms] .

definition ex_source :: mdb where
  "ex_source = [(''app'', MHash [(''k'', RStr ''v''), (''n'', RInt 3)]), (''_exp_:app'', MHash [(''k'', RInt 50)])]"

definition ex_target :: mdb where
  "ex_target = [(''copy'', MHash [(''k'', RStr ''old'')])]"

definition ex_opts :: clone_opts where
  "ex_opts = \<lparr>co_overwrite = None, co_excluded = [], co_filter = None, co_hset_key = None, co_raise_errors = True\<rparr>"

lemma clone_merges_hashes_witness:
  "\<exists>T u. aclone (left_exec mem_exec) (right_exec mem_exec) ex_opts None None ''app'' ''copy'' (ex_source, ex_target) =
      (Inr (Some T), (ex_source, u)) \<and> cs_completed T = 2 \<and>
    as_hash (mview u ''copy'') = Some [''n'' \<mapsto> RInt 3, ''k'' \<mapsto> RStr ''old''] \<and>
    as_hash (mview u ''_exp_:copy'') = Some [''k'' \<mapsto> RInt 50]"
proof -
  let ?K = "cloned_keys mview ''app'' ex_source"
  have K: "?K = {''app'', ''_exp_:app''}" by (auto simp: cloned_keys_def mview_def ex_source_def split: if_splits)
  have to: "to_key ''app'' ''copy'' ''app'' = ''copy''" "to_key ''app'' ''copy'' ''_exp_:app'' = ''_exp_:copy''"
    by (code_simp, code_simp)
  have s: "mview ex_source ''app'' = Some (Redis_Server.OHash [''k'' \<mapsto> RStr ''v'', ''n'' \<mapsto> RInt 3])"
    "mview ex_source ''_exp_:app'' = Some (Redis_Server.OHash [''k'' \<mapsto> RInt 50])"
    by (auto simp: mview_def ex_source_def fun_eq_iff)
  have t: "as_hash (mview ex_target ''copy'') = Some [''k'' \<mapsto> RStr ''old'']" "as_hash (mview ex_target ''_exp_:copy'') = Some Map.empty"
    by (auto simp: mview_def ex_target_def)
  have "plain_opts ex_opts" "list_all plain_char ''app''" "\<not> starts_with ''app'' (''_exp_:'' @ ''app'')"
    by (simp_all add: plain_opts_def ex_opts_def plain_char_def)
  moreover have "\<forall>k\<in>?K. \<exists>h. mview ex_source k = Some (Redis_Server.OHash h) \<and> h \<noteq> Map.empty"
    unfolding K using s by simp
  moreover have "\<forall>k\<in>?K. as_hash (mview ex_target (to_key ''app'' ''copy'' k)) \<noteq> None" unfolding K using t to by simp
  moreover have "inj_on (to_key ''app'' ''copy'') ?K" unfolding K by (simp add: to)
  moreover have "''app'' \<in> ?K" "starts_with ''app'' ''app''" by (simp_all add: K)
  ultimately obtain T u where "aclone (left_exec mem_exec) (right_exec mem_exec) ex_opts None None ''app'' ''copy'' (ex_source, ex_target) =
      (Inr (Some T), (ex_source, u))" "cs_completed T = card ?K"
    "\<forall>k\<in>?K. as_hash (mview u (to_key ''app'' ''copy'' k)) =
       Some (merged ex_opts (hash_at mview ex_target (to_key ''app'' ''copy'' k)) (hash_at mview ex_source k))"
    using clone_merges_hashes[OF mem.redis_types_axioms] by blast
  moreover have "merged ex_opts [''k'' \<mapsto> RStr ''old''] [''k'' \<mapsto> RStr ''v'', ''n'' \<mapsto> RInt 3] = [''n'' \<mapsto> RInt 3, ''k'' \<mapsto> RStr ''old'']"
    by (auto simp: merged_def ex_opts_def fun_eq_iff)
  moreover have "merged ex_opts Map.empty m = m" for m by (simp add: merged_def ex_opts_def)
  ultimately show ?thesis using s t by (auto simp: K to hash_at_def)
qed

end
