(* ===== verification/Client_Url.thy ===== *)
theory Client_Url
  imports Prelude
begin

text \<open>
  URLs of servers (\<^verbatim>\<open>types/base.py\<close>, class \<open>KVDBUrl\<close>) and the connection parameters that are read from
  them (\<open>parse_url\<close> in \<^verbatim>\<open>components/connection.py\<close>). The parser and the builder of pydantic are parameters; a
  URL is the record of the parts the parser gives. Strings are UTF-8 bytes.
\<close>

record url =
  u_scheme :: string
  u_username :: "string option"
  u_password :: "string option"
  u_host :: "string option"
  u_port :: "int option"
  u_path :: "string option"
  u_query :: "string option"
  u_fragment :: "string option"

section \<open>Numbers in text\<close>

text \<open>\<open>int(s)\<close>: white space around, a sign, digits with single underscores between them.\<close>

fun digits_ok :: "bool \<Rightarrow> string \<Rightarrow> bool" where
  "digits_ok p [] = p"
| "digits_ok p (c # cs) =
     (if is_digit c then digits_ok True cs else c = CHR ''_'' \<and> p \<and> digits_ok False cs)"

definition digits_value :: "string \<Rightarrow> int" where
  "digits_value s = foldl (\<lambda>n c. 10 * n + (int (of_char c) - 48)) 0 (filter is_digit s)"

definition py_int :: "string \<Rightarrow> int result" where
  "py_int s =
     (let t = str_strip s;
          u = (if starts_with ''-'' t \<or> starts_with ''+'' t then tl t else t) in
      if digits_ok False u then Inr ((if starts_with ''-'' t then -1 else 1) * digits_value u) else Inl ValueError)"

section \<open>The parts of a URL\<close>

definition kv_db_schemas :: "(string \<times> string) list" where
  "kv_db_schemas =
     [(''redis'', ''redis''), (''redis+unix'', ''redis''), (''redis+socket'', ''redis''), (''redis+tls'', ''redis''),
      (''rediss'', ''redis''), (''redis+sentinel'', ''redis''),
      (''dfly'', ''dragonfly''), (''dfly+unix'', ''dragonfly''), (''dfly+socket'', ''dragonfly''), (''dfly+tls'', ''dragonfly''),
      (''dflys'', ''dragonfly''), (''dragonfly'', ''dragonfly''), (''dragonflys'', ''dragonfly''),
      (''keydb'', ''keydb''), (''keydb+unix'', ''keydb''), (''keydb+socket'', ''keydb''), (''keydb+tls'', ''keydb''),
      (''keydbs'', ''keydb''), (''kdb'', ''keydb''), (''kdbs'', ''keydb''),
      (''memc'', ''memcached''), (''memcs'', ''memcached''), (''memcached'', ''memcached''), (''memcacheds'', ''memcached''),
      (''tkv'', ''tikv''), (''tkvs'', ''tikv''), (''tikv'', ''tikv''), (''tikvs'', ''tikv'')]"

definition backend :: "url \<Rightarrow> string" where
  "backend u = (case dict_get kv_db_schemas (u_scheme u) of Some b \<Rightarrow> b | None \<Rightarrow> ''redis'')"

definition db_id :: "url \<Rightarrow> int result" where
  "db_id u = (case u_path u of None \<Rightarrow> Inr 0 | Some p \<Rightarrow> py_int (tl p))"

definition auth_str :: "url \<Rightarrow> string option" where
  "auth_str u =
     (if u_username u = None \<and> u_password u = None then None
      else Some ((case u_username u of None \<Rightarrow> [] | Some n \<Rightarrow> n) @
                 (case u_password u of None \<Rightarrow> [] | Some p \<Rightarrow> '':'' @ p)))"

definition str_of_opt :: "string option \<Rightarrow> string" where
  "str_of_opt s = (case s of None \<Rightarrow> ''None'' | Some t \<Rightarrow> t)"

definition db_url :: "url \<Rightarrow> string" where
  "db_url u =
     u_scheme u @ ''://'' @
     (case auth_str u of None \<Rightarrow> [] | Some a \<Rightarrow> a @ ''@'') @
     str_of_opt (u_host u) @
     (case u_port u of None \<Rightarrow> [] | Some p \<Rightarrow> '':'' @ str_of_int p) @
     (case u_path u of None \<Rightarrow> [] | Some p \<Rightarrow> p)"

definition safe_url :: "url \<Rightarrow> string" where
  "safe_url u = (case u_password u of None \<Rightarrow> db_url u | Some p \<Rightarrow> str_replace (db_url u) p ''***'')"

definition is_tls :: "url \<Rightarrow> bool" where
  "is_tls u \<longleftrightarrow> (ends_with ''s'' (u_scheme u) \<and> u_scheme u \<noteq> ''redis'') \<or> ends_with ''tls'' (u_scheme u)"

definition is_unix :: "url \<Rightarrow> bool" where
  "is_unix u \<longleftrightarrow> ends_with ''unix'' (u_scheme u) \<or> ends_with ''socket'' (u_scheme u)"

definition url_value :: "url \<Rightarrow> string" where
  "url_value u =
     db_url u @ (case u_query u of None \<Rightarrow> [] | Some q \<Rightarrow> ''?'' @ q) @
     (case u_fragment u of None \<Rightarrow> [] | Some f \<Rightarrow> ''#'' @ f)"

definition url_repr :: "url \<Rightarrow> string" where
  "url_repr u = [CHR 0x27] @ db_url u @ [CHR 0x27]"

text \<open>\<open>build\<close> makes a URL from its parts; the path it is given has no slash in front.\<close>

definition with_db_id :: "(url \<Rightarrow> url result) \<Rightarrow> url \<Rightarrow> int \<Rightarrow> url result" where
  "with_db_id build u n =
     (if opt_truthy (u_path u)
      then bindR (db_id u) (\<lambda>d. build (u\<lparr>u_path := Some
             (if d \<noteq> 0 then dropWhile (\<lambda>c. c = CHR ''/'') (str_replace (the (u_path u)) (str_of_int d) (str_of_int n))
              else str_of_int n)\<rparr>))
      else build (u\<lparr>u_path := Some (str_of_int n)\<rparr>))"

section \<open>Connection parameters\<close>

text \<open>\<open>urllib.parse.unquote\<close> and \<open>parse_qs\<close>; what is decoded is taken to be UTF-8.\<close>

definition hex_val :: "char \<Rightarrow> nat option" where
  "hex_val c =
     (let n = of_char c :: nat in
      if 48 \<le> n \<and> n \<le> 57 then Some (n - 48) else if 97 \<le> n \<and> n \<le> 102 then Some (n - 87)
      else if 65 \<le> n \<and> n \<le> 70 then Some (n - 55) else None)"

fun unquote :: "string \<Rightarrow> string" where
  "unquote (p # a # b # s) =
     (if p = CHR ''%'' then
        (case (hex_val a, hex_val b) of
           (Some m, Some n) \<Rightarrow> char_of (16 * m + n) # unquote s
         | _ \<Rightarrow> p # unquote (a # b # s))
      else p # unquote (a # b # s))"
| "unquote s = s"

fun split_at :: "char \<Rightarrow> string \<Rightarrow> string list" where
  "split_at c [] = [[]]"
| "split_at c (x # s) = (if x = c then [] # split_at c s else (x # hd (split_at c s)) # tl (split_at c s))"

definition plus_to_space :: "string \<Rightarrow> string" where
  "plus_to_space s = map (\<lambda>c. if c = CHR ''+'' then CHR '' '' else c) s"

definition query_pair :: "string \<Rightarrow> (string \<times> string) option" where
  "query_pair piece =
     (let name = takeWhile (\<lambda>c. c \<noteq> CHR ''='') piece; rest = dropWhile (\<lambda>c. c \<noteq> CHR ''='') piece in
      case rest of
        [] \<Rightarrow> None
      | _ # value \<Rightarrow> if value = [] then None
                     else Some (unquote (plus_to_space name), unquote (plus_to_space value)))"

text \<open>The first value of every name, in the order of the names.\<close>

definition parse_qs_first :: "string option \<Rightarrow> (string \<times> string) list" where
  "parse_qs_first q =
     (case q of None \<Rightarrow> []
      | Some s \<Rightarrow> fold (\<lambda>piece d. case query_pair piece of None \<Rightarrow> d
                         | Some (k, v) \<Rightarrow> if dict_has k d then d else dict_set k v d) (split_at (CHR ''&'') s) [])"

text \<open>\<open>parsers\<close> is the table of the client library.\<close>

fun query_kwargs :: "(string \<Rightarrow> (string \<Rightarrow> pyval result) option) \<Rightarrow> (string \<times> string) list \<Rightarrow> pydict \<Rightarrow> pydict result" where
  "query_kwargs parsers [] kw = Inr kw"
| "query_kwargs parsers ((name, v) # r) kw =
     (let value = unquote v in
      case parsers name of
        None \<Rightarrow> query_kwargs parsers r (dict_set name (PStr value) kw)
      | Some parser \<Rightarrow> (case parser value of
            Inr x \<Rightarrow> query_kwargs parsers r (dict_set name x kw)
          | Inl e \<Rightarrow> Inl (if e = TypeError then ValueError else e)))"

definition set_text :: "string \<Rightarrow> string option \<Rightarrow> pydict \<Rightarrow> pydict" where
  "set_text k s kw = (if opt_truthy s then dict_set k (PStr (unquote (the s))) kw else kw)"

definition url_kwargs :: "bool \<Rightarrow> url \<Rightarrow> pydict \<Rightarrow> pydict result" where
  "url_kwargs is_async u kw =
     (let kw1 = set_text ''password'' (u_password u) (set_text ''username'' (u_username u) kw) in
      if is_unix u then
        Inr (dict_set ''connection_class''
               (PObj (if is_async then ''AsyncUnixDomainSocketConnection'' else ''UnixDomainSocketConnection''))
               (set_text ''path'' (u_path u) kw1))
      else
        let kw2 = set_text ''host'' (u_host u) kw1;
            kw3 = (case u_port u of Some p \<Rightarrow> if p \<noteq> 0 then dict_set ''port'' (PInt p) kw2 else kw2 | None \<Rightarrow> kw2) in
        bindR (db_id u) (\<lambda>d.
          let kw4 = dict_set ''db'' (PInt d) kw3 in
          Inr (if is_tls u
               then dict_set ''connection_class'' (PObj (if is_async then ''AsyncSSLConnection'' else ''SSLConnection'')) kw4
               else kw4)))"

datatype url_arg = UrlText string | UrlObject url

definition parse_url ::
    "(string \<Rightarrow> url result) \<Rightarrow> (string \<Rightarrow> (string \<Rightarrow> pyval result) option) \<Rightarrow> bool \<Rightarrow> url_arg \<Rightarrow> pydict result" where
  "parse_url parse parsers is_async a =
     bindR (case a of
              UrlObject u \<Rightarrow> Inr u
            | UrlText s \<Rightarrow> if list_ex (\<lambda>(k, b). starts_with k s) kv_db_schemas then parse s else Inl ValueError)
       (\<lambda>u. bindR (query_kwargs parsers (parse_qs_first (u_query u)) []) (url_kwargs is_async u))"

section \<open>Properties\<close>

lemma replaced_prefix:
  assumes "starts_with p (replace_from n a b s)" "b \<noteq> []" "hd b \<notin> set p"
  shows "starts_with p (drop n s)"
  using assms
proof (induction n a b s arbitrary: p rule: replace_from.induct)
  case (3 a b x cs)
  show ?case
  proof (cases p)
    case (Cons y ps)
    then have no: "\<not> starts_with a (x # cs)" using "3.prems" by (cases b) (auto split: if_splits)
    then show ?thesis using "3.prems" "3.IH"(2)[OF no, of ps] Cons by auto
  qed simp
qed simp_all

lemma str_in_skip: "str_in a (t @ r) \<Longrightarrow> c \<notin> set a \<Longrightarrow> a \<noteq> [] \<Longrightarrow> set t \<subseteq> {c} \<Longrightarrow> str_in a r"
proof (induction t)
  case (Cons x t)
  have "\<not> starts_with a (x # t @ r)" using Cons.prems by (cases a) auto
  then show ?case using Cons by simp
qed simp

lemma replaced_absent:
  assumes "c \<notin> set a" "a \<noteq> []" "set b = {c}"
  shows "\<not> str_in a (replace_from n a b s)"
  using assms
proof (induction n a b s rule: replace_from.induct)
  case (3 a b x cs)
  show ?case
  proof (cases "starts_with a (x # cs)")
    case True
    then show ?thesis using str_in_skip[of a b _ c] "3.prems" "3.IH"(1)[OF True "3.prems"] by auto
  next
    case False
    obtain b' where b: "b = c # b'" using "3.prems"(3) by (cases b) auto
    have "\<not> starts_with a (x # replace_from 0 a b cs)"
    proof
      assume "starts_with a (x # replace_from 0 a b cs)"
      then obtain a' where a: "a = x # a'" "starts_with a' (replace_from 0 a b cs)" using "3.prems"(2) by (cases a) auto
      then have "starts_with a' cs" using replaced_prefix[of a' 0 a b cs] "3.prems"(1) by (simp add: b)
      then show False using False a(1) by simp
    qed
    then show ?thesis using False "3.IH"(2)[OF False "3.prems"] by simp
  qed
qed simp_all


definition ex_url :: url where
  "ex_url = \<lparr>u_scheme = ''redis'', u_username = Some ''me'', u_password = Some ''s3'', u_host = Some ''s3host'', u_port = Some 6379,
     u_path = Some ''/1'', u_query = Some ''db=3'', u_fragment = None\<rparr>"


subsection \<open>The database\<close>

lemma is_digit_digit [simp]: "n < 10 \<Longrightarrow> is_digit (char_of (48 + n :: nat))"
  by (simp add: is_digit_def)

lemma nat_digits_are_digits: "list_all is_digit (nat_digits n)"
proof (induction n rule: nat_digits.induct)
  case (1 n)
  then show ?case by (cases "n < 10") (simp_all add: nat_digits.simps[of n])
qed

lemma digits_ok_all: "list_all is_digit s \<Longrightarrow> s \<noteq> [] \<or> p \<Longrightarrow> digits_ok p s"
  by (induction s arbitrary: p) auto

lemma digits_value_digits: "digits_value (nat_digits n) = int n"
proof (induction n rule: nat_digits.induct)
  case (1 n)
  show ?case
  proof (cases "n < 10")
    case True
    then show ?thesis by (simp add: nat_digits.simps[of n] digits_value_def)
  next
    case False
    have "digits_value (nat_digits n) = 10 * digits_value (nat_digits (n div 10)) + int (n mod 10)"
      using False by (simp add: nat_digits.simps[of n] digits_value_def)
    then show ?thesis using "1.IH"[OF False] by presburger
  qed
qed

lemma py_int_digits: "py_int (nat_digits n) = Inr (int n)"
proof -
  have dig: "\<And>c. c \<in> set (nat_digits n) \<Longrightarrow> is_digit c" using nat_digits_are_digits[of n] by (simp add: list_all_iff)
  have sp: "is_digit c \<Longrightarrow> \<not> is_space c" for c by (auto simp: is_digit_def is_space_def)
  have strip: "str_strip (nat_digits n) = nat_digits n"
    unfolding str_strip_def using dig sp nat_digits_nonempty[of n]
    by (metis dropWhile_eq_self_iff hd_in_set last_in_set hd_rev rev_is_Nil_conv rev_rev_ident set_rev)
  obtain c s where c: "nat_digits n = c # s" using nat_digits_nonempty[of n] by (cases "nat_digits n") auto
  have "is_digit c" using dig c by simp
  then have "c \<noteq> CHR ''-''" "c \<noteq> CHR ''+''" by (auto simp: is_digit_def)
  then have "\<not> starts_with ''-'' (nat_digits n)" "\<not> starts_with ''+'' (nat_digits n)" by (simp_all add: c)
  moreover have "digits_ok False (nat_digits n)" by (rule digits_ok_all[OF nat_digits_are_digits]) simp
  ultimately show ?thesis by (simp add: py_int_def strip digits_value_digits Let_def)
qed

lemma replace_digits: "n \<noteq> 0 \<Longrightarrow> str_replace (''/'' @ nat_digits n) (nat_digits n) t = ''/'' @ t"
proof -
  obtain c s where c: "nat_digits n = c # s" using nat_digits_nonempty[of n] by (cases "nat_digits n") auto
  have "is_digit c" using nat_digits_are_digits[of n] c by simp
  then have "c \<noteq> CHR ''/''" by (auto simp: is_digit_def)
  moreover have "starts_with (c # s) (c # s)" using starts_with_append[of "c # s" "[]"] by simp
  moreover have "replace_from (length s) (c # s) t s = []" using replace_from_skip[of s "length s" "c # s" t "[]"] by simp
  ultimately show ?thesis using c by (simp add: str_replace_def)
qed

lemma drop_slash_digits: "dropWhile (\<lambda>c. c = CHR ''/'') (nat_digits n) = nat_digits n"
proof -
  obtain c s where c: "nat_digits n = c # s" using nat_digits_nonempty[of n] by (cases "nat_digits n") auto
  have "is_digit c" using nat_digits_are_digits[of n] c by simp
  then show ?thesis by (auto simp: c is_digit_def)
qed

text \<open>Choosing a database changes the database of a URL and nothing else, for every URL without a path or whose path is a
  number, when the builder keeps the parts and puts a slash before the path. A path that is no number,
  as after a trailing slash or for a socket, makes it fail with a ValueError, as asking for the
  database does.\<close>

theorem with_db_id_selects:
  assumes "\<And>v. build v = Inr (v\<lparr>u_path := map_option (\<lambda>p. ''/'' @ p) (u_path v)\<rparr>)"
  shows "(u_path u = None \<or> u_path u = Some (''/'' @ nat_digits d) \<longrightarrow>
      (\<exists>v. with_db_id build u (int n) = Inr v \<and> db_id v = Inr (int n) \<and> v\<lparr>u_path := u_path u\<rparr> = u)) \<and>
    (\<forall>p. u_path u = Some p \<and> p \<noteq> [] \<and> py_int (tl p) = Inl ValueError \<longrightarrow>
      db_id u = Inl ValueError \<and> with_db_id build u m = Inl ValueError)"
proof (intro conjI impI)
  let ?v = "u\<lparr>u_path := Some (''/'' @ nat_digits n)\<rparr>"
  have v: "db_id ?v = Inr (int n)" "?v\<lparr>u_path := u_path u\<rparr> = u" by (simp_all add: db_id_def py_int_digits)
  assume "u_path u = None \<or> u_path u = Some (''/'' @ nat_digits d)"
  moreover have "with_db_id build u (int n) = Inr ?v" if "u_path u = None"
    using that assms by (simp add: with_db_id_def str_of_int_def)
  moreover have "with_db_id build u (int n) = Inr ?v" if p: "u_path u = Some (''/'' @ nat_digits d)"
  proof -
    have "db_id u = Inr (int d)" using p by (simp add: db_id_def py_int_digits)
    then show ?thesis
      using p assms replace_digits[of d "nat_digits n"] by (simp add: with_db_id_def str_of_int_def drop_slash_digits)
  qed
  ultimately show "\<exists>v. with_db_id build u (int n) = Inr v \<and> db_id v = Inr (int n) \<and> v\<lparr>u_path := u_path u\<rparr> = u"
    using v by blast
qed (auto simp: with_db_id_def db_id_def)

definition ex_build :: "url \<Rightarrow> url result" where
  "ex_build v = Inr (v\<lparr>u_path := map_option (\<lambda>p. ''/'' @ p) (u_path v)\<rparr>)"

lemma with_db_id_selects_witness:
  "(\<exists>v. with_db_id ex_build ex_url 12 = Inr v \<and> db_id v = Inr 12 \<and> v\<lparr>u_path := u_path ex_url\<rparr> = ex_url) \<and>
   with_db_id ex_build (ex_url\<lparr>u_path := Some ''/''\<rparr>) 12 = Inl ValueError"
proof -
  have d: "nat_digits 1 = ''1''" by code_simp
  have "py_int [] = Inl ValueError" by (simp add: py_int_def str_strip_def)
  then show ?thesis
    using with_db_id_selects[of ex_build ex_url 1 12] with_db_id_selects[of ex_build "ex_url\<lparr>u_path := Some ''/''\<rparr>" 1 12 12] d
    by (auto simp: ex_build_def ex_url_def)
qed

text \<open>The database of a connection is the one in the path of its URL, and 0 when there is no path; a database in the query
  never counts, although the documentation says that it comes first. Host, user name and password of the URL
  likewise win over the query. A socket URL has the database of its query, if any.\<close>

theorem path_decides_database:
  assumes "query_kwargs parsers (parse_qs_first (u_query u)) [] = Inr q"
  shows "\<exists>r. parse_url parse parsers a (UrlObject u) = r \<and>
    (\<not> is_unix u \<longrightarrow>
      (case db_id u of Inl e \<Rightarrow> r = Inl e
       | Inr d \<Rightarrow> (\<exists>kw. r = Inr kw \<and> dict_get kw ''db'' = Some (PInt d) \<and>
           (\<forall>h. u_host u = Some h \<and> h \<noteq> [] \<longrightarrow> dict_get kw ''host'' = Some (PStr (unquote h))) \<and>
           (\<forall>p. u_password u = Some p \<and> p \<noteq> [] \<longrightarrow> dict_get kw ''password'' = Some (PStr (unquote p)))))) \<and>
    (is_unix u \<longrightarrow> (\<exists>kw. r = Inr kw \<and> dict_get kw ''db'' = dict_get q ''db''))"
  using assms
  by (auto simp: parse_url_def url_kwargs_def set_text_def Let_def split: option.splits sum.splits)

lemma path_decides_database_witness:
  "\<exists>kw. parse_url (\<lambda>s. Inl ValueError) (\<lambda>n. if n = ''db'' then Some (\<lambda>v. Inr (PInt 3)) else None) False (UrlObject ex_url) = Inr kw \<and>
     dict_get kw ''db'' = Some (PInt 1)"
proof -
  let ?p = "\<lambda>n. if n = ''db'' then Some (\<lambda>v. Inr (PInt 3)) else None"
  have "query_kwargs ?p (parse_qs_first (u_query ex_url)) [] = Inr [(''db'', PInt 3)]"
    by (simp add: ex_url_def parse_qs_first_def query_pair_def plus_to_space_def dict_has_def dict_set_def)
  moreover have "\<not> is_unix ex_url" "db_id ex_url = Inr 1"
    by (simp_all add: is_unix_def ex_url_def ends_with_def db_id_def) (simp add: py_int_def str_strip_def is_space_def is_digit_def digits_value_def)
  ultimately show ?thesis using path_decides_database[of ?p ex_url "[(''db'', PInt 3)]" "\<lambda>s. Inl ValueError" False] by auto
qed

end
