(* ===== verification/Client_Sessions.thy ===== *)
theory Client_Sessions
  imports Client_Url Redis_Memory
begin

text \<open>
  Sessions: their locks (\<^verbatim>\<open>components/lock.py\<close>, \<^verbatim>\<open>components/session.py\<close>), how they are closed, and the manager that
  keeps them by name with their connection pools (\<^verbatim>\<open>client.py\<close>, \<^verbatim>\<open>types/contexts.py\<close>). One thread uses a lock object.
\<close>

section \<open>Locks\<close>

text \<open>The class of the client library takes a lock by setting a key that is absent to a token of its own and releases it with a
  script that deletes the key when it still holds the token: \<open>acquire\<close> and \<open>unlock\<close>, with what is documented of
  them.\<close>

locale redis_locks = redis_server +
  fixes acquire :: "string \<Rightarrow> string \<Rightarrow> 'a \<Rightarrow> bool \<times> 'a" and unlock :: "string \<Rightarrow> string \<Rightarrow> 'a \<Rightarrow> bool \<times> 'a"
  assumes acquire_free: "view d n = None \<Longrightarrow>
      fst (acquire n t d) \<and> (\<exists>ttl. view (snd (acquire n t d)) = (view d)(n \<mapsto> OStr (RStr t) ttl))"
    and acquire_held: "view d n \<noteq> None \<Longrightarrow> \<not> fst (acquire n t d) \<and> view (snd (acquire n t d)) = view d"
    and unlock_own: "view d n = Some (OStr (RStr t) ttl) \<Longrightarrow> fst (unlock n t d) \<and> view (snd (unlock n t d)) = (view d)(n := None)"
    and unlock_other: "(\<forall>ttl. view d n \<noteq> Some (OStr (RStr t) ttl)) \<Longrightarrow>
      \<not> fst (unlock n t d) \<and> view (snd (unlock n t d)) = view d"

record lock_obj =
  lk_token :: "string option"
  lk_force_unlock :: "bool option"

text \<open>\<open>transpose_error\<close> looks for the name of an exception object of the client library, which has none; any other
  exception is returned as it is.\<close>

definition transpose_error :: "bool \<Rightarrow> error \<Rightarrow> error" where
  "transpose_error is_redis_error e = (if is_redis_error then AttributeError else e)"

definition lock_acquire :: "(string \<Rightarrow> string \<Rightarrow> 'db \<Rightarrow> bool \<times> 'db) \<Rightarrow> string \<Rightarrow> string \<Rightarrow> lock_obj \<Rightarrow> 'db \<Rightarrow> bool \<times> lock_obj \<times> 'db" where
  "lock_acquire acquire n t L d =
     (let (ok, d1) = acquire n t d in (ok, if ok then L\<lparr>lk_token := Some t\<rparr> else L, d1))"

definition forced :: "bool option \<Rightarrow> lock_obj \<Rightarrow> bool" where
  "forced force L \<longleftrightarrow> (case force of Some b \<Rightarrow> b | None \<Rightarrow> lk_force_unlock L = Some True)"

definition lock_release ::
    "'db executor \<Rightarrow> (string \<Rightarrow> string \<Rightarrow> 'db \<Rightarrow> bool \<times> 'db) \<Rightarrow> bool option \<Rightarrow> bool \<Rightarrow> string \<Rightarrow> lock_obj \<Rightarrow> 'db \<Rightarrow>
     pyval result \<times> lock_obj \<times> 'db" where
  "lock_release exec unlock force raise_errors n L d =
     (let (ok, L1, d1) = (case lk_token L of
             None \<Rightarrow> (False, L, d)
           | Some t \<Rightarrow> (let (ok, d1) = unlock n t d in (ok, L\<lparr>lk_token := None\<rparr>, d1))) in
      if ok then (Inr PNone, L1, d1)
      else if forced force L then (Inr (PBool True), L1, after exec (DEL [n]) d1)
      else if raise_errors then (Inl (transpose_error True LockError), L1, d1)
      else (Inr PNone, L1, d1))"

text \<open>The asynchronous \<open>release\<close> is no coroutine itself: it gives one back, or False, which cannot be awaited.\<close>

definition alock_release :: "bool \<Rightarrow> lock_obj \<Rightarrow> string option result \<times> lock_obj" where
  "alock_release raise_errors L =
     (case lk_token L of
        None \<Rightarrow> (if raise_errors then Inl LockError else Inr None, L)
      | Some t \<Rightarrow> (Inr (Some t), L\<lparr>lk_token := None\<rparr>))"

definition do_release ::
    "'db executor \<Rightarrow> (string \<Rightarrow> string \<Rightarrow> 'db \<Rightarrow> bool \<times> 'db) \<Rightarrow> bool \<Rightarrow> bool \<Rightarrow> string \<Rightarrow> string \<Rightarrow> 'db \<Rightarrow> pyval result \<times> 'db" where
  "do_release exec unlock force raise_errors n t d =
     (let (ok, d1) = unlock n t d in
      if ok then (Inr PNone, d1)
      else if raise_errors \<and> \<not> force then (Inl LockNotOwnedError, d1)
      else if force then (Inr (PBool True), after exec (DEL [n]) d1)
      else (Inr PNone, d1))"

definition await_release ::
    "'db executor \<Rightarrow> (string \<Rightarrow> string \<Rightarrow> 'db \<Rightarrow> bool \<times> 'db) \<Rightarrow> bool option \<Rightarrow> bool \<Rightarrow> string \<Rightarrow> lock_obj \<Rightarrow> 'db \<Rightarrow>
     pyval result \<times> lock_obj \<times> 'db" where
  "await_release exec unlock force raise_errors n L d =
     (case alock_release raise_errors L of
        (Inl e, L1) \<Rightarrow> (Inl e, L1, d)
      | (Inr None, L1) \<Rightarrow> (Inl TypeError, L1, d)
      | (Inr (Some t), L1) \<Rightarrow>
          (let (r, d1) = do_release exec unlock (forced force L) raise_errors n t d in (r, L1, d1)))"

section \<open>Sessions\<close>

record session =
  se_locks :: "(string \<times> lock_obj) list"
  se_alocks :: "(string \<times> lock_obj) list"
  se_lock :: "string option"
  se_alock :: "string option"
  se_pubsub :: bool
  se_apubsub :: bool
  se_client :: bool
  se_aclient :: bool
  se_pool_open :: bool
  se_apool_open :: bool

text \<open>A lock is made once per name; the settings of a later call do not count.\<close>

definition session_lock :: "string \<Rightarrow> bool option \<Rightarrow> session \<Rightarrow> lock_obj \<times> session" where
  "session_lock n force_unlock S =
     (let new = (\<lparr>lk_token = None, lk_force_unlock = force_unlock\<rparr>);
          S1 = (if dict_has n (se_locks S) then S
                else S\<lparr>se_locks := se_locks S @ [(n, new)], se_client := True\<rparr>);
          S2 = (if se_lock S1 = None then S1\<lparr>se_lock := Some n\<rparr> else S1) in
      (the (dict_get (se_locks S2) n), S2))"

definition session_alock :: "string \<Rightarrow> bool option \<Rightarrow> session \<Rightarrow> lock_obj \<times> session" where
  "session_alock n force_unlock S =
     (let new = (\<lparr>lk_token = None, lk_force_unlock = force_unlock\<rparr>);
          S1 = (if dict_has n (se_alocks S) then S
                else S\<lparr>se_alocks := se_alocks S @ [(n, new)], se_aclient := True\<rparr>);
          S2 = (if se_alock S1 = None then S1\<lparr>se_alock := Some n\<rparr> else S1) in
      (the (dict_get (se_alocks S2) n), S2))"

fun release_each ::
    "(string \<Rightarrow> lock_obj \<Rightarrow> 'db \<Rightarrow> pyval result \<times> lock_obj \<times> 'db) \<Rightarrow> string list \<Rightarrow> (string \<times> lock_obj) list \<Rightarrow> 'db \<Rightarrow>
     unit result \<times> (string \<times> lock_obj) list \<times> 'db" where
  "release_each rel [] locks d = (Inr (), locks, d)"
| "release_each rel (n # ns) locks d =
     (case dict_get locks n of
        None \<Rightarrow> release_each rel ns locks d
      | Some L \<Rightarrow> (case rel n L d of
            (Inl e, L1, d1) \<Rightarrow> (Inl e, dict_set n L1 locks, d1)
          | (Inr x, L1, d1) \<Rightarrow> release_each rel ns (dict_del n locks) d1))"

definition close_locks ::
    "'db executor \<Rightarrow> (string \<Rightarrow> string \<Rightarrow> 'db \<Rightarrow> bool \<times> 'db) \<Rightarrow> string list option \<Rightarrow> bool option \<Rightarrow> bool \<Rightarrow> session \<Rightarrow> 'db \<Rightarrow>
     unit result \<times> session \<times> 'db" where
  "close_locks exec unlock names force raise_errors S d =
     (let ns = (case names of None \<Rightarrow> dict_keys (se_locks S) | Some l \<Rightarrow> l);
          (r, locks, d1) = release_each (lock_release exec unlock force raise_errors) ns (se_locks S) d in
      (r, S\<lparr>se_locks := locks\<rparr>, d1))"

definition aclose_locks ::
    "'db executor \<Rightarrow> (string \<Rightarrow> string \<Rightarrow> 'db \<Rightarrow> bool \<times> 'db) \<Rightarrow> string list option \<Rightarrow> bool option \<Rightarrow> bool \<Rightarrow> session \<Rightarrow> 'db \<Rightarrow>
     unit result \<times> session \<times> 'db" where
  "aclose_locks exec unlock names force raise_errors S d =
     (let ns = (case names of None \<Rightarrow> dict_keys (se_alocks S) | Some l \<Rightarrow> l);
          (r, locks, d1) = release_each (await_release exec unlock force raise_errors) ns (se_alocks S) d in
      (r, S\<lparr>se_alocks := locks\<rparr>, d1))"

definition close_client :: "bool \<Rightarrow> session \<Rightarrow> session" where
  "close_client close_pool S =
     (if se_client S then S\<lparr>se_client := False, se_pool_open := se_pool_open S \<and> \<not> close_pool\<rparr> else S)"

definition session_close ::
    "'db executor \<Rightarrow> (string \<Rightarrow> string \<Rightarrow> 'db \<Rightarrow> bool \<times> 'db) \<Rightarrow> bool \<Rightarrow> bool option \<Rightarrow> bool \<Rightarrow> session \<Rightarrow> 'db \<Rightarrow>
     unit result \<times> session \<times> 'db" where
  "session_close exec unlock close_pool force raise_errors S d =
     (case close_locks exec unlock None force raise_errors S d of
        (Inl e, S1, d1) \<Rightarrow> (Inl e, S1, d1)
      | (Inr u, S1, d1) \<Rightarrow> (Inr (), close_client close_pool (S1\<lparr>se_pubsub := False\<rparr>), d1))"

definition session_aclose ::
    "'db executor \<Rightarrow> (string \<Rightarrow> string \<Rightarrow> 'db \<Rightarrow> bool \<times> 'db) \<Rightarrow> bool \<Rightarrow> bool option \<Rightarrow> bool \<Rightarrow> session \<Rightarrow> 'db \<Rightarrow>
     unit result \<times> session \<times> 'db" where
  "session_aclose exec unlock close_pool force raise_errors S d =
     (case aclose_locks exec unlock None force raise_errors S d of
        (Inl e, S1, d1) \<Rightarrow> (Inl e, S1, d1)
      | (Inr u, S1, d1) \<Rightarrow>
          (let S2 = S1\<lparr>se_apubsub := False\<rparr>;
               S3 = (if se_aclient S2 then S2\<lparr>se_aclient := False, se_apool_open := se_apool_open S2 \<and> \<not> close_pool\<rparr> else S2) in
           (Inr (), close_client close_pool S3, d1)))"

section \<open>The manager of the sessions\<close>

text \<open>Session objects and pools have an identity, a number.\<close>

record session_obj =
  so_id :: nat
  so_name :: string
  so_url :: url
  so_pool :: nat

record session_manager =
  sg_sessions :: "(string \<times> session_obj) list"
  sg_ctx :: "session_obj option"
  sg_pools :: "(string \<times> nat) list"
  sg_next :: nat
  sg_settings_url :: url
  sg_settings_db_id :: "int option"

text \<open>What the manager uses of other parts: the parser and builder of URLs, the cache key of settings, whether
  the two pools of a URL can be made, and the fields of the serializer configuration.\<close>

record session_env =
  ev_parse :: "string \<Rightarrow> url result"
  ev_build :: "url \<Rightarrow> url result"
  ev_hash :: "pydict \<Rightarrow> string"
  ev_open :: "url \<Rightarrow> pydict \<Rightarrow> unit result"
  ev_serializer_fields :: "string list"

definition serializer_kwargs :: "session_env \<Rightarrow> pydict \<Rightarrow> pydict" where
  "serializer_kwargs E kw = filter (\<lambda>(k, v). k \<in> set (ev_serializer_fields E) \<and> v \<noteq> PNone) kw"

definition url_key :: "session_env \<Rightarrow> url \<Rightarrow> pydict \<Rightarrow> string" where
  "url_key E u kw =
     (let sc = serializer_kwargs E kw; rest = filter (\<lambda>(k, v). \<not> dict_has k sc) kw in
      ev_hash E (dict_set ''url'' (PStr (url_value u)) ((''serializer_config'', PDict sc) # rest)))"

definition session_url :: "session_env \<Rightarrow> url_arg option \<Rightarrow> int option \<Rightarrow> session_manager \<Rightarrow> url result" where
  "session_url E a db M =
     bindR (case a of None \<Rightarrow> Inr (sg_settings_url M) | Some (UrlObject u) \<Rightarrow> Inr u | Some (UrlText s) \<Rightarrow> ev_parse E s)
       (\<lambda>u. case (case db of None \<Rightarrow> sg_settings_db_id M | Some n \<Rightarrow> Some n) of
               None \<Rightarrow> Inr u
             | Some n \<Rightarrow> bindR (db_id u) (\<lambda>m. if m \<noteq> n then with_db_id (ev_build E) u n else Inr u))"

definition get_pool :: "session_env \<Rightarrow> url \<Rightarrow> pydict \<Rightarrow> bool \<Rightarrow> session_manager \<Rightarrow> nat result \<times> session_manager" where
  "get_pool E u kw disable_store M =
     (let key = url_key E u kw in
      case dict_get (sg_pools M) key of
        Some p \<Rightarrow> (Inr p, M)
      | None \<Rightarrow> (case ev_open E u kw of
          Inl e \<Rightarrow> (Inl e, M)
        | Inr v \<Rightarrow> (let M1 = M\<lparr>sg_next := sg_next M + 1\<rparr> in
            (Inr (sg_next M), if disable_store then M1 else M1\<lparr>sg_pools := dict_set key (sg_next M) (sg_pools M1)\<rparr>))))"

definition create_session ::
    "session_env \<Rightarrow> string \<Rightarrow> url_arg option \<Rightarrow> int option \<Rightarrow> bool \<Rightarrow> pydict \<Rightarrow> session_manager \<Rightarrow>
     session_obj result \<times> session_manager" where
  "create_session E name a db disable_store kw M =
     (case session_url E a db M of
        Inl e \<Rightarrow> (Inl e, M)
      | Inr u \<Rightarrow> (case get_pool E u kw disable_store M of
          (Inl e, M1) \<Rightarrow> (Inl e, M1)
        | (Inr p, M1) \<Rightarrow>
            (Inr \<lparr>so_id = sg_next M1, so_name = name, so_url = u, so_pool = p\<rparr>, M1\<lparr>sg_next := sg_next M1 + 1\<rparr>)))"

definition set_ctx :: "string option \<Rightarrow> session_obj option \<Rightarrow> session_manager \<Rightarrow> unit result \<times> session_manager" where
  "set_ctx name s M =
     (if opt_truthy name then
        (case dict_get (sg_sessions M) (the name) of
           None \<Rightarrow> (Inl ValueError, M)
         | Some t \<Rightarrow> (Inr (), M\<lparr>sg_ctx := Some t\<rparr>))
      else if s = None then (Inl ValueError, M)
      else (Inr (), M\<lparr>sg_ctx := s\<rparr>))"

definition maybe_set_ctx :: "bool option \<Rightarrow> string \<Rightarrow> session_obj \<Rightarrow> session_manager \<Rightarrow> session_obj result \<times> session_manager" where
  "maybe_set_ctx set_as_ctx name s M =
     (if set_as_ctx = Some True
      then (case set_ctx (Some name) None M of (Inl e, M1) \<Rightarrow> (Inl e, M1) | (Inr u, M1) \<Rightarrow> (Inr s, M1))
      else (Inr s, M))"

definition manager_session ::
    "session_env \<Rightarrow> string \<Rightarrow> url_arg option \<Rightarrow> int option \<Rightarrow> bool option \<Rightarrow> bool option \<Rightarrow> bool \<Rightarrow> pydict \<Rightarrow> session_manager \<Rightarrow>
     session_obj result \<times> session_manager" where
  "manager_session E name a db set_as_ctx overwrite disable_store kw M =
     (if dict_has name (sg_sessions M) \<and> overwrite \<noteq> Some True
      then maybe_set_ctx set_as_ctx name (the (dict_get (sg_sessions M) name)) M
      else case create_session E name a db disable_store kw M of
        (Inl e, M1) \<Rightarrow> (Inl e, M1)
      | (Inr s, M1) \<Rightarrow>
          maybe_set_ctx (case set_as_ctx of None \<Rightarrow> Some (sg_sessions M1 = []) | Some b \<Rightarrow> Some b) name s
            (M1\<lparr>sg_sessions := dict_set name s (sg_sessions M1)\<rparr>))"

definition init_session ::
    "session_env \<Rightarrow> string \<Rightarrow> url_arg option \<Rightarrow> int option \<Rightarrow> bool option \<Rightarrow> bool option \<Rightarrow> bool \<Rightarrow> pydict \<Rightarrow> session_manager \<Rightarrow>
     session_obj result \<times> session_manager" where
  "init_session E name a db set_as_ctx overwrite disable_store kw M =
     (if dict_has name (sg_sessions M) \<and> overwrite \<noteq> Some True then (Inl ValueError, M)
      else manager_session E name a db set_as_ctx overwrite disable_store kw M)"

definition ctx_current :: "session_manager \<Rightarrow> string option" where
  "ctx_current M = map_option so_name (sg_ctx M)"

definition get_session ::
    "session_env \<Rightarrow> string option \<Rightarrow> url_arg option \<Rightarrow> int option \<Rightarrow> bool option \<Rightarrow> bool \<Rightarrow> pydict \<Rightarrow> session_manager \<Rightarrow>
     session_obj result \<times> session_manager" where
  "get_session E name a db set_as_ctx disable_store kw M =
     (let n = (case name of Some x \<Rightarrow> x | None \<Rightarrow> (case ctx_current M of Some x \<Rightarrow> x | None \<Rightarrow> ''default'')) in
      case dict_get (sg_sessions M) n of
        Some s \<Rightarrow> (Inr s, M)
      | None \<Rightarrow> manager_session E n a db set_as_ctx None disable_store kw M)"

definition set_session :: "string \<Rightarrow> session_manager \<Rightarrow> unit result \<times> session_manager" where
  "set_session name M = (if dict_has name (sg_sessions M) then set_ctx (Some name) None M else (Inl ValueError, M))"

text \<open>\<open>add_session\<close> asks whether the session is an instance of a string.\<close>

definition add_session :: "session_obj \<Rightarrow> session_manager \<Rightarrow> unit result \<times> session_manager" where
  "add_session s M = (Inl TypeError, M)"

definition manager_ctx :: "session_env \<Rightarrow> session_manager \<Rightarrow> session_obj option result \<times> session_manager" where
  "manager_ctx E M =
     (if sg_ctx M = None
      then (case manager_session E ''default'' None None None None False [] M of
              (Inl e, M1) \<Rightarrow> (Inl e, M1) | (Inr s, M1) \<Rightarrow> (Inr (sg_ctx M1), M1))
      else (Inr (sg_ctx M), M))"

definition manager_current :: "session_manager \<Rightarrow> string" where
  "manager_current M = (case ctx_current M of Some n \<Rightarrow> if n \<noteq> [] then n else ''default'' | None \<Rightarrow> ''default'')"

definition with_session :: "string \<Rightarrow> session_manager \<Rightarrow> session_obj result" where
  "with_session name M = (case dict_get (sg_sessions M) name of None \<Rightarrow> Inl ValueError | Some s \<Rightarrow> Inr s)"

text \<open>Any other call on the manager goes to a session by name.\<close>

definition session_function :: "(session_obj \<Rightarrow> 'r result) \<Rightarrow> string option \<Rightarrow> session_manager \<Rightarrow> 'r result" where
  "session_function f session_ctx M =
     bindR (with_session (case session_ctx of Some n \<Rightarrow> n | None \<Rightarrow> manager_current M) M) f"

section \<open>Closing\<close>

lemma delete_first: "wf_dict ((n, L) # r) \<Longrightarrow> dict_del n ((n, L) # r) = r"
proof -
  assume "wf_dict ((n, L) # r)"
  then have "n \<notin> fst ` set r" by (simp add: wf_dict_def)
  then show ?thesis unfolding dict_del_def by (induction r) auto
qed

lemma alock_released:
  "await_release exec unlock force False n L d =
     (case lk_token L of None \<Rightarrow> (Inl TypeError, L, d)
      | Some t \<Rightarrow> (let (r, d1) = do_release exec unlock (forced force L) False n t d in (r, L\<lparr>lk_token := None\<rparr>, d1)))"
  by (simp add: await_release_def alock_release_def split: option.splits)

lemma do_release_ok: "\<exists>x d1. do_release exec unlock force False n t d = (Inr x, d1)"
  by (auto simp: do_release_def split: prod.splits)

lemma arelease_all:
  assumes "wf_dict locks"
  shows "\<exists>ls d1. release_each (await_release exec unlock force False) (dict_keys locks) locks d =
    (if \<forall>(n, L)\<in>set locks. lk_token L \<noteq> None then (Inr (), [], d1) else (Inl TypeError, ls, d1))"
  using assms
proof (induction locks arbitrary: d)
  case (Cons p locks)
  obtain n L where p: "p = (n, L)" by force
  have wf: "wf_dict locks" using Cons.prems by (simp add: wf_dict_def)
  have g: "dict_get ((n, L) # locks) n = Some L" by (simp add: dict_get_def)
  have del: "dict_del n ((n, L) # locks) = locks" using Cons.prems p delete_first by simp
  show ?case
  proof (cases "lk_token L")
    case None
    then show ?thesis using p g by (auto simp: dict_keys_def alock_released)
  next
    case (Some t)
    obtain x d1 where "do_release exec unlock (forced force L) False n t d = (Inr x, d1)" 
      using do_release_ok[of exec unlock "forced force L" n t d] by auto
    then show ?thesis using Cons.IH[OF wf, of d1] p g del Some by (auto simp: dict_keys_def alock_released)
  qed
qed (simp add: dict_keys_def)

text \<open>Closing an asynchronous session works only while it holds all of its locks. If one of them was released already or
  never taken, closing it fails with a TypeError and leaves its clients and subscriptions open, although
  errors are not to be raised; otherwise it closes everything.\<close>

theorem aclose_needs_held_locks:
  assumes "wf_dict (se_alocks S)"
  shows "\<exists>r S1 d1. session_aclose exec unlock close_pool force False S d = (r, S1, d1) \<and>
    (if \<forall>(n, L)\<in>set (se_alocks S). lk_token L \<noteq> None
     then r = Inr () \<and> se_alocks S1 = [] \<and> \<not> se_apubsub S1 \<and> \<not> se_aclient S1 \<and> \<not> se_client S1
     else r = Inl TypeError \<and> se_apubsub S1 = se_apubsub S \<and> se_aclient S1 = se_aclient S \<and> se_client S1 = se_client S)"
proof (cases "\<forall>(n, L)\<in>set (se_alocks S). lk_token L \<noteq> None")
  case True
  then obtain d1 where "release_each (await_release exec unlock force False) (dict_keys (se_alocks S)) (se_alocks S) d = (Inr (), [], d1)"
    using arelease_all[OF assms, of exec unlock force d] by auto
  then show ?thesis using True by (auto simp: session_aclose_def aclose_locks_def close_client_def Let_def)
next
  case False
  then obtain ls d1 where "release_each (await_release exec unlock force False) (dict_keys (se_alocks S)) (se_alocks S) d = (Inl TypeError, ls, d1)"
    using arelease_all[OF assms, of exec unlock force d] by (auto split: if_splits)
  then show ?thesis using False by (simp add: session_aclose_def aclose_locks_def)
qed

definition ex_session :: session where
  "ex_session = \<lparr>se_locks = [(''mine'', \<lparr>lk_token = Some ''t'', lk_force_unlock = None\<rparr>), (''theirs'', \<lparr>lk_token = None, lk_force_unlock = None\<rparr>)],
     se_alocks = [(''done'', \<lparr>lk_token = None, lk_force_unlock = None\<rparr>)], se_lock = Some ''mine'', se_alock = Some ''done'',
     se_pubsub = False, se_apubsub = True, se_client = True, se_aclient = True, se_pool_open = True, se_apool_open = True\<rparr>"

lemma aclose_needs_held_locks_witness:
  "\<exists>S1 d1. session_aclose mem_exec (\<lambda>n t d. (False, d)) True None False ex_session [] = (Inl TypeError, S1, d1) \<and> se_aclient S1"
proof -
  have "wf_dict (se_alocks ex_session)" by (simp add: ex_session_def wf_dict_def)
  from aclose_needs_held_locks[OF this, of mem_exec "\<lambda>n t d. (False, d)" True None "[]"]
  show ?thesis by (auto simp: ex_session_def)
qed

text \<open>The token of a lock is what its key holds.\<close>

definition owns :: "('db \<Rightarrow> string \<Rightarrow> robj option) \<Rightarrow> 'db \<Rightarrow> string \<Rightarrow> lock_obj \<Rightarrow> bool" where
  "owns view d n L \<longleftrightarrow> (\<exists>t ttl. lk_token L = Some t \<and> view d n = Some (OStr (RStr t) ttl))"

context redis_locks
begin

lemma release_effect:
  shows "\<exists>x L1 d1. lock_release exec unlock force False n L d = (Inr x, L1, d1) \<and>
    view d1 = (if forced force L \<or> owns view d n L then (view d)(n := None) else view d)"
proof (cases "lk_token L")
  case None
  have "view (after exec (DEL [n]) d) = (view d)(n := None)" by (auto simp: fun_eq_iff del_effect write_frame)
  then show ?thesis using None by (auto simp: lock_release_def owns_def)
next
  case (Some t)
  have del: "view (after exec (DEL [n]) e) = (view e)(n := None)" for e by (auto simp: fun_eq_iff del_effect write_frame)
  show ?thesis
  proof (cases "owns view d n L")
    case True
    then obtain ttl where "view d n = Some (OStr (RStr t) ttl)" using Some by (auto simp: owns_def)
    then show ?thesis using True Some unlock_own[of d n t ttl] by (auto simp: lock_release_def split: prod.splits)
  next
    case False
    then have "\<forall>ttl. view d n \<noteq> Some (OStr (RStr t) ttl)" using Some by (auto simp: owns_def)
    then show ?thesis using False Some unlock_other[of d n t] del by (auto simp: lock_release_def split: prod.splits)
  qed
qed

lemma release_all:
  assumes "wf_dict locks"
  shows "\<exists>d1. release_each (lock_release exec unlock force False) (dict_keys locks) locks d = (Inr (), [], d1) \<and>
    (\<forall>n. view d1 n = (case dict_get locks n of None \<Rightarrow> view d n
       | Some L \<Rightarrow> if forced force L \<or> owns view d n L then None else view d n))"
  using assms
proof (induction locks arbitrary: d)
  case Nil
  then show ?case by (simp add: dict_keys_def dict_get_def)
next
  case (Cons p locks)
  obtain n L where p: "p = (n, L)" by force
  have wf: "wf_dict locks" and new: "dict_get locks n = None"
    using Cons.prems p by (auto simp: wf_dict_def dict_get_def map_of_eq_None_iff)
  have g: "dict_get ((n, L) # locks) m = (if m = n then Some L else dict_get locks m)" for m by (auto simp: dict_get_def)
  have del: "dict_del n ((n, L) # locks) = locks" using Cons.prems p delete_first by simp
  obtain x L1 e where e: "lock_release exec unlock force False n L d = (Inr x, L1, e)"
    "view e = (if forced force L \<or> owns view d n L then (view d)(n := None) else view d)" using release_effect by blast
  obtain d1 where d1: "release_each (lock_release exec unlock force False) (dict_keys locks) locks e = (Inr (), [], d1)"
    "\<forall>m. view d1 m = (case dict_get locks m of None \<Rightarrow> view e m
       | Some K \<Rightarrow> if forced force K \<or> owns view e m K then None else view e m)" using Cons.IH[OF wf, of e] by blast
  have same: "m \<noteq> n \<Longrightarrow> view e m = view d m" for m using e(2) by auto
  then have "m \<noteq> n \<Longrightarrow> owns view e m K = owns view d m K" for m K by (simp add: owns_def)
  then have "view d1 m = (case dict_get ((n, L) # locks) m of None \<Rightarrow> view d m
       | Some K \<Rightarrow> if forced force K \<or> owns view d m K then None else view d m)" for m
    using d1(2) same e(2) new g[of m] by (cases "m = n") (auto split: option.splits)
  then show ?case using d1(1) e(1) p g del by (auto simp: dict_keys_def)
qed

end

text \<open>C35. Closing a session releases the locks it holds and no others. A key whose lock another session holds, or that is
  no lock of this session, stays as it is, unless releasing is forced, by the call or by the settings of the lock: then
  the key goes away whoever holds it.\<close>

theorem close_releases_own_locks:
  assumes "redis_locks exec view acquire unlock" and "wf_dict (se_locks S)"
  shows "\<exists>S1 d1. session_close exec unlock close_pool force False S d = (Inr (), S1, d1) \<and>
    se_locks S1 = [] \<and> \<not> se_client S1 \<and> \<not> se_pubsub S1 \<and>
    (\<forall>n. view d1 n = (case dict_get (se_locks S) n of None \<Rightarrow> view d n
       | Some L \<Rightarrow> if forced force L \<or> owns view d n L then None else view d n))"
  using redis_locks.release_all[OF assms, of force d]
  by (auto simp: session_close_def close_locks_def close_client_def Let_def)

definition mem_acquire :: "string \<Rightarrow> string \<Rightarrow> mdb \<Rightarrow> bool \<times> mdb" where
  "mem_acquire n t d = (if mview d n = None then (True, mput n (MStr (RStr t) None) d) else (False, d))"

definition mem_unlock :: "string \<Rightarrow> string \<Rightarrow> mdb \<Rightarrow> bool \<times> mdb" where
  "mem_unlock n t d = (case map_of d n of Some (MStr v ttl) \<Rightarrow> if v = RStr t then (True, AList.delete n d) else (False, d) | _ \<Rightarrow> (False, d))"

interpretation memlock: redis_locks mem_exec mview mem_acquire mem_unlock
proof unfold_locales
  fix d n t
  assume "mview d n = None"
  then show "fst (mem_acquire n t d) \<and> (\<exists>ttl. mview (snd (mem_acquire n t d)) = (mview d)(n \<mapsto> OStr (RStr t) ttl))"
    by (auto simp: mem_acquire_def fun_eq_iff)
next
  fix d n t ttl
  assume "mview d n = Some (OStr (RStr t) ttl)"
  then have "map_of d n = Some (MStr (RStr t) ttl)" by (cases "map_of d n"; cases "the (map_of d n)") (auto simp: mview_def)
  then show "fst (mem_unlock n t d) \<and> mview (snd (mem_unlock n t d)) = (mview d)(n := None)"
    by (auto simp: mem_unlock_def fun_eq_iff)
qed (auto simp: mem_acquire_def mem_unlock_def mview_def split: option.splits mobj.splits)

lemma close_releases_own_locks_witness:
  "\<exists>S1 d1. session_close mem_exec mem_unlock False None False ex_session
      [(''mine'', MStr (RStr ''t'') None), (''theirs'', MStr (RStr ''u'') None)] = (Inr (), S1, d1) \<and>
    mview d1 ''mine'' = None \<and> mview d1 ''theirs'' = Some (OStr (RStr ''u'') None)"
proof -
  let ?d = "[(''mine'', MStr (RStr ''t'') None), (''theirs'', MStr (RStr ''u'') None)]"
  have "wf_dict (se_locks ex_session)" by (simp add: ex_session_def wf_dict_def)
  from close_releases_own_locks[OF memlock.redis_locks_axioms this, of False None ?d]
  obtain S1 d1 where c: "session_close mem_exec mem_unlock False None False ex_session ?d = (Inr (), S1, d1)"
    and v: "\<forall>n. mview d1 n = (case dict_get (se_locks ex_session) n of None \<Rightarrow> mview ?d n
       | Some L \<Rightarrow> if forced None L \<or> owns mview ?d n L then None else mview ?d n)" by blast
  have "mview ?d ''mine'' = Some (OStr (RStr ''t'') None)" "mview ?d ''theirs'' = Some (OStr (RStr ''u'') None)"
    by (simp_all add: mview_def)
  then have "mview d1 ''mine'' = None" "mview d1 ''theirs'' = Some (OStr (RStr ''u'') None)"
    using v[rule_format, of "''mine''"] v[rule_format, of "''theirs''"]
    by (simp_all add: ex_session_def dict_get_def owns_def forced_def)
  then show ?thesis using c by blast
qed

section \<open>The manager\<close>

lemma maybe_set_ctx_registered:
  assumes "dict_get (sg_sessions M) name = Some s" and "name \<noteq> []"
  shows "maybe_set_ctx c name s M = (Inr s, if c = Some True then M\<lparr>sg_ctx := Some s\<rparr> else M)"
  using assms by (simp add: maybe_set_ctx_def set_ctx_def)

lemma create_session_keeps:
  assumes "create_session E name a db disable_store kw M = (r, M1)"
  shows "sg_sessions M1 = sg_sessions M \<and> sg_ctx M1 = sg_ctx M \<and> sg_settings_url M1 = sg_settings_url M \<and>
    sg_settings_db_id M1 = sg_settings_db_id M"
  using assms by (auto simp: create_session_def get_pool_def Let_def split: sum.splits option.splits if_splits)

text \<open>The identities given out so far are below the next one.\<close>

definition manager_ok :: "session_manager \<Rightarrow> bool" where
  "manager_ok M \<longleftrightarrow> wf_dict (sg_sessions M) \<and> wf_dict (sg_pools M) \<and>
     (\<forall>(n, s)\<in>set (sg_sessions M). so_id s < sg_next M \<and> so_pool s < sg_next M) \<and>
     (\<forall>(k, p)\<in>set (sg_pools M). p < sg_next M) \<and> distinct (map snd (sg_pools M)) \<and>
     (\<forall>s. sg_ctx M = Some s \<longrightarrow> so_id s < sg_next M \<and> so_pool s < sg_next M)"

lemma session_registered:
  assumes "manager_session E name a db c ow disable_store kw M = (Inr s, M1)" and "name \<noteq> []"
  shows "dict_get (sg_sessions M1) name = Some s"
proof (cases "dict_has name (sg_sessions M) \<and> ow \<noteq> Some True")
  case True
  then obtain t where t: "dict_get (sg_sessions M) name = Some t" by (auto simp: dict_has_iff)
  then show ?thesis using assms True maybe_set_ctx_registered[OF t assms(2), of c] by (auto simp: manager_session_def split: if_splits)
next
  case False
  then obtain t M0 where cr: "create_session E name a db disable_store kw M = (Inr t, M0)"
    using assms(1) by (auto simp: manager_session_def split: prod.splits sum.splits)
  have "dict_get (sg_sessions (M0\<lparr>sg_sessions := dict_set name t (sg_sessions M0)\<rparr>)) name = Some t" by simp
  from maybe_set_ctx_registered[OF this assms(2)] show ?thesis
    using assms(1) False cr by (auto simp: manager_session_def split: if_splits option.splits)
qed

text \<open>C36. A session is made once per name. Whatever settings a later call comes with, it gets the first session and leaves
  the manager as it is, \<^verbatim>\<open>get_session\<close> and the other calls of the manager find the same session, and the strict
  \<^verbatim>\<open>init_session\<close> refuses.\<close>

theorem session_once:
  assumes "manager_session E name a db c ow disable_store kw M = (Inr s, M1)" and "name \<noteq> []"
  shows "manager_session E name a' db' None None ds' kw' M1 = (Inr s, M1) \<and>
    get_session E (Some name) a' db' c' ds' kw' M1 = (Inr s, M1) \<and>
    init_session E name a' db' c' None ds' kw' M1 = (Inl ValueError, M1) \<and>
    session_function f (Some name) M1 = f s"
  using session_registered[OF assms]
  by (simp add: manager_session_def get_session_def init_session_def session_function_def with_session_def maybe_set_ctx_def
    dict_has_iff)

definition ex_env :: session_env where
  "ex_env = \<lparr>ev_parse = \<lambda>t. Inl ValueError, ev_build = \<lambda>u. Inr u, ev_hash = \<lambda>d. map (\<lambda>(k, v). hd (k @ ''z'')) d,
     ev_open = \<lambda>u kw. Inr (), ev_serializer_fields = [''serializer'']\<rparr>"

lemma ex_open [simp]: "ev_open ex_env u kw = Inr ()"
  by (simp add: ex_env_def)

definition ex_manager :: session_manager where
  "ex_manager = \<lparr>sg_sessions = [], sg_ctx = None, sg_pools = [], sg_next = 0, sg_settings_url = ex_url, sg_settings_db_id = None\<rparr>"

lemma session_once_witness:
  "\<exists>s M1. manager_session ex_env ''default'' None None None None False [] ex_manager = (Inr s, M1) \<and>
    sg_ctx M1 = Some s \<and> so_id s = 1 \<and> so_pool s = 0 \<and>
    init_session ex_env ''default'' None None None None False [(''ssl'', PBool True)] M1 = (Inl ValueError, M1)"
proof -
  let ?s = "\<lparr>so_id = 1, so_name = ''default'', so_url = ex_url, so_pool = 0\<rparr>"
  let ?M = "snd (manager_session ex_env ''default'' None None None None False [] ex_manager)"
  have run: "manager_session ex_env ''default'' None None None None False [] ex_manager = (Inr ?s, ?M)" and "sg_ctx ?M = Some ?s"
    by (simp_all add: manager_session_def create_session_def session_url_def get_pool_def Let_def ex_manager_def dict_has_def dict_get_def
      dict_set_def maybe_set_ctx_def set_ctx_def)
  moreover have "init_session ex_env ''default'' None None None None False [(''ssl'', PBool True)] ?M = (Inl ValueError, ?M)"
    using session_once[OF run, of None None False "[(''ssl'', PBool True)]" None Inr] by simp
  ultimately show ?thesis by (intro exI[of _ ?s] exI[of _ ?M]) simp
qed

lemma create_session_failed: "create_session E name a db ds kw M = (Inl e, M1) \<Longrightarrow> M1 = M"
  by (auto simp: create_session_def get_pool_def Let_def split: sum.splits option.splits prod.splits)

lemma create_session_name:
  "create_session E name a db ds kw M = (Inr s, M1) \<Longrightarrow> so_name s = name \<and> session_url E a db M = Inr (so_url s)"
  by (auto simp: create_session_def split: sum.splits prod.splits)

text \<open>The current session that is asked for while there is none is made only when the manager has no session at all:
  then the session named default is made from the settings and becomes the current one. Otherwise the answer is None (or the
  error of the settings), and there still is no current session.\<close>

theorem context_stays_missing:
  assumes "sg_ctx M = None" and "manager_ctx E M = (r, M1)"
  shows "(sg_sessions M \<noteq> [] \<longrightarrow> sg_ctx M1 = None \<and> (r = Inr None \<or> (\<exists>e. r = Inl e))) \<and>
    (sg_sessions M = [] \<longrightarrow> (case r of
        Inl e \<Rightarrow> M1 = M
      | Inr c \<Rightarrow> \<exists>s. c = Some s \<and> sg_ctx M1 = Some s \<and> so_name s = ''default'' \<and>
          session_url E None None M = Inr (so_url s) \<and> sg_sessions M1 = [(''default'', s)]))"
proof (cases "create_session E ''default'' None None False [] M")
  case (Pair q M0)
  have keep: "sg_sessions M0 = sg_sessions M" "sg_ctx M0 = None" using create_session_keeps[OF Pair] assms(1) by auto
  have set1: "dict_set ''default'' s [] = [(''default'', s)]" for s :: session_obj by (simp add: dict_set_def)
  have get1: "dict_get [(''default'', s)] ''default'' = Some s" for s :: session_obj by (simp add: dict_get_def)
  show ?thesis
  proof (cases q)
    case (Inl e)
    then show ?thesis using assms Pair keep create_session_failed
      by (auto simp: manager_ctx_def manager_session_def maybe_set_ctx_def dict_has_def split: if_splits)
  next
    case (Inr s)
    then show ?thesis using assms Pair keep create_session_name
      by (auto simp: manager_ctx_def manager_session_def maybe_set_ctx_def set_ctx_def dict_has_def set1 get1 split: if_splits)
  qed
qed

lemma context_stays_missing_witness:
  "\<exists>s M1. manager_ctx ex_env ex_manager = (Inr (Some s), M1) \<and> sg_ctx M1 = Some s \<and> so_name s = ''default''"
proof -
  have "sg_ctx ex_manager = None" "sg_sessions ex_manager = []" by (simp_all add: ex_manager_def)
  moreover obtain c M1 where "manager_ctx ex_env ex_manager = (Inr c, M1)"
    by (simp add: manager_ctx_def manager_session_def create_session_def session_url_def get_pool_def Let_def ex_manager_def
      dict_has_def dict_get_def dict_set_def maybe_set_ctx_def set_ctx_def)
  ultimately show ?thesis using context_stays_missing[of ex_manager ex_env "Inr c" M1] by auto
qed

lemma get_pool_ok:
  assumes "manager_ok M" and "get_pool E u kw ds M = (Inr p, M1)"
  shows "manager_ok M1 \<and> p < sg_next M1 \<and> sg_next M \<le> sg_next M1 \<and>
    (\<not> ds \<longrightarrow> dict_get (sg_pools M1) (url_key E u kw) = Some p) \<and>
    (\<forall>k q. dict_get (sg_pools M) k = Some q \<longrightarrow> dict_get (sg_pools M1) k = Some q)"
proof (cases "dict_get (sg_pools M) (url_key E u kw)")
  case (Some q)
  then have "(url_key E u kw, q) \<in> set (sg_pools M)" by (simp add: dict_get_def map_of_SomeD)
  then show ?thesis using assms Some by (auto simp: get_pool_def manager_ok_def)
next
  case None
  define key where "key = url_key E u kw"
  have new: "key \<notin> fst ` set (sg_pools M)" using None by (simp add: key_def dict_get_def map_of_eq_None_iff)
  have get: "dict_get l k = Some q \<Longrightarrow> dict_get (l @ [(key, v)]) k = Some q" for k l q and v :: nat
    by (simp add: dict_get_def map_add_def)
  have top: "dict_get (sg_pools M @ [(key, v)]) key = Some v" for v
    using new by (simp add: dict_get_def map_add_def map_of_eq_None_iff[symmetric] split: option.splits)
  have fresh: "sg_next M \<notin> snd ` set (sg_pools M)" using assms(1) by (fastforce simp: manager_ok_def)
  have below: "manager_ok (M\<lparr>sg_next := sg_next M + 1\<rparr>)" using assms(1) by (fastforce simp: manager_ok_def)
  then have "manager_ok (M\<lparr>sg_next := sg_next M + 1, sg_pools := sg_pools M @ [(key, sg_next M)]\<rparr>)"
    using new fresh by (auto simp: manager_ok_def wf_dict_def)
  then show ?thesis using assms(2) None below top get new
    by (auto simp: get_pool_def dict_set_new Let_def key_def split: if_splits sum.splits)
qed

lemma create_session_ok:
  assumes "manager_ok M" and "create_session E name a db ds kw M = (Inr s, M1)"
  shows "manager_ok M1 \<and> so_id s < sg_next M1 \<and> so_pool s < sg_next M1 \<and> sg_next M \<le> so_id s \<and>
    (\<not> ds \<longrightarrow> dict_get (sg_pools M1) (url_key E (so_url s) kw) = Some (so_pool s)) \<and>
    (\<forall>k q. dict_get (sg_pools M) k = Some q \<longrightarrow> dict_get (sg_pools M1) k = Some q)"
proof -
  obtain u where u: "session_url E a db M = Inr u" using assms(2) by (auto simp: create_session_def split: sum.splits)
  obtain p M0 where p: "get_pool E u kw ds M = (Inr p, M0)" using assms(2) u by (auto simp: create_session_def split: prod.splits sum.splits)
  have s: "s = \<lparr>so_id = sg_next M0, so_name = name, so_url = u, so_pool = p\<rparr>" "M1 = M0\<lparr>sg_next := sg_next M0 + 1\<rparr>"
    using assms(2) u p by (auto simp: create_session_def)
  have M0: "manager_ok M0" "p < sg_next M0" "sg_next M \<le> sg_next M0" using get_pool_ok[OF assms(1) p] by auto
  then have "manager_ok M1" using s by (fastforce simp: manager_ok_def)
  then show ?thesis using get_pool_ok[OF assms(1) p] s by auto
qed

text \<open>C37. Two sessions made after each other share their connection pools exactly when the cache key of their settings is
  the same. They are different sessions, also under one name, and the identities stay in order.\<close>

theorem pool_by_settings:
  assumes "manager_ok M"
    and "create_session E name a db False kw M = (Inr s, M1)"
    and "create_session E name' a' db' False kw' M1 = (Inr s', M2)"
  shows "manager_ok M2 \<and> so_id s \<noteq> so_id s' \<and>
    (so_pool s = so_pool s' \<longleftrightarrow> url_key E (so_url s) kw = url_key E (so_url s') kw')"
proof -
  note one = create_session_ok[OF assms(1,2)]
  note two = create_session_ok[OF one[THEN conjunct1] assms(3)]
  have "distinct (map snd (sg_pools M2))" using two by (simp add: manager_ok_def)
  moreover have "(url_key E (so_url s) kw, so_pool s) \<in> set (sg_pools M2)" "(url_key E (so_url s') kw', so_pool s') \<in> set (sg_pools M2)"
    using one two by (auto simp: dict_get_def map_of_SomeD)
  ultimately have "so_pool s = so_pool s' \<Longrightarrow> url_key E (so_url s) kw = url_key E (so_url s') kw'"
    by (metis (no_types, lifting) distinct_map inj_onD prod.inject snd_conv)
  moreover have "url_key E (so_url s) kw = url_key E (so_url s') kw' \<Longrightarrow> so_pool s = so_pool s'" using one two by auto
  moreover have "so_id s \<noteq> so_id s'" using one two by auto
  ultimately show ?thesis using two by blast
qed

lemma pool_by_settings_witness:
  "\<exists>s s' M1 M2. create_session ex_env ''one'' None None False [] ex_manager = (Inr s, M1) \<and>
     create_session ex_env ''two'' None None False [(''ssl'', PBool True)] M1 = (Inr s', M2) \<and> so_pool s \<noteq> so_pool s'"
proof -
  have ok: "manager_ok ex_manager" by (simp add: manager_ok_def ex_manager_def wf_dict_def)
  obtain s M1 where 1: "create_session ex_env ''one'' None None False [] ex_manager = (Inr s, M1)" "so_url s = ex_url"
    by (simp add: create_session_def session_url_def get_pool_def Let_def ex_manager_def dict_get_def)
  then have "sg_settings_url M1 = ex_url" "sg_settings_db_id M1 = None" using create_session_keeps[OF 1(1)] by (auto simp: ex_manager_def)
  then obtain s' M2 where 2: "create_session ex_env ''two'' None None False [(''ssl'', PBool True)] M1 = (Inr s', M2)" "so_url s' = ex_url"
    by (cases "create_session ex_env ''two'' None None False [(''ssl'', PBool True)] M1")
      (auto simp: create_session_def session_url_def get_pool_def Let_def split: prod.splits option.splits)
  have "url_key ex_env ex_url [] \<noteq> url_key ex_env ex_url [(''ssl'', PBool True)]"
    by (simp add: url_key_def ex_env_def serializer_kwargs_def dict_set_def dict_has_def)
  then show ?thesis using pool_by_settings[OF ok 1(1) 2(1)] 1 2 by metis
qed

end
