(* ===== verification/Cachify_Decorator.thy ===== *)
theory Cachify_Decorator
  imports Cachify_Laws Client_Url
begin

text \<open>
  The functions that the cache decorator returns (\<^verbatim>\<open>io/cachify/base.py\<close>: \<open>create_sync_decorator\<close>,
  \<open>create_async_decorator\<close>, \<open>__call__\<close>), with everything a call does around the look-up of
  \<open>Cachify\<close>: whether the session answers, the hooks, the tasks that the asynchronous cache leaves to the
  background, what the function can be asked about its cache, and how its settings are checked and changed.
  The decorated function changes a world of its own; when retries are on, it is the retried function.
\<close>

section \<open>The decorated function\<close>

type_synonym 'w pyfun = "pyargs \<Rightarrow> 'w \<Rightarrow> pyval result \<times> 'w"

datatype hook_call = InitHook pyargs | CallHook pyval pyargs bool

datatype bg_task = BgInit pyargs | BgCall pyval pyargs bool | BgValidate string | BgStore string pyval pydict pyargs

text \<open>What surrounds a call: the name of the function, whether the session answers a ping, whether this is
  a build server, whether \<open>timed_cache\<close> of another package takes the arguments, the hooks, and whether background tasks are used.\<close>

record deco_env =
  de_name :: string
  de_ping :: bool
  de_ci :: bool
  de_timed :: "pyargs \<Rightarrow> bool"
  de_post_init :: "(pyargs \<Rightarrow> unit result) option"
  de_post_call :: "(pyval \<Rightarrow> pyargs \<Rightarrow> bool \<Rightarrow> unit result) option"
  de_background :: bool

record ('db, 'm) deco =
  cd_config :: cachify
  cd_available :: "bool option"
  cd_init_ran :: bool
  cd_key :: "string option"
  cd_was_cached :: bool
  cd_store :: "'db \<times> 'm"
  cd_hooks :: "hook_call list"
  cd_tasks :: "bg_task list"

text \<open>\<open>cache_enabled\<close> asks again as long as the session has not answered; the wrapper asks while nothing is known.\<close>

definition cache_enabled :: "deco_env \<Rightarrow> bool option \<Rightarrow> bool \<times> bool option" where
  "cache_enabled E a =
     (if de_ci E then (False, a)
      else let a1 = (if a \<noteq> Some True \<and> de_ping E then Some True else a) in (a1 = Some True, a1))"

definition is_session_available :: "deco_env \<Rightarrow> bool option \<Rightarrow> bool option" where
  "is_session_available E a = (if a = None \<and> de_ping E then Some True else a)"

text \<open>The decorator gives the function back as it is when the cache is not enabled.\<close>

definition decorate :: "deco_env \<Rightarrow> cachify \<Rightarrow> bool option \<Rightarrow> 'db \<times> 'm \<Rightarrow> ('db, 'm) deco option" where
  "decorate E C a dm =
     (let (on, a1) = cache_enabled E a in
      if on then Some \<lparr>cd_config = C, cd_available = a1, cd_init_ran = False, cd_key = None, cd_was_cached = False,
             cd_store = dm, cd_hooks = [], cd_tasks = []\<rparr>
      else None)"

section \<open>Hooks\<close>

definition run_post_init_hook :: "deco_env \<Rightarrow> pyargs \<Rightarrow> ('db, 'm) deco \<Rightarrow> unit result \<times> ('db, 'm) deco" where
  "run_post_init_hook E pa S =
     (case de_post_init E of
        None \<Rightarrow> (Inr (), S)
      | Some f \<Rightarrow>
          if cd_init_ran S then (Inr (), S)
          else let S1 = S\<lparr>cd_hooks := cd_hooks S @ [InitHook pa]\<rparr> in
               (case f pa of Inl e \<Rightarrow> (Inl e, S1) | Inr u \<Rightarrow> (Inr (), S1\<lparr>cd_init_ran := True\<rparr>)))"

definition arun_post_init_hook :: "deco_env \<Rightarrow> pyargs \<Rightarrow> ('db, 'm) deco \<Rightarrow> ('db, 'm) deco" where
  "arun_post_init_hook E pa S =
     (if de_post_init E = None \<or> cd_init_ran S then S
      else S\<lparr>cd_tasks := cd_tasks S @ [BgInit pa], cd_init_ran := True\<rparr>)"

definition run_post_call_hook :: "deco_env \<Rightarrow> pyval \<Rightarrow> pyargs \<Rightarrow> bool \<Rightarrow> ('db, 'm) deco \<Rightarrow> unit result \<times> ('db, 'm) deco" where
  "run_post_call_hook E v pa hit S =
     (case de_post_call E of
        None \<Rightarrow> (Inr (), S)
      | Some f \<Rightarrow> (f v pa hit, S\<lparr>cd_hooks := cd_hooks S @ [CallHook v pa hit]\<rparr>))"

definition arun_post_call_hook :: "deco_env \<Rightarrow> pyval \<Rightarrow> pyargs \<Rightarrow> bool \<Rightarrow> ('db, 'm) deco \<Rightarrow> ('db, 'm) deco" where
  "arun_post_call_hook E v pa hit S =
     (if de_post_call E = None then S else S\<lparr>cd_tasks := cd_tasks S @ [BgCall v pa hit]\<rparr>)"

section \<open>The synchronous wrapper\<close>

text \<open>Without a session the function is called through a fresh \<open>timed_cache\<close>, and once more when that raises.\<close>

definition call_without_session :: "deco_env \<Rightarrow> 'w pyfun \<Rightarrow> pyargs \<Rightarrow> 'w \<Rightarrow> pyval result \<times> 'w" where
  "call_without_session E func pa w =
     (if de_timed E pa
      then (case func pa w of (Inr v, w1) \<Rightarrow> (Inr v, w1) | (Inl e, w1) \<Rightarrow> func pa w1)
      else func pa w)"

definition sync_miss ::
    "deco_env \<Rightarrow> 'db executor \<Rightarrow> 'm meta_ops \<Rightarrow> 'w pyfun \<Rightarrow> rat \<Rightarrow> string \<Rightarrow> pydict \<Rightarrow> pyargs \<Rightarrow> ('db, 'm) deco \<Rightarrow> 'w \<Rightarrow>
     pyval result \<times> ('db, 'm) deco \<times> 'w" where
  "sync_miss E exec M func now key ck pa S w =
     (let C = cd_config S; failed = (\<lambda>e. if raise_exceptions C then Inl e else Inr PNone) in
      case func pa w of
        (Inl e, w1) \<Rightarrow> (failed e, S, w1)
      | (Inr v, w1) \<Rightarrow>
          (let S1 = (if should_cache_value C v ck pa
                     then S\<lparr>cd_store := store exec M C now key v ck pa (cd_store S)\<rparr> else S) in
           case run_post_call_hook E v pa False S1 of
             (Inl e, S2) \<Rightarrow> (failed e, S2, w1)
           | (Inr u, S2) \<Rightarrow> (Inr v, S2, w1)))"

definition sync_wrapper ::
    "deco_env \<Rightarrow> 'db executor \<Rightarrow> 'm meta_ops \<Rightarrow> 'w pyfun \<Rightarrow> rat \<Rightarrow> pyargs \<Rightarrow> ('db, 'm) deco \<Rightarrow> 'w \<Rightarrow>
     pyval result \<times> ('db, 'm) deco \<times> 'w" where
  "sync_wrapper E exec M func now pa0 S0 w =
     (let S1 = S0\<lparr>cd_available := is_session_available E (cd_available S0)\<rparr> in
      if cd_available S1 \<noteq> Some True then (let (r, w1) = call_without_session E func pa0 w in (r, S1, w1))
      else
        case run_post_init_hook E pa0 (S1\<lparr>cd_config := build_hash_name (de_name E) pa0 (cd_config S1)\<rparr>) of
          (Inl e, S2) \<Rightarrow> (Inl e, S2, w)
        | (Inr u, S2) \<Rightarrow>
            (let C = cd_config S2; (ck, kwargs) = extract_cache_kwargs C (snd pa0); pa = (fst pa0, kwargs) in
             if should_disable C ck pa then (let (r, w1) = func pa w in (r, S2, w1))
             else
               let key = hash_key C pa;
                   dm = (if should_invalidate C None ck pa then invalidate_cache exec M C key (cd_store S2) else cd_store S2) in
               (case retrieve (validate_cache_policies exec M C now key) exec C key ck pa dm of
                  (Inl e, dm1) \<Rightarrow> (Inl e, S2\<lparr>cd_key := Some key, cd_store := dm1\<rparr>, w)
                | (Inr v, dm1) \<Rightarrow>
                    let S3 = S2\<lparr>cd_key := Some key, cd_store := dm1\<rparr> in
                    if v = ENOVAL then sync_miss E exec M func now key ck pa S3 w
                    else (case run_post_call_hook E v pa True (S3\<lparr>cd_was_cached := True\<rparr>) of
                            (Inl e, S4) \<Rightarrow> (Inl e, S4, w)
                          | (Inr u, S4) \<Rightarrow> (Inr v, S4, w)))))"

section \<open>The asynchronous wrapper\<close>

definition run_cache_operation ::
    "deco_env \<Rightarrow> 'db executor \<Rightarrow> 'm meta_ops \<Rightarrow> rat \<Rightarrow> string \<Rightarrow> pyval \<Rightarrow> pydict \<Rightarrow> pyargs \<Rightarrow> ('db, 'm) deco \<Rightarrow> ('db, 'm) deco" where
  "run_cache_operation E exec M now key v ck pa S =
     (let C = cd_config S;
          S1 = (if should_cache_value C v ck pa then S\<lparr>cd_store := store exec M C now key v ck pa (cd_store S)\<rparr> else S) in
      arun_post_call_hook E v pa False S1)"

definition arun_cache_operation ::
    "deco_env \<Rightarrow> 'db executor \<Rightarrow> 'm meta_ops \<Rightarrow> rat \<Rightarrow> string \<Rightarrow> pyval \<Rightarrow> pydict \<Rightarrow> pyargs \<Rightarrow> ('db, 'm) deco \<Rightarrow> ('db, 'm) deco" where
  "arun_cache_operation E exec M now key v ck pa S =
     (if de_background E then S\<lparr>cd_tasks := cd_tasks S @ [BgStore key v ck pa]\<rparr>
      else run_cache_operation E exec M now key v ck pa S)"

definition found_value :: "'db executor \<Rightarrow> cachify \<Rightarrow> string \<Rightarrow> pydict \<Rightarrow> pyargs \<Rightarrow> 'db \<Rightarrow> rval option" where
  "found_value exec C key ck pa d =
     (if should_overwrite C ck pa \<or> \<not> c_exists exec C key d then None else c_get exec C key d)"

definition aretrieve ::
    "deco_env \<Rightarrow> 'db executor \<Rightarrow> 'm meta_ops \<Rightarrow> rat \<Rightarrow> string \<Rightarrow> pydict \<Rightarrow> pyargs \<Rightarrow> ('db, 'm) deco \<Rightarrow>
     pyval result \<times> ('db, 'm) deco" where
  "aretrieve E exec M now key ck pa S =
     (let C = cd_config S in
      case found_value exec C key ck pa (fst (cd_store S)) of
        None \<Rightarrow> (Inr ENOVAL, S)
      | Some v \<Rightarrow>
          (case (if de_background E then (Inr (), S\<lparr>cd_tasks := cd_tasks S @ [BgValidate key]\<rparr>)
                 else (let (r, dm) = avalidate_cache_policies exec M C now key (cd_store S) in (r, S\<lparr>cd_store := dm\<rparr>))) of
             (Inl e, S1) \<Rightarrow> (Inl e, S1)
           | (Inr u, S1) \<Rightarrow>
               (case decode_hit C v pa of
                  Inl e \<Rightarrow> (Inr ENOVAL, S1)
                | Inr x \<Rightarrow> (Inr (if x \<noteq> PNone then x else ENOVAL), S1))))"

definition async_wrapper ::
    "deco_env \<Rightarrow> 'db executor \<Rightarrow> 'm meta_ops \<Rightarrow> 'w pyfun \<Rightarrow> rat \<Rightarrow> pyargs \<Rightarrow> ('db, 'm) deco \<Rightarrow> 'w \<Rightarrow>
     pyval result \<times> ('db, 'm) deco \<times> 'w" where
  "async_wrapper E exec M func now pa0 S0 w =
     (let S1 = S0\<lparr>cd_available := is_session_available E (cd_available S0)\<rparr> in
      if cd_available S1 \<noteq> Some True then (let (r, w1) = call_without_session E func pa0 w in (r, S1, w1))
      else
        let S2 = arun_post_init_hook E pa0 (S1\<lparr>cd_config := build_hash_name (de_name E) pa0 (cd_config S1)\<rparr>);
            C = cd_config S2; (ck, kwargs) = extract_cache_kwargs C (snd pa0); pa = (fst pa0, kwargs) in
        if should_disable C ck pa then (let (r, w1) = func pa w in (r, S2, w1))
        else
          let key = hash_key C pa;
              hits = Some (int_val (num_hits M (snd (cd_store S2))));
              dm = (if should_invalidate C hits ck pa then invalidate_cache exec M C key (cd_store S2) else cd_store S2) in
          (case aretrieve E exec M now key ck pa (S2\<lparr>cd_key := Some key, cd_store := dm\<rparr>) of
             (Inl e, S3) \<Rightarrow> (Inl e, S3, w)
           | (Inr v, S3) \<Rightarrow>
               if v = ENOVAL
               then (case func pa w of
                       (Inl e, w1) \<Rightarrow> (if raise_exceptions C then Inl e else Inr PNone, S3, w1)
                     | (Inr x, w1) \<Rightarrow> (Inr x, arun_cache_operation E exec M now key x ck pa S3, w1))
               else (Inr v, arun_post_call_hook E v pa True (S3\<lparr>cd_was_cached := True\<rparr>), w)))"

text \<open>What the background does, one task after the other. Exceptions of background tasks are lost.\<close>

fun run_task :: "deco_env \<Rightarrow> 'db executor \<Rightarrow> 'm meta_ops \<Rightarrow> rat \<Rightarrow> bg_task \<Rightarrow> ('db, 'm) deco \<Rightarrow> ('db, 'm) deco" where
  "run_task E exec M now (BgInit pa) S = S\<lparr>cd_hooks := cd_hooks S @ [InitHook pa]\<rparr>"
| "run_task E exec M now (BgCall v pa hit) S = S\<lparr>cd_hooks := cd_hooks S @ [CallHook v pa hit]\<rparr>"
| "run_task E exec M now (BgValidate key) S =
     S\<lparr>cd_store := snd (avalidate_cache_policies exec M (cd_config S) now key (cd_store S))\<rparr>"
| "run_task E exec M now (BgStore key v ck pa) S = run_cache_operation E exec M now key v ck pa S"

definition task_weight :: "bg_task \<Rightarrow> nat" where
  "task_weight t = (case t of BgStore _ _ _ _ \<Rightarrow> 2 | _ \<Rightarrow> 1)"

lemma run_task_tasks:
  "cd_tasks (run_task E exec M now t S) = cd_tasks S \<or>
   (\<exists>v pa b. cd_tasks (run_task E exec M now t S) = cd_tasks S @ [BgCall v pa b] \<and> task_weight t = 2)"
  by (cases t) (auto simp: run_cache_operation_def arun_post_call_hook_def task_weight_def Let_def)

function drain :: "deco_env \<Rightarrow> 'db executor \<Rightarrow> 'm meta_ops \<Rightarrow> rat \<Rightarrow> ('db, 'm) deco \<Rightarrow> ('db, 'm) deco" where
  "drain E exec M now S =
     (case cd_tasks S of [] \<Rightarrow> S | t # ts \<Rightarrow> drain E exec M now (run_task E exec M now t (S\<lparr>cd_tasks := ts\<rparr>)))"
  by pat_completeness auto

termination
proof (relation "measure (\<lambda>(E, exec, M, now, S). sum_list (map task_weight (cd_tasks S)))")
  fix E :: deco_env and exec :: "'a executor" and M :: "'b meta_ops" and now :: rat and S :: "('a, 'b) deco" and t ts
  assume S: "cd_tasks S = t # ts"
  have "task_weight t \<ge> 1" by (simp add: task_weight_def split: bg_task.splits)
  then show "((E, exec, M, now, run_task E exec M now t (S\<lparr>cd_tasks := ts\<rparr>)), E, exec, M, now, S)
      \<in> measure (\<lambda>(E, exec, M, now, S). sum_list (map task_weight (cd_tasks S)))"
    using run_task_tasks[of E exec M now t "S\<lparr>cd_tasks := ts\<rparr>"] S by (auto simp: task_weight_def)
qed simp

declare drain.simps [simp del]

section \<open>What the function can be asked\<close>

definition is_cached :: "'db executor \<Rightarrow> ('db, 'm) deco \<Rightarrow> bool option" where
  "is_cached exec S = map_option (\<lambda>key. c_exists exec (cd_config S) key (fst (cd_store S))) (cd_key S)"

definition was_cached :: "('db, 'm) deco \<Rightarrow> bool" where
  "was_cached S = cd_was_cached S"

record cache_information =
  ci_name :: "string option"
  ci_hits :: pyval
  ci_keys :: int
  ci_keyhits :: pydict
  ci_timestamps :: pydict
  ci_expirations :: pydict
  ci_max_size :: "int option"
  ci_policy :: cache_policy

definition cache_info :: "'db executor \<Rightarrow> 'm meta_ops \<Rightarrow> cachify \<Rightarrow> 'db \<times> 'm \<Rightarrow> cache_information result" where
  "cache_info exec M C dm =
     bindR (num_keys exec C (fst dm)) (\<lambda>n.
       Inr \<lparr>ci_name = cache_field C, ci_hits = num_hits M (snd dm), ci_keys = n, ci_keyhits = cache_keyhits M (snd dm),
         ci_timestamps = cache_timestamps M (snd dm), ci_expirations = cache_expirations M (snd dm),
         ci_max_size = cache_max_size C, ci_policy = max_size_policy C\<rparr>)"

definition deco_clear :: "'db executor \<Rightarrow> 'm meta_ops \<Rightarrow> keyarg \<Rightarrow> ('db, 'm) deco \<Rightarrow> unit result \<times> ('db, 'm) deco" where
  "deco_clear exec M ka S = (let (r, dm) = c_clear exec M (cd_config S) ka (cd_store S) in (r, S\<lparr>cd_store := dm\<rparr>))"

definition invalidate_key :: "'db executor \<Rightarrow> 'm meta_ops \<Rightarrow> string \<Rightarrow> ('db, 'm) deco \<Rightarrow> ('db, 'm) deco" where
  "invalidate_key exec M key S = S\<lparr>cd_store := invalidate_cache exec M (cd_config S) key (cd_store S)\<rparr>"

definition cache_policy_info :: "cachify \<Rightarrow> int option \<times> cache_policy" where
  "cache_policy_info C = (cache_max_size C, max_size_policy C)"

end
