(* ===== verification/Cachify_Settings.thy ===== *)
theory Cachify_Settings
  imports Cachify_Decorator
begin

text \<open>
  How the settings of a cache are checked and changed (\<^verbatim>\<open>io/cachify/base.py\<close>: \<open>validate_kws\<close>, \<open>update\<close>,
  \<open>validateself_config\<close>, \<open>stage_silenced\<close>). Settings are keyword arguments; callables, serializers and modules are opaque
  objects, and what is imported, callable or a serializer is a parameter.
\<close>

record settings_env =
  sv_import :: "string \<Rightarrow> pyval result"
  sv_callable :: "pyval \<Rightarrow> bool"
  sv_method :: "pyval \<Rightarrow> string \<Rightarrow> pyval option"
  sv_serializer :: "string \<Rightarrow> pydict \<Rightarrow> pyval result"
  sv_is_serializer :: "pyval \<Rightarrow> bool"
  sv_bound :: "pyval \<Rightarrow> string \<Rightarrow> pyval"

definition validate_callable :: "settings_env \<Rightarrow> pyval \<Rightarrow> pyval result" where
  "validate_callable V v = (case v of PStr s \<Rightarrow> sv_import V s | _ \<Rightarrow> Inr v)"

text \<open>A setting that is moved into the arguments of the serializer unless it is there.\<close>

definition move_setting :: "string \<Rightarrow> pydict \<times> pydict \<Rightarrow> pydict \<times> pydict" where
  "move_setting k p =
     (let (skw, values) = p in
      if dict_has k skw then p
      else (dict_set k (case dict_get values k of Some v \<Rightarrow> v | None \<Rightarrow> PNone) skw, dict_del k values))"

definition validate_serializer :: "settings_env \<Rightarrow> pydict \<Rightarrow> (bool \<times> pydict) result" where
  "validate_serializer V values =
     (case dict_get values ''serializer'' of
        None \<Rightarrow> Inr (False, values)
      | Some s \<Rightarrow>
          let values1 = dict_del ''serializer'' values in
          bindR (case s of
                   PStr n \<Rightarrow>
                     (let skw = dict_of (dict_get values1 ''serializer_kwargs'');
                          (skw1, values2) = move_setting ''compression_level'' (move_setting ''compression''
                             (skw, dict_del ''serializer_kwargs'' values1)) in
                      bindR (sv_serializer V n skw1) (\<lambda>o'. Inr (o', values2)))
                 | _ \<Rightarrow> Inr (s, values1))
            (\<lambda>(o', values2).
               if \<not> sv_is_serializer V o' then Inl ValueError
               else Inr (True, dict_set ''decoder'' (sv_bound V o' ''loads'') (dict_set ''encoder'' (sv_bound V o' ''dumps'') values2))))"

definition callable_keys :: "string list" where
  "callable_keys = [''name'', ''keybuilder'', ''encoder'', ''decoder'', ''hit_setter'', ''hit_getter'', ''disabled'', ''invalidate_if'',
     ''invalidate_after'', ''overwrite_if'', ''exclude_if'', ''post_init_hook'', ''post_call_hook'']"

definition validate_key :: "settings_env \<Rightarrow> bool \<Rightarrow> string \<Rightarrow> pydict \<Rightarrow> pydict result" where
  "validate_key V done_serializer key values =
     (case dict_get values key of
        None \<Rightarrow> Inr values
      | Some v \<Rightarrow>
          (case validate_callable V v of
             Inl e \<Rightarrow> if key = ''name'' then Inr values else Inl e
           | Inr x \<Rightarrow>
               (let values1 = dict_set key x values in
                if key \<in> {''encoder'', ''decoder''} \<and> \<not> done_serializer \<and> \<not> sv_callable V x
                then (case sv_method V x (if key = ''decoder'' then ''loads'' else ''dumps'') of
                        Some f \<Rightarrow> Inr (dict_set key f values1)
                      | None \<Rightarrow> Inl ValueError)
                else Inr values1)))"

fun validate_keys :: "settings_env \<Rightarrow> bool \<Rightarrow> string list \<Rightarrow> pydict \<Rightarrow> pydict result" where
  "validate_keys V b [] values = Inr values"
| "validate_keys V b (k # ks) values = bindR (validate_key V b k values) (validate_keys V b ks)"

text \<open>\<open>int(v)\<close> and \<open>CachePolicy(v)\<close>: a member is its name.\<close>

definition int_of_value :: "pyval \<Rightarrow> int result" where
  "int_of_value v =
     (case v of
        PInt i \<Rightarrow> Inr i | PBool b \<Rightarrow> Inr (if b then 1 else 0) | PFloat r \<Rightarrow> Inr (if r < 0 then - \<lfloor>- r\<rfloor> else \<lfloor>r\<rfloor>)
      | PStr s \<Rightarrow> py_int s | PBytes s \<Rightarrow> py_int s | _ \<Rightarrow> Inl TypeError)"

definition policy_value :: "pyval \<Rightarrow> pyval result" where
  "policy_value v = (if v \<in> set (map PStr [''LRU'', ''LFU'', ''FIFO'', ''LIFO'']) then Inr v else Inl ValueError)"

definition validate_policy :: "pydict \<Rightarrow> pydict result" where
  "validate_policy values =
     (case dict_get values ''cache_max_size_policy'' of
        None \<Rightarrow> Inr values
      | Some p \<Rightarrow> bindR (policy_value p) (\<lambda>q. Inr (dict_set ''cache_max_size_policy'' q values)))"

definition validate_max_size :: "bool \<Rightarrow> pydict \<Rightarrow> pydict result" where
  "validate_max_size is_update values =
     (case dict_get values ''cache_max_size'' of
        None \<Rightarrow> validate_policy values
      | Some n \<Rightarrow>
          bindR (if truthy n then bindR (int_of_value n) (\<lambda>i. Inr (PInt i)) else Inr PNone) (\<lambda>m.
            let values1 = dict_set ''cache_max_size'' m values in
            if dict_has ''cache_max_size_policy'' values1 then validate_policy values1
            else if \<not> is_update then Inr (dict_set ''cache_max_size_policy'' (PStr ''LFU'') values1)
            else Inr values1))"

definition validate_kws :: "settings_env \<Rightarrow> bool \<Rightarrow> pydict \<Rightarrow> pydict result" where
  "validate_kws V is_update values =
     bindR (validate_serializer V values) (\<lambda>(b, values1).
       bindR (validate_keys V b callable_keys values1) (validate_max_size is_update))"

text \<open>\<open>update\<close> sets the attributes that the object has and leaves out the rest.\<close>

definition update_settings :: "settings_env \<Rightarrow> string list \<Rightarrow> pydict \<Rightarrow> pydict \<Rightarrow> pydict result" where
  "update_settings V attrs kwargs config =
     bindR (validate_kws V True kwargs) (\<lambda>kw. Inr (dict_update config (filter (\<lambda>(k, v). k \<in> set attrs) kw)))"

definition override_prefix :: "string option \<Rightarrow> cachify \<Rightarrow> cachify" where
  "override_prefix p C =
     (if opt_truthy p
      then let add = map (\<lambda>kw. the p @ kw) in
        C\<lparr>disabled_kws := add (disabled_kws C), invalidate_kws := add (invalidate_kws C), overwrite_kws := add (overwrite_kws C),
          ttl_kws := add (ttl_kws C), exclude_kws := add (exclude_kws C)\<rparr>
      else C)"

definition stage_silenced :: "string list \<Rightarrow> string list \<Rightarrow> bool" where
  "stage_silenced silenced stages \<longleftrightarrow> silenced \<noteq> [] \<and> list_ex (\<lambda>s. s \<in> set silenced) stages"

end
