(* ===== verification/Decorator_Laws.thy ===== *)
theory Decorator_Laws
  imports Cachify_Decorator
begin

text \<open>
  What the decorated functions promise: the synchronous wrapper is the look-up of \<open>Cachify\<close>, leaving work to the background
  changes nothing in the end but a call in between repeats the work, what stays true through the life of a decorated
  function, and what failing hooks and functions do.
\<close>

section \<open>The calls agree with the look-up\<close>

definition counted :: "(pyargs \<Rightarrow> pyval result) \<Rightarrow> nat pyfun" where
  "counted f pa n = (f pa, Suc n)"

lemma sync_miss_quiet:
  assumes "de_post_call E = None"
  shows "sync_miss E exec M (counted f) now key ck pa S n =
    (let (r, dm) = run_miss exec M (cd_config S) f now key ck pa (cd_store S) in (r, S\<lparr>cd_store := dm\<rparr>, Suc n))"
  using assms by (auto simp: sync_miss_def counted_def run_miss_def run_post_call_hook_def Let_def split: sum.splits)

text \<open>Without hooks the decorated function does what the look-up in the cache says: its answer, the new cache and how often
  the function itself runs are those of \<^verbatim>\<open>wrapper_call\<close>; beside that it only remembers the key and, for
  ever, that some call was a hit.\<close>

theorem sync_wrapper_is_wrapper_call:
  assumes "de_post_init E = None" and "de_post_call E = None" and "\<forall>pa. de_timed E pa"
  shows "\<exists>key. sync_wrapper E exec M (counted f) now pa S n =
    (let ok = (is_session_available E (cd_available S) = Some True);
         ((r, k, hit), C, dm) = wrapper_call exec M (de_name E) ok f now (cd_config S) pa (cd_store S) in
     (r, S\<lparr>cd_available := is_session_available E (cd_available S), cd_config := C, cd_key := key,
           cd_was_cached := (cd_was_cached S \<or> hit), cd_store := dm\<rparr>, n + k))"
proof (cases "is_session_available E (cd_available S) = Some True")
  case False
  have "de_timed E pa" using assms(3) by blast
  then show ?thesis using False
    by (intro exI[of _ "cd_key S"])
      (auto simp: sync_wrapper_def wrapper_call_def call_without_session_def counted_def Let_def split: sum.splits prod.splits)
next
  case True
  obtain ck kwargs where ck: "extract_cache_kwargs (build_hash_name (de_name E) pa (cd_config S)) (snd pa) = (ck, kwargs)"
    by fastforce
  show ?thesis
  proof (cases "should_disable (build_hash_name (de_name E) pa (cd_config S)) ck (fst pa, kwargs)")
    case True
    then show ?thesis using assms \<open>is_session_available E (cd_available S) = Some True\<close> ck
      by (intro exI[of _ "cd_key S"])
        (auto simp: sync_wrapper_def wrapper_call_def cached_call_def run_post_init_hook_def counted_def Let_def)
  next
    case False
    then show ?thesis using assms True ck
      by (intro exI[of _ "Some (hash_key (build_hash_name (de_name E) pa (cd_config S)) (fst pa, kwargs))"])
        (auto simp: sync_wrapper_def wrapper_call_def cached_call_def run_post_init_hook_def run_post_call_hook_def Let_def
          sync_miss_quiet[OF assms(2)]
          split: sum.splits prod.splits)
  qed
qed

section \<open>Background tasks\<close>

lemma avalidate_total: "\<exists>dm'. avalidate_cache_policies exec M C now key dm = (Inr (), dm')"
  by (auto simp: avalidate_cache_policies_def check_cache_policies_def num_keys_def c_length_def c_clear_def Let_def
    split: prod.splits sum.splits option.splits if_splits)

lemma drain_nil: "cd_tasks S = [] \<Longrightarrow> drain E exec M now S = S"
  by (simp add: drain.simps)

lemma drain_cons: "cd_tasks S = t # ts \<Longrightarrow> drain E exec M now S = drain E exec M now (run_task E exec M now t (S\<lparr>cd_tasks := ts\<rparr>))"
  by (simp add: drain.simps)

lemmas drain_steps = drain_nil drain_cons

text \<open>The state before the look-up has no task but the one of the first hook.\<close>

definition init_only :: "('db, 'm) deco \<Rightarrow> bool" where
  "init_only S \<longleftrightarrow> cd_tasks S = [] \<or> (\<exists>pa. cd_tasks S = [BgInit pa])"

lemma init_only_hook: "cd_tasks S = [] \<Longrightarrow> init_only (arun_post_init_hook E pa S)"
  by (simp add: init_only_def arun_post_init_hook_def)

lemma background_store:
  assumes "init_only S"
  shows "drain E exec M now (arun_cache_operation (E\<lparr>de_background := True\<rparr>) exec M now key v ck pa S) =
    drain E exec M now (arun_cache_operation (E\<lparr>de_background := False\<rparr>) exec M now key v ck pa S)"
  using assms
  by (auto simp: init_only_def arun_cache_operation_def run_cache_operation_def arun_post_call_hook_def Let_def drain_steps)

lemma background_retrieve:
  assumes "init_only S"
  obtains (miss) "aretrieve (E\<lparr>de_background := True\<rparr>) exec M now key ck pa S = (Inr ENOVAL, S)"
      "aretrieve (E\<lparr>de_background := False\<rparr>) exec M now key ck pa S = (Inr ENOVAL, S)"
  | (hit) v dm where "avalidate_cache_policies exec M (cd_config S) now key (cd_store S) = (Inr (), dm)"
      "aretrieve (E\<lparr>de_background := True\<rparr>) exec M now key ck pa S = (Inr v, S\<lparr>cd_tasks := cd_tasks S @ [BgValidate key]\<rparr>)"
      "aretrieve (E\<lparr>de_background := False\<rparr>) exec M now key ck pa S = (Inr v, S\<lparr>cd_store := dm\<rparr>)"
proof (cases "found_value exec (cd_config S) key ck pa (fst (cd_store S))")
  case None
  then show ?thesis using miss by (simp add: aretrieve_def)
next
  case (Some x)
  obtain dm where "avalidate_cache_policies exec M (cd_config S) now key (cd_store S) = (Inr (), dm)"
    using avalidate_total by blast
  then show ?thesis using Some hit[of dm] by (cases "decode_hit (cd_config S) x pa") (simp_all add: aretrieve_def)
qed

text \<open>The tasks that a look-up leaves, and what the call does after it.\<close>

lemma background_hit:
  assumes "init_only S" and "avalidate_cache_policies exec M (cd_config S) now key (cd_store S) = (Inr (), dm)"
  shows "drain E exec M now (arun_post_call_hook (E\<lparr>de_background := True\<rparr>) v pa True
        (S\<lparr>cd_tasks := cd_tasks S @ [BgValidate key], cd_was_cached := True\<rparr>)) =
      drain E exec M now (arun_post_call_hook (E\<lparr>de_background := False\<rparr>) v pa True (S\<lparr>cd_store := dm, cd_was_cached := True\<rparr>))"
    and "drain E exec M now (S\<lparr>cd_tasks := cd_tasks S @ [BgValidate key]\<rparr>) = drain E exec M now (S\<lparr>cd_store := dm\<rparr>)"
    and "drain E exec M now (arun_cache_operation (E\<lparr>de_background := True\<rparr>) exec M now key' v ck pa
        (S\<lparr>cd_tasks := cd_tasks S @ [BgValidate key]\<rparr>)) =
      drain E exec M now (arun_cache_operation (E\<lparr>de_background := False\<rparr>) exec M now key' v ck pa (S\<lparr>cd_store := dm\<rparr>))"
  using assms
  by (auto simp: init_only_def arun_post_call_hook_def arun_cache_operation_def run_cache_operation_def Let_def drain_steps)


definition ex_deco :: "((string \<times> mobj) list, (string \<times> pyval) list) deco" where
  "ex_deco = \<lparr>cd_config = ex_cache, cd_available = Some True, cd_init_ran = False, cd_key = None, cd_was_cached = False,
     cd_store = ([], []), cd_hooks = [], cd_tasks = []\<rparr>"

definition ex_surroundings :: deco_env where
  "ex_surroundings = \<lparr>de_name = ''f'', de_ping = True, de_ci = False, de_timed = (\<lambda>pa. True), de_post_init = Some (\<lambda>pa. Inr ()),
     de_post_call = Some (\<lambda>v pa hit. Inr ()), de_background = True\<rparr>"


section \<open>Calls before the tasks have run\<close>

definition aquiet_call :: "cachify \<Rightarrow> pyargs \<Rightarrow> pydict \<Rightarrow> pyargs \<Rightarrow> bool" where
  "aquiet_call C pa0 ck pa \<longleftrightarrow> quiet_call C pa0 ck pa \<and> invalidate_after C = NeverAfter"

lemma aquiet_hits: "aquiet_call C pa0 ck pa \<Longrightarrow> \<not> should_invalidate C h ck pa"
  by (auto simp: aquiet_call_def quiet_call_def should_invalidate_def split: option.splits)

lemma quiet_async_call:
  assumes "aquiet_call C pa0 ck pa" and "cache_field C = Some f"
    and "cd_config S = C" "cd_available S = Some True" and "de_post_init E = None"
  shows "async_wrapper E exec M func now pa0 S w =
    (case aretrieve E exec M now (hash_key C pa) ck pa (S\<lparr>cd_key := Some (hash_key C pa)\<rparr>) of
       (Inl e, S3) \<Rightarrow> (Inl e, S3, w)
     | (Inr v, S3) \<Rightarrow>
         if v = ENOVAL
         then (case func pa w of
                 (Inl e, w1) \<Rightarrow> (if raise_exceptions C then Inl e else Inr PNone, S3, w1)
               | (Inr x, w1) \<Rightarrow> (Inr x, arun_cache_operation E exec M now (hash_key C pa) x ck pa S3, w1))
         else (Inr v, arun_post_call_hook E v pa True (S3\<lparr>cd_was_cached := True\<rparr>), w))"
proof -
  have "build_hash_name n pa0 C = C" for n using assms(2) by (simp add: build_hash_name_def)
  moreover have "extract_cache_kwargs C (snd pa0) = (ck, snd pa)" "(fst pa0, snd pa) = pa" "\<not> should_disable C ck pa"
    using assms(1) by (auto simp: aquiet_call_def quiet_call_def prod_eq_iff)
  ultimately show ?thesis
    using assms(3-5) aquiet_hits[OF assms(1)]
    by (cases S) (simp add: async_wrapper_def is_session_available_def arun_post_init_hook_def Let_def cong: sum.case_cong prod.case_cong if_cong)
qed

text \<open>While the background has not stored a result, the next call with the same arguments does not see it: the function runs
  again, and the cache is as it was. Once the tasks have run, a call answers with what was stored last and
  leaves the function alone.\<close>

theorem unstored_result_computed_again:
  assumes "cache_env exec view M" and "aquiet_call C pa0 ck pa" and "cache_field C = Some f" and "caches view C d h"
    and "cd_config S = C" "cd_available S = Some True" "cd_store S = (d, m)" "cd_tasks S = []"
    and "de_post_init E = None" "de_post_call E = None" "de_background E"
    and "h (hash_key C pa) = None" and "func pa w = (Inr v1, w1)" and "func pa w1 = (Inr v2, w2)"
    and "should_cache_value C v1 ck pa" "should_cache_value C v2 ck pa"
    and "encode_hit C v1 pa = Inr r1" "encode_hit C v2 pa = Inr r2" "decode_hit C r2 pa = Inr v2" "proper v2"
  shows "\<exists>S1 S2 S3. async_wrapper E exec M func now pa0 S w = (Inr v1, S1, w1) \<and>
    async_wrapper E exec M func now pa0 S1 w1 = (Inr v2, S2, w2) \<and> cd_store S2 = (d, m) \<and>
    async_wrapper E exec M func now pa0 (drain E exec M now S2) w2 = (Inr v2, S3, w2)"
proof -
  let ?k = "hash_key C pa"
  let ?S1 = "S\<lparr>cd_key := Some ?k, cd_tasks := [BgStore ?k v1 ck pa]\<rparr>"
  let ?S2 = "S\<lparr>cd_key := Some ?k, cd_tasks := [BgStore ?k v1 ck pa, BgStore ?k v2 ck pa]\<rparr>"
  have over: "\<not> should_overwrite C ck pa" using assms(2) by (simp add: aquiet_call_def quiet_call_def)
  have none: "found_value exec C ?k ck pa d = None"
    using cache_env.cached_exists[OF assms(1) assms(4)] assms(12) by (simp add: found_value_def)
  have call1: "async_wrapper E exec M func now pa0 S w = (Inr v1, ?S1, w1)"
    using assms none by (simp add: quiet_async_call[OF assms(2,3,5,6,9)] aretrieve_def arun_cache_operation_def)
  have call2: "async_wrapper E exec M func now pa0 ?S1 w1 = (Inr v2, ?S2, w2)"
    using assms none by (simp add: quiet_async_call[OF assms(2,3) _ _ assms(9)] aretrieve_def arun_cache_operation_def)
  define dm where "dm = store exec M C now ?k v2 ck pa (store exec M C now ?k v1 ck pa (d, m))"
  have stored: "\<exists>d1 m1. store exec M C now ?k v ck pa (d0, m0) = (d1, m1) \<and> caches view C d1 (h0(?k \<mapsto> r))"
    if "caches view C d0 h0" "should_cache_value C v ck pa" "encode_hit C v pa = Inr r" for v r d0 m0 h0
    using cache_env.miss_stores[OF assms(1) that(1), of "\<lambda>pa. Inr v" pa v ck r now ?k m0] that(2,3)
    by (cases "store exec M C now ?k v ck pa (d0, m0)") (simp add: run_miss_def)
  obtain d1 m1 where 1: "store exec M C now ?k v1 ck pa (d, m) = (d1, m1)" "caches view C d1 (h(?k \<mapsto> r1))"
    using stored[OF assms(4) assms(15,17), of m] by blast
  obtain d2 m2 where 2: "dm = (d2, m2)" "caches view C d2 (h(?k \<mapsto> r1, ?k \<mapsto> r2))"
    using stored[OF 1(2) assms(16,18), of m1] 1(1) by (auto simp: dm_def)
  have drained: "drain E exec M now ?S2 = S\<lparr>cd_key := Some ?k, cd_store := (d2, m2), cd_tasks := []\<rparr>"
    using assms 1 2 by (simp add: drain_steps run_cache_operation_def arun_post_call_hook_def dm_def)
  have "c_get exec C ?k d2 = Some r2" "c_exists exec C ?k d2"
    using cache_env.cached_get[OF assms(1) 2(2)] cache_env.cached_exists[OF assms(1) 2(2)] by auto
  then have "found_value exec C ?k ck pa d2 = Some r2" using over by (simp add: found_value_def)
  then have "\<exists>S3. async_wrapper E exec M func now pa0 (drain E exec M now ?S2) w2 = (Inr v2, S3, w2)"
    using assms by (simp add: drained quiet_async_call[OF assms(2,3) _ _ assms(9)] aretrieve_def proper_def)
  moreover have "cd_store ?S2 = (d, m)" using assms(7) by simp
  ultimately show ?thesis using call1 call2 by blast
qed

lemma unstored_result_computed_again_witness:
  "\<exists>S1 S2 S3. async_wrapper (ex_surroundings\<lparr>de_post_init := None, de_post_call := None\<rparr>) mem_exec mem_meta (\<lambda>pa n. (Inr (PInt n), n + 1)) 0 ([], []) ex_deco 7 = (Inr (PInt 7), S1, 8) \<and>
     async_wrapper (ex_surroundings\<lparr>de_post_init := None, de_post_call := None\<rparr>) mem_exec mem_meta (\<lambda>pa n. (Inr (PInt n), n + 1)) 0 ([], []) S1 8 = (Inr (PInt 8), S2, 9) \<and> cd_store S2 = ([], []) \<and>
     async_wrapper (ex_surroundings\<lparr>de_post_init := None, de_post_call := None\<rparr>) mem_exec mem_meta (\<lambda>pa n. (Inr (PInt n), n + 1)) 0 ([], [])
       (drain (ex_surroundings\<lparr>de_post_init := None, de_post_call := None\<rparr>) mem_exec mem_meta 0 S2) 9 = (Inr (PInt 8), S3, 9)"
proof (rule unstored_result_computed_again[OF mem_cache.cache_env_axioms, where C = ex_cache and ck = "[]" and pa = "([], [])"
      and f = "''f''" and d = "[]" and h = Map.empty and m = "[]" and ?v1.0 = "PInt 7" and ?v2.0 = "PInt 8" and ?r1.0 = "RInt 7" and ?r2.0 = "RInt 8"])
  show "aquiet_call ex_cache ([], []) [] ([], [])" using ex_cache_quiet by (simp add: aquiet_call_def) (simp add: ex_cache_def)
  show "caches mview ex_cache [] Map.empty" by (simp add: caches_def ex_cache_fields mview_def dict_get_def)
  show "cache_field ex_cache = Some ''f''" by (simp add: ex_cache_def)
qed (simp_all add: ex_deco_def ex_surroundings_def ex_cache_keeps dict_get_def)

section \<open>The life of a decorated function\<close>

text \<open>Anything that can happen to it: calls, whatever the function does, background tasks in any order, clearing,
  invalidating.\<close>

inductive deco_step :: "deco_env \<Rightarrow> 'db executor \<Rightarrow> 'm meta_ops \<Rightarrow> ('db, 'm) deco \<Rightarrow> ('db, 'm) deco \<Rightarrow> bool"
  for E :: deco_env and exec :: "'db executor" and M :: "'m meta_ops" where
  sync_call: "sync_wrapper E exec M (func :: nat pyfun) now pa S w = (r, T, w1) \<Longrightarrow> deco_step E exec M S T"
| async_call: "async_wrapper E exec M (func :: nat pyfun) now pa S w = (r, T, w1) \<Longrightarrow> deco_step E exec M S T"
| background: "cd_tasks S = us @ t # ts \<Longrightarrow> deco_step E exec M S (run_task E exec M now t (S\<lparr>cd_tasks := us @ ts\<rparr>))"
| cleared: "deco_clear exec M ka S = (r, T) \<Longrightarrow> deco_step E exec M S T"
| invalidated: "deco_step E exec M S (invalidate_key exec M key S)"

inductive deco_reach :: "deco_env \<Rightarrow> 'db executor \<Rightarrow> 'm meta_ops \<Rightarrow> ('db, 'm) deco \<Rightarrow> bool"
  for E :: deco_env and exec :: "'db executor" and M :: "'m meta_ops" where
  decorated: "decorate E C a dm = Some S \<Longrightarrow> deco_reach E exec M S"
| stepped: "deco_reach E exec M S \<Longrightarrow> deco_step E exec M S T \<Longrightarrow> deco_reach E exec M T"

definition init_runs :: "('db, 'm) deco \<Rightarrow> nat" where
  "init_runs S = length (filter (\<lambda>h. case h of InitHook _ \<Rightarrow> True | _ \<Rightarrow> False) (cd_hooks S)) +
     length (filter (\<lambda>t. case t of BgInit _ \<Rightarrow> True | _ \<Rightarrow> False) (cd_tasks S))"

text \<open>What most steps leave alone.\<close>

definition same_life :: "('db, 'm) deco \<Rightarrow> ('db, 'm) deco \<Rightarrow> bool" where
  "same_life S T \<longleftrightarrow> cd_available T = cd_available S \<and> cd_init_ran T = cd_init_ran S \<and> init_runs T = init_runs S \<and>
     (cd_was_cached S \<longrightarrow> cd_was_cached T)"

lemma same_life_refl [simp]: "same_life S S"
  by (simp add: same_life_def)

lemma same_life_trans: "same_life S T \<Longrightarrow> same_life T U \<Longrightarrow> same_life S U"
  by (simp add: same_life_def)

lemma same_life_store [simp]:
  "same_life S (T\<lparr>cd_store := dm\<rparr>) \<longleftrightarrow> same_life S T" "same_life (S\<lparr>cd_store := dm\<rparr>) T \<longleftrightarrow> same_life S T"
  "same_life S (T\<lparr>cd_key := k\<rparr>) \<longleftrightarrow> same_life S T" "same_life (S\<lparr>cd_key := k\<rparr>) T \<longleftrightarrow> same_life S T"
  "same_life (S\<lparr>cd_key := k, cd_store := dm\<rparr>) T \<longleftrightarrow> same_life S T"
  "same_life S (T\<lparr>cd_key := k, cd_store := dm\<rparr>) \<longleftrightarrow> same_life S T"
  by (simp_all add: same_life_def init_runs_def)

lemma same_life_hit:
  "same_life (S\<lparr>cd_was_cached := True\<rparr>) T \<Longrightarrow> same_life S T"
  "same_life (S\<lparr>cd_key := k, cd_store := dm, cd_was_cached := True\<rparr>) T \<Longrightarrow> same_life S T"
  by (simp_all add: same_life_def init_runs_def)

lemma call_hook_life:
  "run_post_call_hook E v pa hit S = (r, T) \<Longrightarrow> same_life S T"
  "same_life S (arun_post_call_hook E v pa hit S)"
  by (auto simp: run_post_call_hook_def arun_post_call_hook_def same_life_def init_runs_def split: option.splits)

lemma cache_operation_life: "same_life S (arun_cache_operation E exec M now key v ck pa S)"
proof -
  have "same_life S (run_cache_operation E exec M now key v ck pa S)"
    unfolding run_cache_operation_def Let_def by (rule same_life_trans[OF _ call_hook_life(2)]) simp
  then show ?thesis by (simp add: arun_cache_operation_def) (simp add: same_life_def init_runs_def)
qed

lemma sync_miss_life: "sync_miss E exec M func now key ck pa S w = (r, T, w1) \<Longrightarrow> same_life S T"
  by (auto simp: sync_miss_def Let_def split: prod.splits sum.splits if_splits
    dest!: call_hook_life(1))

lemma aretrieve_life: "aretrieve E exec M now key ck pa S = (r, T) \<Longrightarrow> same_life S T"
proof -
  have "same_life S (S\<lparr>cd_tasks := cd_tasks S @ [BgValidate key]\<rparr>)" by (simp add: same_life_def init_runs_def)
  then show "aretrieve E exec M now key ck pa S = (r, T) \<Longrightarrow> same_life S T"
    by (auto simp: aretrieve_def Let_def split: option.splits prod.splits sum.splits if_splits)
qed

text \<open>A session that answered once counts as there; the hook has run once when it is marked so.\<close>

definition deco_ok :: "('db, 'm) deco \<Rightarrow> bool" where
  "deco_ok S \<longleftrightarrow> cd_available S = Some True \<and> init_runs S \<le> (if cd_init_ran S then 1 else 0)"

lemma deco_ok_life: "deco_ok S \<Longrightarrow> same_life S T \<Longrightarrow> deco_ok T"
  by (simp add: deco_ok_def same_life_def)

lemma init_hook_ok:
  assumes "deco_ok S" and "\<forall>f. de_post_init E = Some f \<longrightarrow> f = (\<lambda>pa. Inr ())"
  shows "run_post_init_hook E pa S = (r, T) \<Longrightarrow> deco_ok T \<and> r = Inr () \<and> cd_was_cached T = cd_was_cached S"
    and "deco_ok (arun_post_init_hook E pa S) \<and> cd_was_cached (arun_post_init_hook E pa S) = cd_was_cached S"
  using assms by (auto simp: run_post_init_hook_def arun_post_init_hook_def deco_ok_def init_runs_def Let_def split: option.splits if_splits)

lemma sync_call_ok:
  assumes "deco_ok S" and "\<forall>f. de_post_init E = Some f \<longrightarrow> f = (\<lambda>pa. Inr ())"
    and "sync_wrapper E exec M func now pa S w = (r, T, w1)"
  shows "deco_ok T \<and> (cd_was_cached S \<longrightarrow> cd_was_cached T)"
proof -
  define C where "C = build_hash_name (de_name E) pa (cd_config S)"
  let ?S1 = "S\<lparr>cd_available := Some True, cd_config := C\<rparr>"
  have av: "cd_available S = Some True" using assms(1) by (simp add: deco_ok_def)
  have "deco_ok ?S1" using assms(1) by (simp add: deco_ok_def init_runs_def)
  then obtain U where U: "run_post_init_hook E pa ?S1 = (Inr (), U)" "deco_ok U" "cd_was_cached U = cd_was_cached S"
    using init_hook_ok(1)[of ?S1 E pa] assms(2) by (cases "run_post_init_hook E pa ?S1") auto
  have "same_life U T"
    using assms(3) av U(1)
    by (auto simp: sync_wrapper_def is_session_available_def Let_def C_def split: prod.splits sum.splits if_splits
      dest!: call_hook_life(1) sync_miss_life dest: same_life_hit)
  then show ?thesis using U deco_ok_life[OF U(2)] by (auto simp: same_life_def)
qed

lemma async_call_ok:
  assumes "deco_ok S" and "\<forall>f. de_post_init E = Some f \<longrightarrow> f = (\<lambda>pa. Inr ())"
    and "async_wrapper E exec M func now pa S w = (r, T, w1)"
  shows "deco_ok T \<and> (cd_was_cached S \<longrightarrow> cd_was_cached T)"
proof -
  define C where "C = build_hash_name (de_name E) pa (cd_config S)"
  let ?S1 = "S\<lparr>cd_available := Some True, cd_config := C\<rparr>"
  define U where "U = arun_post_init_hook E pa ?S1"
  have av: "cd_available S = Some True" using assms(1) by (simp add: deco_ok_def)
  have "deco_ok ?S1" using assms(1) by (simp add: deco_ok_def init_runs_def)
  then have U: "deco_ok U" "cd_was_cached U = cd_was_cached S" using init_hook_ok(2)[of ?S1 E pa] assms(2) by (simp_all add: U_def)
  have hit: "same_life V (arun_post_call_hook E v q True (V\<lparr>cd_was_cached := True\<rparr>))" for V :: "('a, 'b) deco" and v q
    by (rule same_life_hit(1)[OF call_hook_life(2)])
  have "same_life U T"
    using assms(3) av
    by (auto simp: async_wrapper_def is_session_available_def Let_def simp flip: C_def U_def split: prod.splits sum.splits if_splits
      dest!: aretrieve_life intro: same_life_trans[OF _ hit] same_life_trans[OF _ cache_operation_life])
  then show ?thesis using U deco_ok_life[OF U(1)] by (auto simp: same_life_def)
qed

lemma background_ok:
  assumes "deco_ok S" and "cd_tasks S = us @ t # ts"
  shows "deco_ok (run_task E exec M now t (S\<lparr>cd_tasks := us @ ts\<rparr>)) \<and>
    (cd_was_cached S \<longrightarrow> cd_was_cached (run_task E exec M now t (S\<lparr>cd_tasks := us @ ts\<rparr>)))"
proof (cases t)
  case (BgStore key v ck pa)
  let ?S1 = "S\<lparr>cd_tasks := us @ ts\<rparr>"
  have "arun_cache_operation (E\<lparr>de_background := False\<rparr>) exec M now key v ck pa ?S1 = run_task E exec M now t ?S1"
    using BgStore by (simp add: arun_cache_operation_def run_cache_operation_def arun_post_call_hook_def)
  then have "same_life ?S1 (run_task E exec M now t ?S1)" by (metis cache_operation_life)
  moreover have "same_life S ?S1" using assms(2) BgStore by (simp add: same_life_def init_runs_def)
  ultimately have "same_life S (run_task E exec M now t ?S1)" by (rule same_life_trans[rotated])
  then show ?thesis using assms(1) deco_ok_life by (auto simp: same_life_def)
qed (use assms in \<open>auto simp: deco_ok_def init_runs_def\<close>)

inductive_cases deco_stepE: "deco_step E exec M S T"

lemma step_ok:
  assumes "deco_step E exec M S T" and "deco_ok S" and "\<forall>f. de_post_init E = Some f \<longrightarrow> f = (\<lambda>pa. Inr ())"
  shows "deco_ok T \<and> (cd_was_cached S \<longrightarrow> cd_was_cached T)"
  using assms(1)
proof cases
  case (sync_call func now pa w r w1)
  then show ?thesis using sync_call_ok[OF assms(2,3), of exec M func now pa w r T w1] by simp
next
  case (async_call func now pa w r w1)
  then show ?thesis using async_call_ok[OF assms(2,3), of exec M func now pa w r T w1] by simp
next
  case (background us t ts now)
  then show ?thesis using background_ok[OF assms(2)] by blast
next
  case (cleared ka r)
  then show ?thesis using assms(2) by (auto simp: deco_clear_def deco_ok_def init_runs_def split: prod.splits)
next
  case (invalidated key)
  then show ?thesis using assms(2) by (auto simp: invalidate_key_def deco_ok_def init_runs_def)
qed

text \<open>A function is decorated only while the session answers, and from then on the session counts as there: whatever
  is called, cleared or done in the background, the way around the cache that is meant for a missing session is never taken.
  The first hook runs at most once, and a function that answered from its cache once reports so for ever.\<close>

theorem decorated_stays_available:
  assumes "deco_reach E exec M S" and "\<forall>f. de_post_init E = Some f \<longrightarrow> f = (\<lambda>pa. Inr ())"
  shows "cd_available S = Some True \<and> init_runs S \<le> 1 \<and>
    (\<forall>T. deco_step E exec M S T \<longrightarrow> was_cached S \<longrightarrow> was_cached T)"
proof -
  have "deco_ok S" using assms(1)
  proof (induction rule: deco_reach.induct)
    case (decorated C a dm S)
    then show ?case by (auto simp: decorate_def cache_enabled_def deco_ok_def init_runs_def Let_def split: if_splits)
  next
    case (stepped S T)
    then show ?case using step_ok assms(2) by blast
  qed
  moreover have "was_cached S \<longrightarrow> was_cached T" if "deco_step E exec M S T" for T
    using step_ok[OF that \<open>deco_ok S\<close> assms(2)] by (simp add: was_cached_def)
  ultimately show ?thesis by (auto simp: deco_ok_def split: if_splits)
qed

lemma decorated_stays_available_witness:
  "\<exists>S. decorate ex_surroundings ex_cache None ([] :: (string \<times> mobj) list, [] :: (string \<times> pyval) list) = Some S \<and> cd_available S = Some True \<and> init_runs S \<le> 1"
proof -
  let ?S = "ex_deco"
  have d: "decorate ex_surroundings ex_cache None ([] :: (string \<times> mobj) list, [] :: (string \<times> pyval) list) = Some ?S"
    by (simp add: decorate_def cache_enabled_def ex_surroundings_def ex_deco_def)
  have "\<forall>f. de_post_init ex_surroundings = Some f \<longrightarrow> f = (\<lambda>pa. Inr ())" by (simp add: ex_surroundings_def)
  from decorated_stays_available[OF deco_reach.decorated[OF d] this, of mem_exec mem_meta] d show ?thesis by blast
qed

text \<open>What a failing hook or a failing function does. Without a session a function that raises is run a second time,
  with the arguments that were meant for the cache. When the last hook raises after a miss, the result is in the cache although
  the call raises or returns None; after a hit the call always raises.\<close>

theorem failures_of_calls:
  assumes "de_timed E pa0"
  shows "(is_session_available E (cd_available S) \<noteq> Some True \<and> func pa0 w = (Inl e, w1) \<longrightarrow>
      (\<exists>T. sync_wrapper E exec M func now pa0 S w = (fst (func pa0 w1), T, snd (func pa0 w1)) \<and> cd_store T = cd_store S)) \<and>
    (func pa w = (Inr v, w1) \<and> de_post_call E = Some hook \<and> hook v pa False = Inl e \<and> should_cache_value (cd_config S) v ck pa \<longrightarrow>
      (\<exists>T. sync_miss E exec M func now key ck pa S w = (if raise_exceptions (cd_config S) then Inl e else Inr PNone, T, w1) \<and>
        cd_store T = store exec M (cd_config S) now key v ck pa (cd_store S)))"
  using assms
  by (auto simp: sync_wrapper_def call_without_session_def sync_miss_def run_post_call_hook_def Let_def split: prod.splits)

lemma failures_of_calls_witness:
  "\<exists>T. sync_wrapper (ex_surroundings\<lparr>de_ping := False\<rparr>) mem_exec mem_meta (\<lambda>pa n. (Inl ValueError, Suc n)) 0 ([], [(''cache_ttl'', PInt 5)])
     (ex_deco\<lparr>cd_available := None\<rparr>) 0 = (Inl ValueError, T, Suc (Suc 0)) \<and> cd_store T = ([], [])"
  using failures_of_calls[of "ex_surroundings\<lparr>de_ping := False\<rparr>" "([], [(''cache_ttl'', PInt 5)])" "ex_deco\<lparr>cd_available := None\<rparr>"
      "\<lambda>pa n. (Inl ValueError, Suc n)" 0 ValueError "Suc 0" mem_exec mem_meta 0]
  by (simp add: ex_surroundings_def ex_deco_def is_session_available_def)

end
