(* ===== verification/Cachify_Context.thy ===== *)
theory Cachify_Context
  imports Decorator_Laws Kwargs Client_Sessions
begin

text \<open>
  Named caches (\<^verbatim>\<open>io/cachify/cache.py\<close>, class \<open>CachifyContext\<close>) and their manager (\<^verbatim>\<open>io/cachify/main.py\<close>): which
  cache object a registered function gets, the session a named cache runs on, and classes whose methods are cached
  (with \<^verbatim>\<open>utils/patching.py\<close>). A cache object is known by its function name in the context.
\<close>

section \<open>Functions and contexts\<close>

text \<open>\<open>pf_uninit\<close>: a plain function with a parameter self or cls, which counts as a method of a class that has no object yet.\<close>

record pyfn =
  pf_name :: string
  pf_full_name :: string
  pf_uninit :: bool
  pf_owner :: string
  pf_attr :: string

datatype registered_fn = AsItWas pyfn | Cached string pyfn

record cachify_context =
  cx_cache_name :: string
  cx_contexts :: "(string \<times> cachify) list"
  cx_partial :: pydict
  cx_session :: "session_obj option"
  cx_session_name :: "string option"
  cx_kwargs :: pydict
  cx_methods :: "(string \<times> (string \<times> pydict) list) list"
  cx_validators :: "(string \<times> string) list"
  cx_roots :: "(string \<times> pydict \<times> string list) list"

text \<open>The fields of the settings, the constructor of a cache object with its validation, the server's answer to a
  ping (\<open>is_enabled\<close>).\<close>

record context_env =
  ce_config_fields :: "string list"
  ce_client_fields :: "string list"
  ce_settings_fields :: "string list"
  ce_make :: "pydict \<Rightarrow> cachify result"
  ce_enabled :: bool

text \<open>The settings are copied without their parts: the configuration of caches is one object for all contexts, here the second
  component of the result.\<close>

definition new_context ::
    "context_env \<Rightarrow> string \<Rightarrow> session_obj option \<Rightarrow> string option \<Rightarrow> pydict option \<Rightarrow> pydict \<Rightarrow> pydict \<Rightarrow> cachify_context \<times> pydict" where
  "new_context E name session session_name partial kw config =
     (let (cache_config, rest) = extract_config_and_kwargs (ce_config_fields E) None False None None True kw in
      (\<lparr>cx_cache_name = name, cx_contexts = [], cx_partial = (case partial of Some p \<Rightarrow> p | None \<Rightarrow> []), cx_session = session,
         cx_session_name = session_name, cx_kwargs = rest, cx_methods = [], cx_validators = [], cx_roots = []\<rparr>,
       dict_update config cache_config))"

definition bind_session :: "session_obj \<Rightarrow> cachify_context \<Rightarrow> cachify_context" where
  "bind_session s X = X\<lparr>cx_session := Some s\<rparr>"

section \<open>The session of a cache\<close>

definition extract_session_kwargs :: "context_env \<Rightarrow> cachify_context \<Rightarrow> pydict" where
  "extract_session_kwargs E X =
     fold (\<lambda>f config.
        case dict_get (cx_kwargs X) f of
          Some v \<Rightarrow> dict_set f v config
        | None \<Rightarrow> (case dict_get (cx_kwargs X) (''session_'' @ f) of Some v \<Rightarrow> dict_set f v config | None \<Rightarrow> config))
       (ce_settings_fields E)
       (extract_kwargs (ce_client_fields E) (Some ''session_'') False None None True (cx_kwargs X))"

text \<open>A URL in the settings is given as text.\<close>

definition url_setting :: "pyval option \<Rightarrow> url_arg option" where
  "url_setting v = (case v of Some (PStr s) \<Rightarrow> Some (UrlText s) | _ \<Rightarrow> None)"

definition db_setting :: "pyval option \<Rightarrow> int option" where
  "db_setting v = (case v of Some (PInt i) \<Rightarrow> Some i | _ \<Rightarrow> None)"

definition context_session ::
    "context_env \<Rightarrow> session_env \<Rightarrow> pydict \<Rightarrow> cachify_context \<Rightarrow> session_manager \<Rightarrow>
     session_obj result \<times> cachify_context \<times> session_manager" where
  "context_session E SE config X G =
     (case cx_session X of
        Some s \<Rightarrow> (Inr s, X, G)
      | None \<Rightarrow>
          (case cx_session_name X of
             Some n \<Rightarrow>
               (case get_session SE (Some n) None None (Some False) False [] G of
                  (Inl e, G1) \<Rightarrow> (Inl e, X, G1) | (Inr s, G1) \<Rightarrow> (Inr s, X\<lparr>cx_session := Some s\<rparr>, G1))
           | None \<Rightarrow>
               (let kw = extract_session_kwargs E X;
                    kw1 = (if dict_has ''url'' kw then kw
                           else dict_set ''url'' (case dict_get (cx_kwargs X) ''url'' of Some v \<Rightarrow> v | None \<Rightarrow> PNone) kw);
                    kw2 = (if dict_has ''db_id'' kw1 then kw1
                           else dict_set ''db_id'' (case dict_get (cx_kwargs X) ''db_id'' of Some v \<Rightarrow> v
                                  | None \<Rightarrow> (case dict_get config ''db_id'' of Some v \<Rightarrow> v | None \<Rightarrow> PNone)) kw1) in
                case get_session SE (Some (''cachify:'' @ cx_cache_name X)) (url_setting (dict_get kw2 ''url''))
                       (db_setting (dict_get kw2 ''db_id'')) (Some False) False (dict_del ''db_id'' (dict_del ''url'' kw2)) G of
                  (Inl e, G1) \<Rightarrow> (Inl e, X, G1)
                | (Inr s, G1) \<Rightarrow> (Inr s, X\<lparr>cx_session := Some s, cx_session_name := Some (so_name s)\<rparr>, G1))))"

section \<open>Registering functions\<close>

text \<open>The settings of the context are put together and then left out: the cache object gets those of the call only.\<close>

definition create_cachify :: "context_env \<Rightarrow> pydict \<Rightarrow> pydict \<Rightarrow> cachify_context \<Rightarrow> cachify result" where
  "create_cachify E config kw X =
     (let base_kwargs = dict_update (dict_update (filter (\<lambda>(k, v). v \<noteq> PNone) config) kw) (cx_partial X) in ce_make E kw)"

definition context_add_function ::
    "context_env \<Rightarrow> pydict \<Rightarrow> pyfn \<Rightarrow> pydict \<Rightarrow> cachify_context \<Rightarrow> string result \<times> cachify_context" where
  "context_add_function E config f kw X =
     (let name = (case dict_get kw ''function_name'' of Some (PStr n) \<Rightarrow> if n \<noteq> [] then n else pf_name f | _ \<Rightarrow> pf_name f) in
      case create_cachify E config (dict_set ''function_name'' (PStr name) kw) X of
        Inl e \<Rightarrow> (Inl e, X)
      | Inr C \<Rightarrow> (Inr name, if dict_has name (cx_contexts X) then X else X\<lparr>cx_contexts := dict_set name C (cx_contexts X)\<rparr>))"

definition context_register_method :: "pyfn \<Rightarrow> pydict \<Rightarrow> cachify_context \<Rightarrow> cachify_context" where
  "context_register_method f kw X =
     (let set = (case dict_get (cx_methods X) (pf_owner f) of Some m \<Rightarrow> m | None \<Rightarrow> []);
          kw1 = filter (\<lambda>(k, v). v \<noteq> PNone) kw;
          set1 = (if dict_has (pf_attr f) set then set else dict_set (pf_attr f) kw1 set) in
      X\<lparr>cx_methods := dict_set (pf_owner f) set1 (cx_methods X)\<rparr>)"

definition register ::
    "context_env \<Rightarrow> pydict \<Rightarrow> pyfn \<Rightarrow> pydict \<Rightarrow> cachify_context \<Rightarrow> registered_fn result \<times> cachify_context" where
  "register E config f kw X =
     (if pf_uninit f then (Inr (AsItWas f), context_register_method f kw X)
      else case context_add_function E config f kw X of
        (Inl e, X1) \<Rightarrow> (Inl e, X1)
      | (Inr name, X1) \<Rightarrow> (Inr (if ce_enabled E then Cached name f else AsItWas f), X1))"

text \<open>A call of a registered function through its cache object.\<close>

definition context_call ::
    "'db executor \<Rightarrow> 'm meta_ops \<Rightarrow> (pyfn \<Rightarrow> pyargs \<Rightarrow> pyval result) \<Rightarrow> rat \<Rightarrow> registered_fn \<Rightarrow> pyargs \<Rightarrow> cachify_context \<times> 'db \<times> 'm \<Rightarrow>
     (pyval result \<times> nat \<times> bool) \<times> cachify_context \<times> 'db \<times> 'm" where
  "context_call exec M run now R pa XD =
     (let (X, dm) = XD in
      case R of
        AsItWas f \<Rightarrow> ((run f pa, 1, False), XD)
      | Cached name f \<Rightarrow>
          (case dict_get (cx_contexts X) name of
             None \<Rightarrow> ((Inl KeyError, 0, False), XD)
           | Some C \<Rightarrow> (let (r, C1, dm1) = wrapper_call exec M (pf_full_name f) True (run f) now C pa dm in
               (r, X\<lparr>cx_contexts := dict_set name C1 (cx_contexts X)\<rparr>, dm1))))"

section \<open>The manager of the named caches\<close>

record cachify_manager =
  cm_contexts :: "(string \<times> cachify_context) list"
  cm_config :: pydict

definition cache_name_of :: "string option \<Rightarrow> string" where
  "cache_name_of n = (if opt_truthy n then the n else ''global'')"

definition create_cachify_context ::
    "context_env \<Rightarrow> string option \<Rightarrow> session_obj option \<Rightarrow> string option \<Rightarrow> pydict option \<Rightarrow> pydict \<Rightarrow> cachify_manager \<Rightarrow>
     cachify_context \<times> cachify_manager" where
  "create_cachify_context E cname session session_name partial kw Mg =
     (let n = cache_name_of cname in
      case dict_get (cm_contexts Mg) n of
        Some X \<Rightarrow> (X, Mg)
      | None \<Rightarrow> (let (X, config) = new_context E n session session_name partial kw (cm_config Mg) in
          (X, \<lparr>cm_contexts = dict_set n X (cm_contexts Mg), cm_config = config\<rparr>)))"

definition get_cachify_context ::
    "context_env \<Rightarrow> string option \<Rightarrow> session_obj option \<Rightarrow> string option \<Rightarrow> pydict option \<Rightarrow> pydict \<Rightarrow> cachify_manager \<Rightarrow>
     cachify_context \<times> cachify_manager" where
  "get_cachify_context E cname session session_name partial kw Mg =
     (let n = cache_name_of cname in
      case dict_get (cm_contexts Mg) n of
        Some X \<Rightarrow> (X, Mg)
      | None \<Rightarrow> create_cachify_context E (Some n) session session_name partial kw Mg)"

definition cachify_manager_register ::
    "context_env \<Rightarrow> string option \<Rightarrow> session_obj option \<Rightarrow> string option \<Rightarrow> pydict option \<Rightarrow> pyfn \<Rightarrow> pydict \<Rightarrow> cachify_manager \<Rightarrow>
     registered_fn result \<times> cachify_manager" where
  "cachify_manager_register E cname session session_name session_kwargs f kw Mg =
     (let n = cache_name_of cname;
          skw = [(''session_kwargs'', case session_kwargs of Some d \<Rightarrow> PDict d | None \<Rightarrow> PNone)];
          (X, Mg1) = get_cachify_context E (Some n) session session_name (Some kw) skw Mg;
          (r, X1) = register E (cm_config Mg1) f kw X in
      (r, Mg1\<lparr>cm_contexts := dict_set n X1 (cm_contexts Mg1)\<rparr>))"

section \<open>Classes with cached methods\<close>

text \<open>A class with its own name, its ancestors nearest first (itself included, those of Python left out) and its direct bases.\<close>

record kvclass =
  k_id :: string
  k_name :: string
  k_mro :: "string list"
  k_bases :: "string list"

text \<open>A class is a root when it is the first of its ancestors that is registered; the subclasses that are registered
  later go into one list of the root. \<open>patched\<close> is what \<open>patch_object_for_kvdb\<close> asks of the class.\<close>

definition root_of :: "cachify_context \<Rightarrow> kvclass \<Rightarrow> string option" where
  "root_of X K = List.find (\<lambda>c. dict_has c (cx_roots X)) (k_mro K)"

definition register_object :: "string option \<Rightarrow> pydict \<Rightarrow> kvclass \<Rightarrow> cachify_context \<Rightarrow> cachify_context" where
  "register_object validator kw K X =
     (let v = (if opt_truthy validator then the validator else ''validate_cachify'');
          X1 = X\<lparr>cx_methods := (if dict_has (k_id K) (cx_methods X) then cx_methods X else dict_set (k_id K) [] (cx_methods X)),
                 cx_validators := (if dict_has (k_id K) (cx_validators X) then cx_validators X
                                   else dict_set (k_id K) v (cx_validators X))\<rparr> in
      case root_of X K of
        None \<Rightarrow> X1\<lparr>cx_roots := dict_set (k_id K) (filter (\<lambda>(k, w). w \<noteq> PNone) kw, []) (cx_roots X1)\<rparr>
      | Some r \<Rightarrow> (case dict_get (cx_roots X1) r of
            Some (pk, subs) \<Rightarrow> X1\<lparr>cx_roots := dict_set r (pk, subs @ [k_id K]) (cx_roots X1)\<rparr>
          | None \<Rightarrow> X1))"

text \<open>What a new object patches: the functions with their settings and the validators that belong to them. A base with functions
  but without a validator is a KeyError.\<close>

definition parents_of_root :: "kvclass \<Rightarrow> string list" where
  "parents_of_root R = filter (\<lambda>c. c \<noteq> k_id R) (k_mro R)"

fun collect_functions ::
    "cachify_context \<Rightarrow> (string \<Rightarrow> bool) \<Rightarrow> string list \<Rightarrow> (string \<times> pydict) list \<times> (string \<times> string option) list \<Rightarrow>
     ((string \<times> pydict) list \<times> (string \<times> string option) list) result" where
  "collect_functions X has_attr [] acc = Inr acc"
| "collect_functions X has_attr (c # cs) acc =
     (case dict_get (cx_methods X) c of
        None \<Rightarrow> collect_functions X has_attr cs acc
      | Some fs \<Rightarrow>
          (case dict_get (cx_validators X) c of
             None \<Rightarrow> Inl KeyError
           | Some v \<Rightarrow> collect_functions X has_attr cs
               (dict_update (fst acc) fs, dict_update (snd acc) (map (\<lambda>(g, kw). (g, if has_attr v then Some v else None)) fs))))"

text \<open>\<open>bound\<close> is the method of the object, \<open>validate\<close> its validator.\<close>

fun patch_methods ::
    "context_env \<Rightarrow> pydict \<Rightarrow> string \<Rightarrow> (string \<Rightarrow> bool) \<Rightarrow> (string \<Rightarrow> pyfn) \<Rightarrow> (string \<Rightarrow> string \<Rightarrow> pydict \<Rightarrow> pydict option) \<Rightarrow> pydict \<Rightarrow>
     (string \<times> string option) list \<Rightarrow> (string \<times> pydict) list \<Rightarrow> cachify_context \<Rightarrow>
     (string \<times> registered_fn) list result \<times> cachify_context" where
  "patch_methods E config cls has_attr bound validate pk vs [] X = (Inr [], X)"
| "patch_methods E config cls has_attr bound validate pk vs ((g, kw) # fs) X =
     (if \<not> has_attr g then patch_methods E config cls has_attr bound validate pk vs fs X
      else
        let kws = dict_update pk kw in
        (case (case dict_get vs g of Some (Some v) \<Rightarrow> validate v g kws | _ \<Rightarrow> Some kws) of
           None \<Rightarrow> patch_methods E config cls has_attr bound validate pk vs fs X
         | Some kws1 \<Rightarrow>
             let kws2 = (if dict_has ''function_name'' kws1 then kws1 else dict_set ''function_name'' (PStr (cls @ ''.'' @ g)) kws1) in
             (case register E config (bound g) kws2 X of
                (Inl e, X1) \<Rightarrow> (Inl e, X1)
              | (Inr r, X1) \<Rightarrow>
                  (case patch_methods E config cls has_attr bound validate pk vs fs X1 of
                     (Inl e, X2) \<Rightarrow> (Inl e, X2)
                   | (Inr rs, X2) \<Rightarrow> (Inr ((g, r) # rs), X2)))))"

definition cachify_init ::
    "context_env \<Rightarrow> pydict \<Rightarrow> (string \<Rightarrow> bool) \<Rightarrow> (string \<Rightarrow> pyfn) \<Rightarrow> (string \<Rightarrow> string \<Rightarrow> pydict \<Rightarrow> pydict option) \<Rightarrow>
     kvclass \<Rightarrow> kvclass \<Rightarrow> cachify_context \<Rightarrow> (string \<times> registered_fn) list result \<times> cachify_context" where
  "cachify_init E config has_attr bound validate R K X =
     (case dict_get (cx_roots X) (k_id R) of
        None \<Rightarrow> (Inl AttributeError, X)
      | Some (pk, subs) \<Rightarrow>
          (let bases = filter (\<lambda>c. c \<noteq> k_id K \<and> c \<notin> set (parents_of_root R)) (k_bases K) in
           case dict_get (cx_methods X) (k_id R) of
             None \<Rightarrow> (Inl KeyError, X)
           | Some m \<Rightarrow>
               (case collect_functions X has_attr (k_id R # subs @ bases) ([], []) of
                  Inl e \<Rightarrow> (Inl e, X)
                | Inr (fs, vs) \<Rightarrow> patch_methods E config (k_name K) has_attr bound validate pk vs fs X)))"

section \<open>Objects of one class share their results\<close>

lemma register_named:
  assumes "register E config f kw X = (Inr R, X1)" and "\<not> pf_uninit f" "ce_enabled E"
    and "dict_get kw ''function_name'' = Some (PStr n)" "n \<noteq> []"
  shows "R = Cached n f \<and> dict_has n (cx_contexts X1) \<and>
    (\<forall>k C. dict_get (cx_contexts X) k = Some C \<longrightarrow> dict_get (cx_contexts X1) k = Some C)"
  using assms by (auto simp: register_def context_add_function_def dict_has_iff split: sum.splits if_splits)

text \<open>Two functions that are registered under one name share one cache object, and with it the results: what the first
  answered is what the second answers to a call with the same arguments, without being run. That is so for
  the methods of any two objects of a class, which are registered as class and method.\<close>

theorem same_name_shares_results:
  assumes "cache_env exec view M"
    and "register E config f kwf X = (Inr R1, X1)" "register E config g kwg X1 = (Inr R2, X2)"
    and "\<not> pf_uninit f" "\<not> pf_uninit g" "ce_enabled E" "n \<noteq> []"
    and "dict_get kwf ''function_name'' = Some (PStr n)" "dict_get kwg ''function_name'' = Some (PStr n)"
    and "dict_get (cx_contexts X2) n = Some C" and "C1 = build_hash_name (pf_full_name f) pa0 C"
    and "quiet_call C1 pa0 ck pa" "caches view C1 d h" "cache_max_size C1 = None"
    and "h (hash_key C1 pa) = None" "run f pa = Inr v" "should_cache_value C1 v ck pa" "proper v"
    and "encode_hit C1 v pa = Inr r" "decode_hit C1 r pa = Inr v"
  shows "R1 = Cached n f \<and> R2 = Cached n g \<and>
    (\<exists>XD. context_call exec M run now R1 pa0 (X2, d, m) = ((Inr v, 1, False), XD) \<and>
      fst (context_call exec M run now2 R2 pa0 XD) = (Inr v, 0, True))"
proof -
  have R: "R1 = Cached n f" "R2 = Cached n g"
    using register_named[OF assms(2) assms(4,6,8,7)] register_named[OF assms(3) assms(5,6,9,7)] by simp_all
  have f1: "cache_field C1 \<noteq> None" using assms(11) by (auto simp: build_hash_name_def split: option.splits)
  then have same: "build_hash_name k pa0 C1 = C1" for k by (auto simp: build_hash_name_def)
  obtain dm1 where 1: "cached_call exec M (run f) now C1 pa0 (d, m) = ((Inr v, 1, False), dm1)"
    and 2: "\<forall>func2 now2. fst (cached_call exec M func2 now2 C1 pa0 dm1) = (Inr v, 0, True)"
    using cache_env.stored_then_answered[OF assms(1), of C1 pa0 ck pa d h "run f" v r now m] assms(12-20) by blast
  let ?X = "X2\<lparr>cx_contexts := dict_set n C1 (cx_contexts X2)\<rparr>"
  obtain dm2 where 3: "cached_call exec M (run g) now2 C1 pa0 dm1 = ((Inr v, 0, True), dm2)" using 2 by (metis prod.collapse)
  have "context_call exec M run now R1 pa0 (X2, d, m) = ((Inr v, 1, False), ?X, dm1)"
    using 1 assms(10,11) by (simp add: R context_call_def wrapper_call_def)
  moreover have "fst (context_call exec M run now2 R2 pa0 (?X, dm1)) = (Inr v, 0, True)"
    using 3 by (simp add: R context_call_def wrapper_call_def same)
  ultimately show ?thesis using R by blast
qed

definition ex_method :: "string \<Rightarrow> pyfn" where
  "ex_method full = \<lparr>pf_name = ''get'', pf_full_name = full, pf_uninit = False, pf_owner = ''m.Shop'', pf_attr = ''get''\<rparr>"

definition ex_context :: cachify_context where
  "ex_context = \<lparr>cx_cache_name = ''global'', cx_contexts = [], cx_partial = [], cx_session = None, cx_session_name = None, cx_kwargs = [],
     cx_methods = [], cx_validators = [], cx_roots = []\<rparr>"

definition ex_cenv :: context_env where
  "ex_cenv = \<lparr>ce_config_fields = [''ttl'', ''db_id''], ce_client_fields = [''encoding''], ce_settings_fields = [''url''],
     ce_make = (\<lambda>kw. Inr ex_cache), ce_enabled = True\<rparr>"

lemma same_name_shares_results_witness:
  "\<exists>X1 X2 XD. register ex_cenv [] (ex_method ''one'') [(''function_name'', PStr ''Shop.get'')] ex_context = (Inr (Cached ''Shop.get'' (ex_method ''one'')), X1) \<and>
     register ex_cenv [] (ex_method ''two'') [(''function_name'', PStr ''Shop.get'')] X1 = (Inr (Cached ''Shop.get'' (ex_method ''two'')), X2) \<and>
     context_call mem_exec mem_meta (\<lambda>f pa. Inr (PInt (if pf_full_name f = ''one'' then 1 else 2))) 0 (Cached ''Shop.get'' (ex_method ''one'')) ([], []) (X2, [], [])
       = ((Inr (PInt 1), 1, False), XD) \<and>
     fst (context_call mem_exec mem_meta (\<lambda>f pa. Inr (PInt (if pf_full_name f = ''one'' then 1 else 2))) 1 (Cached ''Shop.get'' (ex_method ''two'')) ([], []) XD)
       = (Inr (PInt 1), 0, True)"
proof -
  let ?X = "ex_context\<lparr>cx_contexts := [(''Shop.get'', ex_cache)]\<rparr>"
  let ?kw = "[(''function_name'', PStr ''Shop.get'')]"
  have r1: "register ex_cenv [] (ex_method ''one'') ?kw ex_context = (Inr (Cached ''Shop.get'' (ex_method ''one'')), ?X)"
    by (simp add: register_def context_add_function_def create_cachify_def ex_method_def ex_context_def ex_cenv_def dict_get_def dict_has_def dict_set_def Let_def)
  have r2: "register ex_cenv [] (ex_method ''two'') ?kw ?X = (Inr (Cached ''Shop.get'' (ex_method ''two'')), ?X)"
    by (simp add: register_def context_add_function_def create_cachify_def ex_method_def ex_context_def ex_cenv_def dict_get_def dict_has_def Let_def)
  have b: "build_hash_name k pa ex_cache = ex_cache" for k pa by (simp add: build_hash_name_def ex_cache_def)
  have h: "caches mview ex_cache [] Map.empty" by (simp add: caches_def ex_cache_fields mview_def dict_get_def)
  have "\<exists>XD. context_call mem_exec mem_meta (\<lambda>f pa. Inr (PInt (if pf_full_name f = ''one'' then 1 else 2))) 0 (Cached ''Shop.get'' (ex_method ''one'')) ([], []) (?X, [], [])
       = ((Inr (PInt 1), 1, False), XD) \<and>
     fst (context_call mem_exec mem_meta (\<lambda>f pa. Inr (PInt (if pf_full_name f = ''one'' then 1 else 2))) 1 (Cached ''Shop.get'' (ex_method ''two'')) ([], []) XD)
       = (Inr (PInt 1), 0, True)"
    using same_name_shares_results[OF mem_cache.cache_env_axioms r1 r2, where n = "''Shop.get''" and C = ex_cache and ?C1.0 = ex_cache
        and h = Map.empty and d = "[]" and m = "[]" and v = "PInt 1" and r = "RInt 1" and ck = "[]" and pa = "([], [])" and ?pa0.0 = "([], [])"
        and now = 0 and ?now2.0 = 1 and run = "\<lambda>f pa. Inr (PInt (if pf_full_name f = ''one'' then 1 else 2))"]
      ex_cache_quiet h
    by (simp add: b ex_cache_fields ex_cache_keeps ex_method_def ex_cenv_def ex_context_def dict_get_def)
  then show ?thesis using r1 r2 by blast
qed

section \<open>Sessions and settings of caches\<close>

lemma no_session_kwargs: "cx_kwargs Y = [] \<Longrightarrow> extract_session_kwargs E Y = []"
proof -
  have "fold (\<lambda>f config. config) l acc = acc" for l :: "string list" and acc :: pydict by (induction l) auto
  then show "cx_kwargs Y = [] \<Longrightarrow> extract_session_kwargs E Y = []"
    by (simp add: extract_session_kwargs_def extract_kwargs_def dict_get_def opt_nonempty_def)
qed

lemma first_session:
  assumes "get_session SE (Some n) a db (Some False) ds kw G = (Inr s, G1)" and "sg_sessions G = []" "sg_ctx G = None"
  shows "sg_ctx G1 = None \<and> sg_sessions G1 = [(n, s)] \<and> so_name s = n"
proof -
  obtain G0 where cr: "create_session SE n a db ds kw G = (Inr s, G0)" and G1: "G1 = G0\<lparr>sg_sessions := dict_set n s (sg_sessions G0)\<rparr>"
    using assms(1,2)
    by (auto simp: get_session_def dict_get_def manager_session_def dict_has_def maybe_set_ctx_def split: prod.splits sum.splits)
  have "sg_sessions G0 = []" "sg_ctx G0 = None" using create_session_keeps[OF cr] assms(2,3) by auto
  then show ?thesis using G1 create_session_name[OF cr] by (simp add: dict_set_def)
qed

text \<open>A named cache that makes its own session as the first one of the program hides the default session: the session is never
  the current one, and asking for the current session from then on gives None, or the error of the settings, but never a
  session. The cache itself keeps its session.\<close>

theorem cache_session_hides_default:
  assumes "context_session E SE config X G = (Inr s, X1, G1)" and "cx_session X = None" "cx_session_name X = None"
    and "sg_sessions G = []" "sg_ctx G = None"
  shows "sg_ctx G1 = None \<and> so_name s = ''cachify:'' @ cx_cache_name X \<and>
    context_session E SE config X1 G1 = (Inr s, X1, G1) \<and> (\<forall>t. fst (manager_ctx SE G1) \<noteq> Inr (Some t))"
proof -
  obtain a db kw where g: "get_session SE (Some (''cachify:'' @ cx_cache_name X)) a db (Some False) False kw G = (Inr s, G1)"
    and X1: "X1 = X\<lparr>cx_session := Some s, cx_session_name := Some (so_name s)\<rparr>"
    using assms(1-3) by (auto simp: context_session_def Let_def split: prod.splits sum.splits)
  have G1: "sg_ctx G1 = None" "sg_sessions G1 \<noteq> []" "so_name s = ''cachify:'' @ cx_cache_name X"
    using first_session[OF g assms(4,5)] by auto
  obtain r G2 where m: "manager_ctx SE G1 = (r, G2)" by fastforce
  have "r \<noteq> Inr (Some t)" for t using context_stays_missing[OF G1(1) m] G1(2) by auto
  then show ?thesis using G1 X1 m by (simp add: context_session_def)
qed

lemma ex_context_fields:
  "cx_cache_name ex_context = ''global''" "cx_session ex_context = None" "cx_session_name ex_context = None" "cx_kwargs ex_context = []"
  by (simp_all add: ex_context_def)

lemma cache_session_hides_default_witness:
  "\<exists>s X1 G1. context_session ex_cenv ex_env [] ex_context ex_manager = (Inr s, X1, G1) \<and>
     sg_ctx G1 = None \<and> (\<forall>t. fst (manager_ctx ex_env G1) \<noteq> Inr (Some t))"
proof -
  note none = no_session_kwargs[OF ex_context_fields(4), of ex_cenv]
  have "\<exists>s G1. get_session ex_env (Some n) None None (Some False) False [] ex_manager = (Inr s, G1)" for n
    by (simp add: get_session_def manager_session_def create_session_def session_url_def get_pool_def ex_manager_def
      maybe_set_ctx_def dict_get_def dict_has_def Let_def)
  then obtain s G1 where g: "get_session ex_env (Some ''cachify:global'') None None (Some False) False [] ex_manager = (Inr s, G1)" by blast
  have "context_session ex_cenv ex_env [] ex_context ex_manager =
      (Inr s, ex_context\<lparr>cx_session := Some s, cx_session_name := Some (so_name s)\<rparr>, G1)"
    using g by (simp add: context_session_def none ex_context_fields url_setting_def db_setting_def dict_get_def dict_has_def dict_set_def
      dict_del_def Let_def)
  then obtain X1 where c: "context_session ex_cenv ex_env [] ex_context ex_manager = (Inr s, X1, G1)" by blast
  have "sg_sessions ex_manager = []" "sg_ctx ex_manager = None"
    by (simp_all add: ex_manager_def)
  then show ?thesis using cache_session_hides_default[OF c ex_context_fields(2,3)] c by blast
qed

text \<open>The settings of one named cache are the settings of all: a database number that the first call for one cache gives is
  the database of every cache whose session is made later without a number of its own, and it stays so when the first
  cache is asked for again with another number.\<close>

theorem cache_database_leaks:
  assumes "get_cachify_context E (Some a) so sn p kw Mg = (X, Mg1)" and "dict_get (cm_contexts Mg) a = None" "a \<noteq> []"
    and "wf_dict kw" "dict_get kw ''db_id'' = Some (PInt n)" "''db_id'' \<in> set (ce_config_fields E)"
    and "cx_session Y = None" "cx_session_name Y = None" "cx_kwargs Y = []"
  shows "(\<exists>r G1. get_session SE (Some (''cachify:'' @ cx_cache_name Y)) None (Some n) (Some False) False [] G = (r, G1) \<and>
      context_session E SE (cm_config Mg1) Y G = (r, (case r of Inl e \<Rightarrow> Y
        | Inr s \<Rightarrow> Y\<lparr>cx_session := Some s, cx_session_name := Some (so_name s)\<rparr>), G1)) \<and>
    get_cachify_context E (Some a) so' sn' p' kw' Mg1 = (X, Mg1)"
proof -
  have name: "cache_name_of (Some a) = a" using assms(3) by (simp add: cache_name_of_def)
  define cc where "cc = extract_kwargs (ce_config_fields E) None False None None True kw"
  have cc: "cc = filter (\<lambda>(k, v). k \<in> set (ce_config_fields E) \<and> v \<noteq> PNone) kw"
    by (auto simp: cc_def extract_kwargs_def opt_nonempty_def intro!: filter_cong)
  have wf: "wf_dict cc" using assms(4) by (auto simp: cc wf_dict_def distinct_map_filter)
  have "(''db_id'', PInt n) \<in> set cc" using assms(5,6) by (auto simp: cc dict_get_def dest: map_of_SomeD)
  then have "dict_get cc ''db_id'' = Some (PInt n)" using wf by (simp add: dict_get_def wf_dict_def map_of_is_SomeI)
  then have config: "dict_get (dict_update c cc) ''db_id'' = Some (PInt n)" for c
    using wf by (simp add: dict_get_update)
  have new: "get_cachify_context E (Some a) so sn p kw Mg =
      (let (X, config) = new_context E a so sn p kw (cm_config Mg) in (X, \<lparr>cm_contexts = dict_set a X (cm_contexts Mg), cm_config = config\<rparr>))"
    using assms(2) by (simp add: get_cachify_context_def create_cachify_context_def name)
  then have Mg1: "dict_get (cm_config Mg1) ''db_id'' = Some (PInt n)" "dict_get (cm_contexts Mg1) a = Some X"
    using assms(1) config by (auto simp: new_context_def extract_config_and_kwargs_def cc_def Let_def opt_nonempty_def)
  note none = no_session_kwargs[OF assms(9), of E]
  obtain r G1 where r: "get_session SE (Some (''cachify:'' @ cx_cache_name Y)) None (Some n) (Some False) False [] G = (r, G1)" by fastforce
  then have "context_session E SE (cm_config Mg1) Y G = (r, (case r of Inl e \<Rightarrow> Y
        | Inr s \<Rightarrow> Y\<lparr>cx_session := Some s, cx_session_name := Some (so_name s)\<rparr>), G1)"
    using assms(7-9) Mg1(1)
    by (cases r) (simp_all add: context_session_def none dict_has_def url_setting_def db_setting_def dict_set_def dict_del_def dict_get_def Let_def)
  moreover have "get_cachify_context E (Some a) so' sn' p' kw' Mg1 = (X, Mg1)" using Mg1(2) by (simp add: get_cachify_context_def name)
  ultimately show ?thesis using r by blast
qed

lemma cache_database_leaks_witness:
  "\<exists>X Mg1 r G1. get_cachify_context ex_cenv (Some ''one'') None None None [(''db_id'', PInt 5)] \<lparr>cm_contexts = [], cm_config = [(''db_id'', PInt 3)]\<rparr> = (X, Mg1) \<and>
     get_session ex_env (Some ''cachify:global'') None (Some 5) (Some False) False [] ex_manager = (r, G1) \<and>
     fst (context_session ex_cenv ex_env (cm_config Mg1) ex_context ex_manager) = r"
proof -
  obtain X Mg1 where "get_cachify_context ex_cenv (Some ''one'') None None None [(''db_id'', PInt 5)]
      \<lparr>cm_contexts = [], cm_config = [(''db_id'', PInt 3)]\<rparr> = (X, Mg1)" by fastforce
  from cache_database_leaks[OF this, of 5 ex_context ex_env ex_manager None None None "[]"] this show ?thesis
    by (auto simp: ex_cenv_def ex_context_def wf_dict_def dict_get_def)
qed

section \<open>Objects of registered classes\<close>

text \<open>A class that has cached methods but was not registered itself has no validator; as a base of a registered class it makes every
  new object fail.\<close>

definition half_registered :: "cachify_context \<Rightarrow> string \<Rightarrow> bool" where
  "half_registered X c \<longleftrightarrow> dict_get (cx_methods X) c \<noteq> None \<and> dict_get (cx_validators X) c = None"

lemma collect_fails: "collect_functions X has_attr cs acc = Inl e \<longleftrightarrow> e = KeyError \<and> list_ex (half_registered X) cs"
  by (induction X has_attr cs acc rule: collect_functions.induct) (auto simp: half_registered_def split: option.splits)

theorem half_registered_base_fails:
  assumes "dict_get (cx_roots X) (k_id R) = Some (pk, subs)" and "dict_get (cx_methods X) (k_id R) = Some m"
    and "c \<in> set (k_bases K)" "c \<noteq> k_id K" "c \<notin> set (parents_of_root R)" "half_registered X c"
  shows "cachify_init E config has_attr bound validate R K X = (Inl KeyError, X)"
proof -
  let ?cs = "k_id R # subs @ filter (\<lambda>c. c \<noteq> k_id K \<and> c \<notin> set (parents_of_root R)) (k_bases K)"
  have "list_ex (half_registered X) ?cs" using assms(3-6) by (auto simp: list_ex_iff)
  then have "collect_functions X has_attr ?cs ([], []) = Inl KeyError" using collect_fails by blast
  then show ?thesis using assms(1,2) by (simp add: cachify_init_def Let_def)
qed

text \<open>Registering a class never leaves it half registered, and new objects of the root take the functions of every subclass.\<close>

lemma register_object_complete:
  "\<not> half_registered (register_object v kw K X) (k_id K)"
proof -
  let ?w = "if opt_truthy v then the v else ''validate_cachify''"
  have "dict_get (if dict_has (k_id K) (cx_validators X) then cx_validators X else dict_set (k_id K) ?w (cx_validators X)) (k_id K) \<noteq> None"
    by (simp add: dict_has_iff)
  then show ?thesis by (auto simp: half_registered_def register_object_def Let_def split: option.splits)
qed

lemma collected_functions:
  assumes "collect_functions X has_attr cs acc = Inr (fs, vs)"
  shows "fst ` set fs = fst ` set (fst acc) \<union> (\<Union>c\<in>set cs. case dict_get (cx_methods X) c of None \<Rightarrow> {} | Some m \<Rightarrow> fst ` set m)"
  using assms
  by (induction X has_attr cs acc arbitrary: fs vs rule: collect_functions.induct) (auto split: option.splits)

end
