(* ===== verification/Pool_Settings.thy ===== *)
theory Pool_Settings
  imports Connection_Pool Kwargs
begin

text \<open>
  The settings of a connection pool (\<^verbatim>\<open>kvdb/components/connection_pool.py\<close>): from a URL and keyword arguments
  to the arguments of its connections, its serializer and its encoder, and from a pool to
  the arguments of a new one like it (\<open>recreate\<close>, \<open>with_db_id\<close>). The synchronous and the asynchronous
  pool do the same. The names that a class of connections accepts, the serializer for a name and
  the default settings are arguments; a class of connections stands for its name, by
  which the source remembers what it accepts.
\<close>

text \<open>\<open>from_url\<close>: the options of the URL go over the keyword arguments, except for the class of connections.\<close>

definition url_pool_kwargs :: "pydict \<Rightarrow> pydict \<Rightarrow> pydict" where
  "url_pool_kwargs url_options kwargs =
     dict_update kwargs
       (case dict_get kwargs ''connection_class'' of
          Some c \<Rightarrow> dict_set ''connection_class'' c url_options | None \<Rightarrow> url_options)"

record pool_settings =
  ps_class :: pyval
  ps_connection_kwargs :: pydict
  ps_extra_kwargs :: pydict
  ps_max :: int
  ps_encoder_class :: pyval
  ps_serializer :: pyval
  ps_auto_pause :: "pyval \<times> pyval \<times> pyval"
  ps_auto_reset :: pyval

record pool_world =
  accepted :: "pyval \<Rightarrow> string list"
  named_serializer :: "pydict \<Rightarrow> pyval"
  default_class :: pyval
  default_encoder :: pyval
  pool_defaults :: "string \<Rightarrow> pyval"

definition filter_kwargs_for_connection :: "pool_world \<Rightarrow> pyval \<Rightarrow> pydict \<Rightarrow> pydict" where
  "filter_kwargs_for_connection W c kwargs = filter (\<lambda>(k, v). k \<in> set (accepted W c)) kwargs"

definition get_or :: "pydict \<Rightarrow> string \<Rightarrow> pyval \<Rightarrow> pyval" where
  "get_or d k v = (case dict_get d k of Some x \<Rightarrow> x | None \<Rightarrow> v)"

definition post_init_base :: "pool_world \<Rightarrow> pyval \<Rightarrow> int \<Rightarrow> pydict \<Rightarrow> pool_settings" where
  "post_init_base W c m kwargs =
     (let conn = filter_kwargs_for_connection W c kwargs;
          extra = filter (\<lambda>(k, v). \<not> dict_has k conn) kwargs;
          pause = (\<lambda>k. get_or extra k (pool_defaults W k));
          enc = get_or conn ''encoder_class'' (default_encoder W);
          conn1 = dict_set ''encoder_class'' enc conn;
          (ser, conn2) = (case dict_get kwargs ''serializer'' of
              None \<Rightarrow> (PNone, conn1)
            | Some v \<Rightarrow> let s = (case v of PStr n \<Rightarrow> named_serializer W kwargs | _ \<Rightarrow> v) in
                (s, dict_set ''serializer'' s conn1)) in
      \<lparr>ps_class = c, ps_connection_kwargs = conn2, ps_extra_kwargs = extra, ps_max = m,
       ps_encoder_class = enc, ps_serializer = ser,
       ps_auto_pause = (pause ''auto_pause_enabled'', pause ''auto_pause_interval'', pause ''auto_pause_max_delay''),
       ps_auto_reset = get_or kwargs ''auto_reset_enabled'' (pool_defaults W ''auto_reset_enabled'')\<rparr>)"

text \<open>A maximum that does not count as true is the largest one; one that is no integer is refused.\<close>

definition pool_size :: "pyval option \<Rightarrow> int result" where
  "pool_size v =
     (case v of
        None \<Rightarrow> Inr (2 ^ 31)
      | Some x \<Rightarrow> if \<not> truthy x then Inr (2 ^ 31)
          else case x of PInt i \<Rightarrow> if i < 0 then Inl ValueError else Inr i
             | PBool b \<Rightarrow> Inr 1 | _ \<Rightarrow> Inl ValueError)"

definition pool_settings_init :: "pool_world \<Rightarrow> pydict \<Rightarrow> pool_settings result" where
  "pool_settings_init W kwargs =
     (let c = get_or kwargs ''connection_class'' (default_class W);
          rest = dict_del ''max_connections'' (dict_del ''connection_class'' kwargs) in
      bindR (pool_size (dict_get kwargs ''max_connections'')) (\<lambda>m. Inr (post_init_base W c m rest)))"

definition pool_from_url :: "pool_world \<Rightarrow> pydict \<Rightarrow> pydict \<Rightarrow> pool_settings result" where
  "pool_from_url W url_options kwargs = pool_settings_init W (url_pool_kwargs url_options kwargs)"

section \<open>A pool like another one\<close>

definition settings_kwargs :: "pool_settings \<Rightarrow> pydict \<Rightarrow> pydict" where
  "settings_kwargs s kwargs =
     dict_set ''max_connections'' (PInt (ps_max s))
       (dict_set ''connection_class'' (ps_class s)
         (dict_update (dict_update (ps_connection_kwargs s) (ps_extra_kwargs s)) kwargs))"

definition recreate_settings :: "pool_world \<Rightarrow> pool_settings \<Rightarrow> pydict \<Rightarrow> pool_settings result" where
  "recreate_settings W s kwargs = pool_settings_init W (settings_kwargs s kwargs)"

definition with_db_id_settings :: "pool_world \<Rightarrow> pool_settings \<Rightarrow> int \<Rightarrow> pool_settings result" where
  "with_db_id_settings W s db_id = recreate_settings W s [(''db'', PInt db_id)]"

definition pool_db_id :: "pool_settings \<Rightarrow> pyval" where
  "pool_db_id s = get_or (ps_connection_kwargs s) ''db'' (PInt 0)"

text \<open>The encoder, made when it is first used: its class, encoding, what to do with errors, whether responses are decoded,
  the serializer unless it is switched off.\<close>

definition pool_encoder :: "pool_settings \<Rightarrow> pyval \<times> pyval \<times> pyval \<times> pyval \<times> pyval" where
  "pool_encoder s =
     (let kw = ps_connection_kwargs s;
          off = truthy (get_or (ps_extra_kwargs s) ''serializer_disabled'' (PBool (ps_serializer s = PNone))) in
      (ps_encoder_class s, get_or kw ''encoding'' (PStr ''utf-8''), get_or kw ''encoding_errors'' (PStr ''strict''),
       get_or kw ''decode_responses'' PNone, if off then PNone else ps_serializer s))"

section \<open>Properties\<close>

text \<open>The options of the URL win, except for the class of the connections.\<close>

lemma url_options_win:
  assumes "wf_dict url_options"
  shows "dict_get (url_pool_kwargs url_options kwargs) k =
    (if k = ''connection_class'' \<and> dict_has k kwargs then dict_get kwargs k
     else case dict_get url_options k of Some v \<Rightarrow> Some v | None \<Rightarrow> dict_get kwargs k)"
  using assms by (auto simp: url_pool_kwargs_def dict_get_update dict_has_iff split: option.splits)

definition same_settings :: "pool_settings \<Rightarrow> pool_settings \<Rightarrow> bool" where
  "same_settings s s' \<longleftrightarrow> ps_class s = ps_class s' \<and> ps_max s = ps_max s' \<and> ps_encoder_class s = ps_encoder_class s' \<and>
     ps_serializer s = ps_serializer s' \<and>
     ps_auto_pause s = ps_auto_pause s' \<and> ps_auto_reset s = ps_auto_reset s' \<and>
     dict_get (ps_connection_kwargs s) = dict_get (ps_connection_kwargs s') \<and>
     dict_get (ps_extra_kwargs s) = dict_get (ps_extra_kwargs s')"

definition own_names :: "string list" where
  "own_names = [''serializer'', ''encoder_class'', ''connection_class'', ''max_connections'', ''auto_reset_enabled'']"

text \<open>The class accepts an encoder class and a serializer, and a name never stands for another name.\<close>

definition usual_world :: "pool_world \<Rightarrow> pyval \<Rightarrow> bool" where
  "usual_world W c \<longleftrightarrow> ''serializer'' \<in> set (accepted W c) \<and> ''encoder_class'' \<in> set (accepted W c) \<and>
     (\<forall>d n. named_serializer W d \<noteq> PStr n)"

definition resolved :: "pool_world \<Rightarrow> pydict \<Rightarrow> pyval option" where
  "resolved W kwargs = map_option (\<lambda>v. case v of PStr n \<Rightarrow> named_serializer W kwargs | _ \<Rightarrow> v) (dict_get kwargs ''serializer'')"

lemma has_filter: "dict_has k (filter (\<lambda>(k, v). P k) d) \<longleftrightarrow> P k \<and> dict_has k d"
  by (auto simp: dict_has_iff dict_get_filter_key)

lemma post_init_base_get:
  assumes "usual_world W c"
  shows "dict_get (ps_connection_kwargs (post_init_base W c m kw)) k =
      (if k = ''serializer'' then resolved W kw
       else if k = ''encoder_class'' then Some (get_or kw k (default_encoder W))
       else if k \<in> set (accepted W c) then dict_get kw k else None)"
    and "dict_get (ps_extra_kwargs (post_init_base W c m kw)) k = (if k \<in> set (accepted W c) then None else dict_get kw k)"
    and "ps_serializer (post_init_base W c m kw) = (case resolved W kw of None \<Rightarrow> PNone | Some s \<Rightarrow> s)"
    and "ps_class (post_init_base W c m kw) = c" "ps_max (post_init_base W c m kw) = m"
    and "ps_auto_reset (post_init_base W c m kw) = get_or kw ''auto_reset_enabled'' (pool_defaults W ''auto_reset_enabled'')"
    and "wf_dict kw \<Longrightarrow> wf_dict (ps_extra_kwargs (post_init_base W c m kw))"
    and "ps_encoder_class (post_init_base W c m kw) = get_or kw ''encoder_class'' (default_encoder W)"
proof -
  let ?V = "set (accepted W c)"
  have f: "dict_get (filter_kwargs_for_connection W c kw) x = (if x \<in> ?V then dict_get kw x else None)" for x
    by (simp add: filter_kwargs_for_connection_def dict_get_filter_key)
  have e: "filter (\<lambda>(k, v). \<not> dict_has k (filter_kwargs_for_connection W c kw)) kw = filter (\<lambda>(k, v). k \<notin> ?V) kw"
    by (rule filter_cong) (auto simp: filter_kwargs_for_connection_def has_filter, force simp: dict_has_def)
  have "ps_extra_kwargs (post_init_base W c m kw) = filter (\<lambda>(k, v). k \<notin> ?V) kw"
    by (cases "dict_get kw ''serializer''") (simp_all add: post_init_base_def Let_def e)
  then show "dict_get (ps_extra_kwargs (post_init_base W c m kw)) k = (if k \<in> ?V then None else dict_get kw k)"
    "wf_dict kw \<Longrightarrow> wf_dict (ps_extra_kwargs (post_init_base W c m kw))"
    by (simp_all add: dict_get_filter_key)
  show "dict_get (ps_connection_kwargs (post_init_base W c m kw)) k =
      (if k = ''serializer'' then resolved W kw
       else if k = ''encoder_class'' then Some (get_or kw k (default_encoder W))
       else if k \<in> ?V then dict_get kw k else None)"
    using assms by (auto simp: post_init_base_def Let_def case_prod_unfold f usual_world_def get_or_def resolved_def split: option.splits)
  show "ps_serializer (post_init_base W c m kw) = (case resolved W kw of None \<Rightarrow> PNone | Some s \<Rightarrow> s)"
    "ps_class (post_init_base W c m kw) = c" "ps_max (post_init_base W c m kw) = m"
    "ps_auto_reset (post_init_base W c m kw) = get_or kw ''auto_reset_enabled'' (pool_defaults W ''auto_reset_enabled'')"
    by (auto simp: post_init_base_def Let_def case_prod_unfold resolved_def split: option.splits)
  show "ps_encoder_class (post_init_base W c m kw) = get_or kw ''encoder_class'' (default_encoder W)"
    using assms by (simp add: post_init_base_def Let_def case_prod_unfold f get_or_def usual_world_def)
qed

lemma pause_of_extra:
  "ps_auto_pause (post_init_base W c m kw) =
    (let f = (\<lambda>k. get_or (ps_extra_kwargs (post_init_base W c m kw)) k (pool_defaults W k)) in
     (f ''auto_pause_enabled'', f ''auto_pause_interval'', f ''auto_pause_max_delay''))"
  by (simp add: post_init_base_def Let_def case_prod_unfold)

lemma get_or_cong: "dict_get d = dict_get e \<Longrightarrow> get_or d = get_or e"
  by (intro ext) (simp add: get_or_def)

lemma pool_size_again: "pool_size v = Inr m \<Longrightarrow> pool_size (Some (PInt m)) = Inr m"
  by (auto simp: pool_size_def split: option.splits if_splits pyval.splits)

lemma resolved_not_str: "usual_world W c \<Longrightarrow> resolved W kw \<noteq> Some (PStr n)"
  by (auto simp: resolved_def usual_world_def split: pyval.splits)

lemma resolved_again:
  assumes "usual_world W c" "dict_get d ''serializer'' = resolved W kw"
  shows "resolved W d = resolved W kw"
proof (cases "resolved W kw")
  case (Some v)
  then have "\<And>n. v \<noteq> PStr n" using resolved_not_str[OF assms(1)] by blast
  then show ?thesis using assms(2) Some by (cases v) (auto simp: resolved_def)
qed (use assms(2) in \<open>simp add: resolved_def[of W d]\<close>)

lemma recreate_get:
  assumes W: "usual_world W c" and s: "s = post_init_base W c m rest"
    and rest: "wf_dict rest" "dict_get rest ''connection_class'' = None" "dict_get rest ''max_connections'' = None"
    and size: "pool_size v = Inr m"
    and kw: "wf_dict kw" "\<forall>k. dict_get kw k \<noteq> None \<longrightarrow> k \<in> set (accepted W c) \<and> k \<notin> set own_names"
  shows "\<exists>s'. recreate_settings W s kw = Inr s' \<and> same_settings s (s'\<lparr>ps_connection_kwargs := ps_connection_kwargs s\<rparr>) \<and>
    (\<forall>k. dict_get (ps_connection_kwargs s') k =
      (case dict_get kw k of Some x \<Rightarrow> Some x | None \<Rightarrow> dict_get (ps_connection_kwargs s) k))"
proof -
  let ?V = "set (accepted W c)"
  let ?rest = "dict_del ''max_connections'' (dict_del ''connection_class'' (settings_kwargs s kw))"
  note g = post_init_base_get[OF W, where m = m and kw = rest, folded s]
  define s' where "s' = post_init_base W c m ?rest"
  note g' = post_init_base_get[OF W, where m = m and kw = ?rest, folded s'_def]
  have own: "k \<in> set own_names \<Longrightarrow> dict_get kw k = None" for k using kw(2) by auto
  have M: "dict_get (settings_kwargs s kw) k = (if k = ''max_connections'' then Some (PInt (ps_max s))
      else if k = ''connection_class'' then Some (ps_class s)
      else case dict_get kw k of Some x \<Rightarrow> Some x
        | None \<Rightarrow> (case dict_get (ps_extra_kwargs s) k of Some x \<Rightarrow> Some x | None \<Rightarrow> dict_get (ps_connection_kwargs s) k))" for k
    by (simp add: settings_kwargs_def dict_get_update[OF kw(1)] dict_get_update[OF g(7)[OF rest(1)]] split: option.split)
  have V: "''serializer'' \<in> ?V" "''encoder_class'' \<in> ?V" using W by (simp_all add: usual_world_def)
  have R: "dict_get ?rest k = (if k = ''max_connections'' \<or> k = ''connection_class'' then None
      else case dict_get kw k of Some x \<Rightarrow> Some x
        | None \<Rightarrow> if k = ''serializer'' then resolved W rest
            else if k = ''encoder_class'' then Some (get_or rest k (default_encoder W)) else dict_get rest k)" for k
  proof (cases "k \<in> {''serializer'', ''encoder_class''}")
    case True
    then show ?thesis using V by (elim insertE emptyE) (simp_all add: M g(2) g(1) split: option.split)
  next
    case False
    then show ?thesis by (simp add: M g(2) g(1) split: option.split)
  qed
  have ser: "dict_get ?rest ''serializer'' = resolved W rest"
    using own[of "''serializer''"] by (simp del: dict_get_del add: R own_names_def)
  have res: "resolved W ?rest = resolved W rest" by (rule resolved_again[OF W ser])
  have enc: "get_or ?rest ''encoder_class'' (default_encoder W) = get_or rest ''encoder_class'' (default_encoder W)"
    using own[of "''encoder_class''"] by (simp del: dict_get_del add: get_or_def R own_names_def)
  have outside: "dict_get ?rest k = dict_get rest k" if "k \<notin> ?V" for k
  proof -
    have "dict_get kw k = None" using that kw(2) by blast
    moreover have "k \<noteq> ''serializer''" "k \<noteq> ''encoder_class''" using that V by auto
    ultimately show ?thesis using rest(2,3) by (simp del: dict_get_del add: R)
  qed
  have inside: "dict_get ?rest k = (case dict_get kw k of Some x \<Rightarrow> Some x | None \<Rightarrow> dict_get rest k)"
    if "k \<noteq> ''serializer''" "k \<noteq> ''encoder_class''" for k
  proof -
    have "dict_get kw ''connection_class'' = None" "dict_get kw ''max_connections'' = None"
      using own by (simp_all add: own_names_def)
    then show ?thesis using that rest(2,3) by (simp del: dict_get_del add: R split: option.split)
  qed
  have reset: "dict_get ?rest ''auto_reset_enabled'' = dict_get rest ''auto_reset_enabled''"
    using own[of "''auto_reset_enabled''"] by (simp del: dict_get_del add: R own_names_def)
  have extra: "dict_get (ps_extra_kwargs s') = dict_get (ps_extra_kwargs s)"
    using outside by (intro ext) (simp add: g(2) g'(2))
  have "recreate_settings W s kw = Inr s'"
    using pool_size_again[OF size] g(4,5)
    by (simp add: recreate_settings_def pool_settings_init_def Let_def s'_def settings_kwargs_def get_or_def)
  moreover have "same_settings s (s'\<lparr>ps_connection_kwargs := ps_connection_kwargs s\<rparr>)"
    using g(3-6,8) g'(3-6,8) res reset enc extra get_or_cong[OF extra]
    by (simp add: same_settings_def s s'_def pause_of_extra Let_def get_or_def)
  moreover have "dict_get (ps_connection_kwargs s') k =
      (case dict_get kw k of Some x \<Rightarrow> Some x | None \<Rightarrow> dict_get (ps_connection_kwargs s) k)" for k
  proof (cases "k \<in> {''serializer'', ''encoder_class''}")
    case True
    then have "dict_get kw k = None" using own by (auto simp: own_names_def)
    then show ?thesis using True by (elim insertE emptyE) (simp_all add: g(1) g'(1) res enc)
  next
    case False
    then have "k \<noteq> ''serializer''" "k \<noteq> ''encoder_class''" by simp_all
    then show ?thesis using kw(2)
      by (cases "k \<in> ?V") (auto simp del: dict_get_del simp: g(1) g'(1) inside split: option.splits)
  qed
  ultimately show ?thesis by blast
qed

text \<open>C33. A pool like another one. Recreating a pool, whatever keyword arguments and whatever URL it was made
  from, gives one with the same class, size, arguments of its connections, serializer, pauses and
  encoder; the same with another database differs in the database only. So nothing that was
  changed at the encoder afterwards comes along.\<close>

theorem recreated_pool_same:
  assumes "pool_settings_init W kwargs = Inr s" and "wf_dict kwargs" and "usual_world W (ps_class s)"
  shows "\<exists>s'. recreate_settings W s [] = Inr s' \<and> same_settings s s' \<and> pool_encoder s' = pool_encoder s \<and>
    (''db'' \<in> set (accepted W (ps_class s)) \<longrightarrow>
      (\<exists>s2. with_db_id_settings W s n = Inr s2 \<and> pool_db_id s2 = PInt n \<and>
        same_settings s (s2\<lparr>ps_connection_kwargs := ps_connection_kwargs s\<rparr>) \<and>
        (\<forall>k. k \<noteq> ''db'' \<longrightarrow> dict_get (ps_connection_kwargs s2) k = dict_get (ps_connection_kwargs s) k)))"
proof -
  let ?c = "get_or kwargs ''connection_class'' (default_class W)"
  let ?rest = "dict_del ''max_connections'' (dict_del ''connection_class'' kwargs)"
  obtain m where m: "pool_size (dict_get kwargs ''max_connections'') = Inr m" "s = post_init_base W ?c m ?rest"
    using assms(1) by (auto simp: pool_settings_init_def Let_def bindR_Inr_iff)
  have c: "ps_class s = ?c" by (auto simp: m(2) post_init_base_def Let_def split: option.split)
  have W: "usual_world W ?c" using assms(3) c by simp
  have rest: "wf_dict ?rest" "dict_get ?rest ''connection_class'' = None" "dict_get ?rest ''max_connections'' = None"
    using assms(2) by simp_all
  note again = recreate_get[OF W m(2) rest m(1)]
  have empty: "wf_dict []" "dict_get [] k = None" for k by (simp_all add: wf_dict_def dict_get_def)
  have db: "wf_dict [(''db'', PInt n)]" "dict_get [(''db'', PInt n)] k = (if k = ''db'' then Some (PInt n) else None)" for k
    by (simp_all add: wf_dict_def dict_get_def)
  obtain s' where s': "recreate_settings W s [] = Inr s'"
    "same_settings s (s'\<lparr>ps_connection_kwargs := ps_connection_kwargs s\<rparr>)"
    "\<forall>k. dict_get (ps_connection_kwargs s') k = dict_get (ps_connection_kwargs s) k"
    using again[OF empty(1)] by (auto simp: empty(2))
  have e: "dict_get (ps_connection_kwargs s') = dict_get (ps_connection_kwargs s)" using s'(3) by (intro ext) simp
  have same: "same_settings s s'" using s'(2) e by (simp add: same_settings_def)
  have x: "dict_get (ps_extra_kwargs s') = dict_get (ps_extra_kwargs s)" using same by (simp add: same_settings_def)
  have enc: "pool_encoder s' = pool_encoder s"
    using same by (simp add: pool_encoder_def Let_def same_settings_def get_or_cong[OF e] get_or_cong[OF x])
  have "\<exists>s2. with_db_id_settings W s n = Inr s2 \<and> pool_db_id s2 = PInt n \<and>
        same_settings s (s2\<lparr>ps_connection_kwargs := ps_connection_kwargs s\<rparr>) \<and>
        (\<forall>k. k \<noteq> ''db'' \<longrightarrow> dict_get (ps_connection_kwargs s2) k = dict_get (ps_connection_kwargs s) k)"
    if a: "''db'' \<in> set (accepted W (ps_class s))"
  proof -
    have "\<forall>k. dict_get [(''db'', PInt n)] k \<noteq> None \<longrightarrow> k \<in> set (accepted W ?c) \<and> k \<notin> set own_names"
      using a by (simp add: db(2) own_names_def c)
    from again[OF db(1) this] obtain s2 where
      s2: "recreate_settings W s [(''db'', PInt n)] = Inr s2"
        "same_settings s (s2\<lparr>ps_connection_kwargs := ps_connection_kwargs s\<rparr>)"
      and k: "\<And>k. dict_get (ps_connection_kwargs s2) k =
        (case dict_get [(''db'', PInt n)] k of Some x \<Rightarrow> Some x | None \<Rightarrow> dict_get (ps_connection_kwargs s) k)"
      by blast
    have "pool_db_id s2 = PInt n" by (simp add: pool_db_id_def get_or_def k db(2))
    moreover have "\<forall>k. k \<noteq> ''db'' \<longrightarrow> dict_get (ps_connection_kwargs s2) k = dict_get (ps_connection_kwargs s) k"
      by (simp add: k db(2))
    ultimately show ?thesis using s2 by (simp add: with_db_id_settings_def)
  qed
  then show ?thesis using s'(1) same enc by blast
qed

definition ex_pool_world :: pool_world where
  "ex_pool_world = \<lparr>accepted = \<lambda>c. [''db'', ''host'', ''serializer'', ''encoder_class''], named_serializer = \<lambda>d. PObj ''Json'',
     default_class = PObj ''Connection'', default_encoder = PObj ''Encoder'', pool_defaults = \<lambda>k. PNone\<rparr>"

lemma recreated_pool_same_witness:
  "\<exists>s s2. pool_settings_init ex_pool_world [(''serializer'', PStr ''json''), (''timeout'', PInt 5)] = Inr s \<and>
     with_db_id_settings ex_pool_world s 4 = Inr s2 \<and> pool_db_id s2 = PInt 4"
proof -
  let ?kw = "[(''serializer'', PStr ''json''), (''timeout'', PInt 5)]"
  obtain s where s: "pool_settings_init ex_pool_world ?kw = Inr s"
    by (simp add: pool_settings_init_def Let_def pool_size_def dict_get_def)
  have wf: "wf_dict ?kw" by (simp add: wf_dict_def)
  have u: "usual_world ex_pool_world c" "''db'' \<in> set (accepted ex_pool_world c)" for c
    by (simp_all add: usual_world_def ex_pool_world_def)
  show ?thesis using recreated_pool_same[OF s wf u(1), of 4] s u(2) by blast
qed

end
